(* ===== verification/Prelude.thy ===== *)
theory Prelude
  imports Main "HOL-Library.Word" "HOL-Library.Sublist"
begin

text \<open>
  Shared vocabulary of the development: the error values of the program, instants and durations,
  64-bit arithmetic, write transactions, and the operations on tables (lists of rows) that the SQL
  statements of the store are made of. Two collections of rewrite rules, \<open>tx_simps\<close> and
  \<open>row_simps\<close>, carry the proofs about transactions and tables.
\<close>

named_theorems tx_simps "evaluation of write transactions"
named_theorems row_simps "facts on tables as lists of rows"

section \<open>Errors\<close>

text \<open>
  The error types of \<open>internal/domain/errors.go\<close> and \<open>ports.AdapterError\<close>, together with the
  error values made by \<open>errors.New\<close>, by a violated database constraint and by \<open>sql.ErrNoRows\<close>.
\<close>

datatype err =
    ValidationError string string
  | ConflictError string
  | NotFoundError string
  | InvalidStateError string
  | RateLimitError int
  | PlainError string
  | AdapterError string string bool string
  | DeadlineExceeded
  | ConstraintError string
  | NoRows

section \<open>Instants, durations and 64-bit integers\<close>

text \<open>
  An instant is the number of nanoseconds since the Unix epoch, a duration a number of
  nanoseconds (\<open>time.Duration\<close> is an \<open>int64\<close>). \<open>zero_time\<close> is Go's zero \<open>time.Time\<close>, the
  first of January of the year 1.
\<close>

type_synonym "instant" = int
type_synonym duration = int

definition Second :: duration where "Second = 1000000000"
definition Millisecond :: duration where "Millisecond = 1000000"
definition zero_time :: "instant" where "zero_time = - 62135596800 * Second"

definition MinInt64 :: int where "MinInt64 = - (2 ^ 63)"

text \<open>Two's complement wrap-around of an \<open>int64\<close> result.\<close>

definition wrap64 :: "int \<Rightarrow> int" where
  "wrap64 x = (x + 2 ^ 63) mod 2 ^ 64 - 2 ^ 63"

definition int64_range :: "int \<Rightarrow> bool" where
  "int64_range x \<longleftrightarrow> - (2 ^ 63) \<le> x \<and> x < 2 ^ 63"

lemma wrap64_id [simp]: "int64_range x \<Longrightarrow> wrap64 x = x"
  by (simp add: wrap64_def int64_range_def)

lemma wrap64_range [simp]: "int64_range (wrap64 x)"
  by (simp add: wrap64_def int64_range_def)

text \<open>\<open>time.Time.Sub\<close> saturates at the bounds of \<open>time.Duration\<close>.\<close>

definition time_sub :: "instant \<Rightarrow> instant \<Rightarrow> duration" where
  "time_sub a b = max (- (2 ^ 63)) (min (2 ^ 63 - 1) (a - b))"

lemma time_sub_range: "int64_range (time_sub a b)"
  by (simp add: time_sub_def int64_range_def)

lemma time_sub_exact: "\<bar>a - b\<bar> < 2 ^ 63 \<Longrightarrow> time_sub a b = a - b"
  by (auto simp: time_sub_def)

section \<open>Write transactions\<close>

text \<open>
  A transaction body runs on a state and yields an error or a value with the new state. At the
  top level (\<open>WithWriteTx\<close>) an error rolls the state back.
\<close>

type_synonym ('s, 'a) tx = "'s \<Rightarrow> err + ('a \<times> 's)"

definition tx_ret :: "'a \<Rightarrow> ('s, 'a) tx" where
  "tx_ret x = (\<lambda>s. Inr (x, s))"

definition tx_fail :: "err \<Rightarrow> ('s, 'a) tx" where
  "tx_fail e = (\<lambda>s. Inl e)"

definition tx_bind :: "('s, 'a) tx \<Rightarrow> ('a \<Rightarrow> ('s, 'b) tx) \<Rightarrow> ('s, 'b) tx" where
  "tx_bind m k = (\<lambda>s. case m s of Inl e \<Rightarrow> Inl e | Inr (x, t) \<Rightarrow> k x t)"

definition tx_seq :: "('s, unit) tx \<Rightarrow> ('s, 'b) tx \<Rightarrow> ('s, 'b) tx" where
  "tx_seq m k = tx_bind m (\<lambda>_. k)"

definition tx_get :: "('s \<Rightarrow> 'a) \<Rightarrow> ('s, 'a) tx" where
  "tx_get f = (\<lambda>s. Inr (f s, s))"

definition tx_put :: "('s \<Rightarrow> 's) \<Rightarrow> ('s, unit) tx" where
  "tx_put f = (\<lambda>s. Inr ((), f s))"

definition tx_lift :: "err + 'a \<Rightarrow> ('s, 'a) tx" where
  "tx_lift r = (case r of Inl e \<Rightarrow> tx_fail e | Inr x \<Rightarrow> tx_ret x)"

text \<open>A statement that the database refuses when a constraint fails on the resulting state.\<close>

definition tx_exec :: "string \<Rightarrow> ('s \<Rightarrow> bool) \<Rightarrow> ('s \<Rightarrow> 's) \<Rightarrow> ('s, unit) tx" where
  "tx_exec c ok f = (\<lambda>s. if ok (f s) then Inr ((), f s) else Inl (ConstraintError c))"

text \<open>Error translation around a statement (Go's \<open>if err != nil { return g(err) }\<close>).\<close>

definition tx_catch :: "(err \<Rightarrow> err) \<Rightarrow> ('s, 'a) tx \<Rightarrow> ('s, 'a) tx" where
  "tx_catch g m = (\<lambda>s. case m s of Inl e \<Rightarrow> Inl (g e) | Inr r \<Rightarrow> Inr r)"

definition WithWriteTx :: "('s, 'a) tx \<Rightarrow> 's \<Rightarrow> (err + 'a) \<times> 's" where
  "WithWriteTx m s = (case m s of Inl e \<Rightarrow> (Inl e, s) | Inr (x, t) \<Rightarrow> (Inr x, t))"

lemma tx_ret_iff [tx_simps]: "tx_ret x s = Inr (y, t) \<longleftrightarrow> y = x \<and> t = s"
  by (auto simp: tx_ret_def)

lemma tx_ret_apply: "tx_ret x s = Inr (x, s)"
  by (simp add: tx_ret_def)

lemma tx_fail_iff [tx_simps]: "tx_fail e s = r \<longleftrightarrow> r = Inl e"
  by (auto simp: tx_fail_def)

lemma tx_get_iff [tx_simps]: "tx_get f s = Inr (y, t) \<longleftrightarrow> y = f s \<and> t = s"
  by (auto simp: tx_get_def)

lemma tx_put_iff [tx_simps]: "tx_put f s = Inr (y, t) \<longleftrightarrow> t = f s"
  by (auto simp: tx_put_def)

lemma tx_exec_iff [tx_simps]: "tx_exec c ok f s = Inr (y, t) \<longleftrightarrow> t = f s \<and> ok (f s)"
  by (auto simp: tx_exec_def)

lemma tx_bind_iff [tx_simps]:
  "tx_bind m k s = Inr (y, t) \<longleftrightarrow> (\<exists>x u. m s = Inr (x, u) \<and> k x u = Inr (y, t))"
  by (auto simp: tx_bind_def split: sum.splits)

lemma tx_seq_iff [tx_simps]:
  "tx_seq m k s = Inr (y, t) \<longleftrightarrow> (\<exists>u. m s = Inr ((), u) \<and> k u = Inr (y, t))"
  by (auto simp: tx_seq_def tx_bind_iff)

lemma tx_lift_iff [tx_simps]: "tx_lift r s = Inr (y, t) \<longleftrightarrow> r = Inr y \<and> t = s"
  by (auto simp: tx_lift_def tx_fail_def tx_ret_def split: sum.splits)

lemma tx_catch_iff [tx_simps]: "tx_catch g m s = Inr r \<longleftrightarrow> m s = Inr r"
  by (auto simp: tx_catch_def split: sum.splits)

text \<open>Forward evaluation, for computing what a transaction does on a given state.\<close>

lemma tx_get_apply: "tx_get f s = Inr (f s, s)"
  by (simp add: tx_get_def)

lemma tx_put_apply: "tx_put f s = Inr ((), f s)"
  by (simp add: tx_put_def)

lemma tx_bind_get: "tx_bind (tx_get f) k s = k (f s) s"
  by (simp add: tx_bind_def tx_get_def)

lemma tx_bind_Inr: "m s = Inr (x, t) \<Longrightarrow> tx_bind m k s = k x t"
  by (simp add: tx_bind_def)

lemma tx_seq_put: "tx_seq (tx_put f) k s = k (f s)"
  by (simp add: tx_seq_def tx_bind_def tx_put_def)

lemma tx_seq_exec:
  "tx_seq (tx_exec c ok f) k s = (if ok (f s) then k (f s) else Inl (ConstraintError c))"
  by (simp add: tx_seq_def tx_bind_def tx_exec_def)

lemma tx_seq_ret: "tx_seq (tx_ret ()) k s = k s"
  by (simp add: tx_seq_def tx_bind_def tx_ret_def)

lemmas tx_eval = tx_get_apply tx_put_apply tx_bind_get tx_seq_put tx_seq_exec tx_seq_ret
  tx_ret_apply tx_fail_def

lemma WithWriteTx_Inr [tx_simps]: "WithWriteTx m s = (Inr x, t) \<longleftrightarrow> m s = Inr (x, t)"
  by (auto simp: WithWriteTx_def split: sum.splits prod.splits)

lemma WithWriteTx_Inl: "WithWriteTx m s = (Inl e, t) \<longleftrightarrow> m s = Inl e \<and> t = s"
  by (auto simp: WithWriteTx_def split: sum.splits prod.splits)

lemma WithWriteTx_rollback: "fst (WithWriteTx m s) = Inl e \<Longrightarrow> snd (WithWriteTx m s) = s"
  by (auto simp: WithWriteTx_def split: sum.splits prod.splits)

lemma WithWriteTx_cases [consumes 1, case_names error commit]:
  assumes "WithWriteTx m s = (r, t)"
  obtains e where "r = Inl e" "t = s" "m s = Inl e"
  | x where "r = Inr x" "m s = Inr (x, t)"
  using assms by (auto simp: WithWriteTx_def split: sum.splits prod.splits)

section \<open>Tables\<close>

text \<open>
  A table is the list of its rows in insertion order. \<open>sql_update p f\<close> is
  \<open>UPDATE .. SET f WHERE p\<close>, \<open>rows_affected p\<close> what \<open>RowsAffected\<close> reports, and
  \<open>uniq_where p k\<close> a partial unique index on the key \<open>k\<close> over the rows satisfying \<open>p\<close>.
\<close>

definition sql_update :: "('r \<Rightarrow> bool) \<Rightarrow> ('r \<Rightarrow> 'r) \<Rightarrow> 'r list \<Rightarrow> 'r list" where
  "sql_update p f rows = map (\<lambda>r. if p r then f r else r) rows"

definition rows_affected :: "('r \<Rightarrow> bool) \<Rightarrow> 'r list \<Rightarrow> nat" where
  "rows_affected p rows = length (filter p rows)"

definition uniq_where :: "('r \<Rightarrow> bool) \<Rightarrow> ('r \<Rightarrow> 'k) \<Rightarrow> 'r list \<Rightarrow> bool" where
  "uniq_where p k rows \<longleftrightarrow> distinct (map k (filter p rows))"

lemma sql_update_Nil [simp]: "sql_update p f [] = []"
  by (simp add: sql_update_def)

lemma sql_update_Cons [simp]:
  "sql_update p f (r # rs) = (if p r then f r else r) # sql_update p f rs"
  by (simp add: sql_update_def)

lemma sql_update_append [simp]:
  "sql_update p f (xs @ ys) = sql_update p f xs @ sql_update p f ys"
  by (simp add: sql_update_def)

lemma length_sql_update [simp]: "length (sql_update p f rows) = length rows"
  by (simp add: sql_update_def)

lemma set_sql_update: "set (sql_update p f rows) = (\<lambda>r. if p r then f r else r) ` set rows"
  by (simp add: sql_update_def)

lemma in_sql_update:
  "x \<in> set (sql_update p f rows) \<longleftrightarrow> (\<exists>r \<in> set rows. x = (if p r then f r else r))"
  by (auto simp: set_sql_update)

lemma map_sql_update [row_simps]:
  assumes "\<And>r. p r \<Longrightarrow> k (f r) = k r"
  shows "map k (sql_update p f rows) = map k rows"
  using assms by (simp add: sql_update_def)

lemma sql_update_none: "\<forall>r \<in> set rows. \<not> p r \<Longrightarrow> sql_update p f rows = rows"
  by (induction rows) auto

lemma sql_update_cong:
  "(\<And>r. r \<in> set rows \<Longrightarrow> (if p r then f r else r) = (if q r then g r else r)) \<Longrightarrow>
   sql_update p f rows = sql_update q g rows"
  by (simp add: sql_update_def)

lemma find_sql_update [row_simps]:
  assumes "\<And>r. p r \<Longrightarrow> q (f r) = q r"
  shows "List.find q (sql_update p f rows) =
         map_option (\<lambda>r. if p r then f r else r) (List.find q rows)"
  using assms by (induction rows) auto

lemma filter_sql_update:
  assumes "\<And>r. p r \<Longrightarrow> q (f r) = q r"
  shows "filter q (sql_update p f rows) = sql_update p f (filter q rows)"
  using assms by (induction rows) auto

lemma rows_affected_pos: "rows_affected p rows \<noteq> 0 \<longleftrightarrow> (\<exists>r \<in> set rows. p r)"
  by (auto simp: rows_affected_def filter_empty_conv)

lemma rows_affected_1E:
  assumes "rows_affected p rows = 1"
  obtains r where "r \<in> set rows" "p r" "\<And>x. x \<in> set rows \<Longrightarrow> p x \<Longrightarrow> x = r"
proof -
  from assms obtain r where r: "filter p rows = [r]"
    by (auto simp: rows_affected_def length_Suc_conv)
  then have "set (filter p rows) = {r}" by simp
  then show thesis using that [of r] by auto
qed

lemma uniq_where_Nil [simp]: "uniq_where p k []"
  by (simp add: uniq_where_def)

lemma uniq_whereD:
  assumes "uniq_where p k rows" "x \<in> set rows" "y \<in> set rows" "p x" "p y" "k x = k y"
  shows "x = y"
  using assms unfolding uniq_where_def by (auto simp: distinct_map inj_on_def)

lemma uniq_where_sub:
  assumes "uniq_where p k rows" and "\<And>r. r \<in> set rows \<Longrightarrow> q (g r) \<Longrightarrow> p r \<and> k (g r) = k r"
  shows "uniq_where q k (map g rows)"
  using assms unfolding uniq_where_def
  by (induction rows) (auto 0 4 split: if_splits dest: imageI)

lemma uniq_where_update:
  assumes "uniq_where p k rows"
    and "\<And>r. r \<in> set rows \<Longrightarrow> q r \<Longrightarrow> p (f r) \<Longrightarrow> p r \<and> k (f r) = k r"
  shows "uniq_where p k (sql_update q f rows)"
  unfolding sql_update_def
  by (rule uniq_where_sub [OF assms(1)]) (auto simp: assms(2))

lemma distinct_map_eqD:
  "distinct (map k rows) \<Longrightarrow> x \<in> set rows \<Longrightarrow> y \<in> set rows \<Longrightarrow> k x = k y \<Longrightarrow> x = y"
  by (auto simp: distinct_map inj_on_def)

lemma rows_affected_le_1:
  assumes "distinct (map k rows)" "\<And>r. p r \<Longrightarrow> k r = i"
  shows "rows_affected p rows \<le> 1"
  using assms(1)
proof (induction rows)
  case (Cons r rows)
  have "p r \<Longrightarrow> filter p rows = []"
    using Cons.prems assms(2) unfolding filter_empty_conv by (metis distinct.simps(2) imageI list.set_map list.simps(9))
  with Cons show ?case by (auto simp: rows_affected_def)
qed (simp add: rows_affected_def)

lemma sql_update_keyed:
  assumes "distinct (map k rows)" "\<And>r. p r \<Longrightarrow> k r = i" "rows_affected p rows \<noteq> 1"
  shows "sql_update p f rows = rows"
proof -
  have "rows_affected p rows = 0" using rows_affected_le_1 [of k rows p i] assms by auto
  then show ?thesis by (intro sql_update_none) (auto simp: rows_affected_def filter_empty_conv)
qed

lemma find_keyD:
  assumes "List.find (\<lambda>r. k r = i) rows = Some r"
  shows "r \<in> set rows \<and> k r = i"
  using assms by (auto simp: find_Some_iff)

lemma find_key_unique:
  assumes "distinct (map k rows)" "r \<in> set rows" "k r = i"
  shows "List.find (\<lambda>x. k x = i) rows = Some r"
  using assms by (induction rows) auto

lemma find_append:
  "List.find p (xs @ ys) = (case List.find p xs of None \<Rightarrow> List.find p ys | Some x \<Rightarrow> Some x)"
  by (induction xs) auto

lemma find_key_None: "List.find (\<lambda>r. k r = i) rows = None \<longleftrightarrow> i \<notin> k ` set rows"
  by (auto simp: find_None_iff)

section \<open>Substrings\<close>

text \<open>Go's \<open>strings.HasPrefix\<close>, \<open>strings.HasSuffix\<close> and \<open>strings.Contains\<close> on byte strings.\<close>

definition HasPrefix :: "string \<Rightarrow> string \<Rightarrow> bool" where
  "HasPrefix s p \<longleftrightarrow> take (length p) s = p"

definition HasSuffix :: "string \<Rightarrow> string \<Rightarrow> bool" where
  "HasSuffix s p \<longleftrightarrow> length p \<le> length s \<and> drop (length s - length p) s = p"

fun Contains :: "string \<Rightarrow> string \<Rightarrow> bool" where
  "Contains [] p \<longleftrightarrow> p = []"
| "Contains (c # s) p \<longleftrightarrow> HasPrefix (c # s) p \<or> Contains s p"

lemma HasPrefix_append [simp]: "HasPrefix (p @ s) p"
  by (simp add: HasPrefix_def)

lemma HasSuffix_append [simp]: "HasSuffix (s @ p) p"
  by (simp add: HasSuffix_def)

lemma HasPrefix_iff: "HasPrefix s p \<longleftrightarrow> (\<exists>t. s = p @ t)"
  by (metis HasPrefix_append HasPrefix_def append_take_drop_id)

lemma not_Contains: "x \<in> set p \<Longrightarrow> x \<notin> set s \<Longrightarrow> \<not> Contains s p"
proof (induction s)
  case Nil
  then show ?case by auto
next
  case (Cons c s)
  then have "\<not> HasPrefix (c # s) p"
    by (metis HasPrefix_def in_set_takeD)
  with Cons show ?case by simp
qed

section \<open>Statements\<close>

text \<open>
  Statements in sequence, the guard \<open>if !b { return err }\<close>, and a row scan that fails when the query
  returns no row.
\<close>

primrec tx_all :: "('s, unit) tx list \<Rightarrow> ('s, unit) tx" where
  "tx_all [] = tx_ret ()"
| "tx_all (m # ms) = tx_seq m (tx_all ms)"

definition tx_guard :: "err \<Rightarrow> bool \<Rightarrow> ('s, unit) tx" where
  "tx_guard e b = (if b then tx_ret () else tx_fail e)"

definition tx_scan :: "err \<Rightarrow> ('s \<Rightarrow> 'a option) \<Rightarrow> ('s, 'a) tx" where
  "tx_scan e q = (\<lambda>s. case q s of None \<Rightarrow> Inl e | Some x \<Rightarrow> Inr (x, s))"

lemma tx_all_Nil_iff [tx_simps]: "tx_all [] s = Inr (y, t) \<longleftrightarrow> t = s"
  by (cases y) (auto simp: tx_ret_def)

lemma tx_all_Cons_iff [tx_simps]:
  "tx_all (m # ms) s = Inr (y, t) \<longleftrightarrow> (\<exists>u. m s = Inr ((), u) \<and> tx_all ms u = Inr ((), t))"
  by (cases y) (simp add: tx_seq_iff)

lemma tx_guard_iff [tx_simps]: "tx_guard e b s = Inr (y, t) \<longleftrightarrow> b \<and> t = s"
  by (auto simp: tx_guard_def tx_ret_def tx_fail_def)

lemma tx_scan_iff [tx_simps]: "tx_scan e q s = Inr (y, t) \<longleftrightarrow> q s = Some y \<and> t = s"
  by (auto simp: tx_scan_def split: option.splits)

lemma tx_if_iff [tx_simps]:
  "(if b then m else n) s = Inr (y, t) \<longleftrightarrow> (b \<and> m s = Inr (y, t)) \<or> (\<not> b \<and> n s = Inr (y, t))"
  by auto

text \<open>An assertion on the state that every step of a transaction keeps.\<close>

definition tx_keeps :: "('s \<Rightarrow> bool) \<Rightarrow> ('s, 'a) tx \<Rightarrow> bool" where
  "tx_keeps P m \<longleftrightarrow> (\<forall>s y t. P s \<longrightarrow> m s = Inr (y, t) \<longrightarrow> P t)"

lemma tx_keepsI: "(\<And>s y t. P s \<Longrightarrow> m s = Inr (y, t) \<Longrightarrow> P t) \<Longrightarrow> tx_keeps P m"
  by (simp add: tx_keeps_def)

lemma tx_keepsD: "tx_keeps P m \<Longrightarrow> m s = Inr (y, t) \<Longrightarrow> P s \<Longrightarrow> P t"
  by (auto simp: tx_keeps_def)

lemma tx_keeps_bind [intro]: "tx_keeps P m \<Longrightarrow> (\<And>x. tx_keeps P (k x)) \<Longrightarrow> tx_keeps P (tx_bind m k)"
  by (rule tx_keepsI) (metis tx_bind_iff tx_keepsD)

lemma tx_keeps_seq [intro]: "tx_keeps P m \<Longrightarrow> tx_keeps P k \<Longrightarrow> tx_keeps P (tx_seq m k)"
  unfolding tx_seq_def by (rule tx_keeps_bind)

lemma tx_keeps_read [simp, intro]:
  "tx_keeps P (tx_ret x)" "tx_keeps P (tx_fail e)" "tx_keeps P (tx_get f)" "tx_keeps P (tx_lift r)"
  "tx_keeps P (tx_guard e b)" "tx_keeps P (tx_scan e q)"
  by (auto simp: tx_keeps_def tx_simps)

lemma tx_keeps_catch [intro]: "tx_keeps P m \<Longrightarrow> tx_keeps P (tx_catch g m)"
  by (auto simp: tx_keeps_def tx_catch_iff)

lemma tx_keeps_if [intro]: "tx_keeps P m \<Longrightarrow> tx_keeps P n \<Longrightarrow> tx_keeps P (if b then m else n)"
  by simp

lemma tx_keeps_all [intro]: "(\<And>m. m \<in> set ms \<Longrightarrow> tx_keeps P m) \<Longrightarrow> tx_keeps P (tx_all ms)"
  by (induction ms) auto

lemma WithWriteTx_keeps: "tx_keeps P m \<Longrightarrow> P s \<Longrightarrow> P (snd (WithWriteTx m s))"
  by (auto simp: WithWriteTx_def tx_keeps_def split: sum.splits prod.splits)

end
