(* ===== verification/Port_Pool.thy ===== *)
theory Port_Pool
  imports Prelude
begin

text \<open>
  The port pool of an inbound template and the choice of a dedicated port:
  \<open>internal/domain/port.go\<close>. Ports are Go \<open>int\<close>s; the map \<open>taken\<close> is the set of the ports
  assigned.
\<close>

definition MinAssignablePort :: int where "MinAssignablePort = 1024"
definition MaxAssignablePort :: int where "MaxAssignablePort = 65535"

record PortPool =
  pp_Start :: int
  pp_End :: int

definition NewPortPool :: "int \<Rightarrow> int \<Rightarrow> err + PortPool" where
  "NewPortPool start stop =
     (if start < MinAssignablePort \<or> start > MaxAssignablePort
      then Inl (ValidationError ''port_pool_start'' ''port pool start must be between 1024 and 65535'')
      else if stop < MinAssignablePort \<or> stop > MaxAssignablePort
      then Inl (ValidationError ''port_pool_end'' ''port pool end must be between 1024 and 65535'')
      else if stop < start
      then Inl (ValidationError ''port_pool_end'' ''port pool end must not be smaller than port pool start'')
      else Inr \<lparr>pp_Start = start, pp_End = stop\<rparr>)"

definition Capacity :: "PortPool \<Rightarrow> int" where
  "Capacity p = pp_End p - pp_Start p + 1"

definition pool_Contains :: "PortPool \<Rightarrow> int \<Rightarrow> bool" where
  "pool_Contains p port \<longleftrightarrow> port \<ge> pp_Start p \<and> port \<le> pp_End p"

definition ErrPortPoolExhausted :: err where
  "ErrPortPoolExhausted =
     ConflictError ''port pool is exhausted; widen the range on the inbound template''"

text \<open>The loop of \<open>NextAvailablePort\<close>: \<open>for port := pool.Start; port <= pool.End; port++\<close>.\<close>

function scan_ports :: "int set \<Rightarrow> int \<Rightarrow> int \<Rightarrow> err + int" where
  "scan_ports taken port stop =
     (if port \<le> stop
      then if port \<notin> taken then Inr port else scan_ports taken (port + 1) stop
      else Inl ErrPortPoolExhausted)"
  by pat_completeness auto
termination by (relation "measure (\<lambda>(t, p, l). nat (l + 1 - p))") auto

declare scan_ports.simps [simp del]

definition NextAvailablePort :: "PortPool \<Rightarrow> int list \<Rightarrow> err + int" where
  "NextAvailablePort pool assigned = scan_ports (set assigned) (pp_Start pool) (pp_End pool)"

fun port_used :: "int \<Rightarrow> int list \<Rightarrow> bool" where
  "port_used port [] \<longleftrightarrow> False"
| "port_used port (used # rest) \<longleftrightarrow> used = port \<or> port_used port rest"

definition ValidateRequestedPort :: "PortPool \<Rightarrow> int \<Rightarrow> int list \<Rightarrow> err + unit" where
  "ValidateRequestedPort pool port assigned =
     (if \<not> pool_Contains pool port
      then Inl (ValidationError ''port'' ''port is outside the template port pool'')
      else if port_used port assigned
      then Inl (ConflictError ''port is already assigned to another user'')
      else Inr ())"

definition OutsidePoolPorts :: "PortPool \<Rightarrow> int list \<Rightarrow> int list" where
  "OutsidePoolPorts pool assigned = sort (filter (\<lambda>p. \<not> pool_Contains pool p) assigned)"

section \<open>Lemmas\<close>

lemma scan_ports_Inr:
  "scan_ports taken port stop = Inr p \<longleftrightarrow>
   port \<le> p \<and> p \<le> stop \<and> p \<notin> taken \<and> (\<forall>q. port \<le> q \<and> q < p \<longrightarrow> q \<in> taken)"
proof (induction taken port stop rule: scan_ports.induct)
  case (1 taken port stop)
  show ?case
  proof (cases "port \<le> stop \<and> port \<in> taken")
    case True
    with 1 have "scan_ports taken port stop = Inr p \<longleftrightarrow>
        port + 1 \<le> p \<and> p \<le> stop \<and> p \<notin> taken \<and> (\<forall>q. port + 1 \<le> q \<and> q < p \<longrightarrow> q \<in> taken)"
      by (simp add: scan_ports.simps [of taken port stop])
    also have "\<dots> \<longleftrightarrow> port \<le> p \<and> p \<le> stop \<and> p \<notin> taken \<and> (\<forall>q. port \<le> q \<and> q < p \<longrightarrow> q \<in> taken)"
    proof -
      have split: "port \<le> q \<longleftrightarrow> q = port \<or> port + 1 \<le> q" for q by auto
      show ?thesis using True unfolding split by blast
    qed
    finally show ?thesis .
  next
    case False
    then show ?thesis by (auto simp: scan_ports.simps [of taken port stop])
  qed
qed

lemma scan_ports_Inl:
  "scan_ports taken port stop = Inl e \<longleftrightarrow> e = ErrPortPoolExhausted \<and> {port..stop} \<subseteq> taken"
proof (induction taken port stop rule: scan_ports.induct)
  case (1 taken port stop)
  have "{port..stop} = insert port {port + 1..stop}" if "port \<le> stop"
    using that by (auto simp: simp_from_to)
  with 1 show ?case by (auto simp: scan_ports.simps [of taken port stop])
qed

lemma port_used_set [simp]: "port_used p ps \<longleftrightarrow> p \<in> set ps"
  by (induction ps) auto

section \<open>Properties\<close>

text \<open>
  C19: the allocator returns the least port of the pool that no assignment uses, a port the request
  check then accepts, and reports the pool exhausted exactly when every port of it is assigned.
\<close>
theorem next_available_port_spec:
  "(NextAvailablePort pool assigned = Inr p \<longleftrightarrow>
      ValidateRequestedPort pool p assigned = Inr () \<and> {pp_Start pool..<p} \<subseteq> set assigned) \<and>
   (NextAvailablePort pool assigned = Inl e \<longleftrightarrow>
      e = ErrPortPoolExhausted \<and> {port. pool_Contains pool port} \<subseteq> set assigned)"
proof -
  have range: "{port. pool_Contains pool port} = {pp_Start pool..pp_End pool}"
    by (auto simp: pool_Contains_def)
  show ?thesis
    unfolding range NextAvailablePort_def scan_ports_Inr scan_ports_Inl
    by (auto simp: ValidateRequestedPort_def pool_Contains_def)
qed

text \<open>
  a pool accepted by \<open>NewPortPool\<close> has between 1 and 64512 ports, all of them assignable, and
  as many as \<open>Capacity\<close> says; the ports reported outside a narrowed pool are exactly the assigned ones
  it no longer contains, in ascending order.
\<close>
theorem port_pool_bounds:
  assumes "NewPortPool start stop = Inr pool"
  shows "Capacity pool = int (card {p. pool_Contains pool p}) \<and> 1 \<le> Capacity pool \<and>
    Capacity pool \<le> 64512 \<and> {p. pool_Contains pool p} \<subseteq> {MinAssignablePort..MaxAssignablePort} \<and>
    sorted (OutsidePoolPorts pool assigned) \<and>
    set (OutsidePoolPorts pool assigned) = set assigned - {p. pool_Contains pool p}"
proof -
  have "{p. pool_Contains pool p} = {pp_Start pool..pp_End pool}" by (auto simp: pool_Contains_def)
  with assms show ?thesis
    by (auto simp: NewPortPool_def Capacity_def OutsidePoolPorts_def MinAssignablePort_def
      MaxAssignablePort_def split: if_splits)
qed

theorem port_pool_bounds_witness:
  "Capacity \<lparr>pp_Start = 2000, pp_End = 2009\<rparr> = 10 \<and> OutsidePoolPorts \<lparr>pp_Start = 2000, pp_End = 2009\<rparr> [3000, 2005, 1999] = [1999, 3000]"
  using port_pool_bounds [of 2000 2009 "\<lparr>pp_Start = 2000, pp_End = 2009\<rparr>" "[3000, 2005, 1999]"]
  by (simp add: NewPortPool_def Capacity_def OutsidePoolPorts_def pool_Contains_def
    MinAssignablePort_def MaxAssignablePort_def)

end
