(* ===== verification/Identity.thy ===== *)
theory Identity
  imports Prelude "HOL-Library.Char_ord"
begin

text \<open>
  Identifiers and names: \<open>internal/domain/identity.go\<close>, the statistics identity and counter
  names of \<open>internal/security/tokens.go\<close> and \<open>internal/adapter/xray/stats.go\<close>, and the
  namespace rules of \<open>internal/domain/inbound.go\<close>. Strings are byte strings; SHA-256 is a
  parameter.
\<close>

unbundle bit_operations_syntax

section \<open>Characters\<close>

definition lower_hex :: "char \<Rightarrow> bool" where
  "lower_hex c \<longleftrightarrow> (CHR ''0'' \<le> c \<and> c \<le> CHR ''9'') \<or> (CHR ''a'' \<le> c \<and> c \<le> CHR ''f'')"

text \<open>
  \<open>strings.ToLower\<close> on the bytes a UUID may have. No other character is lowered to a hexadecimal
  digit or a dash, so a string with one is refused either way.
\<close>

definition asciiLower :: "char \<Rightarrow> char" where
  "asciiLower c = (if CHR ''A'' \<le> c \<and> c \<le> CHR ''Z'' then char_of (of_char c + (32::nat)) else c)"

definition hexdigit :: "nat \<Rightarrow> char" where
  "hexdigit n = ''0123456789abcdef'' ! (n mod 16)"

text \<open>\<open>hex.EncodeToString\<close>: the high nibble first.\<close>

fun hex_encode :: "8 word list \<Rightarrow> string" where
  "hex_encode [] = []"
| "hex_encode (b # bs) = hexdigit (unat b div 16) # hexdigit (unat b) # hex_encode bs"

section \<open>Identifiers\<close>

type_synonym ID = string
type_synonym Revision = int

text \<open>
  \<open>NewID\<close> on the sixteen bytes \<open>rand.Read\<close> fills. The version and variant bits are those of a
  UUIDv4.
\<close>

definition NewID :: "8 word list \<Rightarrow> ID" where
  "NewID rnd = (let raw = rnd[6 := ((rnd ! 6) AND 0x0f) OR 0x40, 8 := ((rnd ! 8) AND 0x3f) OR 0x80]
     in hex_encode (take 4 raw) @ ''-'' @ hex_encode (take 2 (drop 4 raw)) @ ''-'' @
        hex_encode (take 2 (drop 6 raw)) @ ''-'' @ hex_encode (take 2 (drop 8 raw)) @ ''-'' @
        hex_encode (take 6 (drop 10 raw)))"

definition Valid :: "ID \<Rightarrow> bool" where
  "Valid i \<longleftrightarrow> length i = 36 \<and>
     (\<forall>(n, c) \<in> set (zip [0..<36] i).
        if n = 8 \<or> n = 13 \<or> n = 18 \<or> n = 23 then c = CHR ''-'' else lower_hex c)"

datatype ActorType = ActorAdministrator | ActorLocalCLI | ActorSystem
datatype CommandState = CommandAccepted | CommandCompleted | CommandFailed
datatype AuditResult = AuditAccepted | AuditSucceeded | AuditFailed | AuditSuperseded

record DomainCommand =
  dc_ID :: ID
  dc_ActorType :: ActorType
  dc_ActorID :: "ID option"
  dc_CommandType :: string
  dc_TargetType :: string
  dc_TargetID :: ID
  dc_RequestFingerprint :: "8 word list"
  dc_State :: CommandState
  dc_ResultReference :: string
  dc_CreatedAt :: "instant"
  dc_CompletedAt :: "instant option"

record AuditEvent =
  ae_ID :: ID
  ae_OccurredAt :: "instant"
  ae_ActorType :: ActorType
  ae_ActorID :: "ID option"
  ae_TargetType :: string
  ae_TargetID :: ID
  ae_Action :: string
  ae_Result :: AuditResult
  ae_CommandID :: "ID option"
  ae_OperationID :: "ID option"
  ae_SafeSummary :: string

text \<open>
  The audit actions (\<open>ActionLogin\<close> and so on) are their string values. The fingerprint of a
  request is the digest of its parts, each behind a NUL byte.
\<close>

definition fingerprint_preimage :: "string list \<Rightarrow> string" where
  "fingerprint_preimage parts = concat (map (\<lambda>p. CHR 0x00 # p) parts)"

definition Fingerprint :: "(string \<Rightarrow> 8 word list) \<Rightarrow> string list \<Rightarrow> 8 word list" where
  "Fingerprint sha256 parts = sha256 (fingerprint_preimage parts)"

section \<open>Statistics identities and counter names\<close>

text \<open>\<open>uuidPattern\<close>: a lower-case UUID with version 4 and the RFC variant.\<close>

definition uuidPattern :: "string \<Rightarrow> bool" where
  "uuidPattern s \<longleftrightarrow> Valid s \<and> s ! 14 = CHR ''4'' \<and> s ! 19 \<in> set ''89ab''"

definition StatisticsID :: "ID \<Rightarrow> err + string" where
  "StatisticsID allocationID =
     (let i = map asciiLower allocationID in
      if \<not> uuidPattern i then Inl (PlainError ''allocation ID must be a UUIDv4'')
      else let value = ''xpanel-'' @ i in
        if Contains value ''>>>''
        then Inl (PlainError ''statistics identity contains a reserved delimiter'')
        else Inr value)"

text \<open>\<open>strings.Split(name, ">>>")\<close>.\<close>

function split_delim :: "string \<Rightarrow> string \<Rightarrow> string list" where
  "split_delim acc [] = [rev acc]"
| "split_delim acc (c # s) =
     (if take 3 (c # s) = ''>>>'' then rev acc # split_delim [] (drop 2 s)
      else split_delim (c # acc) s)"
  by pat_completeness auto
termination by (relation "measure (\<lambda>(acc, s). length s)") auto

definition ParseCounterName :: "string \<Rightarrow> err + (string \<times> string)" where
  "ParseCounterName name =
     (let parts = split_delim [] name in
      if length parts \<noteq> 4 \<or> parts ! 0 \<noteq> ''user'' \<or> parts ! 1 = '''' \<or> parts ! 2 \<noteq> ''traffic'' \<or>
         (parts ! 3 \<noteq> ''uplink'' \<and> parts ! 3 \<noteq> ''downlink'')
      then Inl (PlainError ''invalid Xray user counter name'')
      else Inr (parts ! 1, parts ! 3))"

type_synonym Direction = string
definition Uplink :: Direction where "Uplink = ''uplink''"
definition Downlink :: Direction where "Downlink = ''downlink''"

definition CounterName :: "string \<Rightarrow> Direction \<Rightarrow> err + string" where
  "CounterName statisticsID direction =
     (if statisticsID = '''' \<or> direction \<noteq> Uplink \<and> direction \<noteq> Downlink
      then Inl (AdapterError ''invalid_argument'' ''counter_name'' False
                  ''invalid counter identity or direction'')
      else Inr (''user>>>'' @ statisticsID @ ''>>>traffic>>>'' @ direction))"

definition methodKeyLength :: "string \<Rightarrow> err + nat" where
  "methodKeyLength method =
     (if method = ''2022-blake3-aes-128-gcm'' then Inr 16
      else if method = ''2022-blake3-aes-256-gcm'' then Inr 32
      else Inl (PlainError ''unsupported Shadowsocks 2022 method''))"

section \<open>The panel namespace\<close>

definition NamespacePrefix :: string where "NamespacePrefix = ''xpanel-''"

definition InboundTag :: "ID \<Rightarrow> string" where
  "InboundTag allocationID = NamespacePrefix @ allocationID"

definition IsPanelNamespace :: "string \<Rightarrow> bool" where
  "IsPanelNamespace value \<longleftrightarrow> HasPrefix value NamespacePrefix"

text \<open>
  \<open>strings.IndexFunc(tag, unicode.IsControl) >= 0\<close> on UTF-8 bytes: the ASCII controls, and U+0080
  to U+009F, which are the byte C2 followed by 80 to 9F (C2 is never a continuation byte).
\<close>

fun has_control :: "string \<Rightarrow> bool" where
  "has_control [] \<longleftrightarrow> False"
| "has_control (c # s) \<longleftrightarrow> c < CHR 0x20 \<or> c = CHR 0x7F \<or>
     (c = CHR 0xC2 \<and> (case s of [] \<Rightarrow> False | d # _ \<Rightarrow> CHR 0x80 \<le> d \<and> d \<le> CHR 0x9F)) \<or>
     has_control s"

definition ValidateInboundTag :: "string \<Rightarrow> err + unit" where
  "ValidateInboundTag tag =
     (if \<not> IsPanelNamespace tag
      then Inl (ValidationError ''inbound_tag'' ''inbound tag must use the panel namespace prefix'')
      else if length tag \<le> length NamespacePrefix
      then Inl (ValidationError ''inbound_tag'' ''inbound tag must not be the bare namespace prefix'')
      else if has_control tag \<or> Contains tag ''>>>''
      then Inl (ValidationError ''inbound_tag'' ''inbound tag contains forbidden characters'')
      else Inr ())"

definition RotationSuffix :: string where "RotationSuffix = ''-rotate''"

definition RotationSafetyID :: "string \<Rightarrow> string" where
  "RotationSafetyID statisticsID = statisticsID @ RotationSuffix"

definition IsRotationSafetyID :: "string \<Rightarrow> bool" where
  "IsRotationSafetyID value \<longleftrightarrow> IsPanelNamespace value \<and> HasSuffix value RotationSuffix"

definition ValidateInboundClients :: "int \<Rightarrow> err + unit" where
  "ValidateInboundClients count =
     (if count \<noteq> 1
      then Inl (InvalidStateError ''a dedicated inbound must carry exactly one managed client'')
      else Inr ())"

section \<open>Lemmas\<close>


lemma lower_hex_hexdigit [simp]: "lower_hex (hexdigit n)"
proof -
  have "\<forall>m \<in> set [0..<16]. lower_hex (''0123456789abcdef'' ! m)"
    by code_simp
  moreover have "n mod 16 \<in> set [0..<16]" by simp
  ultimately show ?thesis unfolding hexdigit_def by blast
qed

lemma length_hex_encode [simp]: "length (hex_encode bs) = 2 * length bs"
  by (induction bs) auto

lemma lower_hex_hex_encode: "c \<in> set (hex_encode bs) \<Longrightarrow> lower_hex c"
  by (induction bs) auto

lemma length_16_conv:
  "length xs = 16 \<longleftrightarrow> (\<exists>a0 a1 a2 a3 a4 a5 a6 a7 a8 a9 a10 a11 a12 a13 a14 a15.
     xs = [a0,a1,a2,a3,a4,a5,a6,a7,a8,a9,a10,a11,a12,a13,a14,a15])"
  by (auto simp: length_Suc_conv numeral_eq_Suc)

lemma version_nibble: "unat (((b::8 word) AND 0x0f) OR 0x40) div 16 = 4"
proof -
  have "b AND 0x0f = take_bit 4 b"
    using take_bit_eq_mask [of 4 b] by (simp add: mask_eq_exp_minus_1)
  then have "drop_bit 4 ((b AND 0x0f) OR 0x40) = (4::8 word)"
    by (simp add: drop_bit_take_bit)
  then have "unat (drop_bit 4 ((b AND 0x0f) OR 0x40)) = 4" by simp
  then show ?thesis unfolding unat_drop_bit_eq by (simp add: drop_bit_eq_div)
qed

lemma variant_nibble: "unat (((b::8 word) AND 0x3f) OR 0x80) div 16 \<in> {8, 9, 10, 11}"
proof -
  have "b AND 0x3f = take_bit 6 b"
    using take_bit_eq_mask [of 6 b] by (simp add: mask_eq_exp_minus_1)
  then have "drop_bit 6 ((b AND 0x3f) OR 0x80) = (2::8 word)"
    by (simp add: drop_bit_take_bit)
  then have "unat (drop_bit 6 ((b AND 0x3f) OR 0x80)) = 2" by simp
  then have "unat ((b AND 0x3f) OR 0x80) div 64 = 2"
    unfolding unat_drop_bit_eq by (simp add: drop_bit_eq_div)
  then have "8 \<le> unat ((b AND 0x3f) OR 0x80) div 16 \<and> unat ((b AND 0x3f) OR 0x80) div 16 < 12"
    by linarith
  then show ?thesis by (simp only: insert_iff empty_iff) linarith
qed

lemma asciiLower_lower_hex [simp]: "lower_hex c \<Longrightarrow> asciiLower c = c"
  by (auto simp: lower_hex_def asciiLower_def less_eq_char_def)

lemma NewID_shape:
  assumes "length rnd = 16"
  shows "uuidPattern (NewID rnd)"
proof -
  from assms obtain a0 a1 a2 a3 a4 a5 a6 a7 a8 a9 a10 a11 a12 a13 a14 a15 where
    rnd: "rnd = [a0,a1,a2,a3,a4,a5,a6,a7,a8,a9,a10,a11,a12,a13,a14,a15]"
    by (auto simp: length_16_conv)
  have four: "hexdigit 4 = CHR ''4''" "lower_hex CHR ''4''"
    by (simp_all add: hexdigit_def lower_hex_def less_eq_char_def)
  have variant: "hexdigit (unat ((a8 AND 0x3f) OR 0x80) div 16) \<in> set ''89ab''"
    using variant_nibble [of a8] by (auto simp: hexdigit_def)
  show ?thesis
    using variant four
    by (simp add: uuidPattern_def Valid_def NewID_def rnd Let_def upt_rec version_nibble)
qed

lemma Valid_chars:
  assumes "Valid i" "c \<in> set i"
  shows "c = CHR ''-'' \<or> lower_hex c"
proof -
  from assms obtain n where "n < 36" "c = i ! n"
    by (auto simp: Valid_def in_set_conv_nth)
  with assms(1) have "(n, c) \<in> set (zip [0..<36] i)"
    by (auto simp: Valid_def set_zip intro!: exI [of _ n])
  with assms(1) show ?thesis
    by (auto simp: Valid_def split: if_splits)
qed

lemma asciiLower_Valid: "Valid i \<Longrightarrow> map asciiLower i = i"
  by (rule map_idI) (auto dest!: Valid_chars simp: asciiLower_def less_eq_char_def lower_hex_def)

lemma gt_not_in_Valid: "Valid i \<Longrightarrow> CHR ''>'' \<notin> set i"
  by (auto dest!: Valid_chars simp: lower_hex_def less_eq_char_def)

lemma StatisticsID_Inr:
  "StatisticsID a = Inr sid \<longleftrightarrow>
   uuidPattern (map asciiLower a) \<and> sid = ''xpanel-'' @ map asciiLower a"
proof (cases "uuidPattern (map asciiLower a)")
  case True
  then have "CHR ''>'' \<notin> set (''xpanel-'' @ map asciiLower a)"
    using gt_not_in_Valid [of "map asciiLower a"] by (simp add: uuidPattern_def)
  then have "\<not> Contains (''xpanel-'' @ map asciiLower a) ''>>>''"
    by (rule not_Contains [rotated]) simp
  with True show ?thesis by (auto simp: StatisticsID_def Let_def)
qed (simp add: StatisticsID_def Let_def)

lemma split_delim_last: "CHR ''>'' \<notin> set a \<Longrightarrow> split_delim acc a = [rev acc @ a]"
  by (induction a arbitrary: acc) auto

lemma split_delim_step:
  "CHR ''>'' \<notin> set a \<Longrightarrow>
   split_delim acc (a @ CHR ''>'' # CHR ''>'' # CHR ''>'' # s) = (rev acc @ a) # split_delim [] s"
  by (induction a arbitrary: acc) auto

lemma ParseCounterName_CounterName:
  assumes "CHR ''>'' \<notin> set sid" "CounterName sid d = Inr name"
  shows "ParseCounterName name = Inr (sid, d)"
proof -
  from assms(2) have d: "d = ''uplink'' \<or> d = ''downlink''" "sid \<noteq> ''''"
    and name: "name = ''user'' @ ''>>>'' @ sid @ ''>>>'' @ ''traffic'' @ ''>>>'' @ d"
    by (auto simp: CounterName_def Uplink_def Downlink_def split: if_splits)
  have last: "split_delim [] d = [d]"
    using d(1) split_delim_last [of d "[]"] by auto
  have "split_delim [] name = [''user'', sid, ''traffic'', d]"
    using assms(1) last split_delim_step [of "''user''" "[]"] split_delim_step [of sid "[]"]
      split_delim_step [of "''traffic''" "[]"]
    by (simp add: name del: split_delim.simps)
  with d show ?thesis by (auto simp: ParseCounterName_def)
qed

lemma fingerprint_cut:
  assumes "CHR 0x00 \<notin> set x"
  shows "takeWhile (\<lambda>c. c \<noteq> CHR 0x00) (x @ fingerprint_preimage xs) = x"
proof -
  have "takeWhile (\<lambda>c. c \<noteq> CHR 0x00) (x @ ys) = x @ takeWhile (\<lambda>c. c \<noteq> CHR 0x00) ys" for ys
    using assms by (induction x) auto
  then show ?thesis
    using assms
    by (cases xs) (auto simp add: fingerprint_preimage_def simp del: takeWhile_append)
qed

lemma fingerprint_preimage_inj:
  assumes "fingerprint_preimage ps = fingerprint_preimage qs"
    and "\<forall>p \<in> set ps \<union> set qs. CHR 0x00 \<notin> set p"
  shows "ps = qs"
  using assms
proof (induction ps arbitrary: qs)
  case Nil
  then show ?case by (cases qs) (auto simp: fingerprint_preimage_def)
next
  case (Cons p ps)
  from Cons.prems obtain q qs' where qs: "qs = q # qs'"
    by (cases qs) (auto simp: fingerprint_preimage_def)
  have eq: "p @ fingerprint_preimage ps = q @ fingerprint_preimage qs'"
    using Cons.prems(1) by (simp add: qs fingerprint_preimage_def)
  from Cons.prems(2) have "p = q"
    using fingerprint_cut [of p ps] fingerprint_cut [of q qs'] eq by (simp add: qs)
  with eq Cons show ?case by (auto simp: qs)
qed

lemma has_control_chars: "\<forall>c \<in> set s. CHR 0x20 \<le> c \<and> c < CHR 0x7F \<Longrightarrow> \<not> has_control s"
  by (induction s) (auto simp: less_char_def less_eq_char_def)

lemma ValidateInboundTag_Valid: "Valid i \<Longrightarrow> ValidateInboundTag (InboundTag i) = Inr ()"
proof -
  assume valid: "Valid i"
  have plain: "\<forall>c \<in> set (''xpanel-'' @ i). CHR 0x20 \<le> c \<and> c < CHR 0x7F"
  proof -
    have "CHR 0x20 \<le> c \<and> c < CHR 0x7F" if "c = CHR ''-'' \<or> lower_hex c" for c
      using that by (auto simp: lower_hex_def less_eq_char_def less_char_def)
    then show ?thesis
      using Valid_chars [OF valid] by (auto simp: less_eq_char_def less_char_def)
  qed
  have "CHR ''>'' \<notin> set (''xpanel-'' @ i)" using gt_not_in_Valid [OF valid] by simp
  then have "\<not> Contains (''xpanel-'' @ i) ''>>>''" by (rule not_Contains [rotated]) simp
  moreover have "i \<noteq> ''''" using valid by (auto simp: Valid_def)
  ultimately show ?thesis
    using has_control_chars [OF plain]
    by (simp add: ValidateInboundTag_def InboundTag_def IsPanelNamespace_def NamespacePrefix_def
      HasPrefix_def del: Contains.simps has_control.simps)
qed

section \<open>Properties\<close>

text \<open>
  C39: the identifier of a new allocation is accepted wherever the program uses it: it is a valid
  identifier, its inbound tag passes \<open>ValidateInboundTag\<close>, it has a statistics identity in the
  panel's namespace, and the counter names built from that identity parse back to it.
\<close>
theorem new_identifier_accepted:
  assumes "length rnd = 16"
  shows "Valid (NewID rnd) \<and> ValidateInboundTag (InboundTag (NewID rnd)) = Inr () \<and>
    (\<exists>sid up down. StatisticsID (NewID rnd) = Inr sid \<and> IsPanelNamespace sid \<and>
       CounterName sid Uplink = Inr up \<and> ParseCounterName up = Inr (sid, Uplink) \<and>
       CounterName sid Downlink = Inr down \<and> ParseCounterName down = Inr (sid, Downlink))"
proof -
  have pattern: "uuidPattern (NewID rnd)" using assms by (rule NewID_shape)
  then have valid: "Valid (NewID rnd)" by (simp add: uuidPattern_def)
  define sid where "sid = ''xpanel-'' @ NewID rnd"
  have stat: "StatisticsID (NewID rnd) = Inr sid"
    using pattern asciiLower_Valid [OF valid] by (simp add: StatisticsID_Inr sid_def)
  have no_gt: "CHR ''>'' \<notin> set sid" using gt_not_in_Valid [OF valid] by (simp add: sid_def)
  have names: "CounterName sid Uplink = Inr (''user>>>'' @ sid @ ''>>>traffic>>>'' @ Uplink)"
    "CounterName sid Downlink = Inr (''user>>>'' @ sid @ ''>>>traffic>>>'' @ Downlink)"
    by (simp_all add: CounterName_def sid_def)
  have tag: "ValidateInboundTag (InboundTag (NewID rnd)) = Inr ()"
    using valid by (rule ValidateInboundTag_Valid)
  have "IsPanelNamespace sid"
    unfolding IsPanelNamespace_def NamespacePrefix_def sid_def by (rule HasPrefix_append)
  then show ?thesis
    using valid tag stat names no_gt ParseCounterName_CounterName by blast
qed

theorem new_identifier_accepted_witness:
  "Valid (NewID (replicate 16 0)) \<and>
   ValidateInboundTag (InboundTag (NewID (replicate 16 0))) = Inr ()"
  using new_identifier_accepted [of "replicate 16 0"] by simp



end
