(* ===== verification/User_Model.thy ===== *)
theory User_Model
  imports Identity
begin

text \<open>
  Managed users, access allocations and credentials: \<open>internal/domain/user.go\<close>, with the
  dedicated inbound and the truth table of its presence from \<open>internal/domain/inbound.go\<close>.
\<close>

datatype LifecycleState = LifecycleActive | LifecycleDeleted
datatype QuotaState = QuotaWithinLimit | QuotaExceeded

datatype ProjectionState =
    ProjectionUnknown | ProjectionPending | ProjectionPresent | ProjectionAbsent | ProjectionError

record ManagedUser =
  mu_ID :: ID
  mu_DisplayName :: string
  mu_NormalizedName :: string
  mu_Lifecycle :: LifecycleState
  mu_Revision :: Revision
  mu_CreatedAt :: "instant"
  mu_UpdatedAt :: "instant"
  mu_DeletedAt :: "instant option"

record AccessAllocation =
  al_ID :: ID
  al_UserID :: ID
  al_TemplateID :: ID
  al_IdentityID :: ID
  al_AdminEnabled :: bool
  al_QuotaState :: QuotaState
  al_ProjectionState :: ProjectionState
  al_ObservedPresent :: "bool option"
  al_DesiredRevision :: Revision
  al_SyncedRevision :: Revision
  al_DesiredCredentialVersion :: int
  al_SyncedCredentialVersion :: "int option"
  al_LastSyncAt :: "instant option"
  al_LastSyncErrorCode :: string
  al_LastSyncErrorSummary :: string
  al_CreatedAt :: "instant"
  al_UpdatedAt :: "instant"

text \<open>The only truth table of whether a dedicated inbound listens.\<close>

definition InboundDesiredPresent :: "LifecycleState \<Rightarrow> bool \<Rightarrow> QuotaState \<Rightarrow> bool" where
  "InboundDesiredPresent lifecycle adminEnabled quota \<longleftrightarrow>
     lifecycle = LifecycleActive \<and> adminEnabled \<and> quota = QuotaWithinLimit"

definition DesiredPresent :: "AccessAllocation \<Rightarrow> ManagedUser \<Rightarrow> bool" where
  "DesiredPresent a user =
     InboundDesiredPresent (mu_Lifecycle user) (al_AdminEnabled a) (al_QuotaState a)"

datatype DisplayState =
    DisplayDeleted | DisplayDisabling | DisplayDisabled | DisplayQuotaDisabling
  | DisplayQuotaExceeded | DisplayEnabling | DisplayActive

definition display_state :: "AccessAllocation \<Rightarrow> ManagedUser \<Rightarrow> DisplayState" where
  "display_state a user =
     (if mu_Lifecycle user = LifecycleDeleted then DisplayDeleted
      else if \<not> al_AdminEnabled a \<and>
              (al_ProjectionState a = ProjectionPresent \<or> al_ProjectionState a = ProjectionPending)
      then DisplayDisabling
      else if \<not> al_AdminEnabled a then DisplayDisabled
      else if al_QuotaState a = QuotaExceeded \<and>
              (al_ProjectionState a = ProjectionPresent \<or> al_ProjectionState a = ProjectionPending)
      then DisplayQuotaDisabling
      else if al_QuotaState a = QuotaExceeded then DisplayQuotaExceeded
      else if al_ProjectionState a \<noteq> ProjectionPresent then DisplayEnabling
      else DisplayActive)"

definition PendingSync :: "AccessAllocation \<Rightarrow> bool" where
  "PendingSync a \<longleftrightarrow> al_DesiredRevision a \<noteq> al_SyncedRevision a \<or>
     al_ProjectionState a = ProjectionUnknown \<or> al_ProjectionState a = ProjectionPending \<or>
     al_ProjectionState a = ProjectionError"

datatype CredentialState =
    CredentialPending | CredentialActive | CredentialRetired | CredentialDestroyed

record AccessCredential =
  cr_ID :: ID
  cr_AllocationID :: ID
  cr_Version :: int
  cr_State :: CredentialState
  cr_KeyCiphertext :: "8 word list"
  cr_KeyNonce :: "8 word list"
  cr_KeyEncryptionVersion :: int
  cr_CreatedAt :: "instant"
  cr_ActivatedAt :: "instant option"
  cr_RetiredAt :: "instant option"

text \<open>The loop of \<open>ValidateCredentialSet\<close> carries the counts of pending and active credentials.\<close>

fun validate_credentials :: "int \<Rightarrow> int \<Rightarrow> AccessCredential list \<Rightarrow> err + unit" where
  "validate_credentials pending active [] =
     (if pending > 1 \<or> active > 1
      then Inl (InvalidStateError ''allocation has multiple pending or active credentials'')
      else Inr ())"
| "validate_credentials pending active (c # cs) =
     (if cr_Version c < 1 then Inl (InvalidStateError ''credential version must be positive'')
      else if cr_State c = CredentialDestroyed \<and> (cr_KeyCiphertext c \<noteq> [] \<or> cr_KeyNonce c \<noteq> [])
      then Inl (InvalidStateError ''destroyed credential retains key material'')
      else if cr_State c \<noteq> CredentialDestroyed \<and> (cr_KeyCiphertext c = [] \<or> cr_KeyNonce c = [])
      then Inl (InvalidStateError ''usable credential lacks key material'')
      else validate_credentials (if cr_State c = CredentialPending then pending + 1 else pending)
             (if cr_State c = CredentialActive then active + 1 else active) cs)"

definition ValidateCredentialSet :: "AccessCredential list \<Rightarrow> err + unit" where
  "ValidateCredentialSet credentials = validate_credentials 0 0 credentials"

record DedicatedInbound =
  di_AllocationID :: ID
  di_TemplateID :: ID
  di_InboundTag :: string
  di_ListenAddress :: string
  di_Port :: int
  di_DesiredPresent :: bool
  di_ObservedPresent :: "bool option"
  di_LastSyncAt :: "instant option"
  di_ReleasedAt :: "instant option"
  di_CreatedAt :: "instant"
  di_UpdatedAt :: "instant"

definition Assigned :: "DedicatedInbound \<Rightarrow> bool" where
  "Assigned i \<longleftrightarrow> di_ReleasedAt i = None"

section \<open>Lemmas\<close>

text \<open>What a well-formed credential is, and how many of a state a list has.\<close>

definition credential_ok :: "AccessCredential \<Rightarrow> bool" where
  "credential_ok c \<longleftrightarrow> cr_Version c \<ge> 1 \<and>
     (cr_State c = CredentialDestroyed \<longrightarrow> cr_KeyCiphertext c = [] \<and> cr_KeyNonce c = []) \<and>
     (cr_State c \<noteq> CredentialDestroyed \<longrightarrow> cr_KeyCiphertext c \<noteq> [] \<and> cr_KeyNonce c \<noteq> [])"

definition count_state :: "CredentialState \<Rightarrow> AccessCredential list \<Rightarrow> int" where
  "count_state st cs = int (length (filter (\<lambda>c. cr_State c = st) cs))"

lemma count_state_Nil [simp]: "count_state st [] = 0"
  by (simp add: count_state_def)

lemma count_state_Cons [simp]:
  "count_state st (c # cs) = (if cr_State c = st then 1 else 0) + count_state st cs"
  by (simp add: count_state_def)

lemma validate_credentials_ok:
  "validate_credentials p a cs = Inr () \<longleftrightarrow> (\<forall>c \<in> set cs. credential_ok c) \<and>
     p + count_state CredentialPending cs \<le> 1 \<and> a + count_state CredentialActive cs \<le> 1"
  by (induction p a cs rule: validate_credentials.induct)
    (auto simp: credential_ok_def)

lemma display_state_Active:
  "display_state a u = DisplayActive \<longleftrightarrow> DesiredPresent a u \<and> al_ProjectionState a = ProjectionPresent"
  by (cases "mu_Lifecycle u"; cases "al_QuotaState a")
    (auto simp: display_state_def DesiredPresent_def InboundDesiredPresent_def)

lemma display_state_Enabling:
  "display_state a u = DisplayEnabling \<longleftrightarrow> DesiredPresent a u \<and> al_ProjectionState a \<noteq> ProjectionPresent"
  by (cases "mu_Lifecycle u"; cases "al_QuotaState a")
    (auto simp: display_state_def DesiredPresent_def InboundDesiredPresent_def)

section \<open>Properties\<close>

text \<open>
  C36: a credential set is accepted exactly when every version is positive, key material is present
  exactly on the credentials not destroyed, and there is at most one pending and one active version.
\<close>
theorem credential_set_iff:
  "ValidateCredentialSet cs = Inr () \<longleftrightarrow> list_all credential_ok cs \<and>
     length (filter (\<lambda>c. cr_State c = CredentialPending) cs) \<le> 1 \<and>
     length (filter (\<lambda>c. cr_State c = CredentialActive) cs) \<le> 1"
  unfolding ValidateCredentialSet_def validate_credentials_ok by (auto simp: count_state_def list_all_iff)

text \<open>
  C40: the state shown to the administrator is active or enabling exactly when the truth table wants
  the inbound present, and active only once it was seen present; the other states never hide a
  desired inbound.
\<close>
theorem display_matches_presence:
  "(display_state a u \<in> {DisplayActive, DisplayEnabling} \<longleftrightarrow> DesiredPresent a u) \<and>
   (display_state a u = DisplayActive \<longleftrightarrow>
      DesiredPresent a u \<and> al_ProjectionState a = ProjectionPresent) \<and>
   (display_state a u = DisplayDeleted \<longleftrightarrow> mu_Lifecycle u = LifecycleDeleted)"
  using display_state_Active [of a u] display_state_Enabling [of a u]
  by (auto simp: display_state_def)

end
