(* ===== verification/Template_Model.thy ===== *)
theory Template_Model
  imports Port_Pool User_Model
begin

text \<open>
  Inbound templates and statistics identities: the data of \<open>internal/domain/template.go\<close>.
\<close>

datatype CompatibilityState =
    CompatibilityUnverified | CompatibilityCompatible | CompatibilityIncompatible
  | CompatibilityUnreachable

datatype Network = NetworkTCP | NetworkUDP | NetworkTCPUDP

record InboundTemplate =
  tm_ID :: ID
  tm_InstanceID :: ID
  tm_Name :: string
  tm_NormalizedName :: string
  tm_PublicHost :: string
  tm_ListenAddress :: string
  tm_Pool :: PortPool
  tm_Method :: string
  tm_Network :: Network
  tm_Compatibility :: CompatibilityState
  tm_CompatibilityReason :: string
  tm_LastValidatedAt :: "instant option"
  tm_ValidatedGeneration :: int
  tm_Revision :: Revision
  tm_ArchivedAt :: "instant option"
  tm_CreatedAt :: "instant"
  tm_UpdatedAt :: "instant"

text \<open>The state is a value of the type here, so the code's check of it always passes.\<close>

definition ApplyCompatibility ::
  "InboundTemplate \<Rightarrow> CompatibilityState \<Rightarrow> string \<Rightarrow> instant \<Rightarrow> InboundTemplate" where
  "ApplyCompatibility p state reason now =
     p\<lparr>tm_Compatibility := state, tm_CompatibilityReason := reason,
       tm_LastValidatedAt := Some now, tm_UpdatedAt := now\<rparr>"

datatype IdentityKind = IdentityManaged

record XrayUserIdentity =
  xi_ID :: ID
  xi_InstanceID :: ID
  xi_TemplateID :: ID
  xi_StatisticsID :: string
  xi_Kind :: IdentityKind
  xi_CreatedAt :: "instant"

end
