(* ===== verification/Sync_Model.thy ===== *)
theory Sync_Model
  imports User_Model "HOL-Library.Signed_Division"
begin

text \<open>
  Synchronization operations, the intents a worker carries out on Xray: \<open>internal/domain/sync.go\<close>.
  The lease owner is a \<open>string option\<close> as its column is nullable; the code's \<open>""\<close> is \<open>None\<close>.
\<close>

datatype SyncReason =
    SyncCreate | SyncEnable | SyncDisable | SyncQuotaBlock | SyncQuotaRestore | SyncRotate
  | SyncDelete | SyncReconcile | SyncPortChange

datatype SyncPhase =
    SyncCreateInbound | SyncRemoveInbound | SyncRemoveOld | SyncAddDesired | SyncConfirm | SyncDone

datatype SyncState =
    SyncPending | SyncLeased | SyncRetryWait | SyncSucceeded | SyncSuperseded | SyncPermanentFailed

record SynchronizationOperation =
  op_ID :: ID
  op_AllocationID :: ID
  op_DesiredRevision :: Revision
  op_DesiredPresence :: bool
  op_DesiredCredentialVersion :: "int option"
  op_Reason :: SyncReason
  op_Phase :: SyncPhase
  op_State :: SyncState
  op_IdempotencyKey :: string
  op_AttemptCount :: int
  op_NextAttemptAt :: "instant"
  op_LeaseOwner :: "string option"
  op_LeaseExpiresAt :: "instant option"
  op_LastErrorCode :: string
  op_LastErrorSummary :: string
  op_CreatedAt :: "instant"
  op_StartedAt :: "instant option"
  op_CompletedAt :: "instant option"

definition InboundPhaseFor :: "bool \<Rightarrow> SyncPhase" where
  "InboundPhaseFor present = (if present then SyncCreateInbound else SyncRemoveInbound)"

text \<open>\<open>%d\<close> of an \<open>int64\<close>.\<close>

function nat_digits :: "nat \<Rightarrow> string" where
  "nat_digits n = (if n < 10 then [''0123456789'' ! n]
     else nat_digits (n div 10) @ [''0123456789'' ! (n mod 10)])"
  by pat_completeness auto
termination by (relation "measure id") auto

declare nat_digits.simps [simp del]

definition int_digits :: "int \<Rightarrow> string" where
  "int_digits i = (if i < 0 then CHR ''-'' # nat_digits (nat (- i)) else nat_digits (nat i))"

fun phase_string :: "SyncPhase \<Rightarrow> string" where
  "phase_string SyncCreateInbound = ''create_inbound''"
| "phase_string SyncRemoveInbound = ''remove_inbound''"
| "phase_string SyncRemoveOld = ''remove_old''"
| "phase_string SyncAddDesired = ''add_desired''"
| "phase_string SyncConfirm = ''confirm''"
| "phase_string SyncDone = ''done''"

definition SyncIdempotencyKey :: "ID \<Rightarrow> Revision \<Rightarrow> SyncPhase \<Rightarrow> string" where
  "SyncIdempotencyKey allocationID revision phase =
     allocationID @ '':'' @ int_digits revision @ '':'' @ phase_string phase"

definition NewSynchronizationOperation ::
  "ID \<Rightarrow> ID \<Rightarrow> Revision \<Rightarrow> bool \<Rightarrow> int option \<Rightarrow> SyncReason \<Rightarrow> SyncPhase \<Rightarrow> instant \<Rightarrow>
   SynchronizationOperation" where
  "NewSynchronizationOperation i allocationID revision present credentialVersion reason phase now =
     \<lparr>op_ID = i, op_AllocationID = allocationID, op_DesiredRevision = revision,
      op_DesiredPresence = present, op_DesiredCredentialVersion = credentialVersion,
      op_Reason = reason, op_Phase = phase, op_State = SyncPending,
      op_IdempotencyKey = SyncIdempotencyKey allocationID revision phase,
      op_AttemptCount = 0, op_NextAttemptAt = now, op_LeaseOwner = None, op_LeaseExpiresAt = None,
      op_LastErrorCode = '''', op_LastErrorSummary = '''', op_CreatedAt = now,
      op_StartedAt = None, op_CompletedAt = None\<rparr>"

text \<open>\<open>Supersede\<close> reports whether it changed the operation.\<close>

definition Supersede ::
  "SynchronizationOperation \<Rightarrow> Revision \<Rightarrow> instant \<Rightarrow> bool \<times> SynchronizationOperation" where
  "Supersede o1 current now =
     (if op_DesiredRevision o1 \<ge> current \<or> op_State o1 = SyncSucceeded \<or> op_State o1 = SyncSuperseded
      then (False, o1)
      else (True, o1\<lparr>op_State := SyncSuperseded, op_CompletedAt := Some now,
                     op_LeaseOwner := None, op_LeaseExpiresAt := None\<rparr>))"

text \<open>
  The loop of \<open>NextBackoff\<close>. Its counter goes up to \<open>attempt\<close>, so it runs at most that many times;
  \<open>max / 2\<close> is Go's truncating division, on a positive number.
\<close>

fun backoff_loop :: "nat \<Rightarrow> duration \<Rightarrow> duration \<Rightarrow> duration" where
  "backoff_loop 0 capDuration limit = capDuration"
| "backoff_loop (Suc n) capDuration limit =
     (if capDuration < limit
      then if capDuration > limit div 2 then limit else backoff_loop n (wrap64 (capDuration * 2)) limit
      else capDuration)"

definition backoff_cap :: "int \<Rightarrow> duration \<Rightarrow> duration" where
  "backoff_cap attempt limit =
     (let m = (if limit \<le> 0 then 30 * Second else limit);
          a = (if attempt < 0 then 0 else attempt);
          c = backoff_loop (nat a) Second m
      in if c > m then m else c)"

text \<open>
  \<open>random\<close> is the caller's generator (\<open>None\<close> for nil). Go's \<open>-value\<close> of the least \<open>int64\<close> is
  itself, and \<open>%\<close> has the sign of the dividend.
\<close>

definition NextBackoff :: "int \<Rightarrow> duration \<Rightarrow> (int \<Rightarrow> int) option \<Rightarrow> duration" where
  "NextBackoff attempt limit random =
     (let c = backoff_cap attempt limit in
      case random of None \<Rightarrow> c
      | Some r \<Rightarrow>
          (let v = r (wrap64 (c + 1));
               value = (if v < 0 then wrap64 (- v) else v)
           in value smod wrap64 (c + 1)))"

section \<open>Lemmas\<close>

definition MaxDuration :: duration where "MaxDuration = 2 ^ 63 - 1"

lemma backoff_loop_mono:
  assumes "0 < c" "c \<le> m" "int64_range m"
  shows "backoff_loop n c m = min m (2 ^ n * c)"
  using assms
proof (induction n arbitrary: c)
  case (Suc n)
  show ?case
  proof (cases "c < m \<and> \<not> c > m div 2")
    case True
    then have range: "int64_range (c * 2)" and le: "0 < c * 2" "c * 2 \<le> m"
      using Suc.prems by (auto simp: int64_range_def)
    then have "backoff_loop (Suc n) c m = backoff_loop n (c * 2) m"
      using True by simp
    also have "\<dots> = min m (2 ^ n * (c * 2))"
      using Suc.IH [of "c * 2"] le Suc.prems by simp
    finally show ?thesis by (simp add: mult_ac)
  next
    case False
    have "1 * c \<le> 2 ^ n * c" using Suc.prems by (intro mult_right_mono) auto
    moreover have "m \<le> 2 * c" using False Suc.prems by auto
    ultimately have "m \<le> 2 ^ Suc n * c" by simp
    then have "min m (2 ^ Suc n * c) = m" by (rule min_absorb1)
    moreover have "backoff_loop (Suc n) c m = m" using False Suc.prems by auto
    ultimately show ?thesis by simp
  qed
qed simp

lemma backoff_cap_eq:
  assumes "int64_range limit"
  shows "backoff_cap attempt limit =
    min (if limit \<le> 0 then 30 * Second else limit) (2 ^ nat attempt * Second)"
proof -
  let ?m = "if limit \<le> 0 then 30 * Second else limit"
  have m: "0 < ?m" "int64_range ?m" using assms by (auto simp: Second_def int64_range_def)
  have a: "nat (if attempt < 0 then 0 else attempt) = nat attempt" by auto
  show ?thesis
  proof (cases "Second \<le> ?m")
    case True
    then show ?thesis
      using backoff_loop_mono [of Second ?m "nat attempt"] m
      by (simp add: backoff_cap_def Let_def a Second_def)
  next
    case False
    have "(1::int) * Second \<le> 2 ^ nat attempt * Second"
      by (intro mult_right_mono) (auto simp: Second_def)
    moreover have "backoff_loop k Second ?m = Second" for k
      using False by (cases k) auto
    ultimately show ?thesis using False by (simp add: backoff_cap_def Let_def a)
  qed
qed

lemma backoff_cap_pos: "int64_range limit \<Longrightarrow> 0 < backoff_cap attempt limit"
  by (auto simp: backoff_cap_eq Second_def)

lemma Supersede_iff:
  "fst (Supersede o1 current now) \<longleftrightarrow> op_DesiredRevision o1 < current \<and>
     op_State o1 \<notin> {SyncSucceeded, SyncSuperseded}"
  by (auto simp: Supersede_def)

section \<open>Properties\<close>

text \<open>
  C38: the pause before a retry is at most the exponential cap (one second doubled per attempt, never
  above the limit), equals it without a generator, and is never negative whatever \<open>int64\<close> the
  generator yields, except the least \<open>int64\<close>, whose negation wraps.
\<close>
theorem retry_backoff_bounds:
  assumes "int64_range limit" "limit < MaxDuration"
    and "\<And>x. int64_range (r x) \<and> r x \<noteq> MinInt64"
  shows "NextBackoff attempt limit None =
      min (if limit \<le> 0 then 30 * Second else limit) (2 ^ nat attempt * Second) \<and>
    0 \<le> NextBackoff attempt limit (Some r) \<and>
    NextBackoff attempt limit (Some r) \<le> NextBackoff attempt limit None"
proof -
  let ?c = "backoff_cap attempt limit"
  have cap: "?c = min (if limit \<le> 0 then 30 * Second else limit) (2 ^ nat attempt * Second)"
    using assms(1) by (rule backoff_cap_eq)
  have c: "0 < ?c" "?c < MaxDuration"
    using backoff_cap_pos [OF assms(1)] assms(2) by (auto simp: cap Second_def MaxDuration_def)
  then have wrap: "wrap64 (?c + 1) = ?c + 1"
    by (intro wrap64_id) (auto simp: int64_range_def MaxDuration_def)
  define v where "v = (if r (?c + 1) < 0 then wrap64 (- r (?c + 1)) else r (?c + 1))"
  have "0 \<le> v"
  proof (cases "r (?c + 1) < 0")
    case True
    then have "int64_range (- r (?c + 1))"
      using assms(3) [of "?c + 1"] by (auto simp: int64_range_def MinInt64_def)
    with True show ?thesis by (simp add: v_def)
  qed (simp add: v_def)
  then have "0 \<le> v smod (?c + 1)" "v smod (?c + 1) < ?c + 1"
    using smod_int_compares [of v "?c + 1"] c by auto
  moreover have "NextBackoff attempt limit (Some r) = v smod (?c + 1)"
    unfolding NextBackoff_def Let_def option.case wrap v_def ..
  moreover have "NextBackoff attempt limit None = ?c" by (simp add: NextBackoff_def Let_def)
  ultimately show ?thesis using cap by linarith
qed

theorem retry_backoff_bounds_witness:
  "NextBackoff 40 (30 * Second) None = 30 * Second \<and>
   0 \<le> NextBackoff 40 (30 * Second) (Some (\<lambda>_. - 7))"
proof -
  have "int64_range (30 * Second)" "30 * Second < MaxDuration" "\<And>x::int. int64_range (- 7) \<and> - 7 \<noteq> MinInt64"
    by (simp_all add: int64_range_def Second_def MaxDuration_def MinInt64_def)
  from retry_backoff_bounds [OF this, of 40] show ?thesis by (simp add: Second_def)
qed

end
