(* ===== verification/Go_Time.thy ===== *)
theory Go_Time
  imports Prelude
begin

text \<open>
  The part of Go's \<open>time\<close> package the program's quota cycles use: the proleptic Gregorian
  calendar, \<open>Location\<close> as a table of zone transitions, \<open>Time.In\<close>, \<open>Time.Year\<close>, \<open>Month\<close>,
  \<open>Day\<close> and \<open>time.Date\<close> at midnight. A month has the index 12 * year + (month - 1).
\<close>

section \<open>Calendar\<close>

definition is_leap :: "int \<Rightarrow> bool" where
  "is_leap y \<longleftrightarrow> y mod 4 = 0 \<and> (y mod 100 \<noteq> 0 \<or> y mod 400 = 0)"

text \<open>Leap years before the year \<open>y\<close>, and days from 1970-01-01 to the first day of \<open>y\<close>.\<close>

definition leaps :: "int \<Rightarrow> int" where
  "leaps y = (y - 1) div 4 - (y - 1) div 100 + (y - 1) div 400"

definition year_start :: "int \<Rightarrow> int" where
  "year_start y = 365 * (y - 1970) + leaps y - 477"

definition days_before :: "int \<Rightarrow> nat \<Rightarrow> int" where
  "days_before y m =
     [0, 31, 59, 90, 120, 151, 181, 212, 243, 273, 304, 334, 365] ! m
     + (if 2 \<le> m \<and> is_leap y then 1 else 0)"

definition month_start :: "int \<Rightarrow> int" where
  "month_start k = year_start (k div 12) + days_before (k div 12) (nat (k mod 12))"

definition year_of :: "int \<Rightarrow> int" where
  "year_of D = (let g = 1970 + (400 * D) div 146097
     in if D < year_start g then g - 1 else if D \<ge> year_start (g + 1) then g + 1 else g)"

fun month_scan :: "int \<Rightarrow> int \<Rightarrow> nat \<Rightarrow> nat" where
  "month_scan y r 0 = 0"
| "month_scan y r (Suc m) = (if days_before y (Suc m) \<le> r then Suc m else month_scan y r m)"

text \<open>The month index and the day of the month of a day number.\<close>

definition month_index :: "int \<Rightarrow> int" where
  "month_index D = (let y = year_of D in 12 * y + int (month_scan y (D - year_start y) 11))"

definition day_of :: "int \<Rightarrow> int" where
  "day_of D = D - month_start (month_index D) + 1"

section \<open>Locations\<close>

text \<open>
  A location is its first offset and the transitions (second of the transition, offset in
  seconds from then on) in ascending order. \<open>zone_lookup\<close> returns the offset at a second with the
  interval in which it holds, as \<open>Location.lookup\<close> does.
\<close>

record Location =
  loc_first :: int
  loc_tx :: "(int \<times> int) list"

definition UTC :: Location where "UTC = \<lparr>loc_first = 0, loc_tx = []\<rparr>"

fun zone_scan :: "int \<Rightarrow> int \<Rightarrow> (int \<times> int) list \<Rightarrow> int \<Rightarrow> int \<times> int \<times> int" where
  "zone_scan start off [] sec = (off, start, 2 ^ 63 - 1)"
| "zone_scan start off ((w, off2) # tx) sec =
     (if sec < w then (off, start, w) else zone_scan w off2 tx sec)"

definition zone_lookup :: "Location \<Rightarrow> int \<Rightarrow> int \<times> int \<times> int" where
  "zone_lookup l sec = zone_scan (- (2 ^ 63)) (loc_first l) (loc_tx l) sec"

definition offset_at :: "Location \<Rightarrow> int \<Rightarrow> int" where
  "offset_at l sec = fst (zone_lookup l sec)"

definition unix :: "instant \<Rightarrow> int" where
  "unix t = t div Second"

text \<open>The day number of an instant's local date.\<close>

definition local_day :: "Location \<Rightarrow> instant \<Rightarrow> int" where
  "local_day l t = (unix t + offset_at l (unix t)) div 86400"

text \<open>
  \<open>time.Date\<close> at 00:00 of a day: the offset is looked up at the local second as if it were UTC,
  and looked up once more when the resulting instant is outside that zone's interval.
\<close>

definition date_at :: "Location \<Rightarrow> int \<Rightarrow> instant" where
  "date_at l D =
     (let sec = D * 86400; (off, start, stop) = zone_lookup l sec; utc = sec - off;
          off2 = (if off \<noteq> 0 \<and> (utc < start \<or> utc \<ge> stop) then offset_at l utc else off)
      in (sec - off2) * Second)"

text \<open>\<open>time.Date(year, month, day, 0, 0, 0, 0, l)\<close> with the month given by its index.\<close>

definition go_date :: "Location \<Rightarrow> int \<Rightarrow> int \<Rightarrow> instant" where
  "go_date l k d = date_at l (month_start k + d - 1)"

section \<open>The calendar is a calendar\<close>

lemma div_pred:
  assumes "0 < (n::int)"
  shows "y div n = (y - 1) div n + (if y mod n = 0 then 1 else 0)"
proof -
  have eq: "n * (y div n) + y mod n = y" and r: "0 \<le> y mod n" "y mod n < n"
    using assms by simp_all
  show ?thesis
  proof (cases "y mod n = 0")
    case True
    have "n * (y div n - 1) = n * (y div n) - n" by (simp add: right_diff_distrib)
    with eq True have "y - 1 = n * (y div n - 1) + (n - 1)" by linarith
    then have "(y - 1) div n = y div n - 1"
      using assms by (intro int_div_pos_eq [where r = "n - 1"]) auto
    with True show ?thesis by simp
  next
    case False
    have "y - 1 = n * (y div n) + (y mod n - 1)" using eq by simp
    then have "(y - 1) div n = y div n"
      using assms False r by (intro int_div_pos_eq [where r = "y mod n - 1"]) auto
    with False show ?thesis by simp
  qed
qed

lemma year_start_Suc: "year_start (y + 1) = year_start y + (if is_leap y then 366 else 365)"
proof -
  have "(100::int) dvd 400" "(4::int) dvd 100" by simp_all
  then have imp: "y mod 400 = 0 \<Longrightarrow> y mod 100 = 0" "y mod 100 = 0 \<Longrightarrow> y mod 4 = 0"
    by (simp only: mod_eq_0_iff_dvd, blast intro: dvd_trans)+
  define b4 b100 b400 where "b4 \<longleftrightarrow> y mod 4 = 0" and "b100 \<longleftrightarrow> y mod 100 = 0" and "b400 \<longleftrightarrow> y mod 400 = 0"
  define q4 q100 q400 where "q4 = (y - 1) div 4" and "q100 = (y - 1) div 100" and "q400 = (y - 1) div 400"
  have "y div 4 = q4 + (if b4 then 1 else 0)" "y div 100 = q100 + (if b100 then 1 else 0)"
    "y div 400 = q400 + (if b400 then 1 else 0)"
    unfolding q4_def q100_def q400_def b4_def b100_def b400_def by (rule div_pred, simp)+
  then have "leaps (y + 1) = q4 + (if b4 then 1 else 0) - (q100 + (if b100 then 1 else 0))
      + (q400 + (if b400 then 1 else 0))"
    unfolding leaps_def by (simp only: add_diff_cancel_right')
  moreover have "leaps y = q4 - q100 + q400"
    by (simp only: leaps_def q4_def q100_def q400_def)
  moreover have "is_leap y \<longleftrightarrow> b4 \<and> (\<not> b100 \<or> b400)" "b400 \<longrightarrow> b100" "b100 \<longrightarrow> b4"
    using imp unfolding is_leap_def b4_def b100_def b400_def by blast+
  ultimately show ?thesis
    unfolding year_start_def by (cases b4; cases b100; cases b400) simp_all
qed

lemma year_start_bounds:
  "146097 * (y - 1970) - 800 \<le> 400 * year_start y" "400 * year_start y \<le> 146097 * (y - 1970) + 800"
proof -
  define z where "z = y - 1"
  have "4 * (z div 4) \<le> z" "z < 4 * (z div 4) + 4" by linarith+
  moreover have "100 * (z div 100) \<le> z" "z < 100 * (z div 100) + 100" by linarith+
  moreover have "400 * (z div 400) \<le> z" "z < 400 * (z div 400) + 400" by linarith+
  ultimately show "146097 * (y - 1970) - 800 \<le> 400 * year_start y"
    "400 * year_start y \<le> 146097 * (y - 1970) + 800"
    unfolding year_start_def leaps_def z_def [symmetric] by (simp_all add: z_def)
qed

lemma year_of_bounds: "year_start (year_of D) \<le> D" "D < year_start (year_of D + 1)"
proof -
  define g where "g = 1970 + (400 * D) div 146097"
  have g: "146097 * (g - 1970) \<le> 400 * D" "400 * D < 146097 * (g - 1969)"
  proof -
    define q r where "q = 400 * D div 146097" and "r = 400 * D mod 146097"
    have "146097 * q + r = 400 * D" "0 \<le> r" "r < 146097"
      unfolding q_def r_def by simp_all
    moreover have "g = 1970 + q" by (simp add: g_def q_def)
    ultimately show "146097 * (g - 1970) \<le> 400 * D" "400 * D < 146097 * (g - 1969)"
      by simp_all
  qed
  have "year_start (g - 1) \<le> D" "D < year_start (g + 2)"
    using g year_start_bounds [of "g - 1"] year_start_bounds [of "g + 2"] by (simp_all add: algebra_simps)
  then have "year_start (year_of D) \<le> D \<and> D < year_start (year_of D + 1)"
    by (auto simp: year_of_def Let_def g_def [symmetric] add.commute)
  then show "year_start (year_of D) \<le> D" "D < year_start (year_of D + 1)" by auto
qed

lemma month_scan_props:
  assumes "0 \<le> r"
  shows "month_scan y r m \<le> m \<and> days_before y (month_scan y r m) \<le> r \<and>
         (month_scan y r m < m \<longrightarrow> r < days_before y (Suc (month_scan y r m)))"
  using assms by (induction m) (auto simp: days_before_def le_Suc_eq)

lemma days_before_step:
  assumes "m < 12"
  shows "28 \<le> days_before y (Suc m) - days_before y m" "days_before y (Suc m) - days_before y m \<le> 31"
proof -
  from assms have "m = 0 \<or> m = 1 \<or> m = 2 \<or> m = 3 \<or> m = 4 \<or> m = 5 \<or> m = 6 \<or> m = 7 \<or> m = 8 \<or>
    m = 9 \<or> m = 10 \<or> m = 11" by presburger
  then show "28 \<le> days_before y (Suc m) - days_before y m"
    "days_before y (Suc m) - days_before y m \<le> 31"
    by (elim disjE; simp add: days_before_def)+
qed

lemma month_start_12: "0 \<le> m \<Longrightarrow> m < 12 \<Longrightarrow> month_start (12 * y + m) = year_start y + days_before y (nat m)"
  by (simp add: month_start_def)

lemma month_start_next:
  "month_start (12 * y + int m + 1) = year_start y + days_before y (Suc m)" if "m < 12"
proof (cases "m = 11")
  case True
  have "month_start (12 * y + int m + 1) = month_start (12 * (y + 1) + 0)"
    using True by (simp add: algebra_simps)
  also have "\<dots> = year_start (y + 1)"
    by (subst month_start_12) (auto simp: days_before_def)
  finally show ?thesis using True by (simp add: year_start_Suc days_before_def)
next
  case False
  have "month_start (12 * y + int m + 1) = month_start (12 * y + (int m + 1))"
    by (simp add: algebra_simps)
  also have "\<dots> = year_start y + days_before y (Suc m)"
    using False that by (subst month_start_12) (auto simp: nat_add_distrib)
  finally show ?thesis .
qed

lemma month_length:
  "28 \<le> month_start (k + 1) - month_start k" "month_start (k + 1) - month_start k \<le> 31"
proof -
  define y m where "y = k div 12" and "m = nat (k mod 12)"
  have m: "m < 12" and k: "k = 12 * y + int m" by (auto simp: y_def m_def)
  have "month_start (k + 1) - month_start k = days_before y (Suc m) - days_before y m"
    unfolding k using month_start_next [OF m] month_start_12 [of "int m" y] m by simp
  then show "28 \<le> month_start (k + 1) - month_start k" "month_start (k + 1) - month_start k \<le> 31"
    using days_before_step [OF m] by auto
qed

lemma month_index_bounds:
  "month_start (month_index D) \<le> D" "D < month_start (month_index D + 1)"
proof -
  define y where "y = year_of D"
  define r where "r = D - year_start y"
  define m where "m = month_scan y r 11"
  have r: "0 \<le> r" using year_of_bounds [of D] by (simp add: r_def y_def)
  have m: "m \<le> 11" "days_before y m \<le> r" "m < 11 \<Longrightarrow> r < days_before y (Suc m)"
    using month_scan_props [OF r, of y 11] by (auto simp: m_def)
  have last: "r < days_before y 12"
    using year_of_bounds (2) [of D]
    by (simp add: r_def y_def year_start_Suc days_before_def split: if_splits)
  have mi: "month_index D = 12 * y + int m"
    by (simp add: month_index_def y_def r_def m_def Let_def)
  have "month_start (month_index D) = year_start y + days_before y m"
    using month_start_12 [of "int m" y] m(1) by (simp add: mi)
  then show "month_start (month_index D) \<le> D" using m(2) by (simp add: r_def)
  have "month_start (month_index D + 1) = year_start y + days_before y (Suc m)"
    unfolding mi using month_start_next [of m y] m(1) by simp
  moreover have "r < days_before y (Suc m)"
    using m last by (cases "m = 11") auto
  ultimately show "D < month_start (month_index D + 1)" by (simp add: r_def)
qed

lemma month_start_mono: "j < k \<Longrightarrow> month_start j < month_start k"
proof (induction "nat (k - j)" arbitrary: k)
  case (Suc n)
  show ?case
  proof (cases "j = k - 1")
    case True
    then show ?thesis using month_length [of j] by simp
  next
    case False
    with Suc have "month_start j < month_start (k - 1)" by simp
    then show ?thesis using month_length [of "k - 1"] by simp
  qed
qed simp

lemma month_index_unique:
  assumes "month_start k \<le> D" "D < month_start (k + 1)"
  shows "month_index D = k"
proof (rule ccontr)
  assume "month_index D \<noteq> k"
  then consider "month_index D + 1 < k \<or> month_index D + 1 = k" | "k + 1 < month_index D \<or> k + 1 = month_index D"
    by linarith
  then show False
    using assms month_index_bounds [of D] month_start_mono [of "month_index D + 1" k]
      month_start_mono [of "k + 1" "month_index D"] by cases auto
qed

lemma day_of_range: "1 \<le> day_of D" "day_of D \<le> 31"
  using month_index_bounds [of D] month_length [of "month_index D"] by (auto simp: day_of_def)

lemma month_index_reset_day:
  "1 \<le> d \<Longrightarrow> d \<le> 28 \<Longrightarrow> month_index (month_start k + d - 1) = k"
  by (rule month_index_unique) (use month_length [of k] in auto)

section \<open>Zones of constant offset\<close>

lemma lookup_fixed: "loc_tx l = [] \<Longrightarrow> zone_lookup l s = (loc_first l, - (2 ^ 63), 2 ^ 63 - 1)"
  by (simp add: zone_lookup_def)

lemma date_at_fixed: "loc_tx l = [] \<Longrightarrow> date_at l D = (D * 86400 - loc_first l) * Second"
  by (simp add: date_at_def lookup_fixed offset_at_def Let_def)

lemma local_day_fixed: "loc_tx l = [] \<Longrightarrow> local_day l t = (unix t + loc_first l) div 86400"
  by (simp add: local_day_def offset_at_def lookup_fixed)

lemma local_day_date_at: "loc_tx l = [] \<Longrightarrow> local_day l (date_at l D) = D"
  by (simp add: local_day_fixed date_at_fixed unix_def Second_def)

lemma date_at_le_iff:
  assumes "loc_tx l = []"
  shows "date_at l D \<le> t \<longleftrightarrow> D \<le> local_day l t"
proof -
  have "date_at l D \<le> t \<longleftrightarrow> D * 86400 - loc_first l \<le> unix t"
    by (simp add: date_at_fixed [OF assms] unix_def Second_def) linarith
  also have "\<dots> \<longleftrightarrow> D \<le> local_day l t"
    by (simp add: local_day_fixed [OF assms]) linarith
  finally show ?thesis .
qed

end
