(* ===== verification/Quota_Model.thy ===== *)
theory Quota_Model
  imports Sync_Model Go_Time
begin

text \<open>
  Quotas, natural-month cycles and the transition decision: \<open>internal/domain/quota.go\<close>. Byte
  counts are \<open>int64\<close> values, as \<open>int\<close> with the overflow checks of the code; a nil limit or location
  is \<open>None\<close>.
\<close>

definition MaxLimitBytes :: int where "MaxLimitBytes = 2 ^ 62"
definition MaxInt64 :: int where "MaxInt64 = 2 ^ 63 - 1"

definition ValidateQuotaPolicy :: "int option \<Rightarrow> int \<Rightarrow> err + unit" where
  "ValidateQuotaPolicy limit resetDay =
     (if resetDay < 1 \<or> resetDay > 28
      then Inl (ValidationError ''reset_day'' ''reset day must be between 1 and 28'')
      else case limit of
        None \<Rightarrow> Inr ()
      | Some l \<Rightarrow> if l \<le> 0 \<or> l > MaxLimitBytes
          then Inl (ValidationError ''limit_bytes'' ''quota must be positive and at most 2^62 bytes'')
          else Inr ())"

text \<open>The second component reports overflow; the subtraction in the guard cannot wrap.\<close>

definition addBytes :: "int \<Rightarrow> int \<Rightarrow> int \<times> bool" where
  "addBytes a b =
     (if a < 0 \<or> b < 0 then (0, True)
      else if a > wrap64 (MaxInt64 - b) then (0, True)
      else (wrap64 (a + b), False))"

definition IsQuotaExceeded :: "int option \<Rightarrow> int \<Rightarrow> int \<Rightarrow> bool" where
  "IsQuotaExceeded limit accountedUplink accountedDownlink =
     (case limit of None \<Rightarrow> False
      | Some l \<Rightarrow> (case addBytes accountedUplink accountedDownlink of
          (tot, ovf) \<Rightarrow> if ovf then True else tot \<ge> l))"

definition the_location :: "Location option \<Rightarrow> Location" where
  "the_location location = (case location of None \<Rightarrow> UTC | Some l \<Rightarrow> l)"

definition NextCycleStart :: "instant \<Rightarrow> Location option \<Rightarrow> int \<Rightarrow> instant" where
  "NextCycleStart start location resetDay =
     (let l = the_location location in go_date l (month_index (local_day l start) + 1) resetDay)"

definition CycleBounds :: "instant \<Rightarrow> Location option \<Rightarrow> int \<Rightarrow> err + (instant \<times> instant)" where
  "CycleBounds now location resetDay =
     (let l = the_location location in
      if resetDay < 1 \<or> resetDay > 28
      then Inl (PlainError (''invalid reset day '' @ int_digits resetDay))
      else let k = month_index (local_day l now);
               start0 = go_date l k resetDay;
               start = (if now < start0 then go_date l (k - 1) resetDay else start0);
               stop = NextCycleStart start (Some l) resetDay
           in if \<not> stop > start then Inl (PlainError ''invalid quota cycle'')
              else Inr (start, stop))"

text \<open>
  \<open>DayBounds\<close> returns the instant of the local midnight and the local date of that instant, here
  as a day number instead of its ISO text (the two are in bijection for the years 0 to 9999).
\<close>

definition DayBounds :: "instant \<Rightarrow> Location option \<Rightarrow> instant \<times> int" where
  "DayBounds at location =
     (let l = the_location location; start = date_at l (local_day l at)
      in (start, local_day l start))"

record AllocationFacts =
  af_Lifecycle :: LifecycleState
  af_AdminEnabled :: bool
  af_QuotaState :: QuotaState
  af_DesiredRevision :: Revision
  af_DesiredCredentialVersion :: int

text \<open>
  A decision's reason and phase are the empty string unless presence changes: \<open>None\<close> here.
\<close>

record TransitionDecision =
  td_QuotaState :: QuotaState
  td_WasPresent :: bool
  td_WillBePresent :: bool
  td_Reason :: "SyncReason option"
  td_Phase :: "SyncPhase option"

definition NeedsOperation :: "TransitionDecision \<Rightarrow> bool" where
  "NeedsOperation d \<longleftrightarrow> td_WasPresent d \<noteq> td_WillBePresent d"

definition DecideTransition :: "AllocationFacts \<Rightarrow> bool \<Rightarrow> bool \<Rightarrow> TransitionDecision" where
  "DecideTransition before adminEnabled exceeded =
     (let quota = (if exceeded then QuotaExceeded else QuotaWithinLimit);
          active = (af_Lifecycle before = LifecycleActive);
          was = (active \<and> af_AdminEnabled before \<and> af_QuotaState before = QuotaWithinLimit);
          will = (active \<and> adminEnabled \<and> quota = QuotaWithinLimit);
          decision = \<lparr>td_QuotaState = quota, td_WasPresent = was, td_WillBePresent = will,
                      td_Reason = None, td_Phase = None\<rparr>
      in if was \<and> \<not> will then
           decision\<lparr>td_Phase := Some (InboundPhaseFor False),
             td_Reason := Some (if exceeded \<and> af_QuotaState before = QuotaWithinLimit \<and> adminEnabled
                                then SyncQuotaBlock else SyncDisable)\<rparr>
         else if \<not> was \<and> will then
           decision\<lparr>td_Phase := Some (InboundPhaseFor True),
             td_Reason := Some (if af_QuotaState before = QuotaExceeded \<and> \<not> exceeded \<and>
                                   af_AdminEnabled before \<and> adminEnabled
                                then SyncQuotaRestore else SyncEnable)\<rparr>
         else decision)"

section \<open>Lemmas\<close>

lemma int64_range_diff:
  "0 \<le> a \<Longrightarrow> a \<le> MaxInt64 \<Longrightarrow> 0 \<le> b \<Longrightarrow> b \<le> MaxInt64 \<Longrightarrow> int64_range (a - b)"
  by (simp add: int64_range_def MaxInt64_def)

lemma addBytes_ok:
  assumes "int64_range a" "int64_range b" "0 \<le> a" "0 \<le> b"
  shows "addBytes a b = (if a + b \<le> MaxInt64 then (a + b, False) else (0, True))"
proof -
  have "int64_range (MaxInt64 - b)" using assms by (auto simp: int64_range_def MaxInt64_def)
  moreover have "a + b \<le> MaxInt64 \<Longrightarrow> int64_range (a + b)"
    using assms by (auto simp: int64_range_def MaxInt64_def)
  ultimately show ?thesis using assms by (auto simp: addBytes_def)
qed

lemma addBytes_neg: "a < 0 \<or> b < 0 \<Longrightarrow> addBytes a b = (0, True)"
  by (simp add: addBytes_def)

lemma DecideTransition_presence:
  "td_WasPresent (DecideTransition f e x) =
     InboundDesiredPresent (af_Lifecycle f) (af_AdminEnabled f) (af_QuotaState f)"
  "td_WillBePresent (DecideTransition f e x) =
     InboundDesiredPresent (af_Lifecycle f) e (if x then QuotaExceeded else QuotaWithinLimit)"
  "td_QuotaState (DecideTransition f e x) = (if x then QuotaExceeded else QuotaWithinLimit)"
  by (auto simp: DecideTransition_def InboundDesiredPresent_def Let_def)

lemma DecideTransition_phase:
  "td_Phase (DecideTransition f e x) =
     (if NeedsOperation (DecideTransition f e x)
      then Some (InboundPhaseFor (td_WillBePresent (DecideTransition f e x))) else None)"
  by (auto simp: DecideTransition_def NeedsOperation_def Let_def)

lemma CycleBounds_Inr_less: "CycleBounds now l rd = Inr (a, b) \<Longrightarrow> a < b"
  by (auto simp: CycleBounds_def Let_def split: if_splits)

text \<open>On a zone of constant offset: the month a cycle begins in, and its two boundaries.\<close>

lemma go_date_fixed_le:
  assumes "loc_tx l = []"
  shows "go_date l k d \<le> t \<longleftrightarrow> month_start k + d - 1 \<le> local_day l t"
  using date_at_le_iff [OF assms] by (simp add: go_date_def)

lemma NextCycleStart_go_date:
  assumes "loc_tx l = []" "1 \<le> d" "d \<le> 28"
  shows "NextCycleStart (go_date l k d) (Some l) d = go_date l (k + 1) d"
  using assms by (simp add: NextCycleStart_def the_location_def go_date_def local_day_date_at
      month_index_reset_day)

lemma go_date_fixed_mono:
  assumes "loc_tx l = []"
  shows "go_date l k d < go_date l (k + 1) d"
  using month_length [of k] by (simp add: go_date_def date_at_fixed [OF assms] Second_def)

lemma go_date_fixed_strict:
  assumes "loc_tx l = []" "j < k"
  shows "go_date l j d < go_date l k d"
  using month_start_mono [OF assms(2)] by (simp add: go_date_def date_at_fixed [OF assms(1)] Second_def)

lemma CycleBounds_month:
  assumes l: "loc_tx l = []" and d: "1 \<le> d" "d \<le> 28"
  obtains k where "CycleBounds now (Some l) d = Inr (go_date l k d, go_date l (k + 1) d)"
    "go_date l k d \<le> now" "now < go_date l (k + 1) d"
proof -
  define D k where "D = local_day l now" and "k = month_index D"
  define j where "j = (if now < go_date l k d then k - 1 else k)"
  have res: "CycleBounds now (Some l) d = Inr (go_date l j d, go_date l (j + 1) d)"
    using NextCycleStart_go_date [OF l d] go_date_fixed_mono [OF l, of "k - 1" d]
      go_date_fixed_mono [OF l, of k d] d
    by (auto simp: CycleBounds_def the_location_def Let_def j_def k_def D_def)
  have "month_start k \<le> D" "D < month_start (k + 1)"
    using month_index_bounds [of D] by (auto simp: k_def)
  then have "go_date l j d \<le> now \<and> now < go_date l (j + 1) d"
    using month_length [of "k - 1"] d
    by (auto simp: j_def go_date_fixed_le [OF l] linorder_not_le [symmetric] D_def [symmetric])
  with res that show thesis by blast
qed

section \<open>Properties\<close>

text \<open>
  C35: the quota test is the mathematical comparison: on nonnegative \<open>int64\<close> counters and a limit that
  \<open>ValidateQuotaPolicy\<close> accepts, overflow included, the quota is exceeded exactly when the sum
  reaches the limit.
\<close>
theorem quota_exceeded_iff_sum:
  assumes "ValidateQuotaPolicy (Some l) rd = Inr ()"
    and "0 \<le> u" "u \<le> MaxInt64" "0 \<le> v" "v \<le> MaxInt64"
  shows "IsQuotaExceeded (Some l) u v \<longleftrightarrow> l \<le> u + v"
proof -
  have "l \<le> MaxInt64"
    using assms(1) by (auto simp: ValidateQuotaPolicy_def MaxLimitBytes_def MaxInt64_def split: if_splits)
  moreover have "int64_range u" "int64_range v"
    using assms by (auto simp: int64_range_def MaxInt64_def)
  ultimately show ?thesis
    using assms by (auto simp: IsQuotaExceeded_def addBytes_ok)
qed

theorem quota_exceeded_iff_sum_witness:
  "IsQuotaExceeded (Some (2 ^ 62)) (2 ^ 63 - 1) (2 ^ 63 - 1)"
proof -
  have "ValidateQuotaPolicy (Some (2 ^ 62)) 1 = Inr ()"
    by (simp add: ValidateQuotaPolicy_def MaxLimitBytes_def)
  from quota_exceeded_iff_sum [OF this, of "2 ^ 63 - 1" "2 ^ 63 - 1"] show ?thesis
    by (simp add: MaxInt64_def)
qed

text \<open>
  C16: in every zone of constant offset the quota cycle of an instant exists, contains it, starts and
  ends on the reset day of two consecutive months, and is followed by the cycle that begins where it
  ends: the cycles tile the time line.
\<close>
theorem cycles_tile_time:
  assumes "loc_tx l = []" "1 \<le> rd" "rd \<le> 28"
  shows "\<exists>k. CycleBounds now (Some l) rd = Inr (go_date l k rd, go_date l (k + 1) rd) \<and>
    go_date l k rd \<le> now \<and> now < go_date l (k + 1) rd \<and>
    day_of (local_day l (go_date l k rd)) = rd \<and>
    CycleBounds (go_date l (k + 1) rd) (Some l) rd = Inr (go_date l (k + 1) rd, go_date l (k + 2) rd)"
proof -
  obtain k where k: "CycleBounds now (Some l) rd = Inr (go_date l k rd, go_date l (k + 1) rd)"
    "go_date l k rd \<le> now" "now < go_date l (k + 1) rd"
    using CycleBounds_month [OF assms] by metis
  have day: "day_of (local_day l (go_date l k rd)) = rd"
    using assms by (simp add: go_date_def local_day_date_at day_of_def month_index_reset_day)
  obtain j where j: "CycleBounds (go_date l (k + 1) rd) (Some l) rd = Inr (go_date l j rd, go_date l (j + 1) rd)"
    "go_date l j rd \<le> go_date l (k + 1) rd" "go_date l (k + 1) rd < go_date l (j + 1) rd"
    using CycleBounds_month [OF assms] by metis
  have "j = k + 1"
    using j(2,3) go_date_fixed_strict [OF assms(1), of j "k + 1" rd]
      go_date_fixed_strict [OF assms(1), of "k + 1" j rd]
      go_date_fixed_strict [OF assms(1), of "j + 1" "k + 1" rd]
    by (cases "j + 1 < k + 1"; cases "k + 1 < j"; cases "j = k") auto
  with j(1) k day show ?thesis by (auto simp: add.commute)
qed

theorem cycles_tile_time_witness:
  "\<exists>k. go_date \<lparr>loc_first = 28800, loc_tx = []\<rparr> k 15 \<le> 0 \<and> 0 < go_date \<lparr>loc_first = 28800, loc_tx = []\<rparr> (k + 1) 15"
  using cycles_tile_time [of "\<lparr>loc_first = 28800, loc_tx = []\<rparr>" 15 0] by auto

text \<open>
  C18: a transition decision agrees with the truth table of the inbound's presence before and after,
  asks for an operation exactly when presence changes, and then names the phase that brings the new
  presence about and a quota reason only when the quota alone caused it.
\<close>
theorem transition_decision_sound:
  "td_WasPresent (DecideTransition f e x) =
     InboundDesiredPresent (af_Lifecycle f) (af_AdminEnabled f) (af_QuotaState f) \<and>
   td_WillBePresent (DecideTransition f e x) =
     InboundDesiredPresent (af_Lifecycle f) e (td_QuotaState (DecideTransition f e x)) \<and>
   (td_QuotaState (DecideTransition f e x) = QuotaExceeded \<longleftrightarrow> x) \<and>
   td_Phase (DecideTransition f e x) =
     (if NeedsOperation (DecideTransition f e x)
      then Some (InboundPhaseFor (td_WillBePresent (DecideTransition f e x))) else None) \<and>
   (td_Reason (DecideTransition f e x) = Some SyncQuotaBlock \<longleftrightarrow>
     td_WasPresent (DecideTransition f e x) \<and> x \<and> e) \<and>
   (td_Reason (DecideTransition f e x) = Some SyncQuotaRestore \<longleftrightarrow>
     td_WillBePresent (DecideTransition f e x) \<and> af_AdminEnabled f \<and> af_QuotaState f = QuotaExceeded)"
  using DecideTransition_presence [of f e x] DecideTransition_phase [of f e x]
  by (cases "af_QuotaState f") (auto simp: DecideTransition_def NeedsOperation_def Let_def)

end
