(* ===== verification/Traffic_Model.thy ===== *)
theory Traffic_Model
  imports Quota_Model
begin

text \<open>
  The per-direction traffic cursor and its delta rules: \<open>internal/domain/traffic.go\<close>. A sample's
  \<open>uint64\<close> is a \<open>64 word\<close>; the cursor's \<open>int64\<close> counter is an \<open>int\<close>.
\<close>

record TrafficDirectionCursor =
  cu_Counter :: "int option"
  cu_Epoch :: int

record TrafficSample =
  sa_Found :: bool
  sa_Bytes :: "64 word"

definition EventCounterDecrease :: string where "EventCounterDecrease = ''counter_decrease''"
definition EventMissing :: string where "EventMissing = ''missing''"
definition EventReappeared :: string where "EventReappeared = ''reappeared''"
definition EventBoundaryGap :: string where "EventBoundaryGap = ''boundary_gap''"
definition EventNodeRestart :: string where "EventNodeRestart = ''node_restart''"
definition EventBaseline :: string where "EventBaseline = ''baseline''"
definition EventOverflow :: string where "EventOverflow = ''overflow''"

record ContinuityEvent =
  ce_Type :: string
  ce_Direction :: string
  ce_OldCounter :: "int option"
  ce_NewCounter :: "int option"
  ce_CounterEpoch :: int
  ce_Summary :: string

record DeltaResult =
  dr_Delta :: int
  dr_Cursor :: TrafficDirectionCursor
  dr_Missing :: bool
  dr_Events :: "ContinuityEvent list"

definition event :: "string \<Rightarrow> string \<Rightarrow> int option \<Rightarrow> int option \<Rightarrow> int \<Rightarrow> string \<Rightarrow> ContinuityEvent" where
  "event ty dir old new epoch summary =
     \<lparr>ce_Type = ty, ce_Direction = dir, ce_OldCounter = old, ce_NewCounter = new,
      ce_CounterEpoch = epoch, ce_Summary = summary\<rparr>"

definition ApplySample ::
  "string \<Rightarrow> TrafficDirectionCursor \<Rightarrow> TrafficSample \<Rightarrow> bool \<Rightarrow> bool \<Rightarrow> DeltaResult" where
  "ApplySample direction cursor sample restartConfirmed wasMissing =
     (let old = cu_Counter cursor; epoch = cu_Epoch cursor; next = wrap64 (epoch + 1) in
      if \<not> sa_Found sample then
        \<lparr>dr_Delta = 0, dr_Cursor = cursor, dr_Missing = True,
         dr_Events = (if old \<noteq> None \<and> \<not> wasMissing
           then [event EventMissing direction old None epoch ''counter temporarily missing''] else [])\<rparr>
      else if uint (sa_Bytes sample) > MaxInt64 then
        \<lparr>dr_Delta = 0, dr_Cursor = cursor\<lparr>cu_Epoch := next\<rparr>, dr_Missing = False,
         dr_Events = [event EventOverflow direction old None next
           ''counter exceeded the representable range'']\<rparr>
      else
        let current = sint (sa_Bytes sample);
            back = (if wasMissing \<and> old \<noteq> None
              then [event EventReappeared direction old (Some current) epoch ''counter reappeared''] else []) in
        case old of
          None \<Rightarrow>
            \<lparr>dr_Delta = current, dr_Cursor = cursor\<lparr>cu_Counter := Some current\<rparr>, dr_Missing = False,
             dr_Events = back @ [event EventBaseline direction None (Some current) epoch
               ''first sample established the baseline'']\<rparr>
        | Some c \<Rightarrow>
            if restartConfirmed then
              \<lparr>dr_Delta = current, dr_Cursor = \<lparr>cu_Counter = Some current, cu_Epoch = next\<rparr>,
               dr_Missing = False,
               dr_Events = back @ [event EventNodeRestart direction old (Some current) next
                 ''node restarted; counting resumed from the new epoch'']\<rparr>
            else if current < c then
              \<lparr>dr_Delta = 0, dr_Cursor = \<lparr>cu_Counter = Some current, cu_Epoch = next\<rparr>,
               dr_Missing = False,
               dr_Events = back @ [event EventCounterDecrease direction old (Some current) next
                 ''counter decreased without a confirmed restart; new baseline established'']\<rparr>
            else
              \<lparr>dr_Delta = wrap64 (current - c), dr_Cursor = cursor\<lparr>cu_Counter := Some current\<rparr>,
               dr_Missing = False, dr_Events = back\<rparr>)"

definition CapabilityGenerationTolerance :: duration where
  "CapabilityGenerationTolerance = Second"

definition RestartConfirmed :: "instant \<Rightarrow> instant \<Rightarrow> bool \<Rightarrow> duration \<Rightarrow> bool" where
  "RestartConfirmed stored observed known interval =
     (if \<not> known \<or> stored = zero_time then False
      else let d = time_sub observed stored;
               difference = (if d < 0 then wrap64 (- d) else d)
           in difference > interval)"

definition BoundaryGap :: "instant \<Rightarrow> instant \<Rightarrow> duration \<Rightarrow> bool" where
  "BoundaryGap previous current interval =
     (if previous = zero_time \<or> interval \<le> 0 then False
      else time_sub current previous > wrap64 (2 * interval))"

definition AddDelta :: "int \<Rightarrow> int \<Rightarrow> err + int" where
  "AddDelta base delta =
     (case addBytes base delta of (tot, ovf) \<Rightarrow>
        if ovf then Inl (PlainError ''traffic aggregate overflow'') else Inr tot)"

section \<open>Lemmas\<close>

text \<open>
  The cursor's counter is a nonnegative \<open>int64\<close>.
\<close>

definition cursor_ok :: "TrafficDirectionCursor \<Rightarrow> bool" where
  "cursor_ok c \<longleftrightarrow> (case cu_Counter c of None \<Rightarrow> True | Some n \<Rightarrow> 0 \<le> n \<and> n \<le> MaxInt64)"

lemma sint_small: "uint (w :: 64 word) \<le> MaxInt64 \<Longrightarrow> sint w = uint w"
proof -
  assume le: "uint w \<le> MaxInt64"
  have "- (2 ^ 63) \<le> uint w" by (rule order_trans [OF _ uint_ge_0]) simp
  moreover have "uint w < 2 ^ 63" using le by (simp add: MaxInt64_def)
  ultimately show ?thesis by (simp add: sint_uint signed_take_bit_int_eq_self)
qed

lemma ApplySample_overflow:
  "sa_Found s \<Longrightarrow> uint (sa_Bytes s) > MaxInt64 \<Longrightarrow>
   dr_Delta (ApplySample d c s r m) = 0 \<and> cu_Counter (dr_Cursor (ApplySample d c s r m)) = cu_Counter c"
  by (simp add: ApplySample_def Let_def)

lemma ApplySample_missing:
  "\<not> sa_Found s \<Longrightarrow> dr_Delta (ApplySample d c s r m) = 0 \<and> dr_Cursor (ApplySample d c s r m) = c"
  by (simp add: ApplySample_def Let_def)

lemma ApplySample_counter:
  assumes "sa_Found s" "uint (sa_Bytes s) \<le> MaxInt64"
  shows "cu_Counter (dr_Cursor (ApplySample d c s r m)) = Some (uint (sa_Bytes s))"
  using assms by (auto simp: ApplySample_def Let_def sint_small split: option.splits)

lemma ApplySample_delta:
  assumes "cursor_ok c" "sa_Found s" "uint (sa_Bytes s) \<le> MaxInt64"
  shows "dr_Delta (ApplySample d c s r m) =
    (case cu_Counter c of None \<Rightarrow> uint (sa_Bytes s)
     | Some n \<Rightarrow> if r then uint (sa_Bytes s) else max 0 (uint (sa_Bytes s) - n))"
proof -
  have "int64_range (uint (sa_Bytes s) - n)" if "0 \<le> n" "n \<le> MaxInt64" for n
    using that assms(3) by (intro int64_range_diff) auto
  then show ?thesis
    using assms by (auto simp: ApplySample_def Let_def sint_small cursor_ok_def split: option.splits)
qed

lemma ApplySample_cursor_ok:
  assumes "cursor_ok c"
  shows "cursor_ok (dr_Cursor (ApplySample d c s r m))"
proof (cases "sa_Found s \<and> uint (sa_Bytes s) \<le> MaxInt64")
  case True
  then show ?thesis using ApplySample_counter by (simp add: cursor_ok_def)
next
  case False
  then show ?thesis
    using assms ApplySample_missing ApplySample_overflow by (cases "sa_Found s") (auto simp: cursor_ok_def)
qed

lemma ApplySample_delta_range:
  assumes "cursor_ok c"
  shows "0 \<le> dr_Delta (ApplySample d c s r m) \<and> dr_Delta (ApplySample d c s r m) \<le> MaxInt64"
proof (cases "sa_Found s \<and> uint (sa_Bytes s) \<le> MaxInt64")
  case True
  then show ?thesis using assms
    by (auto simp: ApplySample_delta cursor_ok_def split: option.splits)
next
  case False
  then show ?thesis
    using ApplySample_missing ApplySample_overflow
    by (cases "sa_Found s") (auto simp: MaxInt64_def)
qed

text \<open>
  A run of samples of one direction, each with what the collector passes: whether a restart was
  confirmed and whether the direction was missing in the round before.
\<close>

fun apply_run :: "string \<Rightarrow> TrafficDirectionCursor \<Rightarrow> bool \<Rightarrow> (TrafficSample \<times> bool) list \<Rightarrow>
  int \<times> TrafficDirectionCursor" where
  "apply_run d c wasMissing [] = (0, c)"
| "apply_run d c wasMissing ((s, restart) # rest) =
     (let r = ApplySample d c s restart wasMissing;
          (tot, c') = apply_run d (dr_Cursor r) (dr_Missing r) rest
      in (dr_Delta r + tot, c'))"

text \<open>The counts of the found samples do not decrease, from \<open>n\<close> on, and fit \<open>int64\<close>.\<close>

fun nondecreasing_from :: "int \<Rightarrow> TrafficSample list \<Rightarrow> bool" where
  "nondecreasing_from n [] \<longleftrightarrow> True"
| "nondecreasing_from n (s # ss) \<longleftrightarrow>
     (if sa_Found s
      then n \<le> uint (sa_Bytes s) \<and> uint (sa_Bytes s) \<le> MaxInt64 \<and> nondecreasing_from (uint (sa_Bytes s)) ss
      else nondecreasing_from n ss)"

definition counter_value :: "TrafficDirectionCursor \<Rightarrow> int" where
  "counter_value c = (case cu_Counter c of None \<Rightarrow> 0 | Some n \<Rightarrow> n)"

lemma apply_run_telescope:
  assumes "cursor_ok c" "nondecreasing_from (counter_value c) (map fst ss)" "\<forall>x \<in> set ss. \<not> snd x"
  shows "fst (apply_run d c m ss) = counter_value (snd (apply_run d c m ss)) - counter_value c"
  using assms
proof (induction d c m ss rule: apply_run.induct)
  case (2 d c m s restart rest)
  let ?r = "ApplySample d c s restart m"
  obtain tot c' where run: "apply_run d (dr_Cursor ?r) (dr_Missing ?r) rest = (tot, c')"
    by (cases "apply_run d (dr_Cursor ?r) (dr_Missing ?r) rest") auto
  have ok: "cursor_ok (dr_Cursor ?r)" using 2(2) by (rule ApplySample_cursor_ok)
  have step: "nondecreasing_from (counter_value (dr_Cursor ?r)) (map fst rest) \<and>
      dr_Delta ?r = counter_value (dr_Cursor ?r) - counter_value c"
  proof (cases "sa_Found s")
    case True
    with 2(3) have le: "uint (sa_Bytes s) \<le> MaxInt64" "counter_value c \<le> uint (sa_Bytes s)"
      and rest: "nondecreasing_from (uint (sa_Bytes s)) (map fst rest)" by auto
    have cu: "cu_Counter (dr_Cursor ?r) = Some (uint (sa_Bytes s))"
      by (rule ApplySample_counter) (use True le in auto)
    have "dr_Delta ?r = uint (sa_Bytes s) - counter_value c"
      using ApplySample_delta [OF 2(2) True le(1), of d restart m] 2(4) le
      by (auto simp: counter_value_def split: option.splits)
    with rest show ?thesis by (simp add: counter_value_def cu)
  next
    case False
    with 2(3) ApplySample_missing [OF False, of d c restart m] show ?thesis by simp
  qed
  have "tot = counter_value c' - counter_value (dr_Cursor ?r)"
    using 2(1) [OF refl] ok step 2(4) run by simp
  with step run show ?case by (simp add: Let_def)
qed (simp add: Let_def)

section \<open>Properties\<close>

text \<open>
  C34: what a sample adds to the accounted traffic. A direction that is missing or beyond \<open>int64\<close> adds
  nothing and keeps its counter; a first sample and one after a confirmed restart add the whole
  count; any other adds the increase, and nothing when the count fell. The delta is never negative
  and the counter stays a nonnegative \<open>int64\<close>.
\<close>
theorem sample_accounting:
  assumes "cursor_ok c"
  shows "dr_Delta (ApplySample d c s r m) =
      (if \<not> sa_Found s \<or> uint (sa_Bytes s) > MaxInt64 then 0
       else if r \<or> cu_Counter c = None then uint (sa_Bytes s)
       else max 0 (uint (sa_Bytes s) - the (cu_Counter c))) \<and>
    cu_Counter (dr_Cursor (ApplySample d c s r m)) =
      (if \<not> sa_Found s \<or> uint (sa_Bytes s) > MaxInt64 then cu_Counter c else Some (uint (sa_Bytes s))) \<and>
    0 \<le> dr_Delta (ApplySample d c s r m) \<and> dr_Delta (ApplySample d c s r m) \<le> MaxInt64 \<and>
    cursor_ok (dr_Cursor (ApplySample d c s r m))"
proof (cases "sa_Found s \<and> uint (sa_Bytes s) \<le> MaxInt64")
  case True
  then show ?thesis
    using ApplySample_delta [OF assms, of s d r m] ApplySample_counter [of s d c r m]
      ApplySample_delta_range [OF assms, of d s r m] ApplySample_cursor_ok [OF assms, of d s r m]
    by (auto split: option.splits)
next
  case False
  then show ?thesis
    using ApplySample_missing [of s d c r m] ApplySample_overflow [of s d c r m]
      ApplySample_delta_range [OF assms, of d s r m] ApplySample_cursor_ok [OF assms, of d s r m]
    by (cases "sa_Found s") auto
qed

theorem sample_accounting_witness:
  "dr_Delta (ApplySample Uplink \<lparr>cu_Counter = Some 100, cu_Epoch = 0\<rparr> \<lparr>sa_Found = True, sa_Bytes = 250\<rparr> False False) = 150 \<and>
   dr_Delta (ApplySample Uplink \<lparr>cu_Counter = Some 100, cu_Epoch = 0\<rparr> \<lparr>sa_Found = True, sa_Bytes = 40\<rparr> False False) = 0"
  using sample_accounting [of "\<lparr>cu_Counter = Some 100, cu_Epoch = 0\<rparr>" Uplink "\<lparr>sa_Found = True, sa_Bytes = 250\<rparr>" False False]
    sample_accounting [of "\<lparr>cu_Counter = Some 100, cu_Epoch = 0\<rparr>" Uplink "\<lparr>sa_Found = True, sa_Bytes = 40\<rparr>" False False]
  by (simp add: cursor_ok_def MaxInt64_def)

text \<open>
  C17: as long as the node does not restart and its counter does not fall, no byte is lost or counted
  twice, whatever samples are missing on the way: the accounted total of a run of samples is the
  last counter value minus the one before the run.
\<close>
theorem accounting_telescopes:
  assumes "cursor_ok c" "nondecreasing_from (counter_value c) (map fst ss)" "\<forall>x \<in> set ss. \<not> snd x"
  shows "fst (apply_run d c m ss) = counter_value (snd (apply_run d c m ss)) - counter_value c"
  using assms by (rule apply_run_telescope)

theorem accounting_telescopes_witness:
  "fst (apply_run Uplink \<lparr>cu_Counter = Some 5, cu_Epoch = 0\<rparr> False
     [(\<lparr>sa_Found = True, sa_Bytes = 7\<rparr>, False), (\<lparr>sa_Found = False, sa_Bytes = 0\<rparr>, False),
      (\<lparr>sa_Found = True, sa_Bytes = 30\<rparr>, False)]) = 25"
proof -
  let ?ss = "[(\<lparr>sa_Found = True, sa_Bytes = 7\<rparr>, False), (\<lparr>sa_Found = False, sa_Bytes = 0\<rparr>, False),
      (\<lparr>sa_Found = True, sa_Bytes = 30\<rparr>, False)]"
  have "fst (apply_run Uplink \<lparr>cu_Counter = Some 5, cu_Epoch = 0\<rparr> False ?ss) =
      counter_value (snd (apply_run Uplink \<lparr>cu_Counter = Some 5, cu_Epoch = 0\<rparr> False ?ss)) -
      counter_value \<lparr>cu_Counter = Some 5, cu_Epoch = 0\<rparr>"
    by (rule accounting_telescopes) (simp_all add: cursor_ok_def counter_value_def MaxInt64_def)
  then show ?thesis by (simp add: ApplySample_def sint_small MaxInt64_def counter_value_def Let_def)
qed

end
