(* ===== verification/Store_Types.thy ===== *)
theory Store_Types
  imports Template_Model Traffic_Model
begin

text \<open>
  The records the application and the store exchange: \<open>internal/ports/store.go\<close>. Boot epochs,
  which the code passes as RFC 3339 text in whole seconds with \<open>""\<close> for unknown, are instants
  with \<open>None\<close>.
\<close>

record SessionRecord =
  se_ID :: ID
  se_TokenDigest :: "8 word list"
  se_Data :: "8 word list"
  se_CreatedAt :: "instant"
  se_LastSeenAt :: "instant"
  se_IdleExpiresAt :: "instant"
  se_AbsoluteExpiresAt :: "instant"

record AdministratorRecord =
  ad_ID :: ID
  ad_Username :: string
  ad_PasswordHash :: string
  ad_PasswordVersion :: int
  ad_CreatedAt :: "instant"
  ad_UpdatedAt :: "instant"

record PanelSettingsRecord =
  ps_QuotaTimezone :: string
  ps_KeyVerifier :: "8 word list"
  ps_KeyVerifierNonce :: "8 word list"
  ps_KeyEncryptionVersion :: int
  ps_Revision :: int
  ps_CreatedAt :: "instant"
  ps_UpdatedAt :: "instant"

record ManagedInstanceRecord =
  mi_ID :: ID
  mi_Name :: string
  mi_APIEndpoint :: string
  mi_SupportedRuntimeVersion :: string
  mi_HealthState :: string
  mi_BootEpoch :: "instant option"
  mi_CapabilityGeneration :: int
  mi_LastSuccessAt :: "instant option"
  mi_LastErrorCode :: string
  mi_LastErrorSummary :: string
  mi_UpdatedAt :: "instant"

record CapabilitySignal =
  cs_BootEpoch :: "instant"
  cs_UptimeSeconds :: "32 word"
  cs_Known :: bool
  cs_SuspectedRestart :: bool

record InboundRecord =
  ir_Inbound :: DedicatedInbound
  ir_ServerKeyCiphertext :: "8 word list"
  ir_ServerKeyNonce :: "8 word list"
  ir_KeyEncryptionVersion :: int

record PoolUsage =
  pu_Capacity :: int
  pu_Assigned :: int
  pu_Remaining :: int
  pu_Outside :: "int list"

record QuotaPolicyRecord =
  qp_AllocationID :: ID
  qp_LimitBytes :: "int option"
  qp_ResetDay :: int
  qp_Revision :: Revision
  qp_CreatedAt :: "instant"
  qp_UpdatedAt :: "instant"

text \<open>\<open>Status\<close> is one of \<open>open\<close> and \<open>closed\<close>.\<close>

record QuotaCycleRecord =
  qc_ID :: ID
  qc_AllocationID :: ID
  qc_StartsAt :: "instant"
  qc_EndsAt :: "instant"
  qc_Timezone :: string
  qc_ResetDay :: int
  qc_Open :: bool
  qc_GrossUplinkBytes :: int
  qc_GrossDownlinkBytes :: int
  qc_AccountedUplinkBytes :: int
  qc_AccountedDownlinkBytes :: int
  qc_ManualResetCount :: int
  qc_OpenedAt :: "instant"
  qc_ClosedAt :: "instant option"

record UserCreateRecord =
  uc_User :: ManagedUser
  uc_Identity :: XrayUserIdentity
  uc_Allocation :: AccessAllocation
  uc_Inbound :: InboundRecord
  uc_Credential :: AccessCredential
  uc_Policy :: QuotaPolicyRecord
  uc_Cycle :: QuotaCycleRecord
  uc_Operation :: SynchronizationOperation
  uc_Command :: DomainCommand
  uc_Audit :: AuditEvent
  uc_PortAudit :: AuditEvent

record UserRecord =
  ur_User :: ManagedUser
  ur_Identity :: XrayUserIdentity
  ur_Inbound :: InboundRecord
  ur_Allocation :: AccessAllocation
  ur_Credential :: AccessCredential
  ur_Template :: InboundTemplate
  ur_Policy :: QuotaPolicyRecord
  ur_Cycle :: QuotaCycleRecord

record SyncWork =
  sw_Operation :: SynchronizationOperation
  sw_User :: ManagedUser
  sw_Allocation :: AccessAllocation
  sw_Identity :: XrayUserIdentity
  sw_Template :: InboundTemplate
  sw_Inbound :: InboundRecord
  sw_Credential :: AccessCredential

record TrafficCursorRecord =
  tc_AllocationID :: ID
  tc_BootEpoch :: "instant option"
  tc_UplinkCounter :: "int option"
  tc_DownlinkCounter :: "int option"
  tc_UplinkEpoch :: int
  tc_DownlinkEpoch :: int
  tc_LastObservedAt :: "instant option"
  tc_LastSuccessAt :: "instant option"
  tc_MissingSince :: "instant option"

record CollectionTarget =
  ct_User :: ManagedUser
  ct_Allocation :: AccessAllocation
  ct_Identity :: XrayUserIdentity
  ct_ProfileTag :: string
  ct_Policy :: QuotaPolicyRecord
  ct_Cycle :: QuotaCycleRecord
  ct_Cursor :: TrafficCursorRecord
  ct_TotalUplink :: int
  ct_TotalDownlink :: int

record ContinuityEventRecord =
  cv_ID :: ID
  cv_AllocationID :: ID
  cv_Event :: ContinuityEvent
  cv_OccurredAt :: "instant"

record TrafficUpdate =
  tu_AllocationID :: ID
  tu_Cursor :: TrafficCursorRecord
  tu_UplinkDelta :: int
  tu_DownlinkDelta :: int
  tu_DayStartUTC :: "instant"
  tu_LocalDate :: string
  tu_Timezone :: string
  tu_Events :: "ContinuityEventRecord list"
  tu_QuotaBlock :: "SynchronizationOperation option"
  tu_Audit :: "AuditEvent option"

record TrafficBatch =
  tb_ObservedAt :: "instant"
  tb_Updates :: "TrafficUpdate list"

record TrafficCommitResult =
  cm_Blocked :: int
  cm_Rolled :: int
  cm_Restored :: int

record UserUpdateRecord =
  uu_UserID :: ID
  uu_ExpectedRevision :: Revision
  uu_DisplayName :: string
  uu_NormalizedName :: string
  uu_LimitBytes :: "int option"
  uu_ResetDay :: int
  uu_AdminEnabled :: bool
  uu_OperationTemplate :: SynchronizationOperation
  uu_QuotaAudit :: "AuditEvent option"
  uu_Command :: DomainCommand
  uu_Audits :: "AuditEvent list"
  uu_Now :: "instant"

record QuotaResetRecord =
  qr_AllocationID :: ID
  qr_CycleID :: ID
  qr_EventID :: ID
  qr_ActorID :: ID
  qr_Command :: DomainCommand
  qr_OperationTemplate :: SynchronizationOperation
  qr_Audit :: AuditEvent
  qr_Now :: "instant"

record CycleRollover =
  ro_AllocationID :: ID
  ro_OperationTemplate :: SynchronizationOperation
  ro_Audit :: "AuditEvent option"
  ro_Now :: "instant"

record RotationRecord =
  rr_UserID :: ID
  rr_AllocationID :: ID
  rr_ExpectedRevision :: Revision
  rr_Credential :: AccessCredential
  rr_Operation :: SynchronizationOperation
  rr_Command :: DomainCommand
  rr_Audit :: AuditEvent
  rr_Now :: "instant"

record PortChangeRecord =
  pc_UserID :: ID
  pc_AllocationID :: ID
  pc_ExpectedRevision :: Revision
  pc_OldPort :: int
  pc_NewPort :: int
  pc_Operation :: SynchronizationOperation
  pc_Command :: DomainCommand
  pc_Audit :: AuditEvent
  pc_Now :: "instant"

record DeleteRecord =
  de_UserID :: ID
  de_AllocationID :: ID
  de_ExpectedRevision :: Revision
  de_Operation :: SynchronizationOperation
  de_Command :: DomainCommand
  de_Audit :: AuditEvent
  de_Now :: "instant"

record DriftRemoval =
  dr_ID :: ID
  dr_TemplateID :: ID
  dr_InboundTag :: string
  dr_Kind :: string
  dr_StatisticsID :: string
  dr_State :: SyncState
  dr_AttemptCount :: int
  dr_NextAttemptAt :: "instant"
  dr_ExpectedStatisticsID :: string
  dr_Reclaimed :: bool

record ValidationOutcome =
  vo_TemplateID :: ID
  vo_ExpectedRevision :: Revision
  vo_State :: CompatibilityState
  vo_Reason :: string
  vo_ValidatedAt :: "instant"
  vo_Health :: string
  vo_BootEpoch :: "instant option"
  vo_CapabilityGeneration :: int
  vo_ErrorCode :: string
  vo_ErrorSummary :: string
  vo_SuccessAt :: "instant option"
  vo_Audit :: AuditEvent

end
