(* ===== verification/Db.thy ===== *)
theory Db
  imports Store_Types
begin

text \<open>
  The database: one list of rows per table of \<open>internal/persistence/sqlite/migrations\<close> (after the
  ninth migration), the constraints of the schema, and the statements the store executes. A row is
  the record a scan of it returns; the columns hold times in milliseconds (\<open>stored\<close>), and the
  empty string where the code writes NULL for it. Foreign keys are on.
\<close>

section \<open>Rows\<close>

text \<open>\<open>millis\<close> and \<open>fromMillis\<close>: a time goes to the database and back truncated to milliseconds.\<close>

definition millis :: "instant \<Rightarrow> int" where
  "millis t = t div Millisecond"

definition fromMillis :: "int \<Rightarrow> instant" where
  "fromMillis m = m * Millisecond"

definition stored :: "instant \<Rightarrow> instant" where
  "stored t = fromMillis (millis t)"

record SessionRow =
  sr_Session :: SessionRecord
  sr_AdministratorID :: ID
  sr_PasswordVersion :: int
  sr_RevokedAt :: "instant option"

record InstanceRow =
  in_Instance :: ManagedInstanceRecord
  in_LastUptimeSeconds :: int

record TotalsRow =
  tt_AllocationID :: ID
  tt_UplinkBytes :: int
  tt_DownlinkBytes :: int

record DailyRow =
  dy_AllocationID :: ID
  dy_DayStartUTC :: "instant"
  dy_LocalDate :: string
  dy_Timezone :: string
  dy_UplinkBytes :: int
  dy_DownlinkBytes :: int

record ResetRow =
  rs_ID :: ID
  rs_AllocationID :: ID
  rs_CycleID :: ID
  rs_CommandID :: ID
  rs_PreviousUplink :: int
  rs_PreviousDownlink :: int
  rs_UplinkCursor :: "int option"
  rs_DownlinkCursor :: "int option"
  rs_ActorID :: ID
  rs_OccurredAt :: "instant"

text \<open>A template identifier of \<open>""\<close> is the NULL of a removal that belongs to no template.\<close>

record DriftRow =
  df_ID :: ID
  df_TemplateID :: ID
  df_InboundTag :: string
  df_Kind :: string
  df_StatisticsID :: string
  df_State :: SyncState
  df_AttemptCount :: int
  df_NextAttemptAt :: "instant"
  df_LeaseOwner :: "string option"
  df_LeaseExpiresAt :: "instant option"
  df_LastErrorCode :: string
  df_LastErrorSummary :: string
  df_CreatedAt :: "instant"
  df_CompletedAt :: "instant option"
  df_SupersededBy :: "ID option"

record db =
  db_settings :: "PanelSettingsRecord option"
  db_instance :: "InstanceRow option"
  db_admins :: "AdministratorRecord list"
  db_sessions :: "SessionRow list"
  db_templates :: "InboundTemplate list"
  db_identities :: "XrayUserIdentity list"
  db_users :: "ManagedUser list"
  db_allocs :: "AccessAllocation list"
  db_inbounds :: "InboundRecord list"
  db_creds :: "AccessCredential list"
  db_policies :: "QuotaPolicyRecord list"
  db_cycles :: "QuotaCycleRecord list"
  db_totals :: "TotalsRow list"
  db_cursors :: "TrafficCursorRecord list"
  db_daily :: "DailyRow list"
  db_events :: "ContinuityEventRecord list"
  db_commands :: "DomainCommand list"
  db_ops :: "SynchronizationOperation list"
  db_resets :: "ResetRow list"
  db_audits :: "AuditEvent list"
  db_drifts :: "DriftRow list"

definition empty_db :: db where
  "empty_db = \<lparr>db_settings = None, db_instance = None, db_admins = [], db_sessions = [],
     db_templates = [], db_identities = [], db_users = [], db_allocs = [], db_inbounds = [],
     db_creds = [], db_policies = [], db_cycles = [], db_totals = [], db_cursors = [], db_daily = [],
     db_events = [], db_commands = [], db_ops = [], db_resets = [], db_audits = [], db_drifts = []\<rparr>"

section \<open>The constraints of the schema\<close>

definition open_state :: "SyncState \<Rightarrow> bool" where
  "open_state st \<longleftrightarrow> st = SyncPending \<or> st = SyncLeased \<or> st = SyncRetryWait"

text \<open>A STRICT INTEGER column refuses a result outside \<open>int64\<close>; these columns also check \<open>>= 0\<close>.\<close>

definition count_ok :: "int \<Rightarrow> bool" where
  "count_ok n \<longleftrightarrow> 0 \<le> n \<and> n \<le> MaxInt64"

definition count_opt_ok :: "int option \<Rightarrow> bool" where
  "count_opt_ok x \<longleftrightarrow> (case x of None \<Rightarrow> True | Some n \<Rightarrow> count_ok n)"

definition tables_auth_ok :: "db \<Rightarrow> bool" where
  "tables_auth_ok d \<longleftrightarrow>
     distinct (map ad_ID (db_admins d)) \<and> distinct (map ad_Username (db_admins d)) \<and>
     list_all (\<lambda>a. ad_PasswordVersion a > 0) (db_admins d) \<and>
     distinct (map (se_ID \<circ> sr_Session) (db_sessions d)) \<and>
     distinct (map (se_TokenDigest \<circ> sr_Session) (db_sessions d)) \<and>
     list_all (\<lambda>r. sr_PasswordVersion r > 0 \<and> sr_AdministratorID r \<in> set (map ad_ID (db_admins d)))
       (db_sessions d)"

definition tables_panel_ok :: "db \<Rightarrow> bool" where
  "tables_panel_ok d \<longleftrightarrow>
     (case db_settings d of None \<Rightarrow> True
      | Some s \<Rightarrow> ps_KeyEncryptionVersion s = 1 \<and> ps_Revision s \<ge> 0) \<and>
     (case db_instance d of None \<Rightarrow> True
      | Some i \<Rightarrow> mi_HealthState (in_Instance i) \<in>
          set [''unknown'', ''healthy'', ''unreachable'', ''incompatible'']) \<and>
     distinct (map dc_ID (db_commands d)) \<and> distinct (map ae_ID (db_audits d))"

definition template_row_ok :: "db \<Rightarrow> InboundTemplate \<Rightarrow> bool" where
  "template_row_ok d t \<longleftrightarrow>
     1024 \<le> pp_Start (tm_Pool t) \<and> pp_Start (tm_Pool t) \<le> 65535 \<and>
     1024 \<le> pp_End (tm_Pool t) \<and> pp_End (tm_Pool t) \<le> 65535 \<and>
     pp_End (tm_Pool t) \<ge> pp_Start (tm_Pool t) \<and>
     tm_Method t \<in> set [''2022-blake3-aes-128-gcm'', ''2022-blake3-aes-256-gcm''] \<and>
     tm_Revision t \<ge> 0 \<and>
     (case db_instance d of None \<Rightarrow> False | Some i \<Rightarrow> tm_InstanceID t = mi_ID (in_Instance i))"

definition identity_row_ok :: "db \<Rightarrow> XrayUserIdentity \<Rightarrow> bool" where
  "identity_row_ok d i \<longleftrightarrow> xi_StatisticsID i \<noteq> '''' \<and> \<not> Contains (xi_StatisticsID i) ''>>>'' \<and>
     xi_TemplateID i \<in> set (map tm_ID (db_templates d)) \<and>
     (case db_instance d of None \<Rightarrow> False | Some m \<Rightarrow> xi_InstanceID i = mi_ID (in_Instance m))"

definition tables_template_ok :: "db \<Rightarrow> bool" where
  "tables_template_ok d \<longleftrightarrow>
     distinct (map tm_ID (db_templates d)) \<and>
     uniq_where (\<lambda>t. tm_ArchivedAt t = None) tm_NormalizedName (db_templates d) \<and>
     list_all (template_row_ok d) (db_templates d) \<and>
     distinct (map xi_ID (db_identities d)) \<and>
     distinct (map (\<lambda>i. (xi_InstanceID i, xi_StatisticsID i)) (db_identities d)) \<and>
     list_all (identity_row_ok d) (db_identities d)"

definition alloc_row_ok :: "db \<Rightarrow> AccessAllocation \<Rightarrow> bool" where
  "alloc_row_ok d a \<longleftrightarrow> al_DesiredRevision a \<ge> 0 \<and> al_SyncedRevision a \<ge> 0 \<and>
     al_DesiredCredentialVersion a > 0 \<and>
     (case al_SyncedCredentialVersion a of None \<Rightarrow> True | Some v \<Rightarrow> v > 0) \<and>
     al_UserID a \<in> set (map mu_ID (db_users d)) \<and>
     al_TemplateID a \<in> set (map tm_ID (db_templates d)) \<and>
     al_IdentityID a \<in> set (map xi_ID (db_identities d))"

definition tables_user_ok :: "db \<Rightarrow> bool" where
  "tables_user_ok d \<longleftrightarrow>
     distinct (map mu_ID (db_users d)) \<and>
     uniq_where (\<lambda>u. mu_DeletedAt u = None) mu_NormalizedName (db_users d) \<and>
     list_all (\<lambda>u. mu_Revision u \<ge> 0) (db_users d) \<and>
     distinct (map al_ID (db_allocs d)) \<and> distinct (map al_UserID (db_allocs d)) \<and>
     distinct (map al_IdentityID (db_allocs d)) \<and>
     list_all (alloc_row_ok d) (db_allocs d)"

definition alloc_ids :: "db \<Rightarrow> ID set" where
  "alloc_ids d = set (map al_ID (db_allocs d))"

definition inbound_row_ok :: "db \<Rightarrow> InboundRecord \<Rightarrow> bool" where
  "inbound_row_ok d r \<longleftrightarrow> 1024 \<le> di_Port (ir_Inbound r) \<and> di_Port (ir_Inbound r) \<le> 65535 \<and>
     ir_KeyEncryptionVersion r > 0 \<and>
     di_AllocationID (ir_Inbound r) \<in> alloc_ids d \<and>
     di_TemplateID (ir_Inbound r) \<in> set (map tm_ID (db_templates d))"

definition listen_key :: "InboundRecord \<Rightarrow> string \<times> int" where
  "listen_key r = (di_ListenAddress (ir_Inbound r), di_Port (ir_Inbound r))"

definition unreleased :: "InboundRecord \<Rightarrow> bool" where
  "unreleased r \<longleftrightarrow> di_ReleasedAt (ir_Inbound r) = None"

definition tables_inbound_ok :: "db \<Rightarrow> bool" where
  "tables_inbound_ok d \<longleftrightarrow>
     distinct (map (di_AllocationID \<circ> ir_Inbound) (db_inbounds d)) \<and>
     distinct (map (di_InboundTag \<circ> ir_Inbound) (db_inbounds d)) \<and>
     uniq_where unreleased listen_key (db_inbounds d) \<and>
     list_all (inbound_row_ok d) (db_inbounds d)"

text \<open>A key column is NULL where its list is empty.\<close>

definition cred_row_ok :: "db \<Rightarrow> AccessCredential \<Rightarrow> bool" where
  "cred_row_ok d c \<longleftrightarrow> cr_Version c > 0 \<and> cr_AllocationID c \<in> alloc_ids d \<and>
     (if cr_State c = CredentialDestroyed then cr_KeyCiphertext c = [] \<and> cr_KeyNonce c = []
      else cr_KeyCiphertext c \<noteq> [] \<and> cr_KeyNonce c \<noteq> [])"

definition tables_cred_ok :: "db \<Rightarrow> bool" where
  "tables_cred_ok d \<longleftrightarrow>
     distinct (map cr_ID (db_creds d)) \<and>
     distinct (map (\<lambda>c. (cr_AllocationID c, cr_Version c)) (db_creds d)) \<and>
     uniq_where (\<lambda>c. cr_State c = CredentialPending) cr_AllocationID (db_creds d) \<and>
     uniq_where (\<lambda>c. cr_State c = CredentialActive) cr_AllocationID (db_creds d) \<and>
     list_all (cred_row_ok d) (db_creds d)"

definition policy_row_ok :: "db \<Rightarrow> QuotaPolicyRecord \<Rightarrow> bool" where
  "policy_row_ok d p \<longleftrightarrow> qp_AllocationID p \<in> alloc_ids d \<and> 1 \<le> qp_ResetDay p \<and> qp_ResetDay p \<le> 28 \<and>
     qp_Revision p \<ge> 0 \<and>
     (case qp_LimitBytes p of None \<Rightarrow> True | Some l \<Rightarrow> l > 0 \<and> l \<le> 4611686018427387904)"

definition cycle_row_ok :: "db \<Rightarrow> QuotaCycleRecord \<Rightarrow> bool" where
  "cycle_row_ok d c \<longleftrightarrow> qc_AllocationID c \<in> alloc_ids d \<and> qc_EndsAt c > qc_StartsAt c \<and>
     1 \<le> qc_ResetDay c \<and> qc_ResetDay c \<le> 28 \<and>
     count_ok (qc_GrossUplinkBytes c) \<and> count_ok (qc_GrossDownlinkBytes c) \<and>
     count_ok (qc_AccountedUplinkBytes c) \<and> count_ok (qc_AccountedDownlinkBytes c) \<and>
     qc_ManualResetCount c \<ge> 0"

definition tables_quota_ok :: "db \<Rightarrow> bool" where
  "tables_quota_ok d \<longleftrightarrow>
     distinct (map qp_AllocationID (db_policies d)) \<and> list_all (policy_row_ok d) (db_policies d) \<and>
     distinct (map qc_ID (db_cycles d)) \<and>
     distinct (map (\<lambda>c. (qc_AllocationID c, qc_StartsAt c)) (db_cycles d)) \<and>
     uniq_where qc_Open qc_AllocationID (db_cycles d) \<and>
     list_all (cycle_row_ok d) (db_cycles d) \<and>
     distinct (map rs_ID (db_resets d)) \<and> distinct (map rs_CommandID (db_resets d)) \<and>
     list_all (\<lambda>r. rs_AllocationID r \<in> alloc_ids d \<and> rs_CycleID r \<in> set (map qc_ID (db_cycles d)) \<and>
        rs_CommandID r \<in> set (map dc_ID (db_commands d)) \<and>
        rs_ActorID r \<in> set (map ad_ID (db_admins d)) \<and>
        count_ok (rs_PreviousUplink r) \<and> count_ok (rs_PreviousDownlink r) \<and>
        count_opt_ok (rs_UplinkCursor r) \<and> count_opt_ok (rs_DownlinkCursor r)) (db_resets d)"

definition cursor_row_ok :: "db \<Rightarrow> TrafficCursorRecord \<Rightarrow> bool" where
  "cursor_row_ok d c \<longleftrightarrow> tc_AllocationID c \<in> alloc_ids d \<and>
     count_opt_ok (tc_UplinkCounter c) \<and> count_opt_ok (tc_DownlinkCounter c) \<and>
     tc_UplinkEpoch c \<ge> 0 \<and> tc_DownlinkEpoch c \<ge> 0"

definition event_row_ok :: "db \<Rightarrow> ContinuityEventRecord \<Rightarrow> bool" where
  "event_row_ok d r \<longleftrightarrow> cv_AllocationID r \<in> alloc_ids d \<and>
     ce_Type (cv_Event r) \<in> set [EventCounterDecrease, EventMissing, EventReappeared,
       EventBoundaryGap, EventNodeRestart, EventBaseline, EventOverflow] \<and>
     ce_Direction (cv_Event r) \<in> set ['''', Uplink, Downlink] \<and>
     count_opt_ok (ce_OldCounter (cv_Event r)) \<and> count_opt_ok (ce_NewCounter (cv_Event r)) \<and>
     ce_CounterEpoch (cv_Event r) \<ge> 0"

definition tables_traffic_ok :: "db \<Rightarrow> bool" where
  "tables_traffic_ok d \<longleftrightarrow>
     distinct (map tt_AllocationID (db_totals d)) \<and>
     list_all (\<lambda>t. tt_AllocationID t \<in> alloc_ids d \<and> count_ok (tt_UplinkBytes t) \<and>
       count_ok (tt_DownlinkBytes t)) (db_totals d) \<and>
     distinct (map tc_AllocationID (db_cursors d)) \<and> list_all (cursor_row_ok d) (db_cursors d) \<and>
     distinct (map (\<lambda>r. (dy_AllocationID r, dy_DayStartUTC r)) (db_daily d)) \<and>
     list_all (\<lambda>r. dy_AllocationID r \<in> alloc_ids d \<and> count_ok (dy_UplinkBytes r) \<and>
       count_ok (dy_DownlinkBytes r)) (db_daily d) \<and>
     distinct (map cv_ID (db_events d)) \<and> list_all (event_row_ok d) (db_events d)"

definition op_row_ok :: "db \<Rightarrow> SynchronizationOperation \<Rightarrow> bool" where
  "op_row_ok d r \<longleftrightarrow> op_AllocationID r \<in> alloc_ids d \<and> op_AttemptCount r \<ge> 0"

definition tables_sync_ok :: "db \<Rightarrow> bool" where
  "tables_sync_ok d \<longleftrightarrow>
     distinct (map op_ID (db_ops d)) \<and> distinct (map op_IdempotencyKey (db_ops d)) \<and>
     distinct (map (\<lambda>r. (op_AllocationID r, op_DesiredRevision r)) (db_ops d)) \<and>
     list_all (op_row_ok d) (db_ops d)"

definition drift_key :: "DriftRow \<Rightarrow> ID \<times> string" where
  "drift_key r = (df_TemplateID r, df_StatisticsID r)"

definition drift_open :: "DriftRow \<Rightarrow> bool" where
  "drift_open r \<longleftrightarrow> open_state (df_State r)"

definition drift_row_ok :: "db \<Rightarrow> DriftRow \<Rightarrow> bool" where
  "drift_row_ok d r \<longleftrightarrow>
     (df_TemplateID r = '''' \<or> df_TemplateID r \<in> set (map tm_ID (db_templates d))) \<and>
     df_StatisticsID r \<noteq> '''' \<and> \<not> Contains (df_StatisticsID r) ''>>>'' \<and>
     df_State r \<noteq> SyncSuperseded \<and> df_AttemptCount r \<ge> 0 \<and>
     (case df_SupersededBy r of None \<Rightarrow> True | Some i \<Rightarrow> i \<in> set (map df_ID (db_drifts d))) \<and>
     df_Kind r \<in> set [''identity'', ''inbound'']"

definition tables_drift_ok :: "db \<Rightarrow> bool" where
  "tables_drift_ok d \<longleftrightarrow>
     distinct (map df_ID (db_drifts d)) \<and> uniq_where drift_open drift_key (db_drifts d) \<and>
     list_all (drift_row_ok d) (db_drifts d)"

definition schema_ok :: "db \<Rightarrow> bool" where
  "schema_ok d \<longleftrightarrow> tables_auth_ok d \<and> tables_panel_ok d \<and> tables_template_ok d \<and> tables_user_ok d \<and>
     tables_inbound_ok d \<and> tables_cred_ok d \<and> tables_quota_ok d \<and> tables_traffic_ok d \<and>
     tables_sync_ok d \<and> tables_drift_ok d"

end
