(* ===== verification/Store_Base.thy ===== *)
theory Store_Base
  imports Db
begin

text \<open>
  The transaction layer of the store: statements with the constraints of the schema, the commands
  and audit events every write carries, administrators, sessions and the singletons
  (\<open>internal/persistence/sqlite/store.go\<close>), and the replay check of \<open>store_templates.go\<close>.
\<close>

section \<open>Statements\<close>

text \<open>
  A statement is refused when the resulting database violates a constraint. \<open>sql_rows\<close> also
  reports the number of rows affected, and \<open>sql_one\<close> is the pattern \<open>if rows != 1 { return err }\<close>.
\<close>

definition sql_exec :: "(db \<Rightarrow> db) \<Rightarrow> (db, unit) tx" where
  "sql_exec f = tx_exec ''constraint failed'' schema_ok f"

definition sql_rows :: "(db \<Rightarrow> nat) \<Rightarrow> (db \<Rightarrow> db) \<Rightarrow> (db, nat) tx" where
  "sql_rows cnt f = tx_bind (tx_get cnt) (\<lambda>n. tx_seq (sql_exec f) (tx_ret n))"

definition sql_one :: "err \<Rightarrow> (db \<Rightarrow> nat) \<Rightarrow> (db \<Rightarrow> db) \<Rightarrow> (db, unit) tx" where
  "sql_one e cnt f = tx_bind (sql_rows cnt f) (\<lambda>n. tx_guard e (n = 1))"

definition translateConstraint :: "string \<Rightarrow> err \<Rightarrow> err" where
  "translateConstraint message e = (case e of ConstraintError c \<Rightarrow> ConflictError message | _ \<Rightarrow> e)"

lemma sql_exec_iff [tx_simps]: "sql_exec f s = Inr (y, t) \<longleftrightarrow> t = f s \<and> schema_ok (f s)"
  by (simp add: sql_exec_def tx_exec_iff)

lemma sql_rows_iff [tx_simps]:
  "sql_rows cnt f s = Inr (n, t) \<longleftrightarrow> n = cnt s \<and> t = f s \<and> schema_ok (f s)"
  by (auto simp: sql_rows_def tx_simps)

lemma sql_one_iff [tx_simps]:
  "sql_one e cnt f s = Inr (y, t) \<longleftrightarrow> cnt s = 1 \<and> t = f s \<and> schema_ok (f s)"
  by (auto simp: sql_one_def tx_simps)

text \<open>Any assertion a statement's function keeps, with the constraints as an extra fact.\<close>

lemma sql_exec_keeps: "(\<And>s. P s \<Longrightarrow> schema_ok (f s) \<Longrightarrow> P (f s)) \<Longrightarrow> tx_keeps P (sql_exec f)"
  by (auto simp: tx_keeps_def tx_simps)

lemma sql_one_keeps:
  "(\<And>s. P s \<Longrightarrow> cnt s = 1 \<Longrightarrow> schema_ok (f s) \<Longrightarrow> P (f s)) \<Longrightarrow> tx_keeps P (sql_one e cnt f)"
  by (auto simp: tx_keeps_def tx_simps)

lemma sql_rows_keeps: "(\<And>s. P s \<Longrightarrow> schema_ok (f s) \<Longrightarrow> P (f s)) \<Longrightarrow> tx_keeps P (sql_rows cnt f)"
  by (auto simp: tx_keeps_def tx_simps)

section \<open>Commands and audit events\<close>

definition FindCommand :: "ID \<Rightarrow> db \<Rightarrow> DomainCommand option" where
  "FindCommand i d = List.find (\<lambda>c. dc_ID c = i) (db_commands d)"

definition command_row :: "DomainCommand \<Rightarrow> DomainCommand" where
  "command_row c = c\<lparr>dc_CreatedAt := stored (dc_CreatedAt c),
     dc_CompletedAt := map_option stored (dc_CompletedAt c)\<rparr>"

definition insert_command :: "DomainCommand \<Rightarrow> db \<Rightarrow> db" where
  "insert_command c = db_commands_update (\<lambda>rows. rows @ [command_row c])"

definition reused_command :: err where
  "reused_command = ConflictError ''request identifier was reused with different input''"

definition SaveCommand :: "DomainCommand \<Rightarrow> (db, unit) tx" where
  "SaveCommand command =
     tx_bind (tx_get (FindCommand (dc_ID command))) (\<lambda>existing.
       case existing of
         Some e \<Rightarrow> tx_guard reused_command (dc_RequestFingerprint e = dc_RequestFingerprint command)
       | None \<Rightarrow> sql_exec (insert_command command))"

definition audit_row :: "AuditEvent \<Rightarrow> AuditEvent" where
  "audit_row e = e\<lparr>ae_OccurredAt := stored (ae_OccurredAt e)\<rparr>"

definition insert_audit :: "AuditEvent \<Rightarrow> db \<Rightarrow> db" where
  "insert_audit e = db_audits_update (\<lambda>rows. rows @ [audit_row e])"

definition AppendAudit :: "AuditEvent \<Rightarrow> (db, unit) tx" where
  "AppendAudit e = sql_exec (insert_audit e)"

text \<open>\<open>commandReplay\<close>: whether the request was carried out before; a different request under the
  same identifier is a conflict.\<close>

definition commandReplay :: "DomainCommand \<Rightarrow> (db, bool) tx" where
  "commandReplay command =
     tx_bind (tx_get (FindCommand (dc_ID command))) (\<lambda>existing.
       case existing of
         None \<Rightarrow> tx_ret False
       | Some e \<Rightarrow> if dc_RequestFingerprint e \<noteq> dc_RequestFingerprint command
                  then tx_fail reused_command else tx_ret True)"

text \<open>A write guarded by its command: nothing is written when the request is a replay.\<close>

definition once :: "DomainCommand \<Rightarrow> (db, unit) tx \<Rightarrow> (db, bool) tx" where
  "once command body = tx_bind (commandReplay command) (\<lambda>replay.
     if replay then tx_ret True else tx_seq body (tx_ret False))"

lemma commandReplay_iff [tx_simps]:
  "commandReplay c s = Inr (r, t) \<longleftrightarrow> t = s \<and>
     (case FindCommand (dc_ID c) s of None \<Rightarrow> \<not> r
      | Some e \<Rightarrow> r \<and> dc_RequestFingerprint e = dc_RequestFingerprint c)"
  by (auto simp: commandReplay_def tx_simps split: option.splits)

lemma once_iff [tx_simps]:
  "once c body s = Inr (r, t) \<longleftrightarrow>
     (case FindCommand (dc_ID c) s of
        Some e \<Rightarrow> r \<and> dc_RequestFingerprint e = dc_RequestFingerprint c \<and> t = s
      | None \<Rightarrow> \<not> r \<and> body s = Inr ((), t))"
  by (auto simp: once_def tx_simps split: option.splits)

lemma commandReplay_keeps [simp, intro]: "tx_keeps P (commandReplay c)"
  by (auto simp: tx_keeps_def commandReplay_iff)

lemma once_keeps [intro]: "tx_keeps P body \<Longrightarrow> tx_keeps P (once c body)"
  by (auto simp: tx_keeps_def once_iff split: option.splits)

lemma SaveCommand_keeps:
  "(\<And>s. P s \<Longrightarrow> P (insert_command c s)) \<Longrightarrow> tx_keeps P (SaveCommand c)"
  by (auto simp: tx_keeps_def SaveCommand_def tx_simps split: option.splits)

lemma AppendAudit_keeps:
  "(\<And>s. P s \<Longrightarrow> P (insert_audit e s)) \<Longrightarrow> tx_keeps P (AppendAudit e)"
  by (auto simp: AppendAudit_def intro: sql_exec_keeps)

lemma FindCommand_insert:
  "FindCommand i (insert_command c s) =
     (case FindCommand i s of Some e \<Rightarrow> Some e
      | None \<Rightarrow> if dc_ID c = i then Some (command_row c) else None)"
  by (auto simp: FindCommand_def insert_command_def command_row_def find_append split: option.splits)

lemma SaveCommand_found:
  "SaveCommand c s = Inr ((), t) \<Longrightarrow> \<exists>e. FindCommand (dc_ID c) t = Some e \<and>
     dc_RequestFingerprint e = dc_RequestFingerprint c"
  by (auto simp: SaveCommand_def tx_simps FindCommand_insert command_row_def split: option.splits)

section \<open>Administrators and sessions\<close>

definition Administrator :: "db \<Rightarrow> AdministratorRecord option" where
  "Administrator d = (case db_admins d of [] \<Rightarrow> None | a # _ \<Rightarrow> Some a)"

definition CreateAdministrator :: "AdministratorRecord \<Rightarrow> (db, unit) tx" where
  "CreateAdministrator admin = sql_exec (db_admins_update (\<lambda>rows. rows @
     [admin\<lparr>ad_CreatedAt := stored (ad_CreatedAt admin), ad_UpdatedAt := stored (ad_UpdatedAt admin)\<rparr>]))"

definition UpdateAdministratorPassword :: "ID \<Rightarrow> string \<Rightarrow> int \<Rightarrow> instant \<Rightarrow> (db, unit) tx" where
  "UpdateAdministratorPassword i hash version now =
     sql_one (NotFoundError ''administrator'') (\<lambda>d. rows_affected (\<lambda>a. ad_ID a = i) (db_admins d))
       (db_admins_update (sql_update (\<lambda>a. ad_ID a = i)
          (\<lambda>a. a\<lparr>ad_PasswordHash := hash, ad_PasswordVersion := version, ad_UpdatedAt := stored now\<rparr>)))"

definition session_row :: "SessionRecord \<Rightarrow> AdministratorRecord \<Rightarrow> SessionRow" where
  "session_row r a =
     \<lparr>sr_Session = r\<lparr>se_CreatedAt := stored (se_CreatedAt r), se_LastSeenAt := stored (se_LastSeenAt r),
        se_IdleExpiresAt := stored (se_IdleExpiresAt r), se_AbsoluteExpiresAt := stored (se_AbsoluteExpiresAt r)\<rparr>,
      sr_AdministratorID = ad_ID a, sr_PasswordVersion = ad_PasswordVersion a, sr_RevokedAt = None\<rparr>"

text \<open>The upsert of a session: a live row with the token's digest is refreshed, a revoked one kept.\<close>

definition upsert_session :: "SessionRow \<Rightarrow> SessionRow list \<Rightarrow> SessionRow list" where
  "upsert_session n rows =
     (if list_ex (\<lambda>r. se_TokenDigest (sr_Session r) = se_TokenDigest (sr_Session n)) rows
      then sql_update (\<lambda>r. se_TokenDigest (sr_Session r) = se_TokenDigest (sr_Session n) \<and> sr_RevokedAt r = None)
        (\<lambda>r. r\<lparr>sr_Session := (sr_Session r)\<lparr>se_Data := se_Data (sr_Session n),
               se_LastSeenAt := se_LastSeenAt (sr_Session n),
               se_IdleExpiresAt := se_IdleExpiresAt (sr_Session n),
               se_AbsoluteExpiresAt := se_AbsoluteExpiresAt (sr_Session n)\<rparr>\<rparr>) rows
      else rows @ [n])"

definition InsertSession :: "SessionRecord \<Rightarrow> (db, unit) tx" where
  "InsertSession r = tx_bind (tx_scan NoRows Administrator) (\<lambda>a.
     sql_exec (db_sessions_update (upsert_session (session_row r a))))"

definition live_token :: "8 word list \<Rightarrow> SessionRow \<Rightarrow> bool" where
  "live_token digest r \<longleftrightarrow> se_TokenDigest (sr_Session r) = digest \<and> sr_RevokedAt r = None"

definition RevokeSession :: "8 word list \<Rightarrow> instant \<Rightarrow> (db, bool) tx" where
  "RevokeSession digest now =
     tx_bind (sql_rows (\<lambda>d. rows_affected (live_token digest) (db_sessions d))
       (db_sessions_update (sql_update (live_token digest) (\<lambda>r. r\<lparr>sr_RevokedAt := Some (stored now)\<rparr>))))
     (\<lambda>n. tx_ret (n = 1))"

definition RevokeAllSessions :: "ID \<Rightarrow> instant \<Rightarrow> (db, unit) tx" where
  "RevokeAllSessions i now = sql_exec (db_sessions_update (sql_update
     (\<lambda>r. sr_AdministratorID r = i \<and> sr_RevokedAt r = None) (\<lambda>r. r\<lparr>sr_RevokedAt := Some (stored now)\<rparr>)))"

text \<open>
  The statements of the session store (\<open>sessions.go\<close>) outside a transaction: the upsert of a session
  for an administrator read before, and the refresh of a session that was found.
\<close>

definition CommitSession :: "SessionRow \<Rightarrow> (db, unit) tx" where
  "CommitSession r = sql_exec (db_sessions_update (upsert_session r))"

definition TouchSession :: "ID \<Rightarrow> instant \<Rightarrow> instant \<Rightarrow> (db, unit) tx" where
  "TouchSession i now idle = sql_exec (db_sessions_update (sql_update (\<lambda>r. se_ID (sr_Session r) = i)
     (\<lambda>r. r\<lparr>sr_Session := (sr_Session r)\<lparr>se_LastSeenAt := stored now, se_IdleExpiresAt := stored idle\<rparr>\<rparr>)))"

section \<open>Settings and the managed instance\<close>

definition PanelSettings :: "(db, PanelSettingsRecord) tx" where
  "PanelSettings = tx_scan NoRows db_settings"

definition update_settings :: "(PanelSettingsRecord \<Rightarrow> PanelSettingsRecord) \<Rightarrow> db \<Rightarrow> db" where
  "update_settings f = db_settings_update (map_option f)"

definition update_instance :: "(InstanceRow \<Rightarrow> InstanceRow) \<Rightarrow> db \<Rightarrow> db" where
  "update_instance f = db_instance_update (map_option f)"

definition EnsureSingletons ::
  "string \<Rightarrow> string \<Rightarrow> string \<Rightarrow> 8 word list \<Rightarrow> 8 word list \<Rightarrow> 8 word list \<Rightarrow> instant \<Rightarrow> (db, unit) tx" where
  "EnsureSingletons timezone endpoint version verifier nonce rnd now =
     tx_seq (sql_exec (db_settings_update (\<lambda>s. case s of Some x \<Rightarrow> Some x
         | None \<Rightarrow> Some \<lparr>ps_QuotaTimezone = timezone, ps_KeyVerifier = verifier,
             ps_KeyVerifierNonce = nonce, ps_KeyEncryptionVersion = 1, ps_Revision = 0,
             ps_CreatedAt = stored now, ps_UpdatedAt = stored now\<rparr>)))
     (tx_bind (tx_get db_instance) (\<lambda>i. case i of
         None \<Rightarrow> sql_exec (\<lambda>d. d\<lparr>db_instance := Some \<lparr>in_Instance =
             \<lparr>mi_ID = NewID rnd, mi_Name = ''local-xray'', mi_APIEndpoint = endpoint,
              mi_SupportedRuntimeVersion = version, mi_HealthState = ''unknown'', mi_BootEpoch = None,
              mi_CapabilityGeneration = 1, mi_LastSuccessAt = None, mi_LastErrorCode = '''',
              mi_LastErrorSummary = '''', mi_UpdatedAt = stored now\<rparr>, in_LastUptimeSeconds = 0\<rparr>\<rparr>)
       | Some _ \<Rightarrow> sql_exec (update_instance (\<lambda>r. r\<lparr>in_Instance := (in_Instance r)
             \<lparr>mi_APIEndpoint := endpoint, mi_SupportedRuntimeVersion := version,
              mi_UpdatedAt := stored now\<rparr>\<rparr>))))"

definition UpdateSettings ::
  "string \<Rightarrow> Revision \<Rightarrow> DomainCommand \<Rightarrow> AuditEvent \<Rightarrow> (db, bool) tx" where
  "UpdateSettings timezone expected command audit = once command (tx_all
     [sql_one (ConflictError ''settings changed since the page was loaded'')
        (\<lambda>d. case db_settings d of None \<Rightarrow> 0 | Some s \<Rightarrow> if ps_Revision s = expected then 1 else 0)
        (\<lambda>d. update_settings (\<lambda>s. if ps_Revision s = expected
           then s\<lparr>ps_QuotaTimezone := timezone, ps_Revision := ps_Revision s + 1,
                  ps_UpdatedAt := stored (ae_OccurredAt audit)\<rparr> else s) d),
      SaveCommand command, AppendAudit audit])"

end
