(* ===== verification/Lease_Queue.thy ===== *)
theory Lease_Queue
  imports Prelude
begin

text \<open>
  The contract of a leased queue. The synchronization operations (\<open>store_sync.go\<close>) and the drift
  removals (\<open>store_drift.go\<close>) are two tables with the same protocol: a worker takes a due row for a
  limited time, renews its lease before each call to Xray, and finishes the row only while it holds
  it. The locale states the laws of taking, renewing and finishing, and proves from them that a lease
  excludes every other worker until it expires.
\<close>

section \<open>The state of a lease\<close>

datatype lease_status = Waiting instant | Held "string option" "instant option" | Closed

fun claimable :: "instant \<Rightarrow> lease_status \<Rightarrow> bool" where
  "claimable now (Waiting next) \<longleftrightarrow> next \<le> now"
| "claimable now (Held owner expires) \<longleftrightarrow> (case expires of None \<Rightarrow> False | Some e \<Rightarrow> e \<le> now)"
| "claimable now Closed \<longleftrightarrow> False"

fun is_held :: "lease_status \<Rightarrow> bool" where
  "is_held (Held owner expires) \<longleftrightarrow> True"
| "is_held _ \<longleftrightarrow> False"

text \<open>What a worker does to the queue; times are those the database stores.\<close>

datatype lease_event =
    Take string instant "string option"
  | Renew string string instant bool
  | Finish string string

fun event_owner :: "lease_event \<Rightarrow> string" where
  "event_owner (Take owner now taken) = owner"
| "event_owner (Renew i owner expires held) = owner"
| "event_owner (Finish i owner) = owner"

text \<open>Events of other workers that happen before \<open>limit\<close>.\<close>

definition foreign_before :: "string \<Rightarrow> instant \<Rightarrow> lease_event \<Rightarrow> bool" where
  "foreign_before owner limit ev \<longleftrightarrow> event_owner ev \<noteq> owner \<and>
     (case ev of Take o1 now taken \<Rightarrow> now < limit | _ \<Rightarrow> True)"

inductive lease_run :: "('d \<Rightarrow> lease_event \<Rightarrow> 'd \<Rightarrow> bool) \<Rightarrow> 'd \<Rightarrow> lease_event list \<Rightarrow> 'd \<Rightarrow> bool"
  for step :: "'d \<Rightarrow> lease_event \<Rightarrow> 'd \<Rightarrow> bool" where
  none: "lease_run step d [] d"
| event: "step d ev d1 \<Longrightarrow> lease_run step d1 evs d2 \<Longrightarrow> lease_run step d (ev # evs) d2"

inductive_cases lease_run_Cons: "lease_run step d (ev # evs) d2"
inductive_cases lease_run_Nil: "lease_run step d [] d2"

section \<open>The contract\<close>

locale lease_queue =
  fixes ok :: "'d \<Rightarrow> bool"
    and status :: "'d \<Rightarrow> string \<Rightarrow> lease_status option"
    and step :: "'d \<Rightarrow> lease_event \<Rightarrow> 'd \<Rightarrow> bool"
  assumes step_ok: "ok d \<Longrightarrow> step d ev d1 \<Longrightarrow> ok d1"
    and take_none: "ok d \<Longrightarrow> step d (Take owner now None) d1 \<Longrightarrow> status d1 = status d"
    and take_some: "ok d \<Longrightarrow> step d (Take owner now (Some i)) d1 \<Longrightarrow>
      (\<exists>st. status d i = Some st \<and> claimable now st) \<and>
      (\<exists>e. status d1 = (status d)(i \<mapsto> Held (Some owner) (Some e)))"
    and renew_held: "ok d \<Longrightarrow> step d (Renew i owner expires True) d1 \<Longrightarrow>
      (\<exists>e. status d i = Some (Held (Some owner) e)) \<and>
      status d1 = (status d)(i \<mapsto> Held (Some owner) (Some expires))"
    and renew_lost: "ok d \<Longrightarrow> step d (Renew i owner expires False) d1 \<Longrightarrow> status d1 = status d"
    and finish: "ok d \<Longrightarrow> step d (Finish i owner) d1 \<Longrightarrow> status d1 = status d \<or>
      (\<exists>e st. status d i = Some (Held (Some owner) e) \<and> \<not> is_held st \<and> status d1 = (status d)(i \<mapsto> st))"
begin

text \<open>One event of another worker, before the lease expires, neither takes the row nor touches its lease.\<close>

lemma foreign_step:
  assumes "ok d" "step d ev d1" "status d i = Some (Held (Some owner) (Some e))" "foreign_before owner e ev"
  shows "status d1 i = status d i \<and> (\<forall>who now. ev \<noteq> Take who now (Some i))"
proof (cases ev)
  case (Take who now taken)
  show ?thesis
  proof (cases taken)
    case None
    with Take assms take_none [of d who now d1] show ?thesis by simp
  next
    case (Some j)
    with Take assms take_some [of d who now j d1] show ?thesis
      by (auto simp: foreign_before_def split: if_splits)
  qed
next
  case (Renew j who expires held)
  then show ?thesis
    using assms renew_held [of d j who expires d1] renew_lost [of d j who expires d1]
    by (cases held) (auto simp: foreign_before_def split: if_splits)
next
  case (Finish j who)
  then show ?thesis
    using assms finish [of d j who d1] by (auto simp: foreign_before_def split: if_splits)
qed

theorem exclusive:
  assumes "lease_run step d evs d2" "ok d" "status d i = Some (Held (Some owner) (Some e))"
    and "list_all (foreign_before owner e) evs"
  shows "ok d2 \<and> status d2 i = Some (Held (Some owner) (Some e)) \<and> (\<forall>who now. Take who now (Some i) \<notin> set evs)"
  using assms
proof (induction rule: lease_run.induct)
  case (none d)
  then show ?case by simp
next
  case (event d ev d1 evs d2)
  then have "status d1 i = status d i \<and> (\<forall>who now. ev \<noteq> Take who now (Some i))"
    using foreign_step [of d ev d1 i owner e] by simp
  with event step_ok [of d ev d1] show ?case by auto
qed

text \<open>A worker whose lease was taken over can neither renew nor finish the row.\<close>

lemma taken_over:
  assumes "ok d" "status d i = Some (Held (Some other) e)" "other \<noteq> owner"
  shows "step d (Renew i owner expires held) d1 \<Longrightarrow> \<not> held \<and> status d1 = status d"
    and "step d (Finish i owner) d1 \<Longrightarrow> status d1 = status d"
  using assms renew_held [of d i owner expires d1] renew_lost [of d i owner expires d1]
    finish [of d i owner d1] by (cases held; auto)+

end

end
