(* ===== verification/Store_Sync.thy ===== *)
theory Store_Sync
  imports Store_Base Lease_Queue
begin

text \<open>
  The synchronization operations of the store: \<open>internal/persistence/sqlite/store_sync.go\<close>, with the
  in-transaction helpers of \<open>store_inbounds.go\<close> and \<open>supersedeOlder\<close> of \<open>store_traffic.go\<close>, and the
  user join of \<open>store_users.go\<close>.
\<close>

section \<open>Dedicated inbounds within a transaction\<close>

definition holds_port :: "ID \<Rightarrow> InboundRecord \<Rightarrow> bool" where
  "holds_port a r \<longleftrightarrow> di_AllocationID (ir_Inbound r) = a \<and> unreleased r"

definition update_inbound :: "(DedicatedInbound \<Rightarrow> DedicatedInbound) \<Rightarrow> InboundRecord \<Rightarrow> InboundRecord" where
  "update_inbound f r = r\<lparr>ir_Inbound := f (ir_Inbound r)\<rparr>"

definition setInboundDesired :: "ID \<Rightarrow> bool \<Rightarrow> instant \<Rightarrow> (db, unit) tx" where
  "setInboundDesired allocationID desired now = sql_exec (db_inbounds_update
     (sql_update (holds_port allocationID) (update_inbound
        (\<lambda>i. i\<lparr>di_DesiredPresent := desired, di_UpdatedAt := stored now\<rparr>))))"

definition releaseInboundPort :: "ID \<Rightarrow> instant \<Rightarrow> (db, unit) tx" where
  "releaseInboundPort allocationID now = sql_exec (db_inbounds_update
     (sql_update (holds_port allocationID) (update_inbound
        (\<lambda>i. i\<lparr>di_ReleasedAt := Some (stored now), di_DesiredPresent := False,
              di_ObservedPresent := Some False, di_UpdatedAt := stored now\<rparr>))))"

definition confirmInboundPresence :: "ID \<Rightarrow> bool \<Rightarrow> instant \<Rightarrow> (db, unit) tx" where
  "confirmInboundPresence allocationID present now = sql_exec (db_inbounds_update
     (sql_update (holds_port allocationID) (update_inbound
        (\<lambda>i. i\<lparr>di_ObservedPresent := Some present, di_LastSyncAt := Some (stored now),
              di_UpdatedAt := stored now\<rparr>))))"

definition ConfirmInboundPresence :: "ID \<Rightarrow> bool \<Rightarrow> instant \<Rightarrow> (db, unit) tx" where
  "ConfirmInboundPresence allocationID present now = confirmInboundPresence allocationID present now"

section \<open>Reading a user with everything that belongs to it\<close>

text \<open>\<open>userSelect\<close>: the joins of the query, row by row.\<close>

definition user_rows :: "db \<Rightarrow> UserRecord list" where
  "user_rows d =
     [\<lparr>ur_User = u, ur_Identity = i, ur_Inbound = r, ur_Allocation = a, ur_Credential = c,
       ur_Template = t\<lparr>tm_ValidatedGeneration := 0\<rparr>, ur_Policy = p, ur_Cycle = q\<rparr>.
      u \<leftarrow> db_users d,
      a \<leftarrow> filter (\<lambda>a. al_UserID a = mu_ID u) (db_allocs d),
      i \<leftarrow> filter (\<lambda>i. xi_ID i = al_IdentityID a) (db_identities d),
      t \<leftarrow> filter (\<lambda>t. tm_ID t = al_TemplateID a) (db_templates d),
      r \<leftarrow> filter (\<lambda>r. di_AllocationID (ir_Inbound r) = al_ID a) (db_inbounds d),
      c \<leftarrow> filter (\<lambda>c. cr_AllocationID c = al_ID a \<and> cr_Version c = al_DesiredCredentialVersion a) (db_creds d),
      p \<leftarrow> filter (\<lambda>p. qp_AllocationID p = al_ID a) (db_policies d),
      q \<leftarrow> filter (\<lambda>q. qc_AllocationID q = al_ID a \<and> qc_Open q) (db_cycles d)]"

text \<open>
  \<open>loadUser\<close>. Its callers select one user or one allocation, which the unique columns join to at
  most one row, so \<open>ORDER BY c.version DESC LIMIT 1\<close> is the first row.
\<close>

definition loadUser :: "(UserRecord \<Rightarrow> bool) \<Rightarrow> db \<Rightarrow> err + UserRecord" where
  "loadUser condition d = (case filter condition (user_rows d) of
      [] \<Rightarrow> Inl (NotFoundError ''user'') | r # _ \<Rightarrow> Inr r)"

definition User :: "ID \<Rightarrow> db \<Rightarrow> err + UserRecord" where
  "User i d = loadUser (\<lambda>r. mu_ID (ur_User r) = i) d"

section \<open>Enqueueing\<close>

definition update_ops ::
  "(SynchronizationOperation \<Rightarrow> bool) \<Rightarrow> (SynchronizationOperation \<Rightarrow> SynchronizationOperation) \<Rightarrow> db \<Rightarrow> db" where
  "update_ops p f = db_ops_update (sql_update p f)"

definition update_alloc :: "ID \<Rightarrow> (AccessAllocation \<Rightarrow> AccessAllocation) \<Rightarrow> db \<Rightarrow> db" where
  "update_alloc i f = db_allocs_update (sql_update (\<lambda>a. al_ID a = i) f)"

definition alloc_of :: "db \<Rightarrow> ID \<Rightarrow> AccessAllocation option" where
  "alloc_of d i = List.find (\<lambda>a. al_ID a = i) (db_allocs d)"

definition op_of :: "db \<Rightarrow> ID \<Rightarrow> SynchronizationOperation option" where
  "op_of d i = List.find (\<lambda>r. op_ID r = i) (db_ops d)"

definition user_of :: "db \<Rightarrow> ID \<Rightarrow> ManagedUser option" where
  "user_of d i = List.find (\<lambda>u. mu_ID u = i) (db_users d)"

definition op_row :: "SynchronizationOperation \<Rightarrow> SynchronizationOperation" where
  "op_row r = r\<lparr>op_NextAttemptAt := stored (op_NextAttemptAt r),
     op_LeaseOwner := (case op_LeaseOwner r of Some o1 \<Rightarrow> if o1 = '''' then None else Some o1 | None \<Rightarrow> None),
     op_LeaseExpiresAt := map_option stored (op_LeaseExpiresAt r),
     op_CreatedAt := stored (op_CreatedAt r), op_StartedAt := map_option stored (op_StartedAt r),
     op_CompletedAt := map_option stored (op_CompletedAt r)\<rparr>"

definition insertOperation :: "SynchronizationOperation \<Rightarrow> (db, unit) tx" where
  "insertOperation r = tx_all
     [setInboundDesired (op_AllocationID r) (op_DesiredPresence r) (op_CreatedAt r),
      sql_exec (db_ops_update (\<lambda>rows. rows @ [op_row r]))]"

definition supersede_op :: "instant \<Rightarrow> SynchronizationOperation \<Rightarrow> SynchronizationOperation" where
  "supersede_op now r = r\<lparr>op_State := SyncSuperseded, op_LeaseOwner := None, op_LeaseExpiresAt := None,
     op_CompletedAt := Some (stored now)\<rparr>"

definition supersedable :: "ID \<Rightarrow> Revision \<Rightarrow> SynchronizationOperation \<Rightarrow> bool" where
  "supersedable allocationID revision r \<longleftrightarrow> op_AllocationID r = allocationID \<and>
     op_DesiredRevision r < revision \<and>
     (open_state (op_State r) \<or> op_State r = SyncPermanentFailed)"

definition supersedeOlder :: "ID \<Rightarrow> Revision \<Rightarrow> instant \<Rightarrow> (db, unit) tx" where
  "supersedeOlder allocationID revision now =
     sql_exec (update_ops (supersedable allocationID revision) (supersede_op now))"

definition Enqueue :: "SynchronizationOperation \<Rightarrow> (db, unit) tx" where
  "Enqueue r = tx_all
     [supersedeOlder (op_AllocationID r) (op_DesiredRevision r) (op_CreatedAt r), insertOperation r]"

definition store_Supersede :: "ID \<Rightarrow> Revision \<Rightarrow> instant \<Rightarrow> (db, nat) tx" where
  "store_Supersede allocationID revision now =
     sql_rows (\<lambda>d. rows_affected (supersedable allocationID revision) (db_ops d))
       (update_ops (supersedable allocationID revision) (supersede_op now))"

definition EnqueueReconcile ::
  "ID \<Rightarrow> Revision \<Rightarrow> SynchronizationOperation \<Rightarrow> instant \<Rightarrow> (db, bool) tx" where
  "EnqueueReconcile allocationID expected r now =
     tx_bind (sql_rows
        (\<lambda>d. rows_affected (\<lambda>a. al_ID a = allocationID \<and> al_DesiredRevision a = expected) (db_allocs d))
        (db_allocs_update (sql_update (\<lambda>a. al_ID a = allocationID \<and> al_DesiredRevision a = expected)
           (\<lambda>a. a\<lparr>al_DesiredRevision := op_DesiredRevision r, al_ProjectionState := ProjectionPending,
                  al_UpdatedAt := stored now\<rparr>))))
     (\<lambda>n. if n \<noteq> 1 then tx_ret False
          else tx_seq (tx_all [supersedeOlder allocationID (op_DesiredRevision r) now, insertOperation r])
                 (tx_ret True))"

section \<open>Leasing\<close>

text \<open>Whether an operation is due: waiting and its time has come, or leased by a lease that expired.\<close>

definition sync_due :: "instant \<Rightarrow> SynchronizationOperation \<Rightarrow> bool" where
  "sync_due now r \<longleftrightarrow>
     ((op_State r = SyncPending \<or> op_State r = SyncRetryWait) \<and> op_NextAttemptAt r \<le> stored now) \<or>
     (op_State r = SyncLeased \<and> (case op_LeaseExpiresAt r of None \<Rightarrow> False | Some e \<Rightarrow> e \<le> stored now))"

text \<open>The join with the allocation and its template, which must not be incompatible.\<close>

definition template_projects :: "db \<Rightarrow> SynchronizationOperation \<Rightarrow> bool" where
  "template_projects d r \<longleftrightarrow> list_ex (\<lambda>a. al_ID a = op_AllocationID r \<and>
     list_ex (\<lambda>t. tm_ID t = al_TemplateID a \<and> tm_Compatibility t \<noteq> CompatibilityIncompatible)
       (db_templates d)) (db_allocs d)"

text \<open>The first of the rows of least (next attempt, creation): \<open>ORDER BY .. LIMIT 1\<close>.\<close>

fun earliest :: "('r \<Rightarrow> int \<times> int) \<Rightarrow> 'r list \<Rightarrow> 'r option" where
  "earliest key [] = None"
| "earliest key (r # rs) = (case earliest key rs of
     None \<Rightarrow> Some r
   | Some s \<Rightarrow> if fst (key s) < fst (key r) \<or> fst (key s) = fst (key r) \<and> snd (key s) < snd (key r)
               then Some s else Some r)"

definition due_operation :: "instant \<Rightarrow> db \<Rightarrow> SynchronizationOperation option" where
  "due_operation now d = earliest (\<lambda>r. (op_NextAttemptAt r, op_CreatedAt r))
     (filter (\<lambda>r. sync_due now r \<and> template_projects d r) (db_ops d))"

text \<open>The compare-and-set condition of the lease: \<open>r\<close> is the row just read.\<close>

definition lease_cas :: "instant \<Rightarrow> SynchronizationOperation \<Rightarrow> SynchronizationOperation \<Rightarrow> bool" where
  "lease_cas now r x \<longleftrightarrow> op_ID x = op_ID r \<and>
     (((op_State x = SyncPending \<or> op_State x = SyncRetryWait) \<and> op_NextAttemptAt x \<le> stored now) \<or>
      (op_State x = SyncLeased \<and> (case op_LeaseExpiresAt x of None \<Rightarrow> False | Some e \<Rightarrow> e \<le> stored now) \<and>
       (case op_LeaseOwner x of None \<Rightarrow> '''' | Some o1 \<Rightarrow> o1) =
       (case op_LeaseOwner r of None \<Rightarrow> '''' | Some o1 \<Rightarrow> o1)))"

definition lease_op :: "string \<Rightarrow> instant \<Rightarrow> duration \<Rightarrow> SynchronizationOperation \<Rightarrow> SynchronizationOperation" where
  "lease_op owner now lease r = r\<lparr>op_State := SyncLeased, op_LeaseOwner := Some owner,
     op_LeaseExpiresAt := Some (stored (now + lease)),
     op_StartedAt := Some (case op_StartedAt r of None \<Rightarrow> stored now | Some t \<Rightarrow> t)\<rparr>"

text \<open>The write transaction of \<open>LeaseDueSync\<close>: the row as it was read, when it was leased.\<close>

definition lease_due :: "string \<Rightarrow> instant \<Rightarrow> duration \<Rightarrow> (db, SynchronizationOperation option) tx" where
  "lease_due owner now lease =
     tx_bind (tx_get (due_operation now)) (\<lambda>due. case due of
       None \<Rightarrow> tx_ret None
     | Some r \<Rightarrow> tx_bind (sql_rows (\<lambda>d. rows_affected (lease_cas now r) (db_ops d))
           (update_ops (lease_cas now r) (lease_op owner now lease)))
         (\<lambda>n. tx_ret (if n \<noteq> 1 then None else Some r)))"

text \<open>\<open>LeaseDueSync\<close>: after the commit the user is loaded; an error there leaves the lease taken.\<close>

definition LeaseDueSync :: "string \<Rightarrow> instant \<Rightarrow> duration \<Rightarrow> db \<Rightarrow> (err + SyncWork option) \<times> db" where
  "LeaseDueSync owner now lease d =
     (case WithWriteTx (lease_due owner now lease) d of
        (Inl e, d') \<Rightarrow> (Inl e, d')
      | (Inr None, d') \<Rightarrow> (Inr None, d')
      | (Inr (Some r), d') \<Rightarrow>
          (case loadUser (\<lambda>u. al_ID (ur_Allocation u) = op_AllocationID r) d' of
             Inl e \<Rightarrow> (Inl e, d')
           | Inr u \<Rightarrow> (Inr (Some \<lparr>sw_Operation = r, sw_User = ur_User u, sw_Allocation = ur_Allocation u,
               sw_Identity = ur_Identity u, sw_Template = ur_Template u, sw_Inbound = ur_Inbound u,
               sw_Credential = ur_Credential u\<rparr>), d')))"

definition held_by :: "string \<Rightarrow> SynchronizationOperation \<Rightarrow> bool" where
  "held_by owner r \<longleftrightarrow> op_State r = SyncLeased \<and> op_LeaseOwner r = Some owner"

definition renewable :: "db \<Rightarrow> ID \<Rightarrow> string \<Rightarrow> SynchronizationOperation \<Rightarrow> bool" where
  "renewable d i owner r \<longleftrightarrow> op_ID r = i \<and> held_by owner r \<and>
     (case alloc_of d (op_AllocationID r) of None \<Rightarrow> False
      | Some a \<Rightarrow> op_DesiredRevision r = al_DesiredRevision a)"

definition RenewSyncLease :: "ID \<Rightarrow> string \<Rightarrow> instant \<Rightarrow> duration \<Rightarrow> (db, bool) tx" where
  "RenewSyncLease i owner now lease =
     tx_bind (sql_rows (\<lambda>d. rows_affected (renewable d i owner) (db_ops d))
        (\<lambda>d. update_ops (renewable d i owner) (\<lambda>r. r\<lparr>op_LeaseExpiresAt := Some (stored (now + lease))\<rparr>) d))
     (\<lambda>n. tx_ret (n = 1))"

section \<open>Finishing\<close>

text \<open>The join of an operation with its allocation.\<close>

definition op_with_alloc :: "ID \<Rightarrow> db \<Rightarrow> (SynchronizationOperation \<times> AccessAllocation) option" where
  "op_with_alloc i d = (case op_of d i of None \<Rightarrow> None
     | Some r \<Rightarrow> map_option (Pair r) (alloc_of d (op_AllocationID r)))"

definition destroy_cred :: "instant \<Rightarrow> AccessCredential \<Rightarrow> AccessCredential" where
  "destroy_cred now c = c\<lparr>cr_State := CredentialDestroyed, cr_KeyCiphertext := [], cr_KeyNonce := [],
     cr_KeyEncryptionVersion := 0, cr_RetiredAt := Some (stored now)\<rparr>"

definition update_creds :: "(AccessCredential \<Rightarrow> bool) \<Rightarrow> (AccessCredential \<Rightarrow> AccessCredential) \<Rightarrow> db \<Rightarrow> db" where
  "update_creds p f = db_creds_update (sql_update p f)"

definition activate_version :: "ID \<Rightarrow> int \<Rightarrow> instant \<Rightarrow> (db, unit) tx" where
  "activate_version a v now = tx_all
     [sql_exec (update_creds (\<lambda>c. cr_AllocationID c = a \<and> cr_Version c < v \<and> cr_State c \<noteq> CredentialDestroyed)
        (destroy_cred now)),
      sql_exec (update_creds (\<lambda>c. cr_AllocationID c = a \<and> cr_Version c = v \<and> cr_State c = CredentialPending)
        (\<lambda>c. c\<lparr>cr_State := CredentialActive, cr_ActivatedAt := Some (stored now)\<rparr>))]"

definition destroy_all :: "ID \<Rightarrow> instant \<Rightarrow> (db, unit) tx" where
  "destroy_all a now = sql_exec (update_creds
     (\<lambda>c. cr_AllocationID c = a \<and> cr_State c \<noteq> CredentialDestroyed) (destroy_cred now))"

definition lifecycle_of :: "ID \<Rightarrow> db \<Rightarrow> LifecycleState option" where
  "lifecycle_of a d = (case alloc_of d a of None \<Rightarrow> None
     | Some r \<Rightarrow> map_option mu_Lifecycle (user_of d (al_UserID r)))"

text \<open>The confirmation proper, once the lease and the revision are known to be current.\<close>

definition confirm_current :: "ID \<Rightarrow> ID \<Rightarrow> Revision \<Rightarrow> int \<Rightarrow> bool \<Rightarrow> instant \<Rightarrow> (db, unit) tx" where
  "confirm_current i a revision version present now = tx_all
     [if present then activate_version a version now
      else tx_bind (tx_scan NoRows (lifecycle_of a)) (\<lambda>lc.
        if lc = LifecycleDeleted then tx_all [destroy_all a now, releaseInboundPort a now] else tx_ret ()),
      confirmInboundPresence a present now,
      sql_exec (update_alloc a (\<lambda>r. r\<lparr>
        al_ProjectionState := (if present then ProjectionPresent else ProjectionAbsent),
        al_ObservedPresent := Some present, al_SyncedRevision := revision,
        al_SyncedCredentialVersion := (if present then Some version else None),
        al_LastSyncAt := Some (stored now), al_LastSyncErrorCode := '''', al_LastSyncErrorSummary := '''',
        al_UpdatedAt := stored now\<rparr>)),
      sql_exec (update_ops (\<lambda>r. op_ID r = i) (\<lambda>r. r\<lparr>op_State := SyncSucceeded, op_Phase := SyncDone,
        op_LeaseOwner := None, op_LeaseExpiresAt := None, op_LastErrorCode := '''', op_LastErrorSummary := '''',
        op_CompletedAt := Some (stored now)\<rparr>))]"

definition ConfirmSync ::
  "ID \<Rightarrow> string \<Rightarrow> Revision \<Rightarrow> int \<Rightarrow> bool \<Rightarrow> instant \<Rightarrow> (db, bool) tx" where
  "ConfirmSync i owner revision version present now =
     tx_bind (tx_scan NoRows (op_with_alloc i)) (\<lambda>(r, a).
       if \<not> held_by owner r then tx_ret False
       else if al_DesiredRevision a \<noteq> revision
       then tx_seq (sql_exec (update_ops (\<lambda>x. op_ID x = i) (supersede_op now))) (tx_ret False)
       else tx_seq (confirm_current i (op_AllocationID r) revision version present now) (tx_ret True))"

text \<open>\<open>clock\<close> is the store's own \<open>time.Now\<close>.\<close>

definition finishLeased :: "ID \<Rightarrow> string \<Rightarrow> instant \<Rightarrow> (ID \<Rightarrow> (db, unit) tx) \<Rightarrow> (db, unit) tx" where
  "finishLeased i owner clock apply1 =
     tx_bind (tx_scan NoRows (op_with_alloc i)) (\<lambda>(r, a).
       if \<not> held_by owner r then tx_ret ()
       else if op_DesiredRevision r \<noteq> al_DesiredRevision a
       then sql_exec (update_ops (\<lambda>x. op_ID x = i) (supersede_op clock))
       else apply1 (op_AllocationID r))"

definition RescheduleSync ::
  "ID \<Rightarrow> string \<Rightarrow> int \<Rightarrow> instant \<Rightarrow> string \<Rightarrow> string \<Rightarrow> instant \<Rightarrow> (db, unit) tx" where
  "RescheduleSync i owner attempts next code summary clock = finishLeased i owner clock (\<lambda>a. tx_all
     [sql_exec (update_ops (\<lambda>r. op_ID r = i) (\<lambda>r. r\<lparr>op_State := SyncRetryWait, op_AttemptCount := attempts,
        op_NextAttemptAt := stored next, op_LeaseOwner := None, op_LeaseExpiresAt := None,
        op_LastErrorCode := code, op_LastErrorSummary := summary\<rparr>)),
      sql_exec (update_alloc a (\<lambda>r. r\<lparr>al_ProjectionState := ProjectionPending, al_LastSyncErrorCode := code,
        al_LastSyncErrorSummary := summary, al_UpdatedAt := stored next\<rparr>))])"

definition FailSync :: "ID \<Rightarrow> string \<Rightarrow> string \<Rightarrow> string \<Rightarrow> instant \<Rightarrow> instant \<Rightarrow> (db, unit) tx" where
  "FailSync i owner code summary now clock = finishLeased i owner clock (\<lambda>a. tx_all
     [sql_exec (update_ops (\<lambda>r. op_ID r = i) (\<lambda>r. r\<lparr>op_State := SyncPermanentFailed,
        op_LeaseOwner := None, op_LeaseExpiresAt := None, op_LastErrorCode := code,
        op_LastErrorSummary := summary, op_CompletedAt := Some (stored now)\<rparr>)),
      sql_exec (update_alloc a (\<lambda>r. r\<lparr>al_ProjectionState := ProjectionError, al_LastSyncErrorCode := code,
        al_LastSyncErrorSummary := summary, al_UpdatedAt := stored now\<rparr>))])"

section \<open>Queries and observations\<close>

definition HasOpenOperation :: "ID \<Rightarrow> db \<Rightarrow> bool" where
  "HasOpenOperation a d \<longleftrightarrow>
     rows_affected (\<lambda>r. op_AllocationID r = a \<and> open_state (op_State r)) (db_ops d) > 0"

definition HasOpenRotation :: "ID \<Rightarrow> db \<Rightarrow> bool" where
  "HasOpenRotation a d \<longleftrightarrow>
     rows_affected (\<lambda>r. op_AllocationID r = a \<and> op_Reason r = SyncRotate \<and> open_state (op_State r)) (db_ops d) > 0"

definition RecordObservation :: "ID \<Rightarrow> bool \<Rightarrow> instant \<Rightarrow> (db, unit) tx" where
  "RecordObservation allocationID present now = sql_exec (update_alloc allocationID (\<lambda>a. a\<lparr>
     al_ObservedPresent := Some present,
     al_ProjectionState := (if al_DesiredRevision a = al_SyncedRevision a
        then (if present then ProjectionPresent else ProjectionAbsent) else al_ProjectionState a),
     al_UpdatedAt := stored now\<rparr>))"

section \<open>The operations as a leased queue\<close>

definition sync_status :: "db \<Rightarrow> ID \<Rightarrow> lease_status option" where
  "sync_status d i = map_option (\<lambda>r.
     if op_State r = SyncPending \<or> op_State r = SyncRetryWait then Waiting (op_NextAttemptAt r)
     else if op_State r = SyncLeased then Held (op_LeaseOwner r) (op_LeaseExpiresAt r) else Closed) (op_of d i)"

inductive sync_lease_step :: "db \<Rightarrow> lease_event \<Rightarrow> db \<Rightarrow> bool" where
  take: "lease_due owner now lease d = Inr (r, d1) \<Longrightarrow>
    sync_lease_step d (Take owner (stored now) (map_option op_ID r)) d1"
| renew: "RenewSyncLease i owner now lease d = Inr (held, d1) \<Longrightarrow>
    sync_lease_step d (Renew i owner (stored (now + lease)) held) d1"
| confirm: "ConfirmSync i owner revision version present now d = Inr (confirmed, d1) \<Longrightarrow>
    sync_lease_step d (Finish i owner) d1"
| reschedule: "RescheduleSync i owner attempts next code summary clock d = Inr ((), d1) \<Longrightarrow>
    sync_lease_step d (Finish i owner) d1"
| fail: "FailSync i owner code summary now clock d = Inr ((), d1) \<Longrightarrow>
    sync_lease_step d (Finish i owner) d1"

inductive_cases sync_lease_takeE: "sync_lease_step d (Take owner now taken) d1"
inductive_cases sync_lease_renewE: "sync_lease_step d (Renew i owner expires held) d1"
inductive_cases sync_lease_finishE: "sync_lease_step d (Finish i owner) d1"

lemma db_update_same:
  "f (db_ops d) = db_ops d \<Longrightarrow> db_ops_update f d = d"
  "g (db_drifts d) = db_drifts d \<Longrightarrow> db_drifts_update g d = d"
  by (cases d; simp)+

lemma schema_op_ids: "schema_ok d \<Longrightarrow> distinct (map op_ID (db_ops d))"
  by (simp add: schema_ok_def tables_sync_ok_def)

lemma op_of_update:
  assumes "\<And>r. p r \<Longrightarrow> op_ID (f r) = op_ID r"
  shows "op_of (update_ops p f d) i = map_option (\<lambda>r. if p r then f r else r) (op_of d i)"
  by (simp add: op_of_def update_ops_def find_sql_update assms)

lemma op_of_frames [simp]:
  "op_of (db_creds_update f s) i = op_of s i" "op_of (db_inbounds_update g s) i = op_of s i"
  "op_of (db_allocs_update h s) i = op_of s i"
  by (simp_all add: op_of_def)

lemma op_of_Some: "op_of d i = Some r \<Longrightarrow> r \<in> set (db_ops d) \<and> op_ID r = i"
  unfolding op_of_def by (rule find_keyD)

lemma schema_op_of: "schema_ok d \<Longrightarrow> r \<in> set (db_ops d) \<Longrightarrow> op_of d (op_ID r) = Some r"
  unfolding op_of_def by (rule find_key_unique [of op_ID]) (auto simp: schema_ok_def tables_sync_ok_def)

lemma sync_take:
  assumes "lease_due owner now lease d = Inr (r, d1)" "schema_ok d"
  shows "schema_ok d1 \<and> (case r of None \<Rightarrow> sync_status d1 = sync_status d
    | Some r \<Rightarrow> (\<exists>st. sync_status d (op_ID r) = Some st \<and> claimable (stored now) st) \<and>
        sync_status d1 = (sync_status d)(op_ID r \<mapsto> Held (Some owner) (Some (stored (now + lease)))))"
proof (cases "due_operation now d")
  case None
  with assms show ?thesis by (auto simp: lease_due_def tx_simps)
next
  case (Some q)
  let ?p = "lease_cas now q" and ?f = "lease_op owner now lease"
  from Some assms have d1: "d1 = update_ops ?p ?f d" "schema_ok d1"
    and r: "r = (if rows_affected ?p (db_ops d) \<noteq> 1 then None else Some q)"
    by (auto simp: lease_due_def tx_simps)
  have op1: "op_of d1 i = map_option (\<lambda>x. if ?p x then ?f x else x) (op_of d i)" for i
    unfolding d1 by (rule op_of_update) (simp add: lease_op_def)
  show ?thesis
  proof (cases "rows_affected ?p (db_ops d) = 1")
    case True
    then obtain x where x: "x \<in> set (db_ops d)" "?p x" by (rule rows_affected_1E)
    then have ID: "op_ID x = op_ID q" by (simp add: lease_cas_def)
    have xq: "op_of d (op_ID q) = Some x" using schema_op_of [OF assms(2) x(1)] ID by simp
    have other: "\<not> ?p y" if "op_of d i = Some y" "i \<noteq> op_ID q" for i y
      using that op_of_Some [OF that(1)] by (auto simp: lease_cas_def)
    have "sync_status d1 = (sync_status d)(op_ID q \<mapsto> Held (Some owner) (Some (stored (now + lease))))"
    proof
      fix i show "sync_status d1 i = ((sync_status d)(op_ID q \<mapsto> Held (Some owner) (Some (stored (now + lease))))) i"
        using xq x(2) other [of i] by (cases "op_of d i") (auto simp: sync_status_def op1 lease_op_def)
    qed
    moreover have "\<exists>st. sync_status d (op_ID q) = Some st \<and> claimable (stored now) st"
      using xq x(2) by (auto simp: sync_status_def lease_cas_def split: option.splits)
    ultimately show ?thesis using True r d1(2) by simp
  next
    case False
    then have "sql_update ?p ?f (db_ops d) = db_ops d"
      by (rule sql_update_keyed [OF schema_op_ids [OF assms(2)], where i = "op_ID q", rotated]) (simp add: lease_cas_def)
    then have "d1 = d" unfolding d1 update_ops_def by (rule db_update_same)
    with False r assms show ?thesis by simp
  qed
qed

lemma sync_status_one:
  assumes "\<And>r. p r \<Longrightarrow> op_ID r = i" "\<And>r. p r \<Longrightarrow> op_ID (f r) = op_ID r" "op_of d i = Some x"
  shows "sync_status (update_ops p f d) = (if p x then (sync_status d)(i \<mapsto> the (sync_status (update_ops p f d) i)) else sync_status d)"
proof
  fix j
  have up: "op_of (update_ops p f d) j = map_option (\<lambda>r. if p r then f r else r) (op_of d j)" for j
    by (rule op_of_update) (rule assms(2))
  have "p y \<Longrightarrow> j = i" if "op_of d j = Some y" for y using assms(1) op_of_Some [OF that] by auto
  then show "sync_status (update_ops p f d) j = (if p x then (sync_status d)(i \<mapsto> the (sync_status (update_ops p f d) i)) else sync_status d) j"
    using assms(3) by (cases "op_of d j") (auto simp: sync_status_def up)
qed

lemma RenewSyncLease_Inr:
  "RenewSyncLease i owner now lease d = Inr (held, d1) \<longleftrightarrow>
     held = (rows_affected (renewable d i owner) (db_ops d) = 1) \<and>
     d1 = update_ops (renewable d i owner) (\<lambda>r. r\<lparr>op_LeaseExpiresAt := Some (stored (now + lease))\<rparr>) d \<and> schema_ok d1"
  by (auto simp: RenewSyncLease_def tx_simps)

lemma sync_renew:
  assumes "RenewSyncLease i owner now lease d = Inr (held, d1)" "schema_ok d"
  shows "schema_ok d1 \<and> (if held then (\<exists>e. sync_status d i = Some (Held (Some owner) e)) \<and>
      sync_status d1 = (sync_status d)(i \<mapsto> Held (Some owner) (Some (stored (now + lease)))) else d1 = d)"
proof -
  let ?p = "renewable d i owner" and ?f = "\<lambda>r. r\<lparr>op_LeaseExpiresAt := Some (stored (now + lease))\<rparr>"
  have run: "held = (rows_affected ?p (db_ops d) = 1)" "d1 = update_ops ?p ?f d" "schema_ok d1"
    using assms(1) unfolding RenewSyncLease_Inr by auto
  have keyed: "?p r \<Longrightarrow> op_ID r = i" for r by (simp add: renewable_def)
  show ?thesis
  proof (cases held)
    case True
    then have "rows_affected ?p (db_ops d) = 1" using run by simp
    then obtain x where x: "x \<in> set (db_ops d)" "?p x" by (rule rows_affected_1E)
    then have xi: "op_of d i = Some x" using schema_op_of [OF assms(2) x(1)] keyed by auto
    have "sync_status d1 i = Some (Held (Some owner) (Some (stored (now + lease))))"
      using x(2) xi by (simp add: run(2) sync_status_def op_of_update renewable_def held_by_def)
    moreover have "sync_status d i = Some (Held (Some owner) (op_LeaseExpiresAt x))"
      using x(2) xi by (simp add: sync_status_def renewable_def held_by_def)
    ultimately show ?thesis
      using True run sync_status_one [of ?p i ?f d x, OF keyed _ xi] x(2) by simp
  next
    case False
    then have "sql_update ?p ?f (db_ops d) = db_ops d"
      using run(1) sql_update_keyed [OF schema_op_ids [OF assms(2)] keyed] by blast
    then have "d1 = d" unfolding run(2) update_ops_def by (rule db_update_same)
    with False assms(2) show ?thesis by simp
  qed
qed

lemma tx_bind_scan:
  "tx_bind (tx_scan e q) k s = Inr (y, t) \<longleftrightarrow> (\<exists>x. q s = Some x \<and> k x s = Inr (y, t))"
  by (auto simp: tx_simps)

lemma sync_finish_status:
  assumes "op_of d i = Some r" "held_by owner r" "op_of d1 i = Some (f r)" "\<And>j. j \<noteq> i \<Longrightarrow> op_of d1 j = op_of d j"
    "op_State (f r) \<noteq> SyncLeased"
  shows "\<exists>e st. sync_status d i = Some (Held (Some owner) e) \<and> \<not> is_held st \<and> sync_status d1 = (sync_status d)(i \<mapsto> st)"
proof -
  have "sync_status d1 = (sync_status d)(i := sync_status d1 i)" using assms(4) by (auto simp: sync_status_def fun_eq_iff)
  moreover have "\<exists>st. sync_status d1 i = Some st \<and> \<not> is_held st" using assms(3,5) by (auto simp: sync_status_def)
  moreover have "sync_status d i = Some (Held (Some owner) (op_LeaseExpiresAt r))"
    using assms(1,2) by (simp add: sync_status_def held_by_def)
  ultimately show ?thesis by metis
qed

lemma op_of_finish:
  assumes "\<And>r. op_ID (f r) = op_ID r"
  shows "op_of (update_ops (\<lambda>x. op_ID x = i) f d) j = (if j = i then map_option f (op_of d i) else op_of d j)"
proof -
  have "op_of (update_ops (\<lambda>x. op_ID x = i) f d) j = map_option (\<lambda>r. if op_ID r = i then f r else r) (op_of d j)"
    by (rule op_of_update) (rule assms)
  then show ?thesis by (cases "op_of d j") (auto dest: op_of_Some)
qed

lemma confirm_current_ops:
  assumes "confirm_current i a revision version present now d = Inr ((), d1)"
  shows "schema_ok d1 \<and> (\<exists>f. (\<forall>r. op_State (f r) = SyncSucceeded) \<and>
    (\<forall>j. op_of d1 j = (if j = i then map_option f (op_of d i) else op_of d j)))"
  using assms
  by (auto simp: confirm_current_def activate_version_def destroy_all_def releaseInboundPort_def
      confirmInboundPresence_def update_alloc_def update_creds_def op_of_finish tx_simps split: if_splits
      intro!: exI [of _ "\<lambda>r. r\<lparr>op_State := SyncSucceeded, op_Phase := SyncDone,
        op_LeaseOwner := None, op_LeaseExpiresAt := None, op_LastErrorCode := '''', op_LastErrorSummary := '''',
        op_CompletedAt := Some (stored now)\<rparr>"])

lemma op_with_alloc_Some: "op_with_alloc i d = Some (r, a) \<longleftrightarrow> op_of d i = Some r \<and> alloc_of d (op_AllocationID r) = Some a"
  by (auto simp: op_with_alloc_def split: option.splits)

text \<open>What a finishing transaction may do to the lease of its row.\<close>

definition sync_finished :: "db \<Rightarrow> ID \<Rightarrow> string \<Rightarrow> db \<Rightarrow> bool" where
  "sync_finished d i owner d1 \<longleftrightarrow> schema_ok d1 \<and> (d1 = d \<or>
     (\<exists>e st. sync_status d i = Some (Held (Some owner) e) \<and> \<not> is_held st \<and> sync_status d1 = (sync_status d)(i \<mapsto> st)))"

lemma sync_finishedI:
  assumes "op_of d i = Some r" "held_by owner r" "schema_ok d1" "\<And>x. op_State (f x) \<noteq> SyncLeased"
    "\<And>j. op_of d1 j = (if j = i then map_option f (op_of d i) else op_of d j)"
  shows "sync_finished d i owner d1"
  using sync_finish_status [of d i r owner d1 f] assms by (simp add: sync_finished_def)

lemma sync_confirm:
  assumes "ConfirmSync i owner revision version present now d = Inr (confirmed, d1)" "schema_ok d"
  shows "sync_finished d i owner d1"
proof -
  obtain r a where r: "op_of d i = Some r" and a: "alloc_of d (op_AllocationID r) = Some a"
    using assms(1) by (auto simp: ConfirmSync_def tx_bind_scan op_with_alloc_Some)
  show ?thesis
  proof (cases "held_by owner r")
    case False
    with assms r a show ?thesis
      by (auto simp: ConfirmSync_def tx_bind_scan op_with_alloc_Some sync_finished_def tx_simps)
  next
    case held: True
    show ?thesis
    proof (cases "al_DesiredRevision a = revision")
      case True
      with assms(1) held r a have "confirm_current i (op_AllocationID r) revision version present now d = Inr ((), d1)"
        by (auto simp: ConfirmSync_def tx_bind_scan op_with_alloc_Some tx_simps)
      from confirm_current_ops [OF this] obtain f where "schema_ok d1"
        "\<forall>r. op_State (f r) = SyncSucceeded" "\<forall>j. op_of d1 j = (if j = i then map_option f (op_of d i) else op_of d j)"
        by blast
      then show ?thesis by (intro sync_finishedI [OF r held, where f = f]) simp_all
    next
      case False
      with assms(1) held r a have d1: "d1 = update_ops (\<lambda>x. op_ID x = i) (supersede_op now) d" "schema_ok d1"
        by (auto simp: ConfirmSync_def tx_bind_scan op_with_alloc_Some tx_simps)
      show ?thesis
        by (rule sync_finishedI [OF r held d1(2), where f = "supersede_op now"])
          (auto simp: d1(1) supersede_op_def op_of_finish)
    qed
  qed
qed

lemma sync_finish_leased:
  assumes "finishLeased i owner clock k d = Inr ((), d1)" "schema_ok d"
    and "\<And>a. k a d = Inr ((), d1) \<Longrightarrow> schema_ok d1 \<and> (\<exists>f. (\<forall>r. op_State (f r) \<noteq> SyncLeased) \<and>
      (\<forall>j. op_of d1 j = (if j = i then map_option f (op_of d i) else op_of d j)))"
  shows "sync_finished d i owner d1"
proof -
  obtain r a where r: "op_of d i = Some r" and a: "alloc_of d (op_AllocationID r) = Some a"
    using assms(1) by (auto simp: finishLeased_def tx_bind_scan op_with_alloc_Some)
  consider "\<not> held_by owner r" "d1 = d"
    | "held_by owner r" "d1 = update_ops (\<lambda>x. op_ID x = i) (supersede_op clock) d" "schema_ok d1"
    | "held_by owner r" "k (op_AllocationID r) d = Inr ((), d1)"
    using assms(1) r a by (auto simp: finishLeased_def tx_bind_scan op_with_alloc_Some tx_simps)
  then show ?thesis
  proof cases
    case 1
    with assms(2) show ?thesis by (simp add: sync_finished_def)
  next
    case 2
    show ?thesis
      by (rule sync_finishedI [OF r 2(1,3), where f = "supersede_op clock"])
        (auto simp: 2(2) supersede_op_def op_of_finish)
  next
    case 3
    from assms(3) [OF 3(2)] obtain f where "schema_ok d1"
      "\<forall>r. op_State (f r) \<noteq> SyncLeased" "\<forall>j. op_of d1 j = (if j = i then map_option f (op_of d i) else op_of d j)"
      by blast
    then show ?thesis by (intro sync_finishedI [OF r 3(1), where f = f]) simp_all
  qed
qed

lemma finish_statements:
  assumes "tx_all [sql_exec (update_ops (\<lambda>r. op_ID r = i) f), sql_exec (update_alloc a g)] d = Inr ((), d1)"
    "\<And>r. op_ID (f r) = op_ID r" "\<And>r. op_State (f r) \<noteq> SyncLeased"
  shows "schema_ok d1 \<and> (\<exists>f. (\<forall>r. op_State (f r) \<noteq> SyncLeased) \<and>
    (\<forall>j. op_of d1 j = (if j = i then map_option f (op_of d i) else op_of d j)))"
  using assms by (auto simp: tx_simps update_alloc_def op_of_finish intro!: exI [of _ f])

lemma sync_reschedule:
  "RescheduleSync i owner attempts nxt code summary clock d = Inr ((), d1) \<Longrightarrow> schema_ok d \<Longrightarrow> sync_finished d i owner d1"
  unfolding RescheduleSync_def by (erule sync_finish_leased, assumption, erule finish_statements) simp_all

lemma sync_fail:
  "FailSync i owner code summary now clock d = Inr ((), d1) \<Longrightarrow> schema_ok d \<Longrightarrow> sync_finished d i owner d1"
  unfolding FailSync_def by (erule sync_finish_leased, assumption, erule finish_statements) simp_all

lemma sync_take_some:
  assumes "lease_due owner now lease d = Inr (r, d1)" "schema_ok d" "Some i = map_option op_ID r"
  shows "(\<exists>st. sync_status d i = Some st \<and> claimable (stored now) st) \<and>
    (\<exists>e. sync_status d1 = (sync_status d)(i \<mapsto> Held (Some owner) (Some e)))"
  using sync_take [OF assms(1,2)] assms(3) by (cases r) auto

interpretation sync_queue: lease_queue schema_ok sync_status sync_lease_step
proof
  fix d d1 :: db and ev
  assume ok: "schema_ok d"
  assume "sync_lease_step d ev d1"
  then show "schema_ok d1"
    by cases (metis ok sync_take sync_renew sync_confirm sync_reschedule sync_fail sync_finished_def)+
qed (auto elim!: sync_lease_takeE sync_lease_renewE sync_lease_finishE
      dest: sync_take sync_take_some sync_renew sync_confirm sync_reschedule sync_fail simp: sync_finished_def
      split: if_splits)

end
