(* ===== verification/Store_Traffic.thy ===== *)
theory Store_Traffic
  imports Store_Sync "HOL-Library.List_Lexorder"
begin

text \<open>
  Traffic and quota in the store: \<open>internal/persistence/sqlite/store_traffic.go\<close> and
  \<open>store_quota.go\<close>. \<open>zones\<close> is the time zone database behind \<open>time.LoadLocation\<close> (\<open>None\<close>: unknown
  name), and \<open>fresh n\<close> the identifier of the n-th call of \<open>NewID\<close>; the counter is threaded through.
\<close>

section \<open>Facts and decisions within a transaction\<close>

record allocationFacts =
  fa_Facts :: AllocationFacts
  fa_limit :: "int option"
  fa_accountedUplink :: int
  fa_accountedDownlink :: int

definition open_cycle :: "ID \<Rightarrow> db \<Rightarrow> QuotaCycleRecord option" where
  "open_cycle a d = List.find (\<lambda>c. qc_AllocationID c = a \<and> qc_Open c) (db_cycles d)"

definition policy_of :: "ID \<Rightarrow> db \<Rightarrow> QuotaPolicyRecord option" where
  "policy_of a d = List.find (\<lambda>p. qp_AllocationID p = a) (db_policies d)"

definition cursor_of :: "ID \<Rightarrow> db \<Rightarrow> TrafficCursorRecord option" where
  "cursor_of a d = List.find (\<lambda>c. tc_AllocationID c = a) (db_cursors d)"

definition facts_of :: "ID \<Rightarrow> db \<Rightarrow> allocationFacts option" where
  "facts_of i d =
     (case alloc_of d i of None \<Rightarrow> None | Some a \<Rightarrow>
      case user_of d (al_UserID a) of None \<Rightarrow> None | Some u \<Rightarrow>
      case policy_of i d of None \<Rightarrow> None | Some p \<Rightarrow>
      case open_cycle i d of None \<Rightarrow> None | Some c \<Rightarrow>
        Some \<lparr>fa_Facts = \<lparr>af_Lifecycle = mu_Lifecycle u, af_AdminEnabled = al_AdminEnabled a,
                af_QuotaState = al_QuotaState a, af_DesiredRevision = al_DesiredRevision a,
                af_DesiredCredentialVersion = al_DesiredCredentialVersion a\<rparr>,
              fa_limit = qp_LimitBytes p, fa_accountedUplink = qc_AccountedUplinkBytes c,
              fa_accountedDownlink = qc_AccountedDownlinkBytes c\<rparr>)"

definition readFacts :: "ID \<Rightarrow> (db, allocationFacts) tx" where
  "readFacts i = tx_scan NoRows (facts_of i)"

definition facts_exceeded :: "allocationFacts \<Rightarrow> bool" where
  "facts_exceeded f = IsQuotaExceeded (fa_limit f) (fa_accountedUplink f) (fa_accountedDownlink f)"

text \<open>The operation a decision enqueues, from the caller's template.\<close>

definition decision_op ::
  "ID \<Rightarrow> AllocationFacts \<Rightarrow> bool \<Rightarrow> SyncReason \<Rightarrow> SyncPhase \<Rightarrow> SynchronizationOperation \<Rightarrow> instant \<Rightarrow>
   SynchronizationOperation" where
  "decision_op a facts present reason phase template now =
     template\<lparr>op_AllocationID := a, op_DesiredRevision := af_DesiredRevision facts + 1,
       op_DesiredPresence := present,
       op_DesiredCredentialVersion := Some (af_DesiredCredentialVersion facts),
       op_Reason := reason, op_Phase := phase, op_State := SyncPending,
       op_IdempotencyKey := SyncIdempotencyKey a (af_DesiredRevision facts + 1) phase,
       op_AttemptCount := 0, op_LeaseOwner := None, op_LeaseExpiresAt := None, op_NextAttemptAt := now,
       op_CreatedAt := (if op_CreatedAt template = zero_time then now else op_CreatedAt template)\<rparr>"

text \<open>A decision that needs an operation has a reason and a phase.\<close>

definition applyDecision ::
  "ID \<Rightarrow> allocationFacts \<Rightarrow> TransitionDecision \<Rightarrow> bool \<Rightarrow> SynchronizationOperation option \<Rightarrow> instant \<Rightarrow>
   (db, bool) tx" where
  "applyDecision a facts decision adminEnabled template now =
     (case (NeedsOperation decision, template, td_Reason decision, td_Phase decision) of
        (True, Some t, Some reason, Some phase) \<Rightarrow>
          (let r = decision_op a (fa_Facts facts) (td_WillBePresent decision) reason phase t now in
           tx_seq (tx_all
             [supersedeOlder a (op_DesiredRevision r) now, insertOperation r,
              sql_exec (update_alloc a (\<lambda>x. x\<lparr>al_AdminEnabled := adminEnabled,
                al_QuotaState := td_QuotaState decision, al_DesiredRevision := op_DesiredRevision r,
                al_ProjectionState := ProjectionPending, al_UpdatedAt := stored now\<rparr>))])
             (tx_ret True))
      | _ \<Rightarrow>
          tx_seq (sql_exec (update_alloc a (\<lambda>x. x\<lparr>al_AdminEnabled := adminEnabled,
              al_QuotaState := td_QuotaState decision, al_UpdatedAt := stored now\<rparr>)))
            (tx_ret False))"

section \<open>Settling quota cycles\<close>

definition new_cycle :: "ID \<Rightarrow> ID \<Rightarrow> instant \<Rightarrow> instant \<Rightarrow> string \<Rightarrow> int \<Rightarrow> instant \<Rightarrow> QuotaCycleRecord" where
  "new_cycle i a start stop timezone resetDay now =
     \<lparr>qc_ID = i, qc_AllocationID = a, qc_StartsAt = stored start, qc_EndsAt = stored stop,
      qc_Timezone = timezone, qc_ResetDay = resetDay, qc_Open = True,
      qc_GrossUplinkBytes = 0, qc_GrossDownlinkBytes = 0, qc_AccountedUplinkBytes = 0,
      qc_AccountedDownlinkBytes = 0, qc_ManualResetCount = 0, qc_OpenedAt = stored now, qc_ClosedAt = None\<rparr>"

definition roll_cycle :: "QuotaCycleRecord \<Rightarrow> QuotaCycleRecord \<Rightarrow> instant \<Rightarrow> (db, unit) tx" where
  "roll_cycle old next now = tx_all
     [sql_exec (db_cycles_update (sql_update (\<lambda>c. qc_ID c = qc_ID old \<and> qc_Open c)
        (\<lambda>c. c\<lparr>qc_Open := False, qc_ClosedAt := Some (stored now)\<rparr>))),
      sql_exec (db_cycles_update (\<lambda>rows. rows @ [next]))]"

text \<open>The end of the cycle after \<open>c\<close>, by the current policy and time zone; the code's errors.\<close>

definition next_cycle_end :: "(string \<Rightarrow> Location option) \<Rightarrow> QuotaCycleRecord \<Rightarrow> string \<Rightarrow> int \<Rightarrow> err + instant" where
  "next_cycle_end zones c timezone resetDay =
     (case CycleBounds (qc_EndsAt c) (zones timezone) resetDay of
        Inl e \<Rightarrow> Inl e
      | Inr (_, stop) \<Rightarrow> if \<not> stop > qc_EndsAt c
          then Inl (PlainError ''computed cycle end is not after its start'') else Inr stop)"

lemma roll_cycle_open:
  assumes "roll_cycle old next now d = Inr ((), d')" "qc_Open next"
  shows "open_cycle (qc_AllocationID next) d' = Some next"
proof -
  from assms(1) have schema: "schema_ok d'" and mem: "next \<in> set (db_cycles d')"
    by (auto simp: roll_cycle_def tx_simps simp del: tx_all.simps)
  have uniq: "uniq_where qc_Open qc_AllocationID (db_cycles d')"
    using schema by (simp add: schema_ok_def tables_quota_ok_def)
  obtain c where c: "open_cycle (qc_AllocationID next) d' = Some c"
    using mem assms(2) unfolding open_cycle_def
    by (cases "List.find (\<lambda>c. qc_AllocationID c = qc_AllocationID next \<and> qc_Open c) (db_cycles d')")
      (auto simp: find_None_iff)
  then have "c \<in> set (db_cycles d')" "qc_Open c" "qc_AllocationID c = qc_AllocationID next"
    by (auto simp: open_cycle_def find_Some_iff)
  then have "c = next" using uniq_whereD [OF uniq] mem assms(2) by metis
  with c show ?thesis by simp
qed

function settle_loop ::
  "(string \<Rightarrow> Location option) \<Rightarrow> (nat \<Rightarrow> ID) \<Rightarrow> ID \<Rightarrow> instant \<Rightarrow> nat \<Rightarrow> int \<Rightarrow> (db, nat \<times> int) tx" where
  "settle_loop zones fresh a now n rolled d =
     (case open_cycle a d of
        None \<Rightarrow> Inl NoRows
      | Some c \<Rightarrow>
          if qc_EndsAt c > now then Inr ((n, rolled), d)
          else case (policy_of a d, db_settings d) of
            (Some p, Some s) \<Rightarrow>
              (case next_cycle_end zones c (ps_QuotaTimezone s) (qp_ResetDay p) of
                 Inl e \<Rightarrow> Inl e
               | Inr stop \<Rightarrow>
                   (case roll_cycle c (new_cycle (fresh n) a (qc_EndsAt c) stop (ps_QuotaTimezone s)
                            (qp_ResetDay p) now) now d of
                      Inl e \<Rightarrow> Inl e
                    | Inr (_, d') \<Rightarrow> settle_loop zones fresh a now (n + 1) (rolled + 1) d'))
          | _ \<Rightarrow> Inl NoRows)"
  by pat_completeness auto

definition cycle_gap :: "ID \<Rightarrow> instant \<Rightarrow> db \<Rightarrow> nat" where
  "cycle_gap a now d = (case open_cycle a d of None \<Rightarrow> 0 | Some c \<Rightarrow> nat (now + 1 - qc_EndsAt c))"

lemma stored_less: "stored s < stored t \<Longrightarrow> s < stored t"
proof -
  assume "stored s < stored t"
  then have "s div Millisecond + 1 \<le> t div Millisecond"
    by (simp add: stored_def fromMillis_def millis_def Millisecond_def)
  then have "(s div Millisecond + 1) * Millisecond \<le> stored t"
    unfolding stored_def fromMillis_def millis_def by (rule mult_right_mono) (simp add: Millisecond_def)
  moreover have "s < (s div Millisecond + 1) * Millisecond"
    by (simp add: Millisecond_def)
  ultimately show ?thesis by simp
qed

lemma roll_cycle_gap:
  assumes "open_cycle a d = Some c" "\<not> now < qc_EndsAt c"
    and "roll_cycle c (new_cycle i a (qc_EndsAt c) stop tz rd now) now d = Inr (u, d')"
  shows "cycle_gap a now d' < cycle_gap a now d"
proof -
  let ?n = "new_cycle i a (qc_EndsAt c) stop tz rd now"
  have n: "qc_Open ?n" "qc_AllocationID ?n = a" "qc_StartsAt ?n = stored (qc_EndsAt c)"
    "qc_EndsAt ?n = stored stop"
    by (simp_all add: new_cycle_def)
  have roll: "roll_cycle c ?n now d = Inr ((), d')" using assms(3) by simp
  from roll have schema: "schema_ok d'" and mem: "?n \<in> set (db_cycles d')"
    by (auto simp: roll_cycle_def tx_simps simp del: tx_all.simps)
  have "open_cycle a d' = Some ?n" using roll_cycle_open [OF roll n(1)] n(2) by simp
  moreover have "cycle_row_ok d' ?n"
    using schema mem by (auto simp: schema_ok_def tables_quota_ok_def list_all_iff)
  then have "stored (qc_EndsAt c) < stored stop" using n by (simp add: cycle_row_ok_def)
  then have "qc_EndsAt c < stored stop" by (rule stored_less)
  ultimately show ?thesis using assms(1,2) n by (simp add: cycle_gap_def)
qed

termination settle_loop
  by (relation "measure (\<lambda>(zones, fresh, a, now, n, rolled, d). cycle_gap a now d)")
    (auto intro: roll_cycle_gap)

declare settle_loop.simps [simp del]

text \<open>
  \<open>settleCycles\<close>: the identifiers it makes itself are the caller's from \<open>n\<close> on. The result is the
  next free identifier, the number of boundaries crossed and whether access was restored.
\<close>

definition settle_template :: "(nat \<Rightarrow> ID) \<Rightarrow> nat \<Rightarrow> instant \<Rightarrow> SynchronizationOperation option \<Rightarrow>
  nat \<times> SynchronizationOperation" where
  "settle_template fresh n now template = (case template of
     Some t \<Rightarrow> (n, t)
   | None \<Rightarrow> (n + 1, (NewSynchronizationOperation (fresh n) '''' 0 False None SyncCreate SyncDone now)
       \<lparr>op_IdempotencyKey := '''', op_NextAttemptAt := zero_time\<rparr>))"

definition restored_audit :: "ID \<Rightarrow> ID \<Rightarrow> instant \<Rightarrow> AuditEvent" where
  "restored_audit i userID now =
     \<lparr>ae_ID = i, ae_OccurredAt = now, ae_ActorType = ActorSystem, ae_ActorID = None,
      ae_TargetType = ''user'', ae_TargetID = userID, ae_Action = ''cycle_restored'',
      ae_Result = AuditAccepted, ae_CommandID = None, ae_OperationID = None,
      ae_SafeSummary = ''new quota cycle opened; access restore requested''\<rparr>"

definition settleCycles ::
  "(string \<Rightarrow> Location option) \<Rightarrow> (nat \<Rightarrow> ID) \<Rightarrow> ID \<Rightarrow> instant \<Rightarrow> SynchronizationOperation option \<Rightarrow>
   AuditEvent option \<Rightarrow> nat \<Rightarrow> (db, nat \<times> int \<times> bool) tx" where
  "settleCycles zones fresh a now template audit n =
     tx_bind (settle_loop zones fresh a now n 0) (\<lambda>(n1, rolled).
       if rolled = 0 then tx_ret (n1, 0, False)
       else tx_bind (readFacts a) (\<lambda>facts.
         let decision = DecideTransition (fa_Facts facts) (af_AdminEnabled (fa_Facts facts)) False;
             (n2, t) = settle_template fresh n1 now template
         in tx_bind (applyDecision a facts decision (af_AdminEnabled (fa_Facts facts)) (Some t) now) (\<lambda>restored.
           if \<not> restored then tx_ret (n2, rolled, restored)
           else case audit of
             Some e \<Rightarrow> tx_seq (AppendAudit (e\<lparr>ae_OperationID := Some (op_ID t)\<rparr>)) (tx_ret (n2, rolled, restored))
           | None \<Rightarrow> tx_bind (tx_scan NoRows (\<lambda>d. map_option al_UserID (alloc_of d a))) (\<lambda>userID.
               tx_seq (AppendAudit ((restored_audit (fresh n2) userID now)\<lparr>ae_OperationID := Some (op_ID t)\<rparr>))
                 (tx_ret (n2 + 1, rolled, restored))))))"

section \<open>Committing a collection round\<close>

definition event_row :: "ContinuityEventRecord \<Rightarrow> ContinuityEventRecord" where
  "event_row r = r\<lparr>cv_OccurredAt := stored (cv_OccurredAt r)\<rparr>"

definition insertContinuityEvent :: "ContinuityEventRecord \<Rightarrow> (db, unit) tx" where
  "insertContinuityEvent r = sql_exec (db_events_update (\<lambda>rows. rows @ [event_row r]))"

definition write_cursor :: "ID \<Rightarrow> TrafficCursorRecord \<Rightarrow> TrafficCursorRecord \<Rightarrow> TrafficCursorRecord" where
  "write_cursor a c row = c\<lparr>tc_AllocationID := tc_AllocationID row,
     tc_LastObservedAt := map_option stored (tc_LastObservedAt c),
     tc_LastSuccessAt := map_option stored (tc_LastSuccessAt c),
     tc_MissingSince := map_option stored (tc_MissingSince c)\<rparr>"

text \<open>\<open>INSERT .. ON CONFLICT(allocation_id,day_start_utc) DO UPDATE\<close> adds to the day's row.\<close>

definition add_daily :: "DailyRow \<Rightarrow> DailyRow list \<Rightarrow> DailyRow list" where
  "add_daily n rows =
     (let same = (\<lambda>r. dy_AllocationID r = dy_AllocationID n \<and> dy_DayStartUTC r = dy_DayStartUTC n) in
      if list_ex same rows
      then sql_update same (\<lambda>r. r\<lparr>dy_UplinkBytes := dy_UplinkBytes r + dy_UplinkBytes n,
             dy_DownlinkBytes := dy_DownlinkBytes r + dy_DownlinkBytes n\<rparr>) rows
      else rows @ [n])"

definition add_totals :: "ID \<Rightarrow> int \<Rightarrow> int \<Rightarrow> db \<Rightarrow> db" where
  "add_totals a up down = db_totals_update (sql_update (\<lambda>t. tt_AllocationID t = a)
     (\<lambda>t. t\<lparr>tt_UplinkBytes := tt_UplinkBytes t + up, tt_DownlinkBytes := tt_DownlinkBytes t + down\<rparr>))"

definition add_cycle :: "ID \<Rightarrow> int \<Rightarrow> int \<Rightarrow> db \<Rightarrow> db" where
  "add_cycle a up down = db_cycles_update (sql_update (\<lambda>c. qc_AllocationID c = a \<and> qc_Open c)
     (\<lambda>c. c\<lparr>qc_GrossUplinkBytes := qc_GrossUplinkBytes c + up,
           qc_GrossDownlinkBytes := qc_GrossDownlinkBytes c + down,
           qc_AccountedUplinkBytes := qc_AccountedUplinkBytes c + up,
           qc_AccountedDownlinkBytes := qc_AccountedDownlinkBytes c + down\<rparr>))"

definition write_deltas :: "TrafficUpdate \<Rightarrow> (db, unit) tx" where
  "write_deltas u = (let a = tu_AllocationID u; up = tu_UplinkDelta u; down = tu_DownlinkDelta u in
     if up \<noteq> 0 \<or> down \<noteq> 0
     then tx_all [sql_exec (add_totals a up down),
       sql_exec (db_daily_update (add_daily \<lparr>dy_AllocationID = a, dy_DayStartUTC = stored (tu_DayStartUTC u),
         dy_LocalDate = tu_LocalDate u, dy_Timezone = tu_Timezone u, dy_UplinkBytes = up, dy_DownlinkBytes = down\<rparr>)),
       sql_exec (add_cycle a up down)]
     else tx_ret ())"

text \<open>The end of one update: the quota is judged on the facts of the transaction.\<close>

definition block_if_exceeded :: "TrafficUpdate \<Rightarrow> instant \<Rightarrow> (db, bool) tx" where
  "block_if_exceeded u observedAt = tx_bind (readFacts (tu_AllocationID u)) (\<lambda>facts.
     if \<not> facts_exceeded facts \<or> af_QuotaState (fa_Facts facts) \<noteq> QuotaWithinLimit then tx_ret False
     else let decision = DecideTransition (fa_Facts facts) (af_AdminEnabled (fa_Facts facts)) True in
       tx_bind (applyDecision (tu_AllocationID u) facts decision (af_AdminEnabled (fa_Facts facts))
           (tu_QuotaBlock u) observedAt) (\<lambda>created.
         case tu_Audit u of None \<Rightarrow> tx_ret created
         | Some e \<Rightarrow> tx_seq (AppendAudit (if created
               then e\<lparr>ae_OperationID := map_option op_ID (tu_QuotaBlock u)\<rparr> else e)) (tx_ret created)))"

definition commit_update ::
  "(string \<Rightarrow> Location option) \<Rightarrow> (nat \<Rightarrow> ID) \<Rightarrow> instant \<Rightarrow> TrafficUpdate \<Rightarrow> nat \<Rightarrow>
   (db, nat \<times> TrafficCommitResult) tx" where
  "commit_update zones fresh observedAt u n =
     tx_bind (settleCycles zones fresh (tu_AllocationID u) observedAt None None n) (\<lambda>(n1, rolled, restored).
       tx_seq (tx_all
         [sql_exec (db_cursors_update (sql_update (\<lambda>c. tc_AllocationID c = tu_AllocationID u)
            (write_cursor (tu_AllocationID u) (tu_Cursor u)))),
          write_deltas u,
          tx_all (map insertContinuityEvent (tu_Events u))])
       (tx_bind (block_if_exceeded u observedAt) (\<lambda>blocked.
          tx_ret (n1, \<lparr>cm_Blocked = (if blocked then 1 else 0), cm_Rolled = rolled,
                      cm_Restored = (if restored then 1 else 0)\<rparr>))))"

definition add_result :: "TrafficCommitResult \<Rightarrow> TrafficCommitResult \<Rightarrow> TrafficCommitResult" where
  "add_result r s = \<lparr>cm_Blocked = cm_Blocked r + cm_Blocked s, cm_Rolled = cm_Rolled r + cm_Rolled s,
     cm_Restored = cm_Restored r + cm_Restored s\<rparr>"

primrec commit_updates ::
  "(string \<Rightarrow> Location option) \<Rightarrow> (nat \<Rightarrow> ID) \<Rightarrow> instant \<Rightarrow> TrafficUpdate list \<Rightarrow> nat \<Rightarrow>
   TrafficCommitResult \<Rightarrow> (db, TrafficCommitResult) tx" where
  "commit_updates zones fresh observedAt [] n res = tx_ret res"
| "commit_updates zones fresh observedAt (u # us) n res =
     tx_bind (commit_update zones fresh observedAt u n) (\<lambda>(n1, r).
       commit_updates zones fresh observedAt us n1 (add_result res r))"

definition CommitTrafficBatch ::
  "(string \<Rightarrow> Location option) \<Rightarrow> (nat \<Rightarrow> ID) \<Rightarrow> TrafficBatch \<Rightarrow> (db, TrafficCommitResult) tx" where
  "CommitTrafficBatch zones fresh batch =
     commit_updates zones fresh (tb_ObservedAt batch) (tb_Updates batch) 0
       \<lparr>cm_Blocked = 0, cm_Rolled = 0, cm_Restored = 0\<rparr>"

text \<open>\<open>CollectionTargets\<close>: the allocations of live users whose projection is present, by name.\<close>

definition CollectionTargets :: "db \<Rightarrow> CollectionTarget list" where
  "CollectionTargets d = sort_key (\<lambda>t. mu_NormalizedName (ct_User t))
     [\<lparr>ct_User = u, ct_Allocation = a, ct_Identity = i, ct_ProfileTag = di_InboundTag (ir_Inbound r),
       ct_Policy = p, ct_Cycle = q, ct_Cursor = c, ct_TotalUplink = tt_UplinkBytes t,
       ct_TotalDownlink = tt_DownlinkBytes t\<rparr>.
      u \<leftarrow> filter (\<lambda>u. mu_DeletedAt u = None) (db_users d),
      a \<leftarrow> filter (\<lambda>a. al_UserID a = mu_ID u \<and> al_ProjectionState a = ProjectionPresent) (db_allocs d),
      i \<leftarrow> filter (\<lambda>i. xi_ID i = al_IdentityID a) (db_identities d),
      r \<leftarrow> filter (holds_port (al_ID a)) (db_inbounds d),
      p \<leftarrow> filter (\<lambda>p. qp_AllocationID p = al_ID a) (db_policies d),
      q \<leftarrow> filter (\<lambda>q. qc_AllocationID q = al_ID a \<and> qc_Open q) (db_cycles d),
      c \<leftarrow> filter (\<lambda>c. tc_AllocationID c = al_ID a) (db_cursors d),
      t \<leftarrow> filter (\<lambda>t. tt_AllocationID t = al_ID a) (db_totals d)]"

section \<open>Changing the quota\<close>

definition quota_audit_of :: "allocationFacts \<Rightarrow> bool \<Rightarrow> AuditEvent \<Rightarrow> AuditEvent option" where
  "quota_audit_of facts exceeded e =
     (if exceeded \<and> af_QuotaState (fa_Facts facts) = QuotaWithinLimit
      then Some (e\<lparr>ae_Action := ''quota_exceeded'',
             ae_SafeSummary := ''quota lowered to or below current usage; removal requested''\<rparr>)
      else if \<not> exceeded \<and> af_QuotaState (fa_Facts facts) = QuotaExceeded
      then Some (e\<lparr>ae_Action := ''cycle_restored'',
             ae_SafeSummary := ''quota raised above current usage; access restore requested''\<rparr>)
      else None)"

definition with_operation :: "bool \<Rightarrow> ID \<Rightarrow> AuditEvent \<Rightarrow> AuditEvent" where
  "with_operation created i e = (if created then e\<lparr>ae_OperationID := Some i\<rparr> else e)"

definition stale_user :: err where
  "stale_user = ConflictError ''user changed since the page was loaded''"

definition live_user :: "ID \<Rightarrow> Revision \<Rightarrow> ManagedUser \<Rightarrow> bool" where
  "live_user i revision u \<longleftrightarrow> mu_ID u = i \<and> mu_Revision u = revision \<and> mu_DeletedAt u = None"

text \<open>The conditional update of a user every command on it begins with.\<close>

definition touch_user :: "ID \<Rightarrow> Revision \<Rightarrow> instant \<Rightarrow> (ManagedUser \<Rightarrow> ManagedUser) \<Rightarrow> (db, unit) tx" where
  "touch_user i revision now f = sql_one stale_user (\<lambda>d. rows_affected (live_user i revision) (db_users d))
     (db_users_update (sql_update (live_user i revision)
        (\<lambda>u. f u\<lparr>mu_Revision := mu_Revision u + 1, mu_UpdatedAt := stored now\<rparr>)))"

text \<open>The body of \<open>UpdateUser\<close>; the result is whether an operation was created.\<close>

definition update_user_body :: "UserUpdateRecord \<Rightarrow> (db, bool) tx" where
  "update_user_body r =
     tx_seq (tx_catch (translateConstraint ''user name already exists'')
        (touch_user (uu_UserID r) (uu_ExpectedRevision r) (uu_Now r)
           (\<lambda>u. u\<lparr>mu_DisplayName := uu_DisplayName r, mu_NormalizedName := uu_NormalizedName r\<rparr>)))
     (tx_bind (tx_scan NoRows (\<lambda>d. List.find (\<lambda>a. al_UserID a = uu_UserID r) (db_allocs d))) (\<lambda>alloc.
       let a = al_ID alloc in
       tx_seq (sql_exec (db_policies_update (sql_update (\<lambda>p. qp_AllocationID p = a)
          (\<lambda>p. p\<lparr>qp_LimitBytes := uu_LimitBytes r, qp_ResetDay := uu_ResetDay r,
                qp_Revision := qp_Revision p + 1, qp_UpdatedAt := stored (uu_Now r)\<rparr>))))
       (tx_bind (readFacts a) (\<lambda>facts.
         let exceeded = facts_exceeded facts;
             decision = DecideTransition (fa_Facts facts) (uu_AdminEnabled r) exceeded;
             i = op_ID (uu_OperationTemplate r)
         in tx_bind (applyDecision a facts decision (uu_AdminEnabled r) (Some (uu_OperationTemplate r)) (uu_Now r))
           (\<lambda>created. tx_seq (tx_all
              [case uu_QuotaAudit r of None \<Rightarrow> tx_ret ()
               | Some e \<Rightarrow> (case quota_audit_of facts exceeded e of None \<Rightarrow> tx_ret ()
                   | Some e' \<Rightarrow> AppendAudit (with_operation created i e')),
               SaveCommand (uu_Command r),
               tx_all (map (AppendAudit \<circ> with_operation created i) (uu_Audits r))])
             (tx_ret created))))))"

text \<open>
  \<open>UpdateUser\<close> returns whether the request was a replay and whether an operation was created;
  \<open>ResetCycleTraffic\<close> likewise.
\<close>

definition once_with :: "DomainCommand \<Rightarrow> (db, bool) tx \<Rightarrow> (db, bool \<times> bool) tx" where
  "once_with command body = tx_bind (commandReplay command) (\<lambda>replay.
     if replay then tx_ret (True, False) else tx_bind body (\<lambda>created. tx_ret (False, created)))"

definition UpdateUser :: "UserUpdateRecord \<Rightarrow> (db, bool \<times> bool) tx" where
  "UpdateUser r = once_with (uu_Command r) (update_user_body r)"

definition reset_row :: "QuotaResetRecord \<Rightarrow> QuotaCycleRecord \<Rightarrow> TrafficCursorRecord \<Rightarrow> ResetRow" where
  "reset_row r q c = \<lparr>rs_ID = qr_EventID r, rs_AllocationID = qr_AllocationID r, rs_CycleID = qr_CycleID r,
     rs_CommandID = dc_ID (qr_Command r), rs_PreviousUplink = qc_AccountedUplinkBytes q,
     rs_PreviousDownlink = qc_AccountedDownlinkBytes q, rs_UplinkCursor = tc_UplinkCounter c,
     rs_DownlinkCursor = tc_DownlinkCounter c, rs_ActorID = qr_ActorID r, rs_OccurredAt = stored (qr_Now r)\<rparr>"

definition reset_cycle_body :: "QuotaResetRecord \<Rightarrow> (db, bool) tx" where
  "reset_cycle_body r =
     tx_bind (tx_scan (ConflictError ''quota cycle is no longer open'')
        (\<lambda>d. List.find (\<lambda>c. qc_ID c = qr_CycleID r \<and> qc_Open c) (db_cycles d))) (\<lambda>q.
     tx_bind (tx_scan NoRows (cursor_of (qr_AllocationID r))) (\<lambda>c.
     tx_seq (tx_all
       [SaveCommand (qr_Command r),
        sql_exec (db_resets_update (\<lambda>rows. rows @ [reset_row r q c])),
        sql_exec (db_cycles_update (sql_update (\<lambda>x. qc_ID x = qr_CycleID r)
          (\<lambda>x. x\<lparr>qc_AccountedUplinkBytes := 0, qc_AccountedDownlinkBytes := 0,
                qc_ManualResetCount := qc_ManualResetCount x + 1\<rparr>)))])
     (tx_bind (readFacts (qr_AllocationID r)) (\<lambda>facts.
       let decision = DecideTransition (fa_Facts facts) (af_AdminEnabled (fa_Facts facts)) False in
       tx_bind (applyDecision (qr_AllocationID r) facts decision (af_AdminEnabled (fa_Facts facts))
           (Some (qr_OperationTemplate r)) (qr_Now r)) (\<lambda>created.
         tx_seq (AppendAudit (with_operation created (op_ID (qr_OperationTemplate r)) (qr_Audit r)))
           (tx_ret created))))))"

definition ResetCycleTraffic :: "QuotaResetRecord \<Rightarrow> (db, bool \<times> bool) tx" where
  "ResetCycleTraffic r = once_with (qr_Command r) (reset_cycle_body r)"

definition RolloverCycle ::
  "(string \<Rightarrow> Location option) \<Rightarrow> (nat \<Rightarrow> ID) \<Rightarrow> CycleRollover \<Rightarrow> (db, int \<times> bool) tx" where
  "RolloverCycle zones fresh r =
     tx_bind (settleCycles zones fresh (ro_AllocationID r) (ro_Now r) (Some (ro_OperationTemplate r))
        (ro_Audit r) 0) (\<lambda>(n, rolled, restored). tx_ret (rolled, restored))"

definition DueCycles :: "instant \<Rightarrow> db \<Rightarrow> UserRecord list" where
  "DueCycles now d = sort_key (\<lambda>r. (qc_EndsAt (ur_Cycle r)))
     (sort_key (\<lambda>r. mu_ID (ur_User r)) (filter (\<lambda>r. qc_EndsAt (ur_Cycle r) \<le> stored now) (user_rows d)))"

definition NextCycleEnd :: "db \<Rightarrow> instant option" where
  "NextCycleEnd d = (case map qc_EndsAt (filter qc_Open (db_cycles d)) of
      [] \<Rightarrow> None | e # es \<Rightarrow> Some (foldl min e es))"

lemma once_with_iff [tx_simps]:
  "once_with c body s = Inr ((r, x), t) \<longleftrightarrow>
     (case FindCommand (dc_ID c) s of
        Some e \<Rightarrow> r \<and> \<not> x \<and> dc_RequestFingerprint e = dc_RequestFingerprint c \<and> t = s
      | None \<Rightarrow> \<not> r \<and> body s = Inr (x, t))"
  by (auto simp: once_with_def tx_simps split: option.splits)

lemma once_with_keeps [intro]: "tx_keeps P body \<Longrightarrow> tx_keeps P (once_with c body)"
  unfolding once_with_def by (intro tx_keeps_bind tx_keeps_if tx_keeps_read commandReplay_keeps)

end
