(* ===== verification/Store_Users.thy ===== *)
theory Store_Users
  imports Store_Traffic
begin

text \<open>
  Commands on users and the queries over them: \<open>internal/persistence/sqlite/store_users.go\<close> and the
  port queries of \<open>store_inbounds.go\<close>.
\<close>

section \<open>Creating a user\<close>

definition user_row :: "ManagedUser \<Rightarrow> ManagedUser" where
  "user_row u = u\<lparr>mu_CreatedAt := stored (mu_CreatedAt u), mu_UpdatedAt := stored (mu_UpdatedAt u),
     mu_DeletedAt := map_option stored (mu_DeletedAt u)\<rparr>"

definition alloc_row :: "AccessAllocation \<Rightarrow> AccessAllocation" where
  "alloc_row a = a\<lparr>al_LastSyncAt := map_option stored (al_LastSyncAt a),
     al_CreatedAt := stored (al_CreatedAt a), al_UpdatedAt := stored (al_UpdatedAt a)\<rparr>"

definition inbound_row :: "InboundRecord \<Rightarrow> InboundRecord" where
  "inbound_row r = update_inbound (\<lambda>i. i\<lparr>di_LastSyncAt := map_option stored (di_LastSyncAt i),
     di_ReleasedAt := map_option stored (di_ReleasedAt i), di_CreatedAt := stored (di_CreatedAt i),
     di_UpdatedAt := stored (di_UpdatedAt i)\<rparr>) r"

definition cred_row :: "AccessCredential \<Rightarrow> AccessCredential" where
  "cred_row c = c\<lparr>cr_CreatedAt := stored (cr_CreatedAt c),
     cr_ActivatedAt := map_option stored (cr_ActivatedAt c), cr_RetiredAt := map_option stored (cr_RetiredAt c)\<rparr>"

definition policy_row :: "QuotaPolicyRecord \<Rightarrow> QuotaPolicyRecord" where
  "policy_row p = p\<lparr>qp_CreatedAt := stored (qp_CreatedAt p), qp_UpdatedAt := stored (qp_UpdatedAt p)\<rparr>"

definition cycle_row :: "QuotaCycleRecord \<Rightarrow> QuotaCycleRecord" where
  "cycle_row c = c\<lparr>qc_StartsAt := stored (qc_StartsAt c), qc_EndsAt := stored (qc_EndsAt c),
     qc_OpenedAt := stored (qc_OpenedAt c), qc_ClosedAt := map_option stored (qc_ClosedAt c)\<rparr>"

definition insertDedicatedInbound :: "InboundRecord \<Rightarrow> (db, unit) tx" where
  "insertDedicatedInbound r =
     tx_seq (tx_lift (ValidateInboundTag (di_InboundTag (ir_Inbound r))))
       (tx_catch (translateConstraint ''port is already assigned to another user'')
         (sql_exec (db_inbounds_update (\<lambda>rows. rows @ [inbound_row r]))))"

definition insert_user_rows :: "UserCreateRecord \<Rightarrow> (db, unit) tx" where
  "insert_user_rows r = tx_all
     [tx_catch (translateConstraint ''user name already exists'')
        (sql_exec (db_users_update (\<lambda>rows. rows @ [user_row (uc_User r)]))),
      tx_catch (translateConstraint ''statistics identity already exists'')
        (sql_exec (db_identities_update (\<lambda>rows. rows @
           [(uc_Identity r)\<lparr>xi_CreatedAt := stored (xi_CreatedAt (uc_Identity r))\<rparr>]))),
      sql_exec (db_allocs_update (\<lambda>rows. rows @ [alloc_row (uc_Allocation r)])),
      insertDedicatedInbound (uc_Inbound r),
      sql_exec (db_creds_update (\<lambda>rows. rows @ [cred_row (uc_Credential r)])),
      sql_exec (db_policies_update (\<lambda>rows. rows @ [policy_row (uc_Policy r)])),
      sql_exec (db_cycles_update (\<lambda>rows. rows @ [cycle_row (uc_Cycle r)])),
      sql_exec (db_totals_update (\<lambda>rows. rows @ [\<lparr>tt_AllocationID = al_ID (uc_Allocation r),
        tt_UplinkBytes = 0, tt_DownlinkBytes = 0\<rparr>])),
      sql_exec (db_cursors_update (\<lambda>rows. rows @ [\<lparr>tc_AllocationID = al_ID (uc_Allocation r),
        tc_BootEpoch = None, tc_UplinkCounter = None, tc_DownlinkCounter = None, tc_UplinkEpoch = 0,
        tc_DownlinkEpoch = 0, tc_LastObservedAt = None, tc_LastSuccessAt = None, tc_MissingSince = None\<rparr>]))]"

definition create_user_body :: "UserCreateRecord \<Rightarrow> (db, unit) tx" where
  "create_user_body r = tx_all
     [insert_user_rows r, insertOperation (uc_Operation r), SaveCommand (uc_Command r),
      AppendAudit (uc_Audit r), AppendAudit (uc_PortAudit r)]"

text \<open>A replay returns the identifier of the user the first request created.\<close>

definition CreateUser :: "UserCreateRecord \<Rightarrow> (db, ID \<times> bool) tx" where
  "CreateUser r =
     tx_bind (tx_get (FindCommand (dc_ID (uc_Command r)))) (\<lambda>existing. case existing of
       Some e \<Rightarrow> tx_seq (tx_guard reused_command
                   (dc_RequestFingerprint e = dc_RequestFingerprint (uc_Command r)))
                 (tx_ret (dc_TargetID e, True))
     | None \<Rightarrow> tx_seq (create_user_body r) (tx_ret (mu_ID (uc_User r), False)))"

section \<open>Commands on a user\<close>

definition pool_of :: "ID \<Rightarrow> db \<Rightarrow> PortPool option" where
  "pool_of a d = (case alloc_of d a of None \<Rightarrow> None | Some x \<Rightarrow>
     map_option tm_Pool (List.find (\<lambda>t. tm_ID t = al_TemplateID x) (db_templates d)))"

definition on_port :: "ID \<Rightarrow> int \<Rightarrow> InboundRecord \<Rightarrow> bool" where
  "on_port a port r \<longleftrightarrow> holds_port a r \<and> di_Port (ir_Inbound r) = port"

definition ChangeInboundPort :: "PortChangeRecord \<Rightarrow> (db, bool) tx" where
  "ChangeInboundPort r = once (pc_Command r) (tx_all
     [touch_user (pc_UserID r) (pc_ExpectedRevision r) (pc_Now r) (\<lambda>u. u),
      tx_bind (tx_scan NoRows (pool_of (pc_AllocationID r))) (\<lambda>pool.
        tx_guard (ValidationError ''port'' ''port is outside the template port pool'')
          (pool_Contains pool (pc_NewPort r))),
      tx_catch (translateConstraint ''port is already assigned to another user'')
        (sql_one (ConflictError ''port assignment changed since the page was loaded'')
          (\<lambda>d. rows_affected (on_port (pc_AllocationID r) (pc_OldPort r)) (db_inbounds d))
          (db_inbounds_update (sql_update (on_port (pc_AllocationID r) (pc_OldPort r)) (update_inbound
             (\<lambda>i. i\<lparr>di_Port := pc_NewPort r, di_ObservedPresent := Some False,
                   di_UpdatedAt := stored (pc_Now r)\<rparr>))))),
      supersedeOlder (op_AllocationID (pc_Operation r)) (op_DesiredRevision (pc_Operation r)) (pc_Now r),
      insertOperation (pc_Operation r),
      sql_exec (update_alloc (pc_AllocationID r) (\<lambda>a. a\<lparr>al_DesiredRevision := op_DesiredRevision (pc_Operation r),
        al_ProjectionState := ProjectionPending, al_ObservedPresent := Some False,
        al_UpdatedAt := stored (pc_Now r)\<rparr>)),
      SaveCommand (pc_Command r), AppendAudit (pc_Audit r)])"

definition rotated_cred :: "AccessCredential \<Rightarrow> AccessCredential" where
  "rotated_cred c = c\<lparr>cr_CreatedAt := stored (cr_CreatedAt c), cr_ActivatedAt := None, cr_RetiredAt := None\<rparr>"

definition RotateCredential :: "RotationRecord \<Rightarrow> (db, bool) tx" where
  "RotateCredential r = once (rr_Command r) (tx_all
     [touch_user (rr_UserID r) (rr_ExpectedRevision r) (rr_Now r) (\<lambda>u. u),
      tx_bind (tx_get (\<lambda>d. rows_affected (\<lambda>c. cr_AllocationID c = rr_AllocationID r \<and>
          cr_State c = CredentialPending) (db_creds d))) (\<lambda>pending.
        tx_guard (ConflictError ''credential rotation already in progress'') (\<not> pending > 0)),
      tx_catch (translateConstraint ''credential rotation already in progress'')
        (sql_exec (db_creds_update (\<lambda>rows. rows @ [rotated_cred (rr_Credential r)]))),
      supersedeOlder (op_AllocationID (rr_Operation r)) (op_DesiredRevision (rr_Operation r)) (rr_Now r),
      insertOperation (rr_Operation r),
      sql_exec (update_alloc (rr_AllocationID r) (\<lambda>a. a\<lparr>
        al_DesiredCredentialVersion := cr_Version (rr_Credential r),
        al_DesiredRevision := op_DesiredRevision (rr_Operation r),
        al_ProjectionState := ProjectionPending, al_UpdatedAt := stored (rr_Now r)\<rparr>)),
      SaveCommand (rr_Command r), AppendAudit (rr_Audit r)])"

definition SoftDeleteUser :: "DeleteRecord \<Rightarrow> (db, bool) tx" where
  "SoftDeleteUser r = once (de_Command r) (tx_all
     [touch_user (de_UserID r) (de_ExpectedRevision r) (de_Now r)
        (\<lambda>u. u\<lparr>mu_Lifecycle := LifecycleDeleted, mu_DeletedAt := Some (stored (de_Now r))\<rparr>),
      supersedeOlder (op_AllocationID (de_Operation r)) (op_DesiredRevision (de_Operation r)) (de_Now r),
      insertOperation (de_Operation r),
      sql_exec (update_alloc (de_AllocationID r) (\<lambda>a. a\<lparr>al_AdminEnabled := False,
        al_DesiredRevision := op_DesiredRevision (de_Operation r),
        al_ProjectionState := ProjectionPending, al_UpdatedAt := stored (de_Now r)\<rparr>)),
      SaveCommand (de_Command r), AppendAudit (de_Audit r)])"

section \<open>Queries\<close>

fun matchesStatus :: "UserRecord \<Rightarrow> string \<Rightarrow> bool" where
  "matchesStatus r status =
     (let state = display_state (ur_Allocation r) (ur_User r) in
      if status = '''' then True
      else if status = ''pending'' then mu_Lifecycle (ur_User r) \<noteq> LifecycleDeleted \<and> PendingSync (ur_Allocation r)
      else if status = ''active'' then DesiredPresent (ur_Allocation r) (ur_User r)
      else if status = ''disabled'' then state = DisplayDisabled \<or> state = DisplayDisabling
      else if status = ''quota_exceeded'' then state = DisplayQuotaExceeded \<or> state = DisplayQuotaDisabling
      else if status = ''deleted'' then state = DisplayDeleted
      else False)"

text \<open>
  \<open>AssignedPorts\<close>: the ports held on the listen address of a template, ascending; none when the
  template does not exist.
\<close>

definition AssignedPorts :: "ID \<Rightarrow> db \<Rightarrow> int list" where
  "AssignedPorts templateID d =
     (case List.find (\<lambda>t. tm_ID t = templateID) (db_templates d) of
        None \<Rightarrow> []
      | Some t \<Rightarrow> sort (map (di_Port \<circ> ir_Inbound)
          (filter (\<lambda>r. unreleased r \<and> di_ListenAddress (ir_Inbound r) = tm_ListenAddress t) (db_inbounds d))))"

definition inbound_of :: "ID \<Rightarrow> db \<Rightarrow> err + DedicatedInbound" where
  "inbound_of a d = (case List.find (\<lambda>r. di_AllocationID (ir_Inbound r) = a) (db_inbounds d) of
     None \<Rightarrow> Inl (NotFoundError ''dedicated inbound'') | Some r \<Rightarrow> Inr (ir_Inbound r))"

definition PanelInbounds :: "db \<Rightarrow> DedicatedInbound list" where
  "PanelInbounds d = sort_key di_ListenAddress (sort_key di_Port (map ir_Inbound (filter unreleased (db_inbounds d))))"

definition PortPoolUsage :: "ID \<Rightarrow> db \<Rightarrow> err + PoolUsage" where
  "PortPoolUsage templateID d =
     (case List.find (\<lambda>t. tm_ID t = templateID) (db_templates d) of
        None \<Rightarrow> Inl (NotFoundError ''inbound template'')
      | Some t \<Rightarrow>
          (let pool = tm_Pool t; assigned = AssignedPorts templateID d;
               inside = int (length (filter (pool_Contains pool) assigned));
               remaining = Capacity pool - inside
           in Inr \<lparr>pu_Capacity = Capacity pool, pu_Assigned = inside,
                   pu_Remaining = (if remaining < 0 then 0 else remaining),
                   pu_Outside = OutsidePoolPorts pool assigned\<rparr>))"

text \<open>How many allocations of a template listen, and how many ever had a counter read.\<close>

definition TemplateCounterEvidence :: "ID \<Rightarrow> db \<Rightarrow> nat \<times> nat" where
  "TemplateCounterEvidence templateID d =
     (let rows = [(r, cursor_of (al_ID a) d).
           a \<leftarrow> filter (\<lambda>a. al_TemplateID a = templateID) (db_allocs d),
           r \<leftarrow> filter (holds_port (al_ID a)) (db_inbounds d)]
      in (rows_affected (\<lambda>(r, c). di_ObservedPresent (ir_Inbound r) = Some True) rows,
          rows_affected (\<lambda>(r, c). case c of None \<Rightarrow> False
            | Some k \<Rightarrow> tc_UplinkCounter k \<noteq> None \<or> tc_DownlinkCounter k \<noteq> None) rows))"

end
