(* ===== verification/Store_Templates.thy ===== *)
theory Store_Templates
  imports Store_Sync
begin

text \<open>
  Inbound templates, the managed instance and the capability generation:
  \<open>internal/persistence/sqlite/store_templates.go\<close>.
\<close>

section \<open>The managed instance\<close>

definition set_instance :: "(ManagedInstanceRecord \<Rightarrow> ManagedInstanceRecord) \<Rightarrow> db \<Rightarrow> db" where
  "set_instance f = update_instance (\<lambda>r. r\<lparr>in_Instance := f (in_Instance r)\<rparr>)"

definition ManagedInstance :: "(db, ManagedInstanceRecord) tx" where
  "ManagedInstance = tx_scan NoRows (\<lambda>d. map_option in_Instance (db_instance d))"

definition SetInstanceHealth ::
  "string \<Rightarrow> instant option \<Rightarrow> string \<Rightarrow> instant option \<Rightarrow> string \<Rightarrow> instant \<Rightarrow> (db, unit) tx" where
  "SetInstanceHealth health bootEpoch errorCode successAt summary now =
     sql_one (NotFoundError ''Xray instance'') (\<lambda>d. if db_instance d = None then 0 else 1)
       (set_instance (\<lambda>m. m\<lparr>mi_HealthState := health, mi_BootEpoch := bootEpoch,
          mi_LastSuccessAt := map_option stored successAt, mi_LastErrorCode := errorCode,
          mi_LastErrorSummary := summary, mi_UpdatedAt := stored now\<rparr>))"

text \<open>The anchor is only written when there is none.\<close>

definition anchor_or :: "instant option \<Rightarrow> instant option \<Rightarrow> instant option" where
  "anchor_or old new = (case old of None \<Rightarrow> new | Some e \<Rightarrow> Some e)"

definition MarkInstanceHealthy :: "instant option \<Rightarrow> instant \<Rightarrow> (db, unit) tx" where
  "MarkInstanceHealthy bootEpoch now = sql_exec (set_instance (\<lambda>m. m\<lparr>mi_HealthState := ''healthy'',
     mi_BootEpoch := anchor_or (mi_BootEpoch m) bootEpoch, mi_LastSuccessAt := Some (stored now),
     mi_LastErrorCode := '''', mi_LastErrorSummary := '''', mi_UpdatedAt := stored now\<rparr>))"

definition MarkInstanceUnreachable :: "string \<Rightarrow> string \<Rightarrow> instant \<Rightarrow> (db, unit) tx" where
  "MarkInstanceUnreachable code summary now = sql_exec (set_instance (\<lambda>m. m\<lparr>mi_HealthState := ''unreachable'',
     mi_LastErrorCode := code, mi_LastErrorSummary := summary, mi_UpdatedAt := stored now\<rparr>))"

section \<open>Templates\<close>

text \<open>A new template has no validated generation: the column is not part of the insert.\<close>

definition template_row :: "InboundTemplate \<Rightarrow> InboundTemplate" where
  "template_row t = t\<lparr>tm_LastValidatedAt := map_option stored (tm_LastValidatedAt t),
     tm_ValidatedGeneration := 0, tm_ArchivedAt := map_option stored (tm_ArchivedAt t),
     tm_CreatedAt := stored (tm_CreatedAt t), tm_UpdatedAt := stored (tm_UpdatedAt t)\<rparr>"

definition create_template_body :: "InboundTemplate \<Rightarrow> DomainCommand \<Rightarrow> AuditEvent \<Rightarrow> (db, unit) tx" where
  "create_template_body t command audit = tx_all
     [tx_catch (translateConstraint ''inbound template already exists'')
        (sql_exec (db_templates_update (\<lambda>rows. rows @ [template_row t]))),
      SaveCommand command, AppendAudit audit]"

definition CreateTemplate :: "InboundTemplate \<Rightarrow> DomainCommand \<Rightarrow> AuditEvent \<Rightarrow> (db, ID \<times> bool) tx" where
  "CreateTemplate t command audit =
     tx_bind (tx_get (FindCommand (dc_ID command))) (\<lambda>existing. case existing of
       Some e \<Rightarrow> tx_seq (tx_guard reused_command (dc_RequestFingerprint e = dc_RequestFingerprint command))
                 (tx_ret (dc_TargetID e, True))
     | None \<Rightarrow> tx_seq (create_template_body t command audit) (tx_ret (tm_ID t, False)))"

definition template_of :: "ID \<Rightarrow> db \<Rightarrow> InboundTemplate option" where
  "template_of i d = List.find (\<lambda>t. tm_ID t = i) (db_templates d)"

text \<open>The three counts that freeze the contract fields of a template.\<close>

definition live_allocations :: "ID \<Rightarrow> db \<Rightarrow> nat" where
  "live_allocations i d = rows_affected (\<lambda>a. al_TemplateID a = i \<and>
     (case user_of d (al_UserID a) of None \<Rightarrow> False
      | Some u \<Rightarrow> mu_DeletedAt u = None \<or> al_ProjectionState a \<noteq> ProjectionAbsent \<or>
          al_SyncedRevision a \<noteq> al_DesiredRevision a \<or> al_ObservedPresent a = Some True)) (db_allocs d)"

definition open_operations :: "ID \<Rightarrow> db \<Rightarrow> nat" where
  "open_operations i d = rows_affected (\<lambda>r. open_state (op_State r) \<and>
     (case alloc_of d (op_AllocationID r) of None \<Rightarrow> False | Some a \<Rightarrow> al_TemplateID a = i)) (db_ops d)"

definition open_removals :: "ID \<Rightarrow> db \<Rightarrow> nat" where
  "open_removals i d = rows_affected (\<lambda>r. df_TemplateID r = i \<and>
     (drift_open r \<or> df_State r = SyncPermanentFailed \<and> df_SupersededBy r = None)) (db_drifts d)"

definition contract_frozen :: "ID \<Rightarrow> db \<Rightarrow> bool" where
  "contract_frozen i d \<longleftrightarrow> live_allocations i d > 0 \<or> open_operations i d > 0 \<or> open_removals i d > 0"

definition stale_template :: err where
  "stale_template = ConflictError ''inbound template changed since the page was loaded''"

definition editable :: "ID \<Rightarrow> Revision \<Rightarrow> InboundTemplate \<Rightarrow> bool" where
  "editable i revision t \<longleftrightarrow> tm_ID t = i \<and> tm_Revision t = revision \<and> tm_ArchivedAt t = None"

definition edit_template :: "InboundTemplate \<Rightarrow> InboundTemplate \<Rightarrow> InboundTemplate" where
  "edit_template t x = x\<lparr>tm_Name := tm_Name t, tm_NormalizedName := tm_NormalizedName t,
     tm_PublicHost := tm_PublicHost t, tm_ListenAddress := tm_ListenAddress t, tm_Pool := tm_Pool t,
     tm_Method := tm_Method t, tm_Network := tm_Network t, tm_Compatibility := tm_Compatibility t,
     tm_CompatibilityReason := tm_CompatibilityReason t,
     tm_LastValidatedAt := map_option stored (tm_LastValidatedAt t),
     tm_Revision := tm_Revision x + 1, tm_UpdatedAt := stored (tm_UpdatedAt t)\<rparr>"

definition UpdateTemplate ::
  "InboundTemplate \<Rightarrow> Revision \<Rightarrow> DomainCommand \<Rightarrow> AuditEvent \<Rightarrow> (db, bool) tx" where
  "UpdateTemplate t expected command audit = once command (tx_all
     [tx_bind (tx_scan (NotFoundError ''inbound template'')
          (\<lambda>d. map_option (\<lambda>x. (x, contract_frozen (tm_ID t) d)) (template_of (tm_ID t) d))) (\<lambda>(x, frozen).
        tx_guard (ConflictError ''template still has users, unconfirmed removals or pending synchronization; method and listen address cannot change until they are confirmed absent'')
          (\<not> ((tm_Method x \<noteq> tm_Method t \<or> tm_ListenAddress x \<noteq> tm_ListenAddress t) \<and> frozen))),
      tx_catch (translateConstraint ''inbound template already exists'')
        (sql_one stale_template (\<lambda>d. rows_affected (editable (tm_ID t) expected) (db_templates d))
          (db_templates_update (sql_update (editable (tm_ID t) expected) (edit_template t)))),
      SaveCommand command, AppendAudit audit])"

definition Template :: "ID \<Rightarrow> db \<Rightarrow> err + InboundTemplate" where
  "Template i d = (case template_of i d of None \<Rightarrow> Inl (NotFoundError ''inbound template'') | Some t \<Rightarrow> Inr t)"

definition archivable :: "db \<Rightarrow> ID \<Rightarrow> Revision \<Rightarrow> InboundTemplate \<Rightarrow> bool" where
  "archivable d i revision t \<longleftrightarrow> editable i revision t \<and>
     \<not> list_ex (\<lambda>a. al_TemplateID a = i \<and>
        list_ex (\<lambda>u. mu_ID u = al_UserID a \<and> mu_DeletedAt u = None) (db_users d)) (db_allocs d)"

definition ArchiveTemplate :: "ID \<Rightarrow> Revision \<Rightarrow> instant \<Rightarrow> (db, unit) tx" where
  "ArchiveTemplate i revision now =
     sql_one (ConflictError ''inbound template changed or still has managed users'')
       (\<lambda>d. rows_affected (archivable d i revision) (db_templates d))
       (\<lambda>d. db_templates_update (sql_update (archivable d i revision)
          (\<lambda>t. t\<lparr>tm_ArchivedAt := Some (stored now), tm_Revision := tm_Revision t + 1,
                tm_UpdatedAt := stored now\<rparr>)) d)"

definition SetTemplateCompatibility :: "ID \<Rightarrow> CompatibilityState \<Rightarrow> string \<Rightarrow> instant \<Rightarrow> (db, unit) tx" where
  "SetTemplateCompatibility i state reason now =
     sql_one (NotFoundError ''inbound template'') (\<lambda>d. rows_affected (\<lambda>t. tm_ID t = i) (db_templates d))
       (db_templates_update (sql_update (\<lambda>t. tm_ID t = i)
          (\<lambda>t. t\<lparr>tm_Compatibility := state, tm_CompatibilityReason := reason,
                tm_LastValidatedAt := Some (stored now), tm_UpdatedAt := stored now\<rparr>)))"

section \<open>Validation\<close>

definition outcome_generation :: "ValidationOutcome \<Rightarrow> int" where
  "outcome_generation r = (if vo_State r = CompatibilityCompatible \<and> vo_CapabilityGeneration r > 0
     then vo_CapabilityGeneration r else 0)"

definition apply_outcome :: "ValidationOutcome \<Rightarrow> InboundTemplate \<Rightarrow> InboundTemplate" where
  "apply_outcome r t = t\<lparr>tm_Compatibility := vo_State r, tm_CompatibilityReason := vo_Reason r,
     tm_LastValidatedAt := Some (stored (vo_ValidatedAt r)),
     tm_ValidatedGeneration := outcome_generation r, tm_UpdatedAt := stored (vo_ValidatedAt r)\<rparr>"

definition outcome_audit :: "ValidationOutcome \<Rightarrow> AuditEvent" where
  "outcome_audit r = (let e = (vo_Audit r)\<lparr>ae_SafeSummary := vo_Reason r\<rparr> in
     if vo_State r \<noteq> CompatibilityCompatible then e\<lparr>ae_Result := AuditFailed\<rparr> else e)"

definition CompleteTemplateValidation :: "ValidationOutcome \<Rightarrow> (db, bool) tx" where
  "CompleteTemplateValidation r =
     (let p = editable (vo_TemplateID r) (vo_ExpectedRevision r) in
      tx_bind (sql_rows (\<lambda>d. rows_affected p (db_templates d))
         (db_templates_update (sql_update p (apply_outcome r)))) (\<lambda>n.
      if n \<noteq> 1 then tx_ret False
      else tx_seq (tx_all
        [sql_exec (set_instance (\<lambda>m. m\<lparr>mi_HealthState := vo_Health r,
           mi_BootEpoch := anchor_or (mi_BootEpoch m) (vo_BootEpoch r),
           mi_LastSuccessAt := (case vo_SuccessAt r of None \<Rightarrow> mi_LastSuccessAt m | Some t \<Rightarrow> Some (stored t)),
           mi_LastErrorCode := vo_ErrorCode r, mi_LastErrorSummary := vo_ErrorSummary r,
           mi_UpdatedAt := stored (vo_ValidatedAt r)\<rparr>)),
         AppendAudit (outcome_audit r)]) (tx_ret True)))"

definition RequestRevalidation :: "ID \<Rightarrow> Revision \<Rightarrow> DomainCommand \<Rightarrow> AuditEvent \<Rightarrow> (db, bool) tx" where
  "RequestRevalidation i expected command audit = once command (tx_all
     [sql_one stale_template (\<lambda>d. rows_affected (editable i expected) (db_templates d))
        (db_templates_update (sql_update (editable i expected)
           (\<lambda>t. t\<lparr>tm_Compatibility := CompatibilityUnverified, tm_CompatibilityReason := '''',
                 tm_LastValidatedAt := None, tm_Revision := tm_Revision t + 1,
                 tm_UpdatedAt := stored (ae_OccurredAt audit)\<rparr>))),
      SaveCommand command, AppendAudit audit])"

section \<open>The capability generation\<close>

text \<open>\<open>Format(time.RFC3339)\<close> keeps whole seconds.\<close>

definition epoch_text :: "instant \<Rightarrow> instant" where
  "epoch_text t = (t div Second) * Second"

definition AdvanceCapabilityGeneration ::
  "CapabilitySignal \<Rightarrow> duration \<Rightarrow> instant \<Rightarrow> (db, int \<times> bool) tx" where
  "AdvanceCapabilityGeneration signal tolerance now =
     tx_bind (tx_scan NoRows db_instance) (\<lambda>row.
       let m = in_Instance row; generation = mi_CapabilityGeneration m;
           storedUptime = in_LastUptimeSeconds row; uptime = uint (cs_UptimeSeconds signal);
           anchor = (case mi_BootEpoch m of None \<Rightarrow> zero_time | Some e \<Rightarrow> e)
       in if \<not> cs_Known signal then tx_ret (generation, False)
          else if anchor = zero_time
          then tx_seq (sql_exec (update_instance (\<lambda>r. r\<lparr>in_Instance := (in_Instance r)
                 \<lparr>mi_BootEpoch := Some (epoch_text (cs_BootEpoch signal)), mi_UpdatedAt := stored now\<rparr>,
                 in_LastUptimeSeconds := uptime\<rparr>))) (tx_ret (generation, False))
          else if \<not> (RestartConfirmed anchor (cs_BootEpoch signal) True tolerance \<or>
                     (storedUptime > 0 \<and> uptime < storedUptime) \<or> cs_SuspectedRestart signal)
          then (if uptime > storedUptime
                then tx_seq (sql_exec (update_instance (\<lambda>r. r\<lparr>in_Instance := (in_Instance r)
                       \<lparr>mi_UpdatedAt := stored now\<rparr>, in_LastUptimeSeconds := uptime\<rparr>)))
                     (tx_ret (generation, False))
                else tx_ret (generation, False))
          else tx_seq (sql_exec (update_instance (\<lambda>r. r\<lparr>in_Instance := (in_Instance r)
                 \<lparr>mi_BootEpoch := Some (epoch_text (cs_BootEpoch signal)),
                  mi_CapabilityGeneration := wrap64 (generation + 1), mi_UpdatedAt := stored now\<rparr>,
                 in_LastUptimeSeconds := uptime\<rparr>))) (tx_ret (wrap64 (generation + 1), True)))"

definition stale_evidence :: "int \<Rightarrow> InboundTemplate \<Rightarrow> bool" where
  "stale_evidence generation t \<longleftrightarrow> tm_ArchivedAt t = None \<and> tm_Compatibility t = CompatibilityCompatible \<and>
     tm_ValidatedGeneration t \<noteq> generation"

definition invalidate :: "instant \<Rightarrow> InboundTemplate \<Rightarrow> InboundTemplate" where
  "invalidate now t = t\<lparr>tm_Compatibility := CompatibilityUnverified,
     tm_CompatibilityReason := ''node restarted; capability gate must run again on the current Xray process'',
     tm_LastValidatedAt := None, tm_ValidatedGeneration := 0, tm_Revision := tm_Revision t + 1,
     tm_UpdatedAt := stored now\<rparr>"

definition InvalidateStaleCapabilityEvidence :: "int \<Rightarrow> instant \<Rightarrow> (db, ID list) tx" where
  "InvalidateStaleCapabilityEvidence generation now =
     (if generation \<le> 0 then tx_ret []
      else tx_bind (tx_get (\<lambda>d. map tm_ID (filter (stale_evidence generation) (db_templates d)))) (\<lambda>stale.
        if stale = [] then tx_ret []
        else tx_seq (sql_exec (db_templates_update (sql_update (stale_evidence generation) (invalidate now))))
               (tx_ret stale)))"

end
