(* ===== verification/Store_Drift.thy ===== *)
theory Store_Drift
  imports Store_Sync "HOL-Library.List_Lexorder"
begin

text \<open>
  Drift removals, the intents to remove what the panel does not know from its namespace on Xray:
  \<open>internal/persistence/sqlite/store_drift.go\<close>.
\<close>

definition update_drifts :: "(DriftRow \<Rightarrow> bool) \<Rightarrow> (DriftRow \<Rightarrow> DriftRow) \<Rightarrow> db \<Rightarrow> db" where
  "update_drifts p f = db_drifts_update (sql_update p f)"

definition drift_of :: "ID \<Rightarrow> db \<Rightarrow> DriftRow option" where
  "drift_of i d = List.find (\<lambda>r. df_ID r = i) (db_drifts d)"

definition new_drift :: "ID \<Rightarrow> ID \<Rightarrow> string \<Rightarrow> string \<Rightarrow> string \<Rightarrow> instant \<Rightarrow> DriftRow" where
  "new_drift i templateID inboundTag kind statisticsID now =
     \<lparr>df_ID = i, df_TemplateID = templateID, df_InboundTag = inboundTag, df_Kind = kind,
      df_StatisticsID = statisticsID, df_State = SyncPending, df_AttemptCount = 0,
      df_NextAttemptAt = stored now, df_LeaseOwner = None, df_LeaseExpiresAt = None,
      df_LastErrorCode = '''', df_LastErrorSummary = '''', df_CreatedAt = stored now,
      df_CompletedAt = None, df_SupersededBy = None\<rparr>"

text \<open>The permanent failures of the same target that a new intent takes the place of.\<close>

definition replaced_by :: "DriftRow \<Rightarrow> DriftRow \<Rightarrow> bool" where
  "replaced_by n r \<longleftrightarrow> drift_key r = drift_key n \<and> df_State r = SyncPermanentFailed \<and>
     df_SupersededBy r = None \<and> df_ID r \<noteq> df_ID n"

text \<open>\<open>ON CONFLICT .. DO NOTHING\<close>: an open intent for the target leaves zero rows affected.\<close>

definition EnqueueDriftRemoval ::
  "ID \<Rightarrow> ID \<Rightarrow> string \<Rightarrow> string \<Rightarrow> string \<Rightarrow> instant \<Rightarrow> (db, bool) tx" where
  "EnqueueDriftRemoval i templateID inboundTag kind statisticsID now =
     (let n = new_drift i templateID inboundTag kind statisticsID now in
      tx_bind (tx_get (\<lambda>d. list_ex (\<lambda>r. drift_open r \<and> drift_key r = drift_key n) (db_drifts d))) (\<lambda>conflict.
        if conflict then tx_ret False
        else tx_seq (tx_all
          [sql_exec (db_drifts_update (\<lambda>rows. rows @ [n])),
           sql_exec (update_drifts (replaced_by n) (\<lambda>r. r\<lparr>df_SupersededBy := Some i\<rparr>))])
          (tx_ret True)))"

section \<open>Leasing\<close>

definition drift_due :: "instant \<Rightarrow> DriftRow \<Rightarrow> bool" where
  "drift_due now r \<longleftrightarrow>
     ((df_State r = SyncPending \<or> df_State r = SyncRetryWait) \<and> df_NextAttemptAt r \<le> stored now) \<or>
     (df_State r = SyncLeased \<and> (case df_LeaseExpiresAt r of None \<Rightarrow> False | Some e \<Rightarrow> e \<le> stored now))"

text \<open>
  The left joins of the query: an identity removal needs a template that is not incompatible, and
  the identity of the dedicated inbound that holds the tag is looked up (empty for an orphan).
\<close>

definition drift_projects :: "db \<Rightarrow> DriftRow \<Rightarrow> bool" where
  "drift_projects d r \<longleftrightarrow> df_Kind r = ''inbound'' \<or>
     list_ex (\<lambda>t. tm_ID t = df_TemplateID r \<and> tm_Compatibility t \<noteq> CompatibilityIncompatible) (db_templates d)"

definition owner_identity :: "db \<Rightarrow> string \<Rightarrow> string" where
  "owner_identity d tag =
     (case List.find (\<lambda>r. di_InboundTag (ir_Inbound r) = tag \<and> unreleased r) (db_inbounds d) of
        None \<Rightarrow> ''''
      | Some r \<Rightarrow> (case alloc_of d (di_AllocationID (ir_Inbound r)) of None \<Rightarrow> ''''
          | Some a \<Rightarrow> (case List.find (\<lambda>i. xi_ID i = al_IdentityID a) (db_identities d) of
               None \<Rightarrow> '''' | Some i \<Rightarrow> xi_StatisticsID i)))"

definition due_drift :: "instant \<Rightarrow> db \<Rightarrow> DriftRow option" where
  "due_drift now d = earliest (\<lambda>r. (df_NextAttemptAt r, df_CreatedAt r))
     (filter (\<lambda>r. drift_due now r \<and> drift_projects d r) (db_drifts d))"

definition drift_cas :: "instant \<Rightarrow> DriftRow \<Rightarrow> DriftRow \<Rightarrow> bool" where
  "drift_cas now r x \<longleftrightarrow> df_ID x = df_ID r \<and>
     (((df_State x = SyncPending \<or> df_State x = SyncRetryWait) \<and> df_NextAttemptAt x \<le> stored now) \<or>
      (df_State x = SyncLeased \<and> (case df_LeaseExpiresAt x of None \<Rightarrow> False | Some e \<Rightarrow> e \<le> stored now) \<and>
       (case df_LeaseOwner x of None \<Rightarrow> '''' | Some o1 \<Rightarrow> o1) =
       (case df_LeaseOwner r of None \<Rightarrow> '''' | Some o1 \<Rightarrow> o1)))"

definition lease_drift :: "string \<Rightarrow> instant \<Rightarrow> duration \<Rightarrow> DriftRow \<Rightarrow> DriftRow" where
  "lease_drift owner now lease r = r\<lparr>df_State := SyncLeased, df_LeaseOwner := Some owner,
     df_LeaseExpiresAt := Some (stored (now + lease))\<rparr>"

definition removal_of :: "db \<Rightarrow> DriftRow \<Rightarrow> DriftRemoval" where
  "removal_of d r = \<lparr>dr_ID = df_ID r, dr_TemplateID = df_TemplateID r, dr_InboundTag = df_InboundTag r,
     dr_Kind = df_Kind r, dr_StatisticsID = df_StatisticsID r, dr_State = SyncLeased,
     dr_AttemptCount = df_AttemptCount r, dr_NextAttemptAt = df_NextAttemptAt r,
     dr_ExpectedStatisticsID = owner_identity d (df_InboundTag r),
     dr_Reclaimed = (df_State r = SyncLeased)\<rparr>"

definition LeaseDueDriftRemoval :: "string \<Rightarrow> instant \<Rightarrow> duration \<Rightarrow> (db, DriftRemoval option) tx" where
  "LeaseDueDriftRemoval owner now lease =
     tx_bind (tx_get (\<lambda>d. map_option (\<lambda>r. (r, removal_of d r)) (due_drift now d))) (\<lambda>due. case due of
       None \<Rightarrow> tx_ret None
     | Some (r, removal) \<Rightarrow> tx_bind (sql_rows (\<lambda>d. rows_affected (drift_cas now r) (db_drifts d))
           (update_drifts (drift_cas now r) (lease_drift owner now lease)))
         (\<lambda>n. tx_ret (if n \<noteq> 1 then None else Some removal)))"

definition drift_held_by :: "string \<Rightarrow> DriftRow \<Rightarrow> bool" where
  "drift_held_by owner r \<longleftrightarrow> df_State r = SyncLeased \<and> df_LeaseOwner r = Some owner"

definition RenewDriftRemovalLease :: "ID \<Rightarrow> string \<Rightarrow> instant \<Rightarrow> duration \<Rightarrow> (db, bool) tx" where
  "RenewDriftRemovalLease i owner now lease =
     tx_bind (sql_rows (\<lambda>d. rows_affected (\<lambda>r. df_ID r = i \<and> drift_held_by owner r) (db_drifts d))
        (update_drifts (\<lambda>r. df_ID r = i \<and> drift_held_by owner r)
           (\<lambda>r. r\<lparr>df_LeaseExpiresAt := Some (stored (now + lease))\<rparr>)))
     (\<lambda>n. tx_ret (n = 1))"

section \<open>Finishing\<close>

definition finishDriftRemoval :: "ID \<Rightarrow> string \<Rightarrow> (db, unit) tx \<Rightarrow> (db, unit) tx" where
  "finishDriftRemoval i owner apply1 =
     tx_bind (tx_scan NoRows (drift_of i)) (\<lambda>r.
       if \<not> drift_held_by owner r then tx_ret () else apply1)"

definition CompleteDriftRemoval :: "ID \<Rightarrow> string \<Rightarrow> instant \<Rightarrow> AuditEvent \<Rightarrow> (db, unit) tx" where
  "CompleteDriftRemoval i owner now audit = finishDriftRemoval i owner (tx_all
     [sql_exec (update_drifts (\<lambda>r. df_ID r = i) (\<lambda>r. r\<lparr>df_State := SyncSucceeded, df_LeaseOwner := None,
        df_LeaseExpiresAt := None, df_LastErrorCode := '''', df_LastErrorSummary := '''',
        df_CompletedAt := Some (stored now)\<rparr>)),
      AppendAudit audit])"

definition RescheduleDriftRemoval ::
  "ID \<Rightarrow> string \<Rightarrow> int \<Rightarrow> instant \<Rightarrow> string \<Rightarrow> string \<Rightarrow> (db, unit) tx" where
  "RescheduleDriftRemoval i owner attempts next code summary = finishDriftRemoval i owner
     (sql_exec (update_drifts (\<lambda>r. df_ID r = i) (\<lambda>r. r\<lparr>df_State := SyncRetryWait, df_AttemptCount := attempts,
        df_NextAttemptAt := stored next, df_LeaseOwner := None, df_LeaseExpiresAt := None,
        df_LastErrorCode := code, df_LastErrorSummary := summary\<rparr>)))"

definition FailDriftRemoval ::
  "ID \<Rightarrow> string \<Rightarrow> string \<Rightarrow> string \<Rightarrow> instant \<Rightarrow> AuditEvent \<Rightarrow> (db, unit) tx" where
  "FailDriftRemoval i owner code summary now audit = finishDriftRemoval i owner (tx_all
     [sql_exec (update_drifts (\<lambda>r. df_ID r = i) (\<lambda>r. r\<lparr>df_State := SyncPermanentFailed,
        df_LeaseOwner := None, df_LeaseExpiresAt := None, df_LastErrorCode := code,
        df_LastErrorSummary := summary, df_CompletedAt := Some (stored now)\<rparr>)),
      AppendAudit audit])"

section \<open>Failures not yet taken over\<close>

definition stale_failure :: "DriftRow \<Rightarrow> bool" where
  "stale_failure r \<longleftrightarrow> df_State r = SyncPermanentFailed \<and> df_SupersededBy r = None"

text \<open>The two lists, oldest first (the identifier breaks ties).\<close>

definition stale_record :: "DriftRow \<Rightarrow> DriftRemoval" where
  "stale_record r = \<lparr>dr_ID = df_ID r, dr_TemplateID = df_TemplateID r, dr_InboundTag = df_InboundTag r,
     dr_Kind = df_Kind r, dr_StatisticsID = df_StatisticsID r, dr_State = df_State r,
     dr_AttemptCount = df_AttemptCount r, dr_NextAttemptAt = df_NextAttemptAt r,
     dr_ExpectedStatisticsID = '''', dr_Reclaimed = False\<rparr>"

definition OrphanStaleDriftRemovals :: "db \<Rightarrow> DriftRemoval list" where
  "OrphanStaleDriftRemovals d = map stale_record (sort_key df_CreatedAt (sort_key df_ID
     (filter (\<lambda>r. df_TemplateID r = '''' \<and> stale_failure r) (db_drifts d))))"

definition StaleDriftRemovals :: "ID \<Rightarrow> db \<Rightarrow> DriftRemoval list" where
  "StaleDriftRemovals profileID d = map stale_record (sort_key df_CreatedAt (sort_key df_ID
     (filter (\<lambda>r. df_TemplateID r = profileID \<and> profileID \<noteq> '''' \<and> stale_failure r) (db_drifts d))))"

section \<open>The removals as a leased queue\<close>

definition drift_status :: "db \<Rightarrow> ID \<Rightarrow> lease_status option" where
  "drift_status d i = map_option (\<lambda>r.
     if df_State r = SyncPending \<or> df_State r = SyncRetryWait then Waiting (df_NextAttemptAt r)
     else if df_State r = SyncLeased then Held (df_LeaseOwner r) (df_LeaseExpiresAt r) else Closed) (drift_of i d)"

inductive drift_lease_step :: "db \<Rightarrow> lease_event \<Rightarrow> db \<Rightarrow> bool" where
  take: "LeaseDueDriftRemoval owner now lease d = Inr (r, d1) \<Longrightarrow>
    drift_lease_step d (Take owner (stored now) (map_option dr_ID r)) d1"
| renew: "RenewDriftRemovalLease i owner now lease d = Inr (held, d1) \<Longrightarrow>
    drift_lease_step d (Renew i owner (stored (now + lease)) held) d1"
| complete: "CompleteDriftRemoval i owner now ev d = Inr ((), d1) \<Longrightarrow>
    drift_lease_step d (Finish i owner) d1"
| reschedule: "RescheduleDriftRemoval i owner attempts next code summary d = Inr ((), d1) \<Longrightarrow>
    drift_lease_step d (Finish i owner) d1"
| fail: "FailDriftRemoval i owner code summary now ev d = Inr ((), d1) \<Longrightarrow>
    drift_lease_step d (Finish i owner) d1"

inductive_cases drift_lease_takeE: "drift_lease_step d (Take owner now taken) d1"
inductive_cases drift_lease_renewE: "drift_lease_step d (Renew i owner expires held) d1"
inductive_cases drift_lease_finishE: "drift_lease_step d (Finish i owner) d1"

lemma drift_of_update:
  assumes "\<And>r. p r \<Longrightarrow> df_ID (f r) = df_ID r"
  shows "drift_of i (update_drifts p f d) = map_option (\<lambda>r. if p r then f r else r) (drift_of i d)"
  by (simp add: drift_of_def update_drifts_def find_sql_update assms)

lemma drift_of_audit [simp]: "drift_of i (db_audits_update f s) = drift_of i s"
  by (simp add: drift_of_def)

lemma drift_of_Some: "drift_of i d = Some r \<Longrightarrow> r \<in> set (db_drifts d) \<and> df_ID r = i"
  unfolding drift_of_def by (rule find_keyD)

lemma schema_drift_ids: "schema_ok d \<Longrightarrow> distinct (map df_ID (db_drifts d))"
  by (simp add: schema_ok_def tables_drift_ok_def)

lemma schema_drift_of: "schema_ok d \<Longrightarrow> r \<in> set (db_drifts d) \<Longrightarrow> drift_of (df_ID r) d = Some r"
  unfolding drift_of_def by (rule find_key_unique [of df_ID]) (auto simp: schema_drift_ids)

text \<open>An update of the row \<open>i\<close> alone, under a condition on it.\<close>

lemma drift_update_keyed:
  assumes "schema_ok d" "\<And>r. p r \<Longrightarrow> df_ID r = i" "\<And>r. p r \<Longrightarrow> df_ID (f r) = df_ID r"
  shows "rows_affected p (db_drifts d) \<noteq> 1 \<Longrightarrow> update_drifts p f d = d"
    and "rows_affected p (db_drifts d) = 1 \<Longrightarrow> \<exists>x. drift_of i d = Some x \<and> p x \<and>
      drift_of i (update_drifts p f d) = Some (f x) \<and>
      (\<forall>j. j \<noteq> i \<longrightarrow> drift_of j (update_drifts p f d) = drift_of j d)"
proof -
  assume "rows_affected p (db_drifts d) \<noteq> 1"
  then have "sql_update p f (db_drifts d) = db_drifts d"
    using sql_update_keyed [OF schema_drift_ids [OF assms(1)] assms(2)] by blast
  then show "update_drifts p f d = d" unfolding update_drifts_def by (rule db_update_same)
next
  assume "rows_affected p (db_drifts d) = 1"
  then obtain x where x: "x \<in> set (db_drifts d)" "p x" by (rule rows_affected_1E)
  then have xi: "drift_of i d = Some x" using schema_drift_of [OF assms(1) x(1)] assms(2) by auto
  have "drift_of j (update_drifts p f d) = drift_of j d" if "j \<noteq> i" for j
    using that assms(2) drift_of_Some [of j d] by (cases "drift_of j d") (auto simp: drift_of_update [of p f, OF assms(3)])
  moreover have "drift_of i (update_drifts p f d) = Some (f x)"
    using xi x(2) by (simp add: drift_of_update [of p f, OF assms(3)])
  ultimately show "\<exists>x. drift_of i d = Some x \<and> p x \<and> drift_of i (update_drifts p f d) = Some (f x) \<and>
      (\<forall>j. j \<noteq> i \<longrightarrow> drift_of j (update_drifts p f d) = drift_of j d)"
    using xi x(2) by blast
qed

lemma drift_status_upd:
  assumes "drift_of i d1 = Some x" "\<And>j. j \<noteq> i \<Longrightarrow> drift_of j d1 = drift_of j d"
  shows "drift_status d1 = (drift_status d)(i \<mapsto> the (drift_status d1 i))"
proof
  fix j show "drift_status d1 j = ((drift_status d)(i \<mapsto> the (drift_status d1 i))) j"
    using assms by (cases "j = i") (auto simp: drift_status_def)
qed

lemma drift_take:
  assumes "LeaseDueDriftRemoval owner now lease d = Inr (r, d1)" "schema_ok d"
  shows "schema_ok d1 \<and> (case r of None \<Rightarrow> d1 = d
    | Some w \<Rightarrow> (\<exists>st. drift_status d (dr_ID w) = Some st \<and> claimable (stored now) st) \<and>
        drift_status d1 = (drift_status d)(dr_ID w \<mapsto> Held (Some owner) (Some (stored (now + lease)))))"
proof (cases "due_drift now d")
  case None
  with assms show ?thesis by (auto simp: LeaseDueDriftRemoval_def tx_simps)
next
  case (Some q)
  let ?p = "drift_cas now q" and ?f = "lease_drift owner now lease"
  from Some assms have d1: "d1 = update_drifts ?p ?f d" "schema_ok d1"
    and r: "r = (if rows_affected ?p (db_drifts d) \<noteq> 1 then None else Some (removal_of d q))"
    by (auto simp: LeaseDueDriftRemoval_def tx_simps)
  have keyed: "?p x \<Longrightarrow> df_ID x = df_ID q" "?p x \<Longrightarrow> df_ID (?f x) = df_ID x" for x
    by (simp_all add: drift_cas_def lease_drift_def)
  show ?thesis
  proof (cases "rows_affected ?p (db_drifts d) = 1")
    case True
    have "\<exists>x. drift_of (df_ID q) d = Some x \<and> ?p x \<and> drift_of (df_ID q) d1 = Some (?f x) \<and>
        (\<forall>j. j \<noteq> df_ID q \<longrightarrow> drift_of j d1 = drift_of j d)"
      unfolding d1(1) by (rule drift_update_keyed(2) [OF assms(2) keyed True])
    then obtain x where x: "drift_of (df_ID q) d = Some x" "?p x" "drift_of (df_ID q) d1 = Some (?f x)"
      "\<And>j. j \<noteq> df_ID q \<Longrightarrow> drift_of j d1 = drift_of j d" by blast
    have "\<exists>st. drift_status d (df_ID q) = Some st \<and> claimable (stored now) st"
      using x(1,2) by (auto simp: drift_status_def drift_cas_def split: option.splits)
    then show ?thesis
      using True r d1(2) drift_status_upd [OF x(3,4)] x(3)
      by (simp add: removal_of_def drift_status_def lease_drift_def)
  next
    case False
    have "d1 = d" unfolding d1(1) by (rule drift_update_keyed(1) [OF assms(2) keyed False])
    with False r assms(2) show ?thesis by simp
  qed
qed

lemma drift_renew:
  assumes "RenewDriftRemovalLease i owner now lease d = Inr (held, d1)" "schema_ok d"
  shows "schema_ok d1 \<and> (if held then (\<exists>e. drift_status d i = Some (Held (Some owner) e)) \<and>
      drift_status d1 = (drift_status d)(i \<mapsto> Held (Some owner) (Some (stored (now + lease)))) else d1 = d)"
proof -
  let ?p = "\<lambda>r. df_ID r = i \<and> drift_held_by owner r" and ?f = "\<lambda>r. r\<lparr>df_LeaseExpiresAt := Some (stored (now + lease))\<rparr>"
  have run: "held = (rows_affected ?p (db_drifts d) = 1)" "d1 = update_drifts ?p ?f d" "schema_ok d1"
    using assms(1) by (auto simp: RenewDriftRemovalLease_def tx_simps)
  note up = drift_update_keyed [of d ?p i ?f, OF assms(2)]
  show ?thesis
  proof (cases held)
    case True
    then obtain x where x: "drift_of i d = Some x" "?p x" "drift_of i d1 = Some (?f x)"
      "\<And>j. j \<noteq> i \<Longrightarrow> drift_of j d1 = drift_of j d" using up(2) run by auto
    then show ?thesis
      using True run(3) drift_status_upd [OF x(3,4)] by (simp add: drift_status_def drift_held_by_def)
  next
    case False
    with up(1) run assms(2) show ?thesis by simp
  qed
qed

definition drift_finished :: "db \<Rightarrow> ID \<Rightarrow> string \<Rightarrow> db \<Rightarrow> bool" where
  "drift_finished d i owner d1 \<longleftrightarrow> schema_ok d1 \<and> (d1 = d \<or>
     (\<exists>e st. drift_status d i = Some (Held (Some owner) e) \<and> \<not> is_held st \<and> drift_status d1 = (drift_status d)(i \<mapsto> st)))"

lemma drift_finishedI:
  assumes "finishDriftRemoval i owner m d = Inr ((), d1)" "schema_ok d"
    and "m d = Inr ((), d1) \<Longrightarrow> schema_ok d1 \<and>
      (\<forall>j. drift_of j d1 = drift_of j (update_drifts (\<lambda>r. df_ID r = i) f d))"
    and "\<And>r. df_ID (f r) = df_ID r" "\<And>r. df_State (f r) \<noteq> SyncLeased"
  shows "drift_finished d i owner d1"
proof -
  obtain r where r: "drift_of i d = Some r" and run: "(if \<not> drift_held_by owner r then tx_ret () else m) d = Inr ((), d1)"
    using assms(1) by (auto simp: finishDriftRemoval_def tx_bind_scan)
  show ?thesis
  proof (cases "drift_held_by owner r")
    case True
    with run have "m d = Inr ((), d1)" by simp
    note m = assms(3) [OF this]
    have d1: "drift_of j d1 = (if j = i then Some (f r) else drift_of j d)" for j
      using m r drift_of_Some [of j d] by (cases "drift_of j d") (auto simp: drift_of_update assms(4))
    have "drift_status d1 = (drift_status d)(i \<mapsto> the (drift_status d1 i))"
      by (rule drift_status_upd) (simp_all add: d1)
    moreover have "drift_status d i = Some (Held (Some owner) (df_LeaseExpiresAt r))"
      using True r by (simp add: drift_status_def drift_held_by_def)
    moreover have "\<not> is_held (the (drift_status d1 i))" using assms(5) by (simp add: drift_status_def d1)
    ultimately show ?thesis using m unfolding drift_finished_def by blast
  next
    case False
    with run assms(2) show ?thesis by (simp add: drift_finished_def tx_simps)
  qed
qed

lemma drift_finished_update:
  assumes "finishDriftRemoval i owner (sql_exec (update_drifts (\<lambda>r. df_ID r = i) f)) d = Inr ((), d1)" "schema_ok d"
    "\<And>r. df_ID (f r) = df_ID r" "\<And>r. df_State (f r) \<noteq> SyncLeased"
  shows "drift_finished d i owner d1"
  by (rule drift_finishedI [OF assms(1,2) _ assms(3,4)]) (auto simp: tx_simps)

lemma drift_finished_audit:
  assumes "finishDriftRemoval i owner (tx_all [sql_exec (update_drifts (\<lambda>r. df_ID r = i) f), AppendAudit ev]) d = Inr ((), d1)"
    "schema_ok d" "\<And>r. df_ID (f r) = df_ID r" "\<And>r. df_State (f r) \<noteq> SyncLeased"
  shows "drift_finished d i owner d1"
  by (rule drift_finishedI [OF assms(1,2) _ assms(3,4)]) (auto simp: AppendAudit_def insert_audit_def tx_simps)

lemma drift_complete_finished:
  "CompleteDriftRemoval i owner now ev d = Inr ((), d1) \<Longrightarrow> schema_ok d \<Longrightarrow> drift_finished d i owner d1"
  unfolding CompleteDriftRemoval_def by (erule drift_finished_audit) simp_all

lemma drift_reschedule_finished:
  "RescheduleDriftRemoval i owner attempts nxt code summary d = Inr ((), d1) \<Longrightarrow> schema_ok d \<Longrightarrow> drift_finished d i owner d1"
  unfolding RescheduleDriftRemoval_def by (erule drift_finished_update) simp_all

lemma drift_fail_finished:
  "FailDriftRemoval i owner code summary now ev d = Inr ((), d1) \<Longrightarrow> schema_ok d \<Longrightarrow> drift_finished d i owner d1"
  unfolding FailDriftRemoval_def by (erule drift_finished_audit) simp_all

lemma drift_take_some:
  assumes "LeaseDueDriftRemoval owner now lease d = Inr (r, d1)" "schema_ok d" "Some i = map_option dr_ID r"
  shows "(\<exists>st. drift_status d i = Some st \<and> claimable (stored now) st) \<and>
    (\<exists>e. drift_status d1 = (drift_status d)(i \<mapsto> Held (Some owner) (Some e)))"
  using drift_take [OF assms(1,2)] assms(3) by (cases r) auto

interpretation drift_queue: lease_queue schema_ok drift_status drift_lease_step
proof
  fix d d1 :: db and ev
  assume ok: "schema_ok d"
  assume "drift_lease_step d ev d1"
  then show "schema_ok d1"
    by cases (metis ok drift_take drift_renew drift_complete_finished drift_reschedule_finished drift_fail_finished
      drift_finished_def)+
qed (auto elim!: drift_lease_takeE drift_lease_renewE drift_lease_finishE
      dest: drift_take drift_take_some drift_renew drift_complete_finished drift_reschedule_finished
        drift_fail_finished simp: drift_finished_def split: if_splits)

end
