(* ===== verification/Intent_Log.thy ===== *)
theory Intent_Log
  imports Store_Users Store_Templates Store_Drift
begin

text \<open>
  The abstract specification of the synchronization queue: a log of intents per allocation, each
  with its revision and whether it is still open. The store's writes refine the steps of the log,
  whose invariant gives at most one open intent per allocation, that of the current revision.
\<close>

section \<open>The abstract log\<close>

type_synonym intent = "ID \<times> Revision \<times> bool"
type_synonym intent_log = "intent list \<times> (ID \<times> Revision) list"

definition log_ok :: "intent_log \<Rightarrow> bool" where
  "log_ok l \<longleftrightarrow>
     distinct (map (\<lambda>(i, k, b). (i, k)) (fst l)) \<and> distinct (map fst (snd l)) \<and>
     (\<forall>i k b n. (i, k, b) \<in> set (fst l) \<longrightarrow> (i, n) \<in> set (snd l) \<longrightarrow> 1 \<le> k \<and> k \<le> n \<and> (b \<longrightarrow> k = n)) \<and>
     (\<forall>i n k. (i, n) \<in> set (snd l) \<longrightarrow> 1 \<le> k \<longrightarrow> k \<le> n \<longrightarrow> (\<exists>b. (i, k, b) \<in> set (fst l)))"

text \<open>An intent may be closed at any time, and never reopened.\<close>

definition may_close :: "intent \<Rightarrow> intent \<Rightarrow> bool" where
  "may_close x y \<longleftrightarrow> fst y = fst x \<and> fst (snd y) = fst (snd x) \<and> (snd (snd y) \<longrightarrow> snd (snd x))"

definition close_older :: "ID \<Rightarrow> Revision \<Rightarrow> intent \<Rightarrow> intent" where
  "close_older j m x = (fst x, fst (snd x), snd (snd x) \<and> \<not> (fst x = j \<and> fst (snd x) < m))"

text \<open>
  A step closes intents, records the next intent of an allocation (closing the older ones), or adds
  an allocation with its first intent.
\<close>

inductive log_step :: "intent_log \<Rightarrow> intent_log \<Rightarrow> bool" where
  close: "list_all2 may_close xs ys \<Longrightarrow> log_step (xs, as) (ys, as)"
| intend: "(j, n) \<in> set as \<Longrightarrow> 1 \<le> m \<Longrightarrow> m \<le> n + 1 \<Longrightarrow> (\<forall>b. (j, m, b) \<notin> set xs) \<Longrightarrow>
    log_step (xs, as) (map (close_older j m) xs @ [(j, m, b)],
      map (\<lambda>(i, k). (i, if i = j then m else k)) as)"
| allocate: "j \<notin> set (map fst as) \<Longrightarrow> (\<forall>x \<in> set xs. fst x \<noteq> j) \<Longrightarrow>
    log_step (xs, as) (xs @ [(j, 1, b)], as @ [(j, 1)])"

inductive_simps log_step_iff: "log_step (xs, as) l"

lemma log_ok_unique:
  assumes "log_ok l" "(i, k, b) \<in> set (fst l)" "(i, k, c) \<in> set (fst l)"
  shows "b = c"
  using assms distinct_map_eqD [of "\<lambda>(i, k, b). (i, k)" "fst l" "(i, k, b)" "(i, k, c)"]
  by (auto simp: log_ok_def)

lemma may_close_keys:
  "list_all2 may_close xs ys \<Longrightarrow> map (\<lambda>(i, k, b). (i, k)) ys = map (\<lambda>(i, k, b). (i, k)) xs"
  by (induction rule: list_all2_induct) (auto simp: may_close_def)

lemma may_close_sub:
  "list_all2 may_close xs ys \<Longrightarrow> (i, k, b) \<in> set ys \<Longrightarrow> \<exists>c. (i, k, c) \<in> set xs \<and> (b \<longrightarrow> c)"
  by (induction rule: list_all2_induct) (auto simp: may_close_def)

lemma may_close_sup:
  assumes "list_all2 may_close xs ys" "(i, k, b) \<in> set xs"
  shows "\<exists>c. (i, k, c) \<in> set ys"
proof -
  have "(i, k) \<in> set (map (\<lambda>(i, k, b). (i, k)) xs)" using assms(2) by force
  then have "(i, k) \<in> set (map (\<lambda>(i, k, b). (i, k)) ys)" by (simp add: may_close_keys [OF assms(1)])
  then show ?thesis by auto
qed

lemma close_older_keys: "map (\<lambda>(i, k, b). (i, k)) (map (close_older j m) xs) = map (\<lambda>(i, k, b). (i, k)) xs"
  by (induction xs) (auto simp: close_older_def)

lemma log_ok_close:
  assumes "log_ok (xs, as)" "list_all2 may_close xs ys"
  shows "log_ok (ys, as)"
  using assms may_close_keys [OF assms(2)]
  unfolding log_ok_def fst_conv snd_conv
  by (metis may_close_sub may_close_sup)

lemma log_ok_intend:
  assumes ok: "log_ok (xs, as)" and j: "(j, n) \<in> set as" and m: "1 \<le> m" "m \<le> n + 1"
    and new: "\<forall>b. (j, m, b) \<notin> set xs"
  shows "log_ok (map (close_older j m) xs @ [(j, m, b)], map (\<lambda>(i, k). (i, if i = j then m else k)) as)"
proof -
  have "\<not> m \<le> n"
  proof
    assume "m \<le> n"
    with ok j m(1) have "\<exists>c. (j, m, c) \<in> set xs" unfolding log_ok_def fst_conv snd_conv by blast
    with new show False by blast
  qed
  with m have mn: "m = n + 1" by simp
  have keys: "distinct (map (\<lambda>(i, k, b). (i, k)) (map (close_older j m) xs @ [(j, m, b)]))"
    using ok new unfolding map_append close_older_keys by (auto simp: log_ok_def)
  have fst_as: "map fst (map (\<lambda>(i, k). (i, if i = j then m else k)) as) = map fst as"
    by (induction as) auto
  have only: "(j, k) \<in> set as \<Longrightarrow> k = n" for k
    using ok j by (auto simp: log_ok_def dest: distinct_map_eqD [of fst as "(j, k)" "(j, n)"])
  have range: "1 \<le> k \<and> k \<le> v \<and> (c \<longrightarrow> k = v)"
    if "(i, k, c) \<in> set xs" "(i, v) \<in> set as" for i k c v
    using ok that by (auto simp: log_ok_def)
  have cover: "\<exists>c. (i, k, c) \<in> set xs" if "(i, v) \<in> set as" "1 \<le> k" "k \<le> v" for i k v
    using ok that by (auto simp: log_ok_def)
  have old: "1 \<le> k \<and> k \<le> v' \<and> (c \<longrightarrow> k = v')"
    if x: "(i, k, c) \<in> set (map (close_older j m) xs)" and v: "(i, v) \<in> set as"
      and v': "v' = (if i = j then m else v)" for i k c v v'
  proof -
    from x obtain y where y: "y \<in> set xs" "(i, k, c) = close_older j m y" by auto
    then have c0: "(i, k, snd (snd y)) \<in> set xs" "c \<longleftrightarrow> snd (snd y) \<and> \<not> (i = j \<and> k < m)"
      by (cases y, auto simp: close_older_def)+
    with range [OF c0(1) v] only [of v] v v' mn show ?thesis by (cases "i = j") auto
  qed
  have kept: "\<exists>c. (i, k, c) \<in> set (map (close_older j m) xs)" if "(i, k, c0) \<in> set xs" for i k c0
  proof -
    have "close_older j m (i, k, c0) \<in> set (map (close_older j m) xs)" using that by auto
    then show ?thesis unfolding close_older_def fst_conv snd_conv by blast
  qed
  show ?thesis
    unfolding log_ok_def fst_conv snd_conv fst_as
  proof (intro conjI allI impI)
    show "distinct (map (\<lambda>(i, k, b). (i, k)) (map (close_older j m) xs @ [(j, m, b)]))" by (rule keys)
    show "distinct (map fst as)" using ok by (simp add: log_ok_def)
  next
    fix i k c v'
    assume x: "(i, k, c) \<in> set (map (close_older j m) xs @ [(j, m, b)])"
      and "(i, v') \<in> set (map (\<lambda>(i, k). (i, if i = j then m else k)) as)"
    then obtain v where v: "(i, v) \<in> set as" "v' = (if i = j then m else v)" by auto
    have "1 \<le> k \<and> k \<le> v' \<and> (c \<longrightarrow> k = v')"
    proof (cases "(i, k, c) \<in> set (map (close_older j m) xs)")
      case True
      then show ?thesis by (rule old [OF _ v])
    next
      case False
      then have "i = j \<and> k = m" using x unfolding set_append by auto
      then show ?thesis using v m by simp
    qed
    then show "1 \<le> k" "k \<le> v'" "c \<Longrightarrow> k = v'" by simp_all
  next
    fix i v' k
    assume "(i, v') \<in> set (map (\<lambda>(i, k). (i, if i = j then m else k)) as)" and k: "1 \<le> k" "k \<le> v'"
    then obtain v where v: "(i, v) \<in> set as" "v' = (if i = j then m else v)" by auto
    show "\<exists>c. (i, k, c) \<in> set (map (close_older j m) xs @ [(j, m, b)])"
    proof (cases "i = j \<and> k = m")
      case False
      have "k \<le> v"
      proof (cases "i = j")
        case True
        with False v mn only [of v] k show ?thesis by simp
      next
        case False
        with v k show ?thesis by simp
      qed
      with cover [OF v(1) k(1)] obtain c where "(i, k, c) \<in> set xs" by blast
      from kept [OF this] show ?thesis unfolding set_append by blast
    qed auto
  qed
qed

lemma log_ok_allocate:
  assumes "log_ok (xs, as)" "j \<notin> set (map fst as)" "\<forall>x \<in> set xs. fst x \<noteq> j"
  shows "log_ok (xs @ [(j, 1, b)], as @ [(j, 1)])"
proof -
  have keys: "distinct (map (\<lambda>(i, k, b). (i, k)) (xs @ [(j, 1, b)]))"
    using assms(1,3) unfolding map_append by (auto simp: log_ok_def)
  have fresh: "(j, v) \<notin> set as" for v using assms(2) by force
  have none: "(j, k, c) \<notin> set xs" for k c using assms(3) by fastforce
  show ?thesis
    unfolding log_ok_def fst_conv snd_conv
  proof (intro conjI allI impI)
    show "distinct (map (\<lambda>(i, k, b). (i, k)) (xs @ [(j, 1, b)]))" by (rule keys)
    show "distinct (map fst (as @ [(j, 1)]))" using assms(1,2) by (simp add: log_ok_def)
  next
    fix i k c v
    assume "(i, k, c) \<in> set (xs @ [(j, 1, b)])" "(i, v) \<in> set (as @ [(j, 1)])"
    then have "(i, k, c) \<in> set xs \<and> (i, v) \<in> set as \<or> k = 1 \<and> v = 1"
      using fresh none by auto
    with assms(1) have "1 \<le> k \<and> k \<le> v \<and> (c \<longrightarrow> k = v)"
      unfolding log_ok_def fst_conv snd_conv by (elim disjE conjE) (blast, simp)
    then show "1 \<le> k" "k \<le> v" "c \<Longrightarrow> k = v" by simp_all
  next
    fix i v k
    assume "(i, v) \<in> set (as @ [(j, 1)])" "1 \<le> k" "k \<le> v"
    with assms(1) show "\<exists>c. (i, k, c) \<in> set (xs @ [(j, 1, b)])"
      unfolding log_ok_def fst_conv snd_conv set_append
      by (cases "(i, v) \<in> set as") (blast, auto)
  qed
qed

lemma log_step_ok: "log_step l l' \<Longrightarrow> log_ok l \<Longrightarrow> log_ok l'"
  by (induction rule: log_step.induct) (auto intro: log_ok_close log_ok_intend log_ok_allocate)

lemma log_steps_ok: "log_step\<^sup>*\<^sup>* l l' \<Longrightarrow> log_ok l \<Longrightarrow> log_ok l'"
  by (induction rule: rtranclp_induct) (auto intro: log_step_ok)

lemma log_ok_one_open:
  assumes "log_ok l" "(i, k, True) \<in> set (fst l)" "(i, k2, True) \<in> set (fst l)" "(i, n) \<in> set (snd l)"
  shows "k = n \<and> k2 = n"
  using assms unfolding log_ok_def by blast

end
