(* ===== verification/Scenario.thy ===== *)
theory Scenario
  imports Store_Users Store_Templates Store_Drift
begin

text \<open>
  A concrete history of the store on which the properties are instantiated: a panel with its
  settings, a node, an administrator, one inbound template and two users.
\<close>

definition demo_command :: "ID \<Rightarrow> ID \<Rightarrow> DomainCommand" where
  "demo_command i target = \<lparr>dc_ID = i, dc_ActorType = ActorAdministrator, dc_ActorID = Some ''admin'',
     dc_CommandType = ''demo'', dc_TargetType = ''user'', dc_TargetID = target,
     dc_RequestFingerprint = [7], dc_State = CommandCompleted, dc_ResultReference = '''',
     dc_CreatedAt = 0, dc_CompletedAt = Some 0\<rparr>"

definition demo_audit :: "ID \<Rightarrow> AuditEvent" where
  "demo_audit i = \<lparr>ae_ID = i, ae_OccurredAt = 0, ae_ActorType = ActorAdministrator, ae_ActorID = Some ''admin'',
     ae_TargetType = ''user'', ae_TargetID = ''U1'', ae_Action = ''demo'', ae_Result = AuditAccepted,
     ae_CommandID = None, ae_OperationID = None, ae_SafeSummary = ''''\<rparr>"

definition demo_node :: ID where "demo_node = ''00000000-0000-4000-8000-000000000000''"

definition demo_template :: InboundTemplate where
  "demo_template = \<lparr>tm_ID = ''T1'', tm_InstanceID = demo_node, tm_Name = ''main'', tm_NormalizedName = ''main'',
     tm_PublicHost = ''host'', tm_ListenAddress = ''0.0.0.0'', tm_Pool = \<lparr>pp_Start = 2000, pp_End = 2001\<rparr>,
     tm_Method = ''2022-blake3-aes-128-gcm'', tm_Network = NetworkTCPUDP, tm_Compatibility = CompatibilityCompatible,
     tm_CompatibilityReason = '''', tm_LastValidatedAt = None, tm_ValidatedGeneration = 0, tm_Revision = 0,
     tm_ArchivedAt = None, tm_CreatedAt = 0, tm_UpdatedAt = 0\<rparr>"

text \<open>A user with the identifiers \<open>prefix + tag\<close>, on a port, with 1000 bytes until the first of February.\<close>

definition demo_alloc :: "string \<Rightarrow> AccessAllocation" where
  "demo_alloc n = \<lparr>al_ID = CHR ''A'' # n, al_UserID = CHR ''U'' # n, al_TemplateID = ''T1'', al_IdentityID = CHR ''I'' # n,
     al_AdminEnabled = True, al_QuotaState = QuotaWithinLimit, al_ProjectionState = ProjectionPending,
     al_ObservedPresent = None, al_DesiredRevision = 1, al_SyncedRevision = 0, al_DesiredCredentialVersion = 1,
     al_SyncedCredentialVersion = None, al_LastSyncAt = None, al_LastSyncErrorCode = '''',
     al_LastSyncErrorSummary = '''', al_CreatedAt = 0, al_UpdatedAt = 0\<rparr>"

definition demo_inbound :: "string \<Rightarrow> int \<Rightarrow> InboundRecord" where
  "demo_inbound n port = \<lparr>ir_Inbound = \<lparr>di_AllocationID = CHR ''A'' # n, di_TemplateID = ''T1'',
      di_InboundTag = ''xpanel-'' @ n, di_ListenAddress = ''0.0.0.0'', di_Port = port, di_DesiredPresent = True,
      di_ObservedPresent = None, di_LastSyncAt = None, di_ReleasedAt = None, di_CreatedAt = 0, di_UpdatedAt = 0\<rparr>,
     ir_ServerKeyCiphertext = [1], ir_ServerKeyNonce = [2], ir_KeyEncryptionVersion = 1\<rparr>"

definition demo_cred :: "string \<Rightarrow> int \<Rightarrow> AccessCredential" where
  "demo_cred n v = \<lparr>cr_ID = CHR ''C'' # n @ int_digits v, cr_AllocationID = CHR ''A'' # n, cr_Version = v,
     cr_State = CredentialPending, cr_KeyCiphertext = [3], cr_KeyNonce = [4], cr_KeyEncryptionVersion = 1,
     cr_CreatedAt = 0, cr_ActivatedAt = None, cr_RetiredAt = None\<rparr>"

definition demo_op :: "string \<Rightarrow> Revision \<Rightarrow> bool \<Rightarrow> SyncReason \<Rightarrow> SynchronizationOperation" where
  "demo_op n k present reason = NewSynchronizationOperation (CHR ''O'' # n @ int_digits k) (CHR ''A'' # n) k present
     (Some 1) reason (InboundPhaseFor present) 0"

definition demo_create :: "string \<Rightarrow> int \<Rightarrow> UserCreateRecord" where
  "demo_create n port = \<lparr>
     uc_User = \<lparr>mu_ID = CHR ''U'' # n, mu_DisplayName = n, mu_NormalizedName = n, mu_Lifecycle = LifecycleActive,
       mu_Revision = 0, mu_CreatedAt = 0, mu_UpdatedAt = 0, mu_DeletedAt = None\<rparr>,
     uc_Identity = \<lparr>xi_ID = CHR ''I'' # n, xi_InstanceID = demo_node, xi_TemplateID = ''T1'',
       xi_StatisticsID = ''xpanel-'' @ n, xi_Kind = IdentityManaged, xi_CreatedAt = 0\<rparr>,
     uc_Allocation = demo_alloc n, uc_Inbound = demo_inbound n port, uc_Credential = demo_cred n 1,
     uc_Policy = \<lparr>qp_AllocationID = CHR ''A'' # n, qp_LimitBytes = Some 1000, qp_ResetDay = 1, qp_Revision = 0,
       qp_CreatedAt = 0, qp_UpdatedAt = 0\<rparr>,
     uc_Cycle = \<lparr>qc_ID = CHR ''Q'' # n, qc_AllocationID = CHR ''A'' # n, qc_StartsAt = 0,
       qc_EndsAt = 31 * 86400 * Second, qc_Timezone = ''UTC'', qc_ResetDay = 1, qc_Open = True,
       qc_GrossUplinkBytes = 0, qc_GrossDownlinkBytes = 0, qc_AccountedUplinkBytes = 0,
       qc_AccountedDownlinkBytes = 0, qc_ManualResetCount = 0, qc_OpenedAt = 0, qc_ClosedAt = None\<rparr>,
     uc_Operation = demo_op n 1 True SyncCreate, uc_Command = demo_command (CHR ''K'' # n) (CHR ''U'' # n),
     uc_Audit = demo_audit (CHR ''E'' # n), uc_PortAudit = demo_audit (CHR ''P'' # n)\<rparr>"

definition tx_state :: "(db, 'a) tx \<Rightarrow> db \<Rightarrow> db" where
  "tx_state m d = snd (WithWriteTx m d)"

definition tx_ok :: "(db, 'a) tx \<Rightarrow> db \<Rightarrow> bool" where
  "tx_ok m d = (case m d of Inl _ \<Rightarrow> False | Inr _ \<Rightarrow> True)"

definition tx_value :: "(db, 'a) tx \<Rightarrow> db \<Rightarrow> 'a option" where
  "tx_value m d = (case m d of Inl _ \<Rightarrow> None | Inr (x, _) \<Rightarrow> Some x)"

lemma tx_ok_run: "tx_ok m d \<Longrightarrow> \<exists>y. m d = Inr (y, tx_state m d)"
  by (auto simp: tx_ok_def tx_state_def WithWriteTx_def split: sum.splits prod.splits)

lemma tx_value_run: "tx_value m d = Some y \<Longrightarrow> m d = Inr (y, tx_state m d)"
  by (auto simp: tx_value_def tx_state_def WithWriteTx_def split: sum.splits prod.splits)

definition demo_panel :: db where
  "demo_panel = tx_state (EnsureSingletons ''UTC'' ''127.0.0.1:10085'' ''v25'' [1] [2] (replicate 16 0) 0) empty_db"

definition demo_admin :: AdministratorRecord where
  "demo_admin = \<lparr>ad_ID = ''admin'', ad_Username = ''admin'', ad_PasswordHash = ''x'', ad_PasswordVersion = 1,
     ad_CreatedAt = 0, ad_UpdatedAt = 0\<rparr>"

definition demo_setup :: db where
  "demo_setup = tx_state (CreateTemplate demo_template (demo_command ''KT'' ''T1'') (demo_audit ''ET''))
     (tx_state (CreateAdministrator demo_admin) demo_panel)"

definition demo_one :: db where "demo_one = tx_state (CreateUser (demo_create ''1'' 2000)) demo_setup"
definition demo_two :: db where "demo_two = tx_state (CreateUser (demo_create ''2'' 2001)) demo_one"

section \<open>Evaluation\<close>

lemma demo_panel_run: "tx_ok (EnsureSingletons ''UTC'' ''127.0.0.1:10085'' ''v25'' [1] [2] (replicate 16 0) 0) empty_db"
  by code_simp

lemma demo_admin_run: "tx_ok (CreateAdministrator demo_admin) demo_panel"
  by code_simp

lemma demo_setup_run: "tx_ok (CreateTemplate demo_template (demo_command ''KT'' ''T1'') (demo_audit ''ET''))
    (tx_state (CreateAdministrator demo_admin) demo_panel)"
  by code_simp

lemma demo_one_run: "tx_ok (CreateUser (demo_create ''1'' 2000)) demo_setup"
  by code_simp

text \<open>What the history with one user holds.\<close>

definition demo_facts :: "db \<Rightarrow> bool" where
  "demo_facts d \<longleftrightarrow> schema_ok d \<and>
     map (\<lambda>a. (al_ID a, al_DesiredRevision a, al_DesiredCredentialVersion a)) (db_allocs d) = [(''A1'', 1, 1)] \<and>
     map (\<lambda>r. (op_ID r, op_AllocationID r, op_DesiredRevision r, op_State r)) (db_ops d)
       = [(''O11'', ''A1'', 1, SyncPending)] \<and>
     map (\<lambda>r. di_Port (ir_Inbound r)) (db_inbounds d) = [2000] \<and> AssignedPorts ''T1'' d = [2000] \<and>
     map (\<lambda>c. (cr_AllocationID c, cr_Version c, cr_State c)) (db_creds d) = [(''A1'', 1, CredentialPending)]"

lemma demo_one_facts: "demo_facts demo_one"
  by code_simp

end
