(* ===== verification/Store_Steps.thy ===== *)
theory Store_Steps
  imports Intent_Log Scenario
begin

text \<open>
  The store as a state machine: every write transaction of the store is a step, and every step
  refines steps of the abstract intent log. The reachable databases therefore satisfy the schema
  and have at most one open synchronization operation per allocation, that of its current revision.
\<close>

named_theorems log_frames "transactions that leave the intent log as it is"

section \<open>The log of a database\<close>

definition op_view :: "SynchronizationOperation \<Rightarrow> intent" where
  "op_view r = (op_AllocationID r, op_DesiredRevision r, open_state (op_State r))"

definition alloc_view :: "AccessAllocation \<Rightarrow> ID \<times> Revision" where
  "alloc_view a = (al_ID a, al_DesiredRevision a)"

definition sync_log :: "db \<Rightarrow> intent_log" where
  "sync_log d = (map op_view (db_ops d), map alloc_view (db_allocs d))"

definition log_frame :: "(db, 'a) tx \<Rightarrow> bool" where
  "log_frame m \<longleftrightarrow> (\<forall>s y t. schema_ok s \<longrightarrow> m s = Inr (y, t) \<longrightarrow> schema_ok t \<and> sync_log t = sync_log s)"

definition log_refines_at :: "intent_log \<Rightarrow> (db, 'a) tx \<Rightarrow> bool" where
  "log_refines_at l m \<longleftrightarrow> (\<forall>s y t. schema_ok s \<longrightarrow> sync_log s = l \<longrightarrow> m s = Inr (y, t) \<longrightarrow>
     schema_ok t \<and> log_step\<^sup>*\<^sup>* l (sync_log t))"

definition log_refines :: "(db, 'a) tx \<Rightarrow> bool" where
  "log_refines m \<longleftrightarrow> (\<forall>s y t. schema_ok s \<longrightarrow> m s = Inr (y, t) \<longrightarrow>
     schema_ok t \<and> log_step\<^sup>*\<^sup>* (sync_log s) (sync_log t))"

lemma log_frameD: "log_frame m \<Longrightarrow> schema_ok s \<Longrightarrow> m s = Inr (y, t) \<Longrightarrow> schema_ok t \<and> sync_log t = sync_log s"
  unfolding log_frame_def by blast

lemma log_refinesD:
  "log_refines m \<Longrightarrow> schema_ok s \<Longrightarrow> m s = Inr (y, t) \<Longrightarrow> schema_ok t \<and> log_step\<^sup>*\<^sup>* (sync_log s) (sync_log t)"
  unfolding log_refines_def by blast

lemma log_refines_atD:
  "log_refines_at l m \<Longrightarrow> schema_ok s \<Longrightarrow> sync_log s = l \<Longrightarrow> m s = Inr (y, t) \<Longrightarrow>
   schema_ok t \<and> log_step\<^sup>*\<^sup>* l (sync_log t)"
  unfolding log_refines_at_def by blast

lemma log_frame_refines: "log_frame m \<Longrightarrow> log_refines m"
  unfolding log_frame_def log_refines_def by (metis rtranclp.rtrancl_refl)

lemma log_refines_at: "log_refines m \<Longrightarrow> log_refines_at l m"
  unfolding log_refines_at_def log_refines_def by blast

lemma log_refines_all: "(\<And>l. log_refines_at l m) \<Longrightarrow> log_refines m"
  unfolding log_refines_at_def log_refines_def by blast

lemma log_refines_bind:
  "log_refines m \<Longrightarrow> (\<And>x. log_refines (k x)) \<Longrightarrow> log_refines (tx_bind m k)"
  unfolding log_refines_def tx_bind_iff by (metis rtranclp_trans)

lemma log_refines_seq: "log_refines m \<Longrightarrow> log_refines k \<Longrightarrow> log_refines (tx_seq m k)"
  unfolding tx_seq_def by (rule log_refines_bind)

lemma log_refines_at_frame_bind:
  "log_frame m \<Longrightarrow> (\<And>x. log_refines_at l (k x)) \<Longrightarrow> log_refines_at l (tx_bind m k)"
  unfolding log_refines_at_def log_frame_def tx_bind_iff by metis

lemma log_refines_at_frame_seq:
  "log_frame m \<Longrightarrow> log_refines_at l k \<Longrightarrow> log_refines_at l (tx_seq m k)"
  unfolding tx_seq_def by (rule log_refines_at_frame_bind)

lemma log_refines_at_bind_frame:
  "log_refines_at l m \<Longrightarrow> (\<And>x. log_frame (k x)) \<Longrightarrow> log_refines_at l (tx_bind m k)"
  unfolding log_refines_at_def log_frame_def tx_bind_iff by metis

lemma log_refines_at_seq_frame:
  "log_refines_at l m \<Longrightarrow> log_frame k \<Longrightarrow> log_refines_at l (tx_seq m k)"
  unfolding tx_seq_def by (rule log_refines_at_bind_frame)

lemma log_refines_if: "log_refines m \<Longrightarrow> log_refines n \<Longrightarrow> log_refines (if b then m else n)"
  by simp

lemma log_frame_bind [log_frames]:
  "log_frame m \<Longrightarrow> (\<And>x. log_frame (k x)) \<Longrightarrow> log_frame (tx_bind m k)"
  unfolding log_frame_def tx_bind_iff by metis

lemma log_frame_seq [log_frames]: "log_frame m \<Longrightarrow> log_frame k \<Longrightarrow> log_frame (tx_seq m k)"
  unfolding tx_seq_def by (rule log_frame_bind)

lemma log_frame_read [log_frames]:
  "log_frame (tx_ret x)" "log_frame (tx_fail e)" "log_frame (tx_get f)" "log_frame (tx_lift r)"
  "log_frame (tx_guard e b)" "log_frame (tx_scan e q)" "log_frame (commandReplay c)"
  by (auto simp: log_frame_def tx_simps)

lemma log_frame_catch [log_frames]: "log_frame m \<Longrightarrow> log_frame (tx_catch g m)"
  by (auto simp: log_frame_def tx_catch_iff)

lemma log_frame_if [log_frames]: "log_frame m \<Longrightarrow> log_frame n \<Longrightarrow> log_frame (if b then m else n)"
  by simp

lemma log_frame_option [log_frames]:
  "log_frame m \<Longrightarrow> (\<And>x. log_frame (k x)) \<Longrightarrow> log_frame (case x of None \<Rightarrow> m | Some x \<Rightarrow> k x)"
  by (cases x) auto

lemma log_frame_pair [log_frames]: "(\<And>x y. log_frame (k x y)) \<Longrightarrow> log_frame (case p of (x, y) \<Rightarrow> k x y)"
  by (cases p) auto

lemma log_frame_let [log_frames]: "(\<And>x. log_frame (k x)) \<Longrightarrow> log_frame (let x = v in k x)"
  by (simp add: Let_def)

lemma log_frame_all [log_frames]: "log_frame (tx_all [])" "log_frame m \<Longrightarrow> log_frame (tx_all ms) \<Longrightarrow> log_frame (tx_all (m # ms))"
  by (simp_all add: log_frame_read log_frame_seq)

lemma log_frame_all_map: "(\<And>x. log_frame (f x)) \<Longrightarrow> log_frame (tx_all (map f xs))"
  by (induction xs) (auto intro: log_frames)

lemma log_frame_exec: "(\<And>s. sync_log (f s) = sync_log s) \<Longrightarrow> log_frame (sql_exec f)"
  by (auto simp: log_frame_def tx_simps)

lemma log_frame_rows: "(\<And>s. sync_log (f s) = sync_log s) \<Longrightarrow> log_frame (sql_rows cnt f)"
  by (auto simp: log_frame_def tx_simps)

lemma log_frame_one: "(\<And>s. sync_log (f s) = sync_log s) \<Longrightarrow> log_frame (sql_one e cnt f)"
  by (auto simp: log_frame_def tx_simps)

lemmas log_frame_stmt [log_frames] = log_frame_exec log_frame_rows log_frame_one

lemma sync_log_frames [simp]:
  "sync_log (db_settings_update f1 s) = sync_log s" "sync_log (db_instance_update f2 s) = sync_log s"
  "sync_log (db_admins_update f3 s) = sync_log s" "sync_log (db_sessions_update f4 s) = sync_log s"
  "sync_log (db_templates_update f5 s) = sync_log s" "sync_log (db_identities_update f6 s) = sync_log s"
  "sync_log (db_users_update f7 s) = sync_log s" "sync_log (db_inbounds_update f8 s) = sync_log s"
  "sync_log (db_creds_update f9 s) = sync_log s" "sync_log (db_policies_update f10 s) = sync_log s"
  "sync_log (db_cycles_update f11 s) = sync_log s" "sync_log (db_totals_update f12 s) = sync_log s"
  "sync_log (db_cursors_update f13 s) = sync_log s" "sync_log (db_daily_update f14 s) = sync_log s"
  "sync_log (db_events_update f15 s) = sync_log s" "sync_log (db_commands_update f16 s) = sync_log s"
  "sync_log (db_resets_update f17 s) = sync_log s" "sync_log (db_audits_update f18 s) = sync_log s"
  "sync_log (db_drifts_update f19 s) = sync_log s"
  by (simp_all add: sync_log_def)

lemma sync_log_update_alloc:
  "(\<And>a. al_ID (f a) = al_ID a \<and> al_DesiredRevision (f a) = al_DesiredRevision a) \<Longrightarrow>
   sync_log (update_alloc i f s) = sync_log s"
  by (auto simp: sync_log_def update_alloc_def alloc_view_def intro: map_sql_update)

lemma sync_log_update_ops:
  "(\<And>r. p r \<Longrightarrow> op_view (f r) = op_view r) \<Longrightarrow> sync_log (update_ops p f s) = sync_log s"
  by (auto simp: sync_log_def update_ops_def intro: map_sql_update)

lemmas sync_log_simps = sync_log_update_alloc sync_log_update_ops update_settings_def update_instance_def
  set_instance_def update_creds_def update_drifts_def insert_command_def insert_audit_def
  add_totals_def add_cycle_def

lemma log_frame_SaveCommand [log_frames]: "log_frame (SaveCommand c)"
  unfolding SaveCommand_def by (intro log_frames) (simp add: sync_log_simps)

lemma log_frame_AppendAudit [log_frames]: "log_frame (AppendAudit e)"
  unfolding AppendAudit_def by (intro log_frames) (simp add: sync_log_simps)

lemma log_frame_inbounds [log_frames]:
  "log_frame (setInboundDesired a b now)" "log_frame (releaseInboundPort a now)"
  "log_frame (confirmInboundPresence a b now)" "log_frame (insertDedicatedInbound r)"
  unfolding setInboundDesired_def releaseInboundPort_def confirmInboundPresence_def insertDedicatedInbound_def
  by (intro log_frames; simp)+

lemma log_frame_touch_user [log_frames]: "log_frame (touch_user i v now f)"
  unfolding touch_user_def by (intro log_frames) simp

lemma log_frame_creds [log_frames]: "log_frame (activate_version a v now)" "log_frame (destroy_all a now)"
  unfolding activate_version_def destroy_all_def by (intro log_frames; simp add: sync_log_simps)+

lemma log_frame_once [log_frames]: "log_frame body \<Longrightarrow> log_frame (once c body)"
  unfolding once_def by (intro log_frames)

lemma log_refines_once: "log_refines body \<Longrightarrow> log_refines (once c body)"
  unfolding once_def
  by (intro log_refines_bind log_refines_if log_refines_seq; (assumption | intro log_frame_refines log_frames))

section \<open>Recording the next intent\<close>

lemma open_row: "open_state (op_State (op_row r)) = open_state (op_State r)"
  by (simp add: op_row_def)

lemma supersede_view:
  "map op_view (sql_update (supersedable a m) (supersede_op now) ops) = map (close_older a m) (map op_view ops)"
  by (induction ops) (auto simp: op_view_def close_older_def supersedable_def supersede_op_def open_state_def)

lemma insert_tx_iff:
  "insertOperation r s = Inr ((), t) \<longleftrightarrow>
     (\<exists>f. t = db_ops_update (\<lambda>rows. rows @ [op_row r]) (db_inbounds_update f s) \<and>
       f = sql_update (holds_port (op_AllocationID r)) (update_inbound
         (\<lambda>i. i\<lparr>di_DesiredPresent := op_DesiredPresence r, di_UpdatedAt := stored (op_CreatedAt r)\<rparr>)) \<and>
       schema_ok (db_inbounds_update f s)) \<and> schema_ok t"
  by (auto simp: insertOperation_def setInboundDesired_def tx_simps)

text \<open>What recording an intent means for the two tables.\<close>

definition intends :: "SynchronizationOperation \<Rightarrow> db \<Rightarrow> db \<Rightarrow> bool" where
  "intends r s t \<longleftrightarrow>
     fst (sync_log t) = map (close_older (op_AllocationID r) (op_DesiredRevision r)) (fst (sync_log s)) @ [op_view r] \<and>
     snd (sync_log t) = map (\<lambda>(i, k). (i, if i = op_AllocationID r then op_DesiredRevision r else k)) (snd (sync_log s))"

text \<open>The revision of an intent follows that of its allocation, as the caller read it.\<close>

definition follows :: "SynchronizationOperation \<Rightarrow> intent_log \<Rightarrow> bool" where
  "follows r l \<longleftrightarrow> 1 \<le> op_DesiredRevision r \<and>
     list_all (\<lambda>(i, n). i = op_AllocationID r \<longrightarrow> op_DesiredRevision r \<le> n + 1) (snd l)"

lemma schema_alloc_ids: "schema_ok d \<Longrightarrow> distinct (map al_ID (db_allocs d))"
  by (simp add: schema_ok_def tables_user_ok_def)

lemma schema_op_keys: "schema_ok d \<Longrightarrow> distinct (map (\<lambda>(i, k, b). (i, k)) (fst (sync_log d)))"
  by (simp add: schema_ok_def tables_sync_ok_def sync_log_def op_view_def comp_def)

lemma schema_op_alloc: "schema_ok d \<Longrightarrow> (i, k, b) \<in> set (fst (sync_log d)) \<Longrightarrow> i \<in> alloc_ids d"
  by (auto simp: schema_ok_def tables_sync_ok_def sync_log_def op_view_def op_row_ok_def list_all_iff)

lemma intends_step:
  assumes "schema_ok t" "intends r s t" "follows r (sync_log s)"
  shows "log_step (sync_log s) (sync_log t)"
proof -
  let ?j = "op_AllocationID r" and ?m = "op_DesiredRevision r"
  define xs as where "xs = fst (sync_log s)" and "as = snd (sync_log s)"
  have s: "sync_log s = (xs, as)" by (simp add: xs_def as_def)
  have t: "sync_log t = (map (close_older ?j ?m) xs @ [op_view r],
      map (\<lambda>(i, k). (i, if i = ?j then ?m else k)) as)"
    using assms(2) unfolding intends_def xs_def as_def by (metis prod.collapse)
  have view: "op_view r = (?j, ?m, open_state (op_State r))" by (simp add: op_view_def)
  have "?j \<in> alloc_ids t" using schema_op_alloc [OF assms(1)] t view by auto
  then have "?j \<in> fst ` set (snd (sync_log t))"
    by (auto simp: alloc_ids_def sync_log_def alloc_view_def image_image)
  then obtain n where n: "(?j, n) \<in> set as" by (auto simp: t split: if_splits)
  have "distinct (map (\<lambda>(i, k, b). (i, k)) (map (close_older ?j ?m) xs @ [op_view r]))"
    using schema_op_keys [OF assms(1)] by (simp only: t fst_conv)
  then have "(?j, ?m) \<notin> set (map (\<lambda>(i, k, b). (i, k)) xs)"
    unfolding map_append close_older_keys by (simp add: view)
  then have "\<forall>b. (?j, ?m, b) \<notin> set xs" by force
  moreover have "1 \<le> ?m" "?m \<le> n + 1"
    using assms(3) n by (auto simp: follows_def list_all_iff as_def)
  ultimately show ?thesis unfolding s t view using n by (intro log_step.intend) auto
qed

text \<open>The three statements of a command: close the older intents, insert, set the revision.\<close>

lemma intend_statements:
  assumes "tx_all [supersedeOlder (op_AllocationID r) (op_DesiredRevision r) now, insertOperation r,
      sql_exec (update_alloc (op_AllocationID r) f)] s = Inr ((), t)"
    and "\<And>a. al_ID (f a) = al_ID a \<and> al_DesiredRevision (f a) = op_DesiredRevision r"
  shows "schema_ok t \<and> intends r s t"
proof -
  have allocs: "map alloc_view (sql_update (\<lambda>a. al_ID a = i) f rows) =
      map (\<lambda>(i', k). (i', if i' = i then op_DesiredRevision r else k)) (map alloc_view rows)" for i rows
    using assms(2) by (induction rows) (auto simp: alloc_view_def)
  have view: "op_view (op_row r) = op_view r" by (simp add: op_view_def op_row_def)
  from assms(1) show ?thesis
    by (auto simp: tx_simps supersedeOlder_def insert_tx_iff intends_def sync_log_def update_ops_def
        update_alloc_def supersede_view allocs view simp del: map_map)
qed

lemma log_refines_intend:
  assumes "follows r l" "a = op_AllocationID r" "m = op_DesiredRevision r"
    and "\<And>a. al_ID (f a) = al_ID a \<and> al_DesiredRevision (f a) = op_DesiredRevision r"
    and "log_frame (tx_all ms)"
  shows "log_refines_at l (tx_all (supersedeOlder a m now # insertOperation r # sql_exec (update_alloc a f) # ms))"
  unfolding log_refines_at_def
proof (intro allI impI)
  fix s y t
  assume s: "schema_ok s" "sync_log s = l"
    and run: "tx_all (supersedeOlder a m now # insertOperation r # sql_exec (update_alloc a f) # ms) s = Inr (y, t)"
  then obtain u where u: "tx_all [supersedeOlder (op_AllocationID r) (op_DesiredRevision r) now, insertOperation r,
      sql_exec (update_alloc (op_AllocationID r) f)] s = Inr ((), u)" "tx_all ms u = Inr ((), t)"
    using assms(2,3) by (auto simp: tx_simps)
  have "schema_ok u" "intends r s u" using intend_statements [OF u(1) assms(4)] by auto
  then have "log_step l (sync_log u)" using intends_step assms(1) s by metis
  moreover have "schema_ok t \<and> sync_log t = sync_log u"
    using log_frameD [OF assms(5)] \<open>schema_ok u\<close> u(2) by blast
  ultimately show "schema_ok t \<and> log_step\<^sup>*\<^sup>* l (sync_log t)" by auto
qed

lemma log_refines_at_all:
  "log_frame m \<Longrightarrow> log_refines_at l (tx_all ms) \<Longrightarrow> log_refines_at l (tx_all (m # ms))"
  by (simp add: log_refines_at_frame_seq)

section \<open>Commands on users\<close>

lemma log_refines_at_once: "log_refines_at l body \<Longrightarrow> log_refines_at l (once c body)"
  unfolding once_def
  by (rule log_refines_at_frame_bind, intro log_frames)
    (auto intro: log_refines_at log_frame_refines log_frames log_refines_at_seq_frame)

lemma ChangeInboundPort_refines:
  assumes "follows (pc_Operation r) l" "op_AllocationID (pc_Operation r) = pc_AllocationID r"
  shows "log_refines_at l (ChangeInboundPort r)"
  unfolding ChangeInboundPort_def assms(2)
  by (rule log_refines_at_once,
      (rule log_refines_intend | rule log_refines_at_all | (intro log_frames; (simp; fail)?))+,
      auto intro!: log_frames simp: assms)

lemma RotateCredential_refines:
  assumes "follows (rr_Operation r) l" "op_AllocationID (rr_Operation r) = rr_AllocationID r"
  shows "log_refines_at l (RotateCredential r)"
  unfolding RotateCredential_def assms(2)
  by (rule log_refines_at_once,
      (rule log_refines_intend | rule log_refines_at_all | (intro log_frames; (simp; fail)?))+,
      auto intro!: log_frames simp: assms)

lemma SoftDeleteUser_refines:
  assumes "follows (de_Operation r) l" "op_AllocationID (de_Operation r) = de_AllocationID r"
  shows "log_refines_at l (SoftDeleteUser r)"
  unfolding SoftDeleteUser_def assms(2)
  by (rule log_refines_at_once,
      (rule log_refines_intend | rule log_refines_at_all | (intro log_frames; (simp; fail)?))+,
      auto intro!: log_frames simp: assms)

section \<open>Quota decisions\<close>

lemma facts_of_follows:
  assumes "schema_ok s" "facts_of a s = Some f"
    and "op_AllocationID r = a" "op_DesiredRevision r = af_DesiredRevision (fa_Facts f) + 1"
  shows "follows r (sync_log s)"
proof -
  obtain x where x: "alloc_of s a = Some x" "af_DesiredRevision (fa_Facts f) = al_DesiredRevision x"
    using assms(2) by (auto simp: facts_of_def split: option.splits)
  then have mem: "x \<in> set (db_allocs s)" "al_ID x = a"
    using find_keyD [of al_ID a "db_allocs s" x] by (auto simp: alloc_of_def)
  have "0 \<le> al_DesiredRevision x"
    using assms(1) mem by (auto simp: schema_ok_def tables_user_ok_def list_all_iff alloc_row_ok_def)
  moreover have "y = x" if "y \<in> set (db_allocs s)" "al_ID y = a" for y
    using distinct_map_eqD [OF schema_alloc_ids [OF assms(1)] that(1) mem(1)] that(2) mem(2) by simp
  ultimately show ?thesis
    using assms(3,4) x(2) by (auto simp: follows_def sync_log_def alloc_view_def list_all_iff)
qed

lemma applyDecision_refines:
  assumes "schema_ok s" "facts_of a s = Some f" "applyDecision a f d e template now s = Inr (b, t)"
  shows "schema_ok t \<and> log_step\<^sup>*\<^sup>* (sync_log s) (sync_log t)"
proof (cases "NeedsOperation d \<and> template \<noteq> None \<and> td_Reason d \<noteq> None \<and> td_Phase d \<noteq> None")
  case True
  then obtain tm reason phase where some: "NeedsOperation d = True" "template = Some tm"
    "td_Reason d = Some reason" "td_Phase d = Some phase" by auto
  define r where "r = decision_op a (fa_Facts f) (td_WillBePresent d) reason phase tm now"
  have r: "op_AllocationID r = a" "op_DesiredRevision r = af_DesiredRevision (fa_Facts f) + 1"
    by (simp_all add: r_def decision_op_def)
  have "log_refines_at (sync_log s) (applyDecision a f d e template now)"
    unfolding applyDecision_def some option.case prod.case bool.case Let_def r_def [symmetric]
    by (rule log_refines_at_seq_frame, rule log_refines_intend [where r = r])
      (simp_all add: r log_frame_read facts_of_follows [OF assms(1,2) r])
  from log_refines_atD [OF this assms(1) refl assms(3)] show ?thesis .
next
  case False
  have "applyDecision a f d e template now =
      tx_seq (sql_exec (update_alloc a (\<lambda>x. x\<lparr>al_AdminEnabled := e, al_QuotaState := td_QuotaState d,
        al_UpdatedAt := stored now\<rparr>))) (tx_ret False)"
    using False unfolding applyDecision_def by (auto split: bool.splits option.splits)
  moreover have "log_frame \<dots>" by (intro log_frames) (simp add: sync_log_update_alloc)
  ultimately have "schema_ok t \<and> sync_log t = sync_log s"
    using log_frameD [OF _ assms(1)] assms(3) by metis
  then show ?thesis by simp
qed

lemma log_refines_facts:
  assumes "\<And>f. log_frame (k f)" "\<And>f b. log_frame (n f b)"
  shows "log_refines (tx_bind (readFacts a) (\<lambda>f. tx_bind (applyDecision a f (d f) (e f) (tm f) now) (n f)))"
  unfolding log_refines_def
proof (intro allI impI)
  fix s y t
  assume s: "schema_ok s"
    and "tx_bind (readFacts a) (\<lambda>f. tx_bind (applyDecision a f (d f) (e f) (tm f) now) (n f)) s = Inr (y, t)"
  then obtain f b u where "facts_of a s = Some f" "applyDecision a f (d f) (e f) (tm f) now s = Inr (b, u)"
    "n f b u = Inr (y, t)"
    by (auto simp: readFacts_def tx_simps)
  with applyDecision_refines [OF s] log_frameD [OF assms(2)]
  show "schema_ok t \<and> log_step\<^sup>*\<^sup>* (sync_log s) (sync_log t)" by metis
qed

lemma log_refines_facts1:
  assumes "\<And>f b. log_frame (n f b)"
  shows "log_refines (tx_bind (readFacts a) (\<lambda>f. tx_bind (applyDecision a f (d f) (e f) (tm f) now) (n f)))"
  using assms by (rule log_refines_facts [where k = "\<lambda>_. tx_ret ()", OF log_frame_read(1)])

lemma log_frame_roll_cycle: "log_frame (roll_cycle old nxt now)"
  unfolding roll_cycle_def by (intro log_frames; simp)

lemma settle_loop_iff:
  "settle_loop zones fresh a now n rolled d = Inr (y, t) \<longleftrightarrow>
     (\<exists>c. open_cycle a d = Some c \<and>
       (if qc_EndsAt c > now then y = (n, rolled) \<and> t = d
        else \<exists>p s stop u. policy_of a d = Some p \<and> db_settings d = Some s \<and>
          next_cycle_end zones c (ps_QuotaTimezone s) (qp_ResetDay p) = Inr stop \<and>
          roll_cycle c (new_cycle (fresh n) a (qc_EndsAt c) stop (ps_QuotaTimezone s) (qp_ResetDay p) now) now d
            = Inr ((), u) \<and>
          settle_loop zones fresh a now (n + 1) (rolled + 1) u = Inr (y, t)))"
  by (subst settle_loop.simps) (auto split: option.splits if_splits sum.splits)

text \<open>Rule induction over the runs of the loop.\<close>

lemma settle_loop_run [consumes 1, case_names stop roll]:
  assumes "settle_loop zones fresh a now n rolled d = Inr (y, t)"
    and "\<And>n rolled d c. open_cycle a d = Some c \<Longrightarrow> qc_EndsAt c > now \<Longrightarrow> P n rolled d (n, rolled) d"
    and "\<And>n rolled d c p s stop u y t. open_cycle a d = Some c \<Longrightarrow> \<not> qc_EndsAt c > now \<Longrightarrow>
      policy_of a d = Some p \<Longrightarrow> db_settings d = Some s \<Longrightarrow>
      next_cycle_end zones c (ps_QuotaTimezone s) (qp_ResetDay p) = Inr stop \<Longrightarrow>
      roll_cycle c (new_cycle (fresh n) a (qc_EndsAt c) stop (ps_QuotaTimezone s) (qp_ResetDay p) now) now d
        = Inr ((), u) \<Longrightarrow>
      P (n + 1) (rolled + 1) u y t \<Longrightarrow> P n rolled d y t"
  shows "P n rolled d y t"
  using assms
proof (induction zones fresh a now n rolled d rule: settle_loop.induct)
  case (1 zones fresh a now n rolled d)
  from 1(2) obtain c where c: "open_cycle a d = Some c"
    and cont: "if qc_EndsAt c > now then y = (n, rolled) \<and> t = d
        else \<exists>p s stop u. policy_of a d = Some p \<and> db_settings d = Some s \<and>
          next_cycle_end zones c (ps_QuotaTimezone s) (qp_ResetDay p) = Inr stop \<and>
          roll_cycle c (new_cycle (fresh n) a (qc_EndsAt c) stop (ps_QuotaTimezone s) (qp_ResetDay p) now) now d
            = Inr ((), u) \<and>
          settle_loop zones fresh a now (n + 1) (rolled + 1) u = Inr (y, t)"
    unfolding settle_loop_iff [of zones fresh a now n rolled d] by blast
  show ?case
  proof (cases "qc_EndsAt c > now")
    case True
    with cont show ?thesis using 1(3) [OF c True] by simp
  next
    case False
    with cont obtain p s stop u where step: "policy_of a d = Some p" "db_settings d = Some s"
      "next_cycle_end zones c (ps_QuotaTimezone s) (qp_ResetDay p) = Inr stop"
      "roll_cycle c (new_cycle (fresh n) a (qc_EndsAt c) stop (ps_QuotaTimezone s) (qp_ResetDay p) now) now d
        = Inr ((), u)" and rest: "settle_loop zones fresh a now (n + 1) (rolled + 1) u = Inr (y, t)"
      by auto
    have "P (n + 1) (rolled + 1) u y t"
      by (rule 1(1) [OF c False refl step(1,2,3) step(4) refl rest]) (use 1(3,4) in blast)+
    then show ?thesis by (rule 1(4) [OF c False step])
  qed
qed

lemma settle_loop_frame:
  assumes "settle_loop zones fresh a now n rolled d = Inr (y, t)" "schema_ok d"
  shows "schema_ok t \<and> sync_log t = sync_log d"
  using assms
proof (induction rule: settle_loop_run)
  case (roll n rolled d c p s stop u y t)
  with log_frameD [OF log_frame_roll_cycle roll.prems roll.hyps(6)] show ?case by simp
qed simp

lemma settleCycles_refines: "log_refines (settleCycles zones fresh a now template audit n)"
  unfolding settleCycles_def
proof (rule log_refines_bind)
  show "log_refines (settle_loop zones fresh a now n 0)"
    using settle_loop_frame by (fastforce simp: log_refines_def)
  show "log_refines ((\<lambda>(n1, rolled). if rolled = 0 then tx_ret (n1, 0, False)
       else tx_bind (readFacts a) (\<lambda>facts.
         let decision = DecideTransition (fa_Facts facts) (af_AdminEnabled (fa_Facts facts)) False;
             (n2, t) = settle_template fresh n1 now template
         in tx_bind (applyDecision a facts decision (af_AdminEnabled (fa_Facts facts)) (Some t) now) (\<lambda>restored.
           if \<not> restored then tx_ret (n2, rolled, restored)
           else case audit of
             Some e \<Rightarrow> tx_seq (AppendAudit (e\<lparr>ae_OperationID := Some (op_ID t)\<rparr>)) (tx_ret (n2, rolled, restored))
           | None \<Rightarrow> tx_bind (tx_scan NoRows (\<lambda>d. map_option al_UserID (alloc_of d a))) (\<lambda>userID.
               tx_seq (AppendAudit ((restored_audit (fresh n2) userID now)\<lparr>ae_OperationID := Some (op_ID t)\<rparr>))
                 (tx_ret (n2 + 1, rolled, restored)))))) x)" for x
    unfolding Let_def
    by (cases x, cases "settle_template fresh (fst x) now template")
      (auto intro!: log_refines_facts1 log_frames intro: log_frame_refines)
qed

section \<open>Traffic and quota\<close>

lemma log_frame_write_deltas: "log_frame (write_deltas u)"
  unfolding write_deltas_def Let_def by (intro log_frames; simp add: sync_log_simps)

lemma log_frame_events: "log_frame (tx_all (map insertContinuityEvent es))"
  by (rule log_frame_all_map) (auto simp: insertContinuityEvent_def intro!: log_frames)

lemma log_frame_audits: "log_frame (tx_all (map (AppendAudit \<circ> f) es))"
  by (rule log_frame_all_map) (auto intro!: log_frames)

lemma log_refines_facts_if:
  assumes "\<And>f b. log_frame (n f b)"
  shows "log_refines (tx_bind (readFacts a) (\<lambda>f. if c f then tx_ret z
     else tx_bind (applyDecision a f (d f) (e f) (tm f) now) (n f)))"
  unfolding log_refines_def
proof (intro allI impI)
  fix s y t
  assume s: "schema_ok s"
    and run: "tx_bind (readFacts a) (\<lambda>f. if c f then tx_ret z
      else tx_bind (applyDecision a f (d f) (e f) (tm f) now) (n f)) s = Inr (y, t)"
  then consider "t = s" | f b u where "facts_of a s = Some f"
      "applyDecision a f (d f) (e f) (tm f) now s = Inr (b, u)" "n f b u = Inr (y, t)"
    by (auto simp: readFacts_def tx_simps)
  then show "schema_ok t \<and> log_step\<^sup>*\<^sup>* (sync_log s) (sync_log t)"
  proof cases
    case 1
    with s show ?thesis by simp
  next
    case 2
    with applyDecision_refines [OF s] log_frameD [OF assms] show ?thesis by metis
  qed
qed

lemma block_refines: "log_refines (block_if_exceeded u now)"
  unfolding block_if_exceeded_def Let_def by (intro log_refines_facts_if log_frames)

lemma commit_update_refines: "log_refines (commit_update zones fresh now u n)"
  unfolding commit_update_def
proof (rule log_refines_bind [OF settleCycles_refines])
  fix x
  let ?k = "tx_all [sql_exec (db_cursors_update (sql_update (\<lambda>c. tc_AllocationID c = tu_AllocationID u)
      (write_cursor (tu_AllocationID u) (tu_Cursor u)))), write_deltas u,
      tx_all (map insertContinuityEvent (tu_Events u))]"
  have "log_frame ?k" by (intro log_frames log_frame_write_deltas log_frame_events) simp
  then show "log_refines ((\<lambda>(n1, rolled, restored). tx_seq ?k (tx_bind (block_if_exceeded u now) (\<lambda>blocked.
      tx_ret (n1, \<lparr>cm_Blocked = (if blocked then 1 else 0), cm_Rolled = rolled,
                  cm_Restored = (if restored then 1 else 0)\<rparr>)))) x)"
    by (cases x) (auto intro!: log_refines_seq log_refines_bind block_refines
      intro: log_frame_refines log_frame_read simp del: tx_all.simps)
qed

lemma commit_updates_refines: "log_refines (commit_updates zones fresh now us n r)"
  by (induction us arbitrary: n r)
    (auto intro!: log_refines_bind commit_update_refines intro: log_frame_refines log_frame_read)

lemma CommitTrafficBatch_refines: "log_refines (CommitTrafficBatch zones fresh batch)"
  unfolding CommitTrafficBatch_def by (rule commit_updates_refines)

lemma once_with_refines: "log_refines body \<Longrightarrow> log_refines (once_with c body)"
  unfolding once_with_def
  by (auto intro!: log_refines_bind log_frame_refines [OF log_frame_read(1)] log_frame_refines [OF log_frame_read(7)])

lemma update_user_refines: "log_refines (update_user_body r)"
  unfolding update_user_body_def Let_def
  by (intro log_refines_seq log_refines_bind log_refines_facts1;
      (intro log_frame_refines)?; intro log_frames log_frame_audits;
      (simp add: log_frame_audits; fail)?)

lemma reset_cycle_refines: "log_refines (reset_cycle_body r)"
  unfolding reset_cycle_body_def Let_def
  by (intro log_refines_seq log_refines_bind log_refines_facts1;
      (intro log_frame_refines)?; intro log_frames; simp)

lemma RolloverCycle_refines: "log_refines (RolloverCycle zones fresh r)"
  unfolding RolloverCycle_def
  by (rule log_refines_bind [OF settleCycles_refines]) (intro log_frame_refines log_frames)

section \<open>The worker's writes\<close>

lemma log_refines_exec:
  assumes "\<And>s. schema_ok s \<Longrightarrow> schema_ok (f s) \<Longrightarrow> log_step\<^sup>*\<^sup>* (sync_log s) (sync_log (f s))"
  shows "log_refines (sql_exec f)"
  using assms by (auto simp: log_refines_def tx_simps)

lemma may_close_update:
  assumes "\<And>r. r \<in> set ops \<Longrightarrow> p r \<Longrightarrow> may_close (op_view r) (op_view (f r))"
  shows "list_all2 may_close (map op_view ops) (map op_view (sql_update p f ops))"
  using assms by (induction ops) (auto simp: may_close_def)

lemma log_close_ops:
  assumes "\<And>r. r \<in> set (db_ops s) \<Longrightarrow> p r \<Longrightarrow> may_close (op_view r) (op_view (f r))"
  shows "log_step\<^sup>*\<^sup>* (sync_log s) (sync_log (update_ops p f s))"
  using log_step.close [OF may_close_update [OF assms]]
  by (auto simp: sync_log_def update_ops_def)

text \<open>Any update that ends an operation only closes intents.\<close>

lemma closing_refines:
  assumes "\<And>r. op_AllocationID (f r) = op_AllocationID r \<and> op_DesiredRevision (f r) = op_DesiredRevision r \<and>
      \<not> open_state (op_State (f r))"
  shows "log_refines (sql_exec (update_ops p f))"
  by (rule log_refines_exec, rule log_close_ops) (simp add: may_close_def op_view_def assms)

lemma supersede_refines: "log_refines (sql_exec (update_ops p (supersede_op now)))"
  by (rule closing_refines) (simp add: supersede_op_def open_state_def)

lemma lease_due_frame: "log_frame (lease_due owner now lease)"
proof -
  have "op_view (lease_op owner now lease x) = op_view x" if "lease_cas now r x" for r x
    using that by (auto simp: op_view_def lease_op_def lease_cas_def open_state_def)
  then show ?thesis
    unfolding lease_due_def by (intro log_frames sync_log_update_ops)
qed

lemma RenewSyncLease_frame: "log_frame (RenewSyncLease i owner now lease)"
  unfolding RenewSyncLease_def
  by (intro log_frames sync_log_update_ops) (simp add: op_view_def)

lemma RecordObservation_frame: "log_frame (RecordObservation a present now)"
  unfolding RecordObservation_def by (intro log_frames sync_log_update_alloc) simp

lemma log_refines_pair: "(\<And>x y. log_refines (k x y)) \<Longrightarrow> log_refines (case p of (x, y) \<Rightarrow> k x y)"
  by (cases p) auto

lemma log_refines_tx_all: "log_refines m \<Longrightarrow> log_refines (tx_all ms) \<Longrightarrow> log_refines (tx_all (m # ms))"
  "log_refines (tx_all [])"
  by (simp_all add: log_refines_seq log_frame_refines log_frame_read)

lemma confirm_current_refines: "log_refines (confirm_current i a revision version present now)"
proof -
  have f1: "log_frame (if present then activate_version a version now
      else tx_bind (tx_scan NoRows (lifecycle_of a)) (\<lambda>lc.
        if lc = LifecycleDeleted then tx_all [destroy_all a now, releaseInboundPort a now] else tx_ret ()))"
    by (intro log_frames)
  have f2: "log_frame (confirmInboundPresence a present now)" by (intro log_frames)
  have f3: "log_frame (sql_exec (update_alloc a (\<lambda>r. r\<lparr>
        al_ProjectionState := (if present then ProjectionPresent else ProjectionAbsent),
        al_ObservedPresent := Some present, al_SyncedRevision := revision,
        al_SyncedCredentialVersion := (if present then Some version else None),
        al_LastSyncAt := Some (stored now), al_LastSyncErrorCode := '''', al_LastSyncErrorSummary := '''',
        al_UpdatedAt := stored now\<rparr>)))"
    by (intro log_frames sync_log_update_alloc) simp
  have f4: "log_refines (sql_exec (update_ops (\<lambda>r. op_ID r = i) (\<lambda>r. r\<lparr>op_State := SyncSucceeded,
        op_Phase := SyncDone, op_LeaseOwner := None, op_LeaseExpiresAt := None, op_LastErrorCode := '''',
        op_LastErrorSummary := '''', op_CompletedAt := Some (stored now)\<rparr>)))"
    by (rule closing_refines) (simp add: open_state_def)
  show ?thesis
    unfolding confirm_current_def
    by (intro log_refines_tx_all log_frame_refines [OF f1] log_frame_refines [OF f2] log_frame_refines [OF f3] f4)
qed

lemma ConfirmSync_refines: "log_refines (ConfirmSync i owner revision version present now)"
  unfolding ConfirmSync_def
  by (intro log_refines_bind log_refines_pair log_refines_if log_refines_seq supersede_refines
      confirm_current_refines log_frame_refines [OF log_frame_read(1)] log_frame_refines [OF log_frame_read(6)])

text \<open>Within \<open>finishLeased\<close> the operation is known to be leased, hence open.\<close>

lemma finishLeased_refines:
  assumes "\<And>s a y t. schema_ok s \<Longrightarrow> (\<And>r. r \<in> set (db_ops s) \<Longrightarrow> op_ID r = i \<Longrightarrow> op_State r = SyncLeased) \<Longrightarrow>
      k a s = Inr (y, t) \<Longrightarrow> schema_ok t \<and> log_step\<^sup>*\<^sup>* (sync_log s) (sync_log t)"
  shows "log_refines (finishLeased i owner clock k)"
  unfolding log_refines_def
proof (intro allI impI)
  fix s y t
  assume s: "schema_ok s" and run: "finishLeased i owner clock k s = Inr (y, t)"
  then obtain r a where ra: "op_with_alloc i s = Some (r, a)"
    and cont: "(if \<not> held_by owner r then tx_ret ()
       else if op_DesiredRevision r \<noteq> al_DesiredRevision a
       then sql_exec (update_ops (\<lambda>x. op_ID x = i) (supersede_op clock))
       else k (op_AllocationID r)) s = Inr (y, t)"
    by (auto simp: finishLeased_def tx_simps)
  show "schema_ok t \<and> log_step\<^sup>*\<^sup>* (sync_log s) (sync_log t)"
  proof (cases "held_by owner r")
    case True
    from ra have r: "r \<in> set (db_ops s)" "op_ID r = i"
      using find_keyD [of op_ID i "db_ops s" r] by (auto simp: op_with_alloc_def op_of_def split: option.splits)
    have "x = r" if "x \<in> set (db_ops s)" "op_ID x = i" for x
      using s that r distinct_map_eqD [of op_ID "db_ops s" x r]
      by (auto simp: schema_ok_def tables_sync_ok_def)
    then have leased: "\<And>x. x \<in> set (db_ops s) \<Longrightarrow> op_ID x = i \<Longrightarrow> op_State x = SyncLeased"
      using True by (auto simp: held_by_def)
    show ?thesis
    proof (cases "op_DesiredRevision r \<noteq> al_DesiredRevision a")
      case True
      with cont \<open>held_by owner r\<close> show ?thesis
        using log_refinesD [OF supersede_refines s] by auto
    next
      case False
      with cont \<open>held_by owner r\<close> have "k (op_AllocationID r) s = Inr (y, t)" by simp
      from assms [OF s leased this] show ?thesis .
    qed
  next
    case False
    with cont s show ?thesis by (simp add: tx_simps)
  qed
qed

lemma finish_update:
  assumes "\<And>r. op_AllocationID (f r) = op_AllocationID r \<and> op_DesiredRevision (f r) = op_DesiredRevision r"
    and "\<And>r. al_ID (g r) = al_ID r \<and> al_DesiredRevision (g r) = al_DesiredRevision r"
    and "\<And>r. r \<in> set (db_ops s) \<Longrightarrow> op_ID r = i \<Longrightarrow> op_State r = SyncLeased"
    and "tx_all [sql_exec (update_ops (\<lambda>r. op_ID r = i) f), sql_exec (update_alloc a g)] s = Inr (y, t)"
  shows "schema_ok t \<and> log_step\<^sup>*\<^sup>* (sync_log s) (sync_log t)"
proof -
  from assms(4) have t: "t = update_alloc a g (update_ops (\<lambda>r. op_ID r = i) f s)" "schema_ok t"
    by (auto simp: tx_simps)
  have "log_step\<^sup>*\<^sup>* (sync_log s) (sync_log (update_ops (\<lambda>r. op_ID r = i) f s))"
    by (rule log_close_ops) (use assms(1,3) in \<open>auto simp: may_close_def op_view_def open_state_def\<close>)
  with t sync_log_update_alloc [of g, OF assms(2)] show ?thesis by simp
qed

lemma RescheduleSync_refines: "log_refines (RescheduleSync i owner attempts nxt code summary clock)"
  unfolding RescheduleSync_def by (rule finishLeased_refines) (erule finish_update [rotated 3]; simp)

lemma FailSync_refines: "log_refines (FailSync i owner code summary now clock)"
  unfolding FailSync_def by (rule finishLeased_refines) (erule finish_update [rotated 3]; simp)

lemma EnqueueReconcile_iff:
  "EnqueueReconcile a expected r now s = Inr (b, t) \<longleftrightarrow>
     (let p = (\<lambda>x. al_ID x = a \<and> al_DesiredRevision x = expected);
          u = db_allocs_update (sql_update p (\<lambda>x. x\<lparr>al_DesiredRevision := op_DesiredRevision r,
            al_ProjectionState := ProjectionPending, al_UpdatedAt := stored now\<rparr>)) s
      in schema_ok u \<and> (if rows_affected p (db_allocs s) = 1
           then b \<and> tx_all [supersedeOlder a (op_DesiredRevision r) now, insertOperation r] u = Inr ((), t)
           else \<not> b \<and> t = u))"
  unfolding EnqueueReconcile_def tx_bind_iff sql_rows_iff Let_def tx_if_iff tx_seq_iff tx_ret_iff by auto

lemma EnqueueReconcile_refines:
  assumes "op_AllocationID r = a" "1 \<le> op_DesiredRevision r" "op_DesiredRevision r \<le> expected + 1"
  shows "log_refines (EnqueueReconcile a expected r now)"
  unfolding log_refines_def
proof (intro allI impI)
  fix s t :: db and y
  let ?p = "\<lambda>x. al_ID x = a \<and> al_DesiredRevision x = expected"
  let ?f = "\<lambda>x. x\<lparr>al_DesiredRevision := op_DesiredRevision r, al_ProjectionState := ProjectionPending,
      al_UpdatedAt := stored now\<rparr>"
  let ?u = "db_allocs_update (sql_update ?p ?f) s"
  assume s: "schema_ok s" and run: "EnqueueReconcile a expected r now s = Inr (y, t)"
  show "schema_ok t \<and> log_step\<^sup>*\<^sup>* (sync_log s) (sync_log t)"
  proof (cases "rows_affected ?p (db_allocs s) = 1")
    case True
    then obtain x where x: "x \<in> set (db_allocs s)" "al_ID x = a" "al_DesiredRevision x = expected"
      by (rule rows_affected_1E) blast
    have only: "y = x" if "y \<in> set (db_allocs s)" "al_ID y = a" for y
      using distinct_map_eqD [OF schema_alloc_ids [OF s] that(1) x(1)] that(2) x(2) by simp
    have t: "tx_all [supersedeOlder a (op_DesiredRevision r) now, insertOperation r] ?u = Inr ((), t)"
      using run True unfolding EnqueueReconcile_iff Let_def by (simp only: if_True)
    have "map alloc_view (sql_update ?p ?f (db_allocs s)) =
        map (\<lambda>(i', k). (i', if i' = a then op_DesiredRevision r else k)) (map alloc_view (db_allocs s))"
      using only x(3) by (auto simp: sql_update_def alloc_view_def)
    moreover have "op_view (op_row r) = op_view r" by (simp add: op_view_def op_row_def)
    ultimately have "intends r s t" and ok: "schema_ok t"
      using t by (auto simp: tx_simps supersedeOlder_def insert_tx_iff intends_def sync_log_def
          update_ops_def supersede_view assms(1) simp del: map_map)
    moreover have "follows r (sync_log s)"
      using assms only x(3) by (auto simp: follows_def sync_log_def alloc_view_def list_all_iff)
    ultimately show ?thesis using intends_step by blast
  next
    case False
    have "rows_affected ?p (db_allocs s) \<le> 1"
      using rows_affected_le_1 [OF schema_alloc_ids [OF s], of ?p a] by simp
    with False have "rows_affected ?p (db_allocs s) = 0" by simp
    then have "sql_update ?p ?f (db_allocs s) = db_allocs s"
      by (intro sql_update_none) (auto simp: rows_affected_def filter_empty_conv)
    then have "?u = s" by simp
    then have "t = s"
      using run False unfolding EnqueueReconcile_iff Let_def by (simp only: if_False)
    with s show ?thesis by simp
  qed
qed

text \<open>A new user brings an allocation at revision 1 and its first intent.\<close>

definition new_user_ok :: "UserCreateRecord \<Rightarrow> bool" where
  "new_user_ok r \<longleftrightarrow> al_DesiredRevision (uc_Allocation r) = 1 \<and> op_DesiredRevision (uc_Operation r) = 1 \<and>
     op_AllocationID (uc_Operation r) = al_ID (uc_Allocation r) \<and>
     qc_AllocationID (uc_Cycle r) = al_ID (uc_Allocation r) \<and> qc_Open (uc_Cycle r) \<and>
     qc_GrossUplinkBytes (uc_Cycle r) = 0 \<and> qc_GrossDownlinkBytes (uc_Cycle r) = 0"

lemma insert_user_rows_log:
  "insert_user_rows r s = Inr ((), t) \<Longrightarrow> schema_ok t \<and>
   sync_log t = (fst (sync_log s), snd (sync_log s) @ [alloc_view (uc_Allocation r)])"
  by (auto simp: insert_user_rows_def insertDedicatedInbound_def tx_simps sync_log_def alloc_view_def alloc_row_def)

lemma CreateUser_refines:
  assumes "new_user_ok r"
  shows "log_refines (CreateUser r)"
  unfolding log_refines_def
proof (intro allI impI)
  fix s y t
  assume s: "schema_ok s" and run: "CreateUser r s = Inr (y, t)"
  let ?a = "al_ID (uc_Allocation r)"
  show "schema_ok t \<and> log_step\<^sup>*\<^sup>* (sync_log s) (sync_log t)"
  proof (cases "FindCommand (dc_ID (uc_Command r)) s")
    case None
    with run have "create_user_body r s = Inr ((), t)" by (simp add: CreateUser_def tx_simps)
    then obtain u v where u: "insert_user_rows r s = Inr ((), u)" "insertOperation (uc_Operation r) u = Inr ((), v)"
      "tx_all [SaveCommand (uc_Command r), AppendAudit (uc_Audit r), AppendAudit (uc_PortAudit r)] v = Inr ((), t)"
      by (auto simp: create_user_body_def tx_simps)
    have ou: "schema_ok u" and lu: "sync_log u = (fst (sync_log s), snd (sync_log s) @ [alloc_view (uc_Allocation r)])"
      using insert_user_rows_log [OF u(1)] by auto
    have f: "log_frame (tx_all [SaveCommand (uc_Command r), AppendAudit (uc_Audit r), AppendAudit (uc_PortAudit r)])"
      by (intro log_frames)
    have ov: "schema_ok v" and "sync_log v = (fst (sync_log u) @ [op_view (uc_Operation r)], snd (sync_log u))"
      using u(2) by (auto simp: insert_tx_iff sync_log_def op_view_def op_row_def)
    then have t: "schema_ok t" "sync_log t = (fst (sync_log s) @ [(?a, 1, open_state (op_State (uc_Operation r)))],
        snd (sync_log s) @ [(?a, 1)])"
      using log_frameD [OF f ov u(3)] lu assms
      by (auto simp: new_user_ok_def op_view_def alloc_view_def simp del: tx_all.simps)
    have "distinct (map al_ID (db_allocs u))" using schema_alloc_ids [OF ou] .
    moreover have "map al_ID (db_allocs u) = map fst (snd (sync_log u))"
      by (simp add: sync_log_def alloc_view_def)
    ultimately have new: "?a \<notin> set (map fst (snd (sync_log s)))"
      by (simp add: lu alloc_view_def)
    have old: "set (map fst (snd (sync_log s))) = alloc_ids s"
      by (auto simp: sync_log_def alloc_view_def alloc_ids_def)
    have "\<forall>x \<in> set (fst (sync_log s)). fst x \<noteq> ?a"
      using schema_op_alloc [OF s] new unfolding old by (metis prod.collapse)
    with new have "log_step (fst (sync_log s), snd (sync_log s)) (sync_log t)"
      unfolding t(2) by (rule log_step.allocate)
    with t(1) show ?thesis by auto
  qed (use run s in \<open>auto simp: CreateUser_def tx_simps\<close>)
qed

section \<open>The steps of the store\<close>

text \<open>The writes that do not concern synchronization: accounts, settings, templates, drift removals.\<close>

inductive other_write :: "db \<Rightarrow> db \<Rightarrow> bool" where
  admin: "CreateAdministrator admin d = Inr (y, d') \<Longrightarrow> other_write d d'"
| password: "UpdateAdministratorPassword i hash version now d = Inr (y, d') \<Longrightarrow> other_write d d'"
| session: "InsertSession r d = Inr (y, d') \<Longrightarrow> other_write d d'"
| revoke: "RevokeSession digest now d = Inr (b, d') \<Longrightarrow> other_write d d'"
| revoke_all: "RevokeAllSessions i now d = Inr (y, d') \<Longrightarrow> other_write d d'"
| commit_session: "CommitSession row d = Inr (y, d') \<Longrightarrow> other_write d d'"
| touch: "TouchSession i now idle d = Inr (y, d') \<Longrightarrow> other_write d d'"
| singletons: "EnsureSingletons tz endpoint version verifier nonce rnd now d = Inr (y, d') \<Longrightarrow> other_write d d'"
| settings: "UpdateSettings tz expected command audit d = Inr (b, d') \<Longrightarrow> other_write d d'"
| command: "SaveCommand command d = Inr (y, d') \<Longrightarrow> other_write d d'"
| audit: "AppendAudit audit d = Inr (y, d') \<Longrightarrow> other_write d d'"
| health: "SetInstanceHealth h e code ok summary now d = Inr (y, d') \<Longrightarrow> other_write d d'"
| healthy: "MarkInstanceHealthy e now d = Inr (y, d') \<Longrightarrow> other_write d d'"
| unreachable: "MarkInstanceUnreachable code summary now d = Inr (y, d') \<Longrightarrow> other_write d d'"
| create_template: "CreateTemplate tm command audit d = Inr (ib, d') \<Longrightarrow> other_write d d'"
| update_template: "UpdateTemplate tm expected command audit d = Inr (b, d') \<Longrightarrow> other_write d d'"
| archive_template: "ArchiveTemplate i expected now d = Inr (y, d') \<Longrightarrow> other_write d d'"
| compatibility: "SetTemplateCompatibility i state reason now d = Inr (y, d') \<Longrightarrow> other_write d d'"
| validation: "CompleteTemplateValidation outcome d = Inr (b, d') \<Longrightarrow> other_write d d'"
| revalidation: "RequestRevalidation i expected command audit d = Inr (b, d') \<Longrightarrow> other_write d d'"
| generation: "AdvanceCapabilityGeneration signal tolerance now d = Inr (gb, d') \<Longrightarrow> other_write d d'"
| evidence: "InvalidateStaleCapabilityEvidence g now d = Inr (ids, d') \<Longrightarrow> other_write d d'"
| drift: "EnqueueDriftRemoval i t tag kind sid now d = Inr (b, d') \<Longrightarrow> other_write d d'"
| drift_lease: "LeaseDueDriftRemoval owner now lease d = Inr (w, d') \<Longrightarrow> other_write d d'"
| drift_renew: "RenewDriftRemovalLease i owner now lease d = Inr (b, d') \<Longrightarrow> other_write d d'"
| drift_done: "CompleteDriftRemoval i owner now audit d = Inr (y, d') \<Longrightarrow> other_write d d'"
| drift_later: "RescheduleDriftRemoval i owner attempts nxt code summary d = Inr (y, d') \<Longrightarrow> other_write d d'"
| drift_fail: "FailDriftRemoval i owner code summary now audit d = Inr (y, d') \<Longrightarrow> other_write d d'"

text \<open>
  The writes of the queue. The premises say what the services ensure: the operation of a command
  is that of the record's allocation, at the revision after the one the caller read.
\<close>

inductive store_step :: "db \<Rightarrow> db \<Rightarrow> bool" where
  other: "other_write d d' \<Longrightarrow> store_step d d'"
| create: "CreateUser r d = Inr (ib, d') \<Longrightarrow> new_user_ok r \<Longrightarrow> store_step d d'"
| update: "UpdateUser u d = Inr (bb, d') \<Longrightarrow> store_step d d'"
| port: "ChangeInboundPort p d = Inr (b, d') \<Longrightarrow> op_AllocationID (pc_Operation p) = pc_AllocationID p \<Longrightarrow>
    follows (pc_Operation p) (sync_log d) \<Longrightarrow> store_step d d'"
| rotate: "RotateCredential q d = Inr (b, d') \<Longrightarrow> op_AllocationID (rr_Operation q) = rr_AllocationID q \<Longrightarrow>
    follows (rr_Operation q) (sync_log d) \<Longrightarrow> store_step d d'"
| delete: "SoftDeleteUser k d = Inr (b, d') \<Longrightarrow> op_AllocationID (de_Operation k) = de_AllocationID k \<Longrightarrow>
    follows (de_Operation k) (sync_log d) \<Longrightarrow> store_step d d'"
| reset: "ResetCycleTraffic z d = Inr (bb, d') \<Longrightarrow> store_step d d'"
| rollover: "RolloverCycle zones fresh v d = Inr (ib2, d') \<Longrightarrow> store_step d d'"
| traffic: "CommitTrafficBatch zones fresh batch d = Inr (res, d') \<Longrightarrow> store_step d d'"
| reconcile: "EnqueueReconcile a expected op now d = Inr (b, d') \<Longrightarrow> op_AllocationID op = a \<Longrightarrow>
    1 \<le> op_DesiredRevision op \<Longrightarrow> op_DesiredRevision op \<le> expected + 1 \<Longrightarrow> store_step d d'"
| observe: "RecordObservation a present now d = Inr (y, d') \<Longrightarrow> store_step d d'"
| presence: "ConfirmInboundPresence a present now d = Inr (y, d') \<Longrightarrow> store_step d d'"
| lease: "lease_due owner now lease d = Inr (w, d') \<Longrightarrow> store_step d d'"
| renew: "RenewSyncLease i owner now lease d = Inr (b, d') \<Longrightarrow> store_step d d'"
| confirm: "ConfirmSync i owner revision version present now d = Inr (b, d') \<Longrightarrow> store_step d d'"
| reschedule: "RescheduleSync i owner attempts nxt code summary clock d = Inr (y, d') \<Longrightarrow> store_step d d'"
| fail: "FailSync i owner code summary now clock d = Inr (y, d') \<Longrightarrow> store_step d d'"

definition reachable :: "db \<Rightarrow> bool" where
  "reachable d \<longleftrightarrow> store_step\<^sup>*\<^sup>* empty_db d"

lemma log_frame_case_bind [log_frames]:
  "(\<And>x y. log_frame (k x y)) \<Longrightarrow> log_frame ((\<lambda>(x, y). k x y) p)"
  by (cases p) auto

lemma finishDrift_frame [log_frames]: "log_frame k \<Longrightarrow> log_frame (finishDriftRemoval i owner k)"
  unfolding finishDriftRemoval_def by (intro log_frames)

lemmas base_defs = CreateAdministrator_def UpdateAdministratorPassword_def InsertSession_def
  RevokeSession_def RevokeAllSessions_def CommitSession_def TouchSession_def EnsureSingletons_def UpdateSettings_def

lemmas template_defs = SetInstanceHealth_def MarkInstanceHealthy_def MarkInstanceUnreachable_def
  CreateTemplate_def create_template_body_def UpdateTemplate_def ArchiveTemplate_def
  SetTemplateCompatibility_def CompleteTemplateValidation_def RequestRevalidation_def
  AdvanceCapabilityGeneration_def InvalidateStaleCapabilityEvidence_def

lemmas drift_defs = EnqueueDriftRemoval_def LeaseDueDriftRemoval_def RenewDriftRemovalLease_def
  CompleteDriftRemoval_def RescheduleDriftRemoval_def FailDriftRemoval_def

lemma base_frames [log_frames]:
  "log_frame (CreateAdministrator admin)" "log_frame (UpdateAdministratorPassword i hash version now)"
  "log_frame (InsertSession r)" "log_frame (RevokeSession digest now)" "log_frame (RevokeAllSessions i now)"
  "log_frame (CommitSession row)" "log_frame (TouchSession i now idle)"
  "log_frame (EnsureSingletons tz endpoint ver verifier nonce rnd now)"
  "log_frame (UpdateSettings tz expected command audit)"
  unfolding base_defs by (intro log_frames; simp add: sync_log_simps)+

lemma template_frames [log_frames]:
  "log_frame (SetInstanceHealth h e code ok summary now)" "log_frame (MarkInstanceHealthy e now)"
  "log_frame (MarkInstanceUnreachable code summary now)" "log_frame (CreateTemplate tm command audit)"
  "log_frame (UpdateTemplate tm expected command audit)" "log_frame (ArchiveTemplate i expected now)"
  "log_frame (SetTemplateCompatibility i state reason now)" "log_frame (CompleteTemplateValidation outcome)"
  "log_frame (RequestRevalidation i expected command audit)" "log_frame (AdvanceCapabilityGeneration signal tolerance now)"
  "log_frame (InvalidateStaleCapabilityEvidence g now)"
  unfolding template_defs Let_def by (intro log_frames; simp add: sync_log_simps)+

lemma drift_frames [log_frames]:
  "log_frame (EnqueueDriftRemoval i t tag kind sid now)" "log_frame (LeaseDueDriftRemoval owner now lease)"
  "log_frame (RenewDriftRemovalLease i owner now lease)" "log_frame (CompleteDriftRemoval i owner now audit)"
  "log_frame (RescheduleDriftRemoval i owner attempts nxt code summary)"
  "log_frame (FailDriftRemoval i owner code summary now audit)"
  unfolding drift_defs Let_def by (intro log_frames; simp add: sync_log_simps)+

lemma other_write_frame:
  assumes "other_write d d'" "schema_ok d"
  shows "schema_ok d' \<and> sync_log d' = sync_log d"
  using assms
  by (induction rule: other_write.induct) (erule log_frameD [rotated 2], intro log_frames, assumption)+

section \<open>Refinement and reachable databases\<close>

lemma store_step_refines:
  assumes "store_step d d'" "schema_ok d"
  shows "schema_ok d' \<and> log_step\<^sup>*\<^sup>* (sync_log d) (sync_log d')"
  using assms
proof (induction rule: store_step.induct)
  case (other d d')
  then show ?case using other_write_frame by simp
next
  case (create r d ib d')
  then show ?case using log_refinesD [OF CreateUser_refines] by blast
next
  case (update u d bb d')
  then show ?case using log_refinesD [OF once_with_refines [OF update_user_refines]] by (simp add: UpdateUser_def)
next
  case (port p d b d')
  then show ?case using log_refines_atD [OF ChangeInboundPort_refines] by blast
next
  case (rotate q d b d')
  then show ?case using log_refines_atD [OF RotateCredential_refines] by blast
next
  case (delete k d b d')
  then show ?case using log_refines_atD [OF SoftDeleteUser_refines] by blast
next
  case (reset z d bb d')
  then show ?case using log_refinesD [OF once_with_refines [OF reset_cycle_refines]] by (simp add: ResetCycleTraffic_def)
next
  case (rollover zones fresh v d ib2 d')
  then show ?case using log_refinesD [OF RolloverCycle_refines] by blast
next
  case (traffic zones fresh batch d res d')
  then show ?case using log_refinesD [OF CommitTrafficBatch_refines] by blast
next
  case (reconcile a expected op now d b d')
  then show ?case using log_refinesD [OF EnqueueReconcile_refines] by blast
next
  case (observe a present now d y d')
  then show ?case using log_refinesD [OF log_frame_refines [OF RecordObservation_frame]] by blast
next
  case (presence a present now d y d')
  then show ?case
    using log_refinesD [OF log_frame_refines [OF log_frame_inbounds(3)]] by (simp add: ConfirmInboundPresence_def)
next
  case (lease owner now lease d w d')
  then show ?case using log_refinesD [OF log_frame_refines [OF lease_due_frame]] by blast
next
  case (renew i owner now lease d b d')
  then show ?case using log_refinesD [OF log_frame_refines [OF RenewSyncLease_frame]] by blast
next
  case (confirm i owner revision version present now d b d')
  then show ?case using log_refinesD [OF ConfirmSync_refines] by blast
next
  case (reschedule i owner attempts nxt code summary clock d y d')
  then show ?case using log_refinesD [OF RescheduleSync_refines] by blast
next
  case (fail i owner code summary now clock d y d')
  then show ?case using log_refinesD [OF FailSync_refines] by blast
qed

lemma empty_db_ok: "schema_ok empty_db" "sync_log empty_db = ([], [])"
  by (simp_all add: schema_ok_def tables_auth_ok_def tables_panel_ok_def tables_template_ok_def tables_user_ok_def
      tables_inbound_ok_def tables_cred_ok_def tables_quota_ok_def tables_traffic_ok_def tables_sync_ok_def
      tables_drift_ok_def empty_db_def sync_log_def)

lemma reachable_refines:
  assumes "reachable d"
  shows "schema_ok d \<and> log_step\<^sup>*\<^sup>* ([], []) (sync_log d)"
  using assms unfolding reachable_def
  by (induction rule: rtranclp_induct) (auto simp: empty_db_ok dest: store_step_refines)

lemma reachable_log_ok: "reachable d \<Longrightarrow> log_ok (sync_log d)"
  using log_steps_ok [of "([], [])" "sync_log d"] reachable_refines [of d] by (auto simp: log_ok_def)

text \<open>The history of the scenario is one of the store.\<close>

lemma tx_ok_step:
  assumes "tx_ok m d" "\<And>y d'. m d = Inr (y, d') \<Longrightarrow> store_step d d'" "reachable d"
  shows "reachable (tx_state m d)"
  using assms tx_ok_run [OF assms(1)] unfolding reachable_def by (meson rtranclp.rtrancl_into_rtrancl)

lemma demo_setup_reachable: "reachable demo_setup"
proof -
  have "reachable demo_panel" unfolding demo_panel_def
    by (rule tx_ok_step [OF demo_panel_run])
      (auto intro: store_step.other other_write.singletons simp: reachable_def)
  then have "reachable (tx_state (CreateAdministrator demo_admin) demo_panel)"
    by (rule tx_ok_step [OF demo_admin_run, rotated]) (auto intro: store_step.other other_write.admin)
  then show ?thesis unfolding demo_setup_def
    by (rule tx_ok_step [OF demo_setup_run, rotated]) (auto intro: store_step.other other_write.create_template)
qed

lemma demo_new_user: "new_user_ok (demo_create n port)"
  by (simp add: new_user_ok_def demo_create_def demo_alloc_def demo_op_def NewSynchronizationOperation_def)

lemma demo_one_step: "store_step demo_setup demo_one"
  using tx_ok_run [OF demo_one_run] demo_new_user unfolding demo_one_def by (auto intro: store_step.create)

lemma demo_one_reachable: "reachable demo_one"
  using demo_setup_reachable demo_one_step unfolding reachable_def by (rule rtranclp.rtrancl_into_rtrancl)

section \<open>Properties\<close>



text \<open>
  C4: in every database the program can reach, an allocation has at most one open synchronization
  operation, its revision is the allocation's desired revision, and every earlier revision has an
  operation of its own.
\<close>
theorem one_open_intent:
  assumes "reachable d" "a \<in> set (db_allocs d)"
    and "r \<in> set (db_ops d)" "op_AllocationID r = al_ID a"
  shows "1 \<le> op_DesiredRevision r \<and> op_DesiredRevision r \<le> al_DesiredRevision a \<and>
    (open_state (op_State r) \<longrightarrow> op_DesiredRevision r = al_DesiredRevision a \<and>
       (\<forall>q \<in> set (db_ops d). op_AllocationID q = al_ID a \<longrightarrow> open_state (op_State q) \<longrightarrow> q = r)) \<and>
    (\<forall>k. 1 \<le> k \<longrightarrow> k \<le> al_DesiredRevision a \<longrightarrow>
       (\<exists>q \<in> set (db_ops d). op_AllocationID q = al_ID a \<and> op_DesiredRevision q = k))"
proof -
  have ok: "log_ok (sync_log d)" and schema: "schema_ok d"
    using assms(1) reachable_log_ok reachable_refines by auto
  have a: "(al_ID a, al_DesiredRevision a) \<in> set (snd (sync_log d))"
    using assms(2) by (auto simp: sync_log_def alloc_view_def)
  have view: "(al_ID a, op_DesiredRevision q, open_state (op_State q)) \<in> set (fst (sync_log d))"
    if "q \<in> set (db_ops d)" "op_AllocationID q = al_ID a" for q
    using that by (auto simp: sync_log_def op_view_def intro!: image_eqI [of _ _ q])
  have range: "1 \<le> op_DesiredRevision q \<and> op_DesiredRevision q \<le> al_DesiredRevision a \<and>
      (open_state (op_State q) \<longrightarrow> op_DesiredRevision q = al_DesiredRevision a)"
    if "q \<in> set (db_ops d)" "op_AllocationID q = al_ID a" for q
    using ok view [OF that] a unfolding log_ok_def by blast
  have uniq: "q = r" if "q \<in> set (db_ops d)" "op_AllocationID q = al_ID a" "open_state (op_State q)"
    "open_state (op_State r)" for q
    using schema that assms(3,4) range [OF that(1,2)] range [OF assms(3,4)]
      distinct_map_eqD [of "\<lambda>r. (op_AllocationID r, op_DesiredRevision r)" "db_ops d" q r]
    by (simp add: schema_ok_def tables_sync_ok_def)
  have cover: "\<exists>q \<in> set (db_ops d). op_AllocationID q = al_ID a \<and> op_DesiredRevision q = k"
    if k: "1 \<le> k" "k \<le> al_DesiredRevision a" for k
  proof -
    from ok a k have "\<exists>b. (al_ID a, k, b) \<in> set (fst (sync_log d))" unfolding log_ok_def by blast
    then show ?thesis by (auto simp: sync_log_def op_view_def)
  qed
  show ?thesis using range [OF assms(3,4)] uniq cover by blast
qed

theorem one_open_intent_witness:
  "\<exists>a r. a \<in> set (db_allocs demo_one) \<and> r \<in> set (db_ops demo_one) \<and> op_DesiredRevision r \<le> al_DesiredRevision a"
proof -
  have maps: "map (\<lambda>a. (al_ID a, al_DesiredRevision a, al_DesiredCredentialVersion a)) (db_allocs demo_one) = [(''A1'', 1, 1)]"
    "map (\<lambda>r. (op_ID r, op_AllocationID r, op_DesiredRevision r, op_State r)) (db_ops demo_one)
       = [(''O11'', ''A1'', 1, SyncPending)]"
    using demo_one_facts by (simp_all only: demo_facts_def)
  obtain a where a: "a \<in> set (db_allocs demo_one)" "al_ID a = ''A1''"
    using maps(1) by (auto simp: map_eq_Cons_conv)
  obtain r where r: "r \<in> set (db_ops demo_one)" "op_AllocationID r = ''A1''"
    using maps(2) by (auto simp: map_eq_Cons_conv)
  show ?thesis using one_open_intent [OF demo_one_reachable a(1) r(1)] a r by auto
qed

end
