(* ===== verification/Store_Invariants.thy ===== *)
theory Store_Invariants
  imports Store_Steps
begin

text \<open>
  Invariants of the store by tables. The locale asks of a predicate how it behaves under changes of
  single tables, and proves once that every write transaction keeps it; the interpretations are the
  balance of the traffic ledger and the permanence of recorded commands.
\<close>

section \<open>The contract of an invariant\<close>

abbreviation keeps :: "(db \<Rightarrow> bool) \<Rightarrow> (db, 'a) tx \<Rightarrow> bool" where
  "keeps P m \<equiv> tx_keeps (\<lambda>s. schema_ok s \<and> P s) m"

lemma tx_keeps_option:
  "(x = None \<Longrightarrow> tx_keeps P m) \<Longrightarrow> (\<And>y. x = Some y \<Longrightarrow> tx_keeps P (k y)) \<Longrightarrow> tx_keeps P (case x of None \<Rightarrow> m | Some y \<Rightarrow> k y)"
  by (cases x) auto

lemma tx_keeps_pair: "(\<And>x y. p = (x, y) \<Longrightarrow> tx_keeps P (k x y)) \<Longrightarrow> tx_keeps P (case p of (x, y) \<Rightarrow> k x y)"
  by (cases p) auto

lemma tx_keeps_let: "(\<And>x. tx_keeps P (k x)) \<Longrightarrow> tx_keeps P (let x = v in k x)"
  by (simp add: Let_def)

lemma tx_keeps_list: "tx_keeps P (tx_all [])" "tx_keeps P m \<Longrightarrow> tx_keeps P (tx_all ms) \<Longrightarrow> tx_keeps P (tx_all (m # ms))"
  by (simp_all add: tx_keeps_read tx_keeps_seq)

lemma tx_keeps_map: "(\<And>x. tx_keeps P (f x)) \<Longrightarrow> tx_keeps P (tx_all (map f xs))"
  by (rule tx_keeps_all) auto

lemmas tx_keeps_rules = tx_keeps_bind tx_keeps_seq tx_keeps_read tx_keeps_catch tx_keeps_if commandReplay_keeps
  tx_keeps_option tx_keeps_pair tx_keeps_let tx_keeps_list tx_keeps_map once_keeps once_with_keeps

locale table_invariant =
  fixes P :: "db \<Rightarrow> bool"
  assumes frames:
      "P (db_instance_update f2 s) = P s"
      "P (db_templates_update f5 s) = P s" "P (db_users_update f7 s) = P s"
      "P (db_inbounds_update f8 s) = P s" "P (db_creds_update f9 s) = P s" "P (db_policies_update f10 s) = P s"
      "P (db_cursors_update f13 s) = P s" "P (db_events_update f15 s) = P s" "P (db_ops_update f16 s) = P s"
      "P (db_resets_update f17 s) = P s" "P (db_audits_update f18 s) = P s" "P (db_drifts_update f19 s) = P s"
    and settings: "(\<And>x. \<exists>y. f1 (Some x) = Some y \<and> ps_KeyVerifier y = ps_KeyVerifier x \<and>
        ps_KeyVerifierNonce y = ps_KeyVerifierNonce x) \<Longrightarrow> P s \<Longrightarrow> P (db_settings_update f1 s)"
    and admin: "P s \<Longrightarrow> P (db_admins_update (\<lambda>rows. rows @ [row1]) s)"
      "(\<And>r. ad_ID (f3 r) = ad_ID r) \<Longrightarrow> P s \<Longrightarrow> P (db_admins_update (sql_update p3 f3) s)"
    and session: "P s \<Longrightarrow> P (db_sessions_update (upsert_session row) s)"
      "(\<And>r. se_TokenDigest (sr_Session (f4 r)) = se_TokenDigest (sr_Session r)) \<Longrightarrow>
       (\<And>r. sr_RevokedAt r \<noteq> None \<Longrightarrow> sr_RevokedAt (f4 r) \<noteq> None) \<Longrightarrow>
       P s \<Longrightarrow> P (db_sessions_update (sql_update p4 f4) s)"
    and alloc: "(\<And>a. al_ID (f20 a) = al_ID a) \<Longrightarrow> P s \<Longrightarrow> P (db_allocs_update (sql_update p20 f20) s)"
    and command: "P s \<Longrightarrow> P (insert_command c s)"
    and reset: "P s \<Longrightarrow> P (db_cycles_update (sql_update (\<lambda>x. qc_ID x = i)
        (\<lambda>x. x\<lparr>qc_AccountedUplinkBytes := 0, qc_AccountedDownlinkBytes := 0,
              qc_ManualResetCount := qc_ManualResetCount x + 1\<rparr>)) s)"
    and roll: "schema_ok s \<Longrightarrow> P s \<Longrightarrow> open_cycle a s = Some old \<Longrightarrow>
        roll_cycle old (new_cycle i a start stop tz day now) now s = Inr ((), t) \<Longrightarrow> P t"
    and deltas: "schema_ok s \<Longrightarrow> P s \<Longrightarrow> write_deltas u s = Inr ((), t) \<Longrightarrow> P t"
    and create: "schema_ok s \<Longrightarrow> P s \<Longrightarrow> new_user_ok r \<Longrightarrow> insert_user_rows r s = Inr ((), t) \<Longrightarrow> P t"
begin

lemma stmt_keeps:
  assumes "\<And>s. schema_ok s \<Longrightarrow> P s \<Longrightarrow> P (f s)"
  shows "keeps P (sql_exec f)" "keeps P (sql_rows cnt f)" "keeps P (sql_one e cnt f)"
  using assms by (auto simp: tx_keeps_def tx_simps)

lemma base_keeps:
  "keeps P (SaveCommand c)" "keeps P (AppendAudit ev)"
  "keeps P (CreateAdministrator admin)" "keeps P (UpdateAdministratorPassword i hash version now)"
  "keeps P (InsertSession r)" "keeps P (RevokeSession digest now)" "keeps P (RevokeAllSessions i now)"
  "keeps P (CommitSession row)" "keeps P (TouchSession i now idle)"
  "keeps P (EnsureSingletons tz endpoint ver verifier nonce rnd now)"
proof -
  show "keeps P (SaveCommand c)" unfolding SaveCommand_def
    by (intro tx_keeps_rules stmt_keeps) (simp add: command)
  show "keeps P (AppendAudit ev)" unfolding AppendAudit_def insert_audit_def
    by (intro stmt_keeps) (simp add: frames)
qed (unfold base_defs, (intro tx_keeps_rules stmt_keeps; simp add: frames settings admin session update_instance_def update_settings_def)+)

lemma template_keeps:
  "keeps P (UpdateSettings tz expected command1 audit)"
  "keeps P (SetInstanceHealth h e code ok1 summary now)" "keeps P (MarkInstanceHealthy e now)"
  "keeps P (MarkInstanceUnreachable code summary now)" "keeps P (CreateTemplate tm command1 audit)"
  "keeps P (UpdateTemplate tm expected command1 audit)" "keeps P (ArchiveTemplate i expected now)"
  "keeps P (SetTemplateCompatibility i state reason now)" "keeps P (CompleteTemplateValidation outcome)"
  "keeps P (RequestRevalidation i expected command1 audit)" "keeps P (AdvanceCapabilityGeneration signal tolerance now)"
  "keeps P (InvalidateStaleCapabilityEvidence g now)"
  unfolding UpdateSettings_def template_defs
  by (intro tx_keeps_rules stmt_keeps base_keeps; simp add: frames settings update_instance_def update_settings_def set_instance_def)+

lemma drift_keeps:
  "keeps P (EnqueueDriftRemoval i t tag kind sid now)" "keeps P (LeaseDueDriftRemoval owner now lease)"
  "keeps P (RenewDriftRemovalLease i owner now lease)" "keeps P (CompleteDriftRemoval i owner now audit)"
  "keeps P (RescheduleDriftRemoval i owner attempts nxt code summary)"
  "keeps P (FailDriftRemoval i owner code summary now audit)"
  unfolding drift_defs finishDriftRemoval_def
  by (intro tx_keeps_rules stmt_keeps base_keeps; simp add: frames update_drifts_def)+

lemma alloc_keeps:
  assumes "\<And>a. al_ID (f a) = al_ID a"
  shows "keeps P (sql_exec (update_alloc i f))" "keeps P (sql_exec (db_allocs_update (sql_update p f)))"
    "keeps P (sql_rows cnt (db_allocs_update (sql_update p f)))"
  unfolding update_alloc_def by (intro stmt_keeps alloc assms; assumption)+

lemma queue_keeps:
  "keeps P (supersedeOlder a k now)" "keeps P (setInboundDesired a present now)" "keeps P (insertOperation r)"
  "keeps P (touch_user i revision now f)" "keeps P (confirmInboundPresence a present now)"
  "keeps P (releaseInboundPort a now)" "keeps P (activate_version a v now)" "keeps P (destroy_all a now)"
  "keeps P (insertContinuityEvent ev)" "keeps P (readFacts a)"
  unfolding supersedeOlder_def setInboundDesired_def insertOperation_def touch_user_def confirmInboundPresence_def
    releaseInboundPort_def activate_version_def destroy_all_def insertContinuityEvent_def readFacts_def
  by (intro tx_keeps_rules stmt_keeps; simp add: frames update_ops_def update_creds_def setInboundDesired_def)+

lemma sync_keeps:
  "keeps P (lease_due owner now lease)" "keeps P (RenewSyncLease i owner now lease)"
  "keeps P (ConfirmSync i owner revision version present now)"
  "keeps P (RescheduleSync i owner attempts nxt code summary clock)"
  "keeps P (FailSync i owner code summary now clock)" "keeps P (RecordObservation a present now)"
  "keeps P (ConfirmInboundPresence a present now)"
  unfolding lease_due_def RenewSyncLease_def ConfirmSync_def confirm_current_def RescheduleSync_def FailSync_def
    finishLeased_def RecordObservation_def ConfirmInboundPresence_def
  by (intro tx_keeps_rules alloc_keeps queue_keeps stmt_keeps; simp add: frames update_ops_def)+

lemma decision_keeps: "keeps P (applyDecision a facts decision enabled template now)"
  unfolding applyDecision_def Let_def
  by (auto split: bool.splits option.splits intro!: tx_keeps_rules alloc_keeps queue_keeps)

lemma command_keeps:
  "keeps P (ChangeInboundPort p)" "keeps P (RotateCredential q)" "keeps P (SoftDeleteUser k)"
  "keeps P (EnqueueReconcile a expected r now)" "keeps P (UpdateUser u)"
  unfolding ChangeInboundPort_def RotateCredential_def SoftDeleteUser_def EnqueueReconcile_def UpdateUser_def
    update_user_body_def
  by (intro tx_keeps_rules alloc_keeps queue_keeps decision_keeps base_keeps stmt_keeps; simp add: frames)+

lemma reset_keeps: "keeps P (ResetCycleTraffic z)"
  unfolding ResetCycleTraffic_def reset_cycle_body_def
  by (intro tx_keeps_rules queue_keeps decision_keeps base_keeps stmt_keeps; simp add: frames reset)

lemma settle_loop_keeps: "keeps P (settle_loop zones fresh a now n rolled)"
proof (rule tx_keepsI, elim conjE)
  fix s y t
  assume "settle_loop zones fresh a now n rolled s = Inr (y, t)" "schema_ok s" "P s"
  then show "schema_ok t \<and> P t"
  proof (induction rule: settle_loop_run)
    case (stop n rolled d c)
    then show ?case by simp
  next
    case (roll n rolled d c p s stop u y t)
    then have "schema_ok u" by (auto simp: roll_cycle_def tx_simps)
    moreover have "P u" using table_invariant.roll [OF table_invariant_axioms roll.prems(1,2) roll.hyps(1,6)] .
    ultimately show ?case using roll.IH by simp
  qed
qed

lemma settle_keeps: "keeps P (settleCycles zones fresh a now template audit n)"
  unfolding settleCycles_def
  by (intro tx_keeps_rules settle_loop_keeps queue_keeps decision_keeps base_keeps)

lemma traffic_keeps: "keeps P (CommitTrafficBatch zones fresh batch)"
proof -
  have deltas_keep: "keeps P (write_deltas u)" for u
    by (rule tx_keepsI) (auto intro: deltas simp: write_deltas_def Let_def tx_simps split: if_splits)
  have one: "keeps P (commit_update zones fresh now u n)" for u n now
    unfolding commit_update_def block_if_exceeded_def
    by (intro tx_keeps_rules settle_keeps queue_keeps decision_keeps base_keeps stmt_keeps deltas_keep; simp add: frames)
  have "keeps P (commit_updates zones fresh now us n res)" for us n res now
    by (induction us arbitrary: n res) (auto intro!: tx_keeps_rules one)
  then show ?thesis by (simp add: CommitTrafficBatch_def)
qed

lemma create_keeps: "new_user_ok r \<Longrightarrow> keeps P (CreateUser r)"
proof -
  assume ok: "new_user_ok r"
  have "keeps P (insert_user_rows r)"
    by (rule tx_keepsI) (auto intro: create [OF _ _ ok] simp: insert_user_rows_def tx_simps)
  then show ?thesis unfolding CreateUser_def create_user_body_def
    by (intro tx_keeps_rules queue_keeps base_keeps)
qed

lemma keepsD: "keeps P m \<Longrightarrow> m d = Inr (y, d') \<Longrightarrow> schema_ok d \<Longrightarrow> P d \<Longrightarrow> P d'"
  by (auto dest: tx_keepsD)

lemma rollover_keeps: "keeps P (RolloverCycle zones fresh v)"
  unfolding RolloverCycle_def by (intro tx_keeps_rules settle_keeps)

lemma other_keeps:
  assumes "other_write d d'" "schema_ok d" "P d"
  shows "P d'"
  using assms
  by (induction rule: other_write.induct) (erule keepsD [rotated], assumption, assumption, intro base_keeps template_keeps drift_keeps)+

theorem step_keeps:
  assumes "store_step d d'" "schema_ok d" "P d"
  shows "P d'"
  using assms
proof (induction rule: store_step.induct)
  case (other d d')
  then show ?case by (rule other_keeps)
next
  case (create r d ib d')
  then show ?case using keepsD [OF create_keeps] by blast
qed (erule keepsD [rotated], assumption, assumption, intro command_keeps reset_keeps rollover_keeps traffic_keeps sync_keeps)+

theorem reachable_keeps:
  assumes "reachable d" "P empty_db"
  shows "P d"
proof -
  have "schema_ok d \<and> P d" if "store_step\<^sup>*\<^sup>* empty_db d" for d
    using that
    by (induction rule: rtranclp_induct) (use assms(2) empty_db_ok store_step_refines step_keeps in blast)+
  with assms(1) show ?thesis by (simp add: reachable_def)
qed

end

section \<open>Commands are carried out at most once\<close>

text \<open>The request of \<open>c\<close> is on record.\<close>

definition recorded :: "DomainCommand \<Rightarrow> db \<Rightarrow> bool" where
  "recorded c d \<longleftrightarrow> (case FindCommand (dc_ID c) d of None \<Rightarrow> False
     | Some e \<Rightarrow> dc_RequestFingerprint e = dc_RequestFingerprint c)"

lemma FindCommand_frames [simp]:
  "FindCommand i (db_settings_update f1 s) = FindCommand i s" "FindCommand i (db_instance_update f2 s) = FindCommand i s"
  "FindCommand i (db_admins_update f3 s) = FindCommand i s" "FindCommand i (db_sessions_update f4 s) = FindCommand i s"
  "FindCommand i (db_templates_update f5 s) = FindCommand i s" "FindCommand i (db_identities_update f6 s) = FindCommand i s"
  "FindCommand i (db_users_update f7 s) = FindCommand i s" "FindCommand i (db_allocs_update f20 s) = FindCommand i s"
  "FindCommand i (db_inbounds_update f8 s) = FindCommand i s" "FindCommand i (db_creds_update f9 s) = FindCommand i s"
  "FindCommand i (db_policies_update f10 s) = FindCommand i s" "FindCommand i (db_cycles_update f11 s) = FindCommand i s"
  "FindCommand i (db_totals_update f12 s) = FindCommand i s" "FindCommand i (db_cursors_update f13 s) = FindCommand i s"
  "FindCommand i (db_daily_update f14 s) = FindCommand i s" "FindCommand i (db_events_update f15 s) = FindCommand i s"
  "FindCommand i (db_ops_update f16 s) = FindCommand i s" "FindCommand i (db_resets_update f17 s) = FindCommand i s"
  "FindCommand i (db_audits_update f18 s) = FindCommand i s" "FindCommand i (db_drifts_update f19 s) = FindCommand i s"
  by (simp_all add: FindCommand_def)

lemma recorded_frames [simp]:
  "recorded c (db_cycles_update f11 s) = recorded c s" "recorded c (db_allocs_update f20 s) = recorded c s"
  by (simp_all add: recorded_def)

interpretation schema: table_invariant "\<lambda>d. True"
  by unfold_locales simp_all

interpretation commands: table_invariant "\<lambda>d. recorded c d" for c
proof
  fix s and c' :: DomainCommand
  assume "recorded c s"
  then show "recorded c (insert_command c' s)"
    by (auto simp: recorded_def FindCommand_insert split: option.splits)
qed (auto simp: recorded_def roll_cycle_def write_deltas_def add_totals_def add_cycle_def Let_def
    insert_user_rows_def insertDedicatedInbound_def tx_simps split: if_splits)

definition records :: "DomainCommand \<Rightarrow> (db, 'a) tx \<Rightarrow> bool" where
  "records c m \<longleftrightarrow> (\<forall>s y t. schema_ok s \<longrightarrow> m s = Inr (y, t) \<longrightarrow> schema_ok t \<and> recorded c t)"

lemma records_save: "records c (SaveCommand c)"
  unfolding records_def
proof (intro allI impI)
  fix s t :: db and y
  assume "schema_ok s" "SaveCommand c s = Inr (y, t)"
  then show "schema_ok t \<and> recorded c t"
    by (auto simp: SaveCommand_def recorded_def FindCommand_insert tx_simps command_row_def
        split: option.splits)
qed

lemma records_later:
  "keeps (\<lambda>_. True) m \<Longrightarrow> (\<And>x. records c (k x)) \<Longrightarrow> records c (tx_bind m k)"
  unfolding records_def tx_keeps_def tx_bind_iff by blast

lemma records_keep:
  "records c m \<Longrightarrow> (\<And>x. keeps (recorded c) (k x)) \<Longrightarrow> records c (tx_bind m k)"
  unfolding records_def tx_keeps_def tx_bind_iff by blast

lemma records_seq:
  "keeps (\<lambda>_. True) m \<Longrightarrow> records c n \<Longrightarrow> records c (tx_seq m n)"
  "keeps (\<lambda>_. True) m \<Longrightarrow> records c (tx_all ms) \<Longrightarrow> records c (tx_all (m # ms))"
  unfolding tx_all.simps tx_seq_def by (rule records_later; assumption)+

lemma records_seq_keep:
  "records c m \<Longrightarrow> keeps (recorded c) n \<Longrightarrow> records c (tx_seq m n)"
  "records c m \<Longrightarrow> keeps (recorded c) (tx_all ms) \<Longrightarrow> records c (tx_all (m # ms))"
  unfolding tx_all.simps tx_seq_def by (rule records_keep; assumption)+

text \<open>
  The contract of a command of the services: a request that was carried out is on record, a request
  on record is a replay that changes nothing, and its identifier is refused for another request.
\<close>

locale idempotent_command =
  fixes request :: "'r \<Rightarrow> DomainCommand" and run :: "'r \<Rightarrow> (db, 'x) tx" and replayed :: "'x \<Rightarrow> bool"
  assumes first: "schema_ok d \<Longrightarrow> run r d = Inr (x, d1) \<Longrightarrow> schema_ok d1 \<and> recorded (request r) d1"
    and replay: "recorded (request r) d \<Longrightarrow> \<exists>x. run r d = Inr (x, d) \<and> replayed x"
    and conflict: "FindCommand (dc_ID (request r)) d = Some e \<Longrightarrow>
      dc_RequestFingerprint e \<noteq> dc_RequestFingerprint (request r) \<Longrightarrow> run r d = Inl reused_command"
begin

lemma recorded_later:
  assumes "schema_ok d" "run r d = Inr (x, d1)" "store_step\<^sup>*\<^sup>* d1 d2"
  shows "schema_ok d2 \<and> recorded (request r) d2"
  using assms(3) first [OF assms(1,2)]
  by (induction rule: rtranclp_induct) (use store_step_refines commands.step_keeps in blast)+

lemma at_most_once:
  assumes "schema_ok d" "run r d = Inr (x, d1)" "store_step\<^sup>*\<^sup>* d1 d2"
  shows "\<exists>y. run r d2 = Inr (y, d2) \<and> replayed y"
  using recorded_later [OF assms] replay by blast

lemma identifier_taken:
  assumes "schema_ok d" "run r d = Inr (x, d1)" "store_step\<^sup>*\<^sup>* d1 d2"
    and "dc_ID (request q) = dc_ID (request r)" "dc_RequestFingerprint (request q) \<noteq> dc_RequestFingerprint (request r)"
  shows "run q d2 = Inl reused_command"
proof -
  obtain e where "FindCommand (dc_ID (request q)) d2 = Some e" "dc_RequestFingerprint e = dc_RequestFingerprint (request r)"
    using recorded_later [OF assms(1,2,3)] assms(4) by (auto simp: recorded_def split: option.splits)
  then show ?thesis using assms(5) by (intro conflict) auto
qed

end

lemma commandReplay_apply:
  "commandReplay c d = (case FindCommand (dc_ID c) d of None \<Rightarrow> Inr (False, d)
     | Some e \<Rightarrow> if dc_RequestFingerprint e \<noteq> dc_RequestFingerprint c then Inl reused_command else Inr (True, d))"
  by (simp add: commandReplay_def tx_bind_def tx_get_def tx_ret_def tx_fail_def split: option.splits)

lemma once_apply:
  "once c b d = (case FindCommand (dc_ID c) d of
     None \<Rightarrow> (case b d of Inl e \<Rightarrow> Inl e | Inr (u, t) \<Rightarrow> Inr (False, t))
   | Some e \<Rightarrow> if dc_RequestFingerprint e \<noteq> dc_RequestFingerprint c then Inl reused_command else Inr (True, d))"
  by (simp add: once_def tx_bind_def tx_seq_def commandReplay_apply tx_ret_def split: option.splits sum.splits prod.splits)

lemma once_with_apply:
  "once_with c b d = (case FindCommand (dc_ID c) d of
     None \<Rightarrow> (case b d of Inl e \<Rightarrow> Inl e | Inr (x, t) \<Rightarrow> Inr ((False, x), t))
   | Some e \<Rightarrow> if dc_RequestFingerprint e \<noteq> dc_RequestFingerprint c then Inl reused_command else Inr ((True, False), d))"
  by (simp add: once_with_def tx_bind_def commandReplay_apply tx_ret_def split: option.splits sum.splits prod.splits)

lemma recorded_Some:
  "recorded c d \<longleftrightarrow> (\<exists>e. FindCommand (dc_ID c) d = Some e \<and> dc_RequestFingerprint e = dc_RequestFingerprint c)"
  by (simp add: recorded_def split: option.splits)

lemma recordsD: "records c m \<Longrightarrow> schema_ok s \<Longrightarrow> m s = Inr (y, t) \<Longrightarrow> schema_ok t \<and> recorded c t"
  unfolding records_def by blast

lemma once_idempotent:
  assumes "\<And>r. records (request r) (body r)"
  shows "idempotent_command request (\<lambda>r. once (request r) (body r)) (\<lambda>x. x)"
proof
  fix d d1 :: db and r x
  assume "schema_ok d" "once (request r) (body r) d = Inr (x, d1)"
  then show "schema_ok d1 \<and> recorded (request r) d1"
    using recordsD [OF assms [of r]]
    by (cases "FindCommand (dc_ID (request r)) d"; cases "body r d")
      (auto simp: once_apply recorded_Some split: if_splits)
next
  fix d :: db and r
  assume "recorded (request r) d"
  then show "\<exists>x. once (request r) (body r) d = Inr (x, d) \<and> x" by (auto simp: recorded_Some once_apply)
qed (simp add: once_apply)

lemma once_with_idempotent:
  assumes "\<And>r. records (request r) (body r)"
  shows "idempotent_command request (\<lambda>r. once_with (request r) (body r)) fst"
proof
  fix d d1 :: db and r and x :: "bool \<times> bool"
  assume "schema_ok d" "once_with (request r) (body r) d = Inr (x, d1)"
  then show "schema_ok d1 \<and> recorded (request r) d1"
    using recordsD [OF assms [of r]]
    by (cases "FindCommand (dc_ID (request r)) d"; cases "body r d")
      (auto simp: once_with_apply recorded_Some split: if_splits)
next
  fix d :: db and r
  assume "recorded (request r) d"
  then show "\<exists>x. once_with (request r) (body r) d = Inr (x, d) \<and> fst x"
    by (intro exI [of _ "(True, False)"]) (auto simp: recorded_Some once_with_apply)
qed (simp add: once_with_apply)

text \<open>Commands that return the identifier of what they created, and whether they were a replay.\<close>

definition once_creating :: "('r \<Rightarrow> DomainCommand) \<Rightarrow> ('r \<Rightarrow> (db, unit) tx) \<Rightarrow> ('r \<Rightarrow> ID) \<Rightarrow> 'r \<Rightarrow> (db, ID \<times> bool) tx" where
  "once_creating request body created r = tx_bind (tx_get (FindCommand (dc_ID (request r)))) (\<lambda>existing. case existing of
     Some e \<Rightarrow> tx_seq (tx_guard reused_command (dc_RequestFingerprint e = dc_RequestFingerprint (request r)))
               (tx_ret (dc_TargetID e, True))
   | None \<Rightarrow> tx_seq (body r) (tx_ret (created r, False)))"

lemma once_creating_apply:
  "once_creating request body created r d = (case FindCommand (dc_ID (request r)) d of
     None \<Rightarrow> (case body r d of Inl e \<Rightarrow> Inl e | Inr (x, t) \<Rightarrow> Inr ((created r, False), t))
   | Some e \<Rightarrow> if dc_RequestFingerprint e \<noteq> dc_RequestFingerprint (request r) then Inl reused_command
       else Inr ((dc_TargetID e, True), d))"
  by (simp add: once_creating_def tx_get_def tx_bind_def tx_seq_def tx_ret_def tx_guard_def tx_fail_def
      split: option.splits sum.splits prod.splits)

lemma once_creating_idempotent:
  assumes "\<And>r. records (request r) (body r)"
  shows "idempotent_command request (once_creating request body created) snd"
proof
  fix d d1 :: db and r and x :: "ID \<times> bool"
  assume "schema_ok d" "once_creating request body created r d = Inr (x, d1)"
  then show "schema_ok d1 \<and> recorded (request r) d1"
    using recordsD [OF assms [of r]]
    by (cases "FindCommand (dc_ID (request r)) d"; cases "body r d")
      (auto simp: once_creating_apply recorded_Some split: if_splits)
next
  fix d :: db and r
  assume "recorded (request r) d"
  then show "\<exists>x. once_creating request body created r d = Inr (x, d) \<and> snd x" by (auto simp: recorded_Some once_creating_apply)
qed (simp add: once_creating_apply)

lemmas records_rules = records_save records_seq_keep records_keep records_seq records_later

lemmas keeps_rules = tx_keeps_rules commands.alloc_keeps commands.queue_keeps commands.decision_keeps commands.base_keeps
  schema.alloc_keeps schema.queue_keeps schema.decision_keeps schema.base_keeps

interpretation port_change: idempotent_command pc_Command ChangeInboundPort "\<lambda>x. x"
  unfolding ChangeInboundPort_def [abs_def]
  by (rule once_idempotent) (intro records_seq records_seq_keep records_save keeps_rules schema.stmt_keeps; simp)

interpretation rotation: idempotent_command rr_Command RotateCredential "\<lambda>x. x"
  unfolding RotateCredential_def [abs_def]
  by (rule once_idempotent) (intro records_seq records_seq_keep records_save keeps_rules schema.stmt_keeps; simp)

interpretation deletion: idempotent_command de_Command SoftDeleteUser "\<lambda>x. x"
  unfolding SoftDeleteUser_def [abs_def]
  by (rule once_idempotent) (intro records_seq records_seq_keep records_save keeps_rules schema.stmt_keeps; simp)

interpretation settings: idempotent_command "\<lambda>(tz, k, c, e). c" "\<lambda>(tz, k, c, e). UpdateSettings tz k c e" "\<lambda>x. x"
  unfolding UpdateSettings_def case_prod_beta
  by (rule once_idempotent) (intro records_seq records_seq_keep records_save keeps_rules schema.stmt_keeps; simp)

interpretation template_update: idempotent_command "\<lambda>(tm, k, c, e). c" "\<lambda>(tm, k, c, e). UpdateTemplate tm k c e" "\<lambda>x. x"
  unfolding UpdateTemplate_def case_prod_beta
  by (rule once_idempotent) (intro records_seq records_seq_keep records_save keeps_rules schema.stmt_keeps; simp)

interpretation revalidation: idempotent_command "\<lambda>(i, k, c, e). c" "\<lambda>(i, k, c, e). RequestRevalidation i k c e" "\<lambda>x. x"
  unfolding RequestRevalidation_def case_prod_beta
  by (rule once_idempotent) (intro records_seq records_seq_keep records_save keeps_rules schema.stmt_keeps; simp)

lemma records_tail:
  "keeps (\<lambda>_. True) q \<Longrightarrow> keeps (recorded c) a \<Longrightarrow> records c (tx_seq (tx_all [q, SaveCommand c, a]) (tx_ret x))"
  "keeps (recorded c) (tx_all ms) \<Longrightarrow> keeps (recorded c) m \<Longrightarrow> records c (tx_seq (tx_all (SaveCommand c # ms)) m)"
  by (intro records_seq_keep(1) records_seq(2) records_seq_keep(2) [OF records_save] tx_keeps_rules; assumption)+

interpretation user_update: idempotent_command uu_Command UpdateUser fst
  unfolding UpdateUser_def [abs_def]
proof (rule once_with_idempotent)
  fix u
  show "records (uu_Command u) (update_user_body u)" unfolding update_user_body_def Let_def o_def
    by (intro records_tail records_seq records_later keeps_rules schema.stmt_keeps; simp)
qed

interpretation traffic_reset: idempotent_command qr_Command ResetCycleTraffic fst
  unfolding ResetCycleTraffic_def [abs_def]
proof (rule once_with_idempotent)
  fix z
  show "records (qr_Command z) (reset_cycle_body z)" unfolding reset_cycle_body_def Let_def
    by (intro records_tail records_later keeps_rules schema.stmt_keeps commands.stmt_keeps; simp add: recorded_def)
qed

interpretation user_creation: idempotent_command uc_Command CreateUser snd
proof -
  have eq: "CreateUser = once_creating uc_Command create_user_body (\<lambda>r. mu_ID (uc_User r))"
    by (simp add: fun_eq_iff CreateUser_def once_creating_def)
  have "records (uc_Command r) (create_user_body r)" for r
    unfolding create_user_body_def insert_user_rows_def insertDedicatedInbound_def
    by (intro records_seq records_seq_keep records_save keeps_rules schema.stmt_keeps; simp)
  then show "idempotent_command uc_Command CreateUser snd" unfolding eq by (rule once_creating_idempotent)
qed

interpretation template_creation: idempotent_command "\<lambda>(tm, c, e). c" "\<lambda>(tm, c, e). CreateTemplate tm c e" snd
proof -
  have eq: "(\<lambda>(tm, c, e). CreateTemplate tm c e) =
      once_creating (\<lambda>(tm, c, e). c) (\<lambda>(tm, c, e). create_template_body tm c e) (\<lambda>(tm, c, e). tm_ID tm)"
    by (simp add: fun_eq_iff CreateTemplate_def once_creating_def)
  have "records c (create_template_body tm c e)" for tm c e
    unfolding create_template_body_def
    by (intro records_seq records_seq_keep records_save keeps_rules schema.stmt_keeps; simp)
  then show "idempotent_command (\<lambda>(tm, c, e). c) (\<lambda>(tm, c, e). CreateTemplate tm c e) snd"
    unfolding eq by (intro once_creating_idempotent) (simp add: case_prod_beta)
qed

end
