(* ===== verification/Store_Promises.thy ===== *)
theory Store_Promises
  imports Store_Steps
begin

text \<open>
  What the store promises to the workers: a lease excludes every other worker until it expires, a
  worker that lost its lease changes nothing, and a confirmation leaves exactly the credentials and
  ports it should.
\<close>

section \<open>Histories of the queues\<close>

definition demo_lease :: "(err + SyncWork option) \<times> db" where
  "demo_lease = LeaseDueSync ''w1'' 0 (60 * Second) demo_one"

definition demo_leased :: db where "demo_leased = snd demo_lease"

definition demo_drift :: db where
  "demo_drift = tx_state (EnqueueDriftRemoval ''D1'' ''T1'' ''xpanel-1'' ''identity'' ''xpanel-x'' 0) demo_setup"

definition demo_drift_leased :: db where
  "demo_drift_leased = tx_state (LeaseDueDriftRemoval ''w1'' 0 (60 * Second)) demo_drift"

definition leased_facts :: "(err + SyncWork option) \<times> db \<Rightarrow> bool" where
  "leased_facts r \<longleftrightarrow> schema_ok (snd r) \<and>
     map (\<lambda>x. (op_ID x, op_AllocationID x, op_DesiredRevision x, op_State x, op_LeaseOwner x)) (db_ops (snd r))
       = [(''O11'', ''A1'', 1, SyncLeased, Some ''w1'')] \<and>
     (case fst r of Inr (Some w) \<Rightarrow> op_ID (sw_Operation w) = ''O11'' | _ \<Rightarrow> False) \<and>
     tx_value (lease_due ''w2'' (59 * Second) (60 * Second)) (snd r) = Some None"

lemma demo_lease_facts: "leased_facts demo_lease"
  by code_simp

definition drift_facts :: "db \<Rightarrow> bool" where
  "drift_facts d \<longleftrightarrow> schema_ok d \<and> map (\<lambda>r. (df_ID r, df_State r)) (db_drifts d) = [(''D1'', SyncPending)] \<and>
     map_option (map_option dr_ID) (tx_value (LeaseDueDriftRemoval ''w1'' 0 (60 * Second)) d) = Some (Some ''D1'') \<and>
     tx_ok (LeaseDueDriftRemoval ''w2'' (59 * Second) (60 * Second)) (tx_state (LeaseDueDriftRemoval ''w1'' 0 (60 * Second)) d) \<and>
     tx_value (LeaseDueDriftRemoval ''w2'' (59 * Second) (60 * Second))
       (tx_state (LeaseDueDriftRemoval ''w1'' 0 (60 * Second)) d) = Some None"

lemma demo_drift_facts: "drift_facts demo_drift"
  by code_simp

section \<open>Leases exclude\<close>

lemma LeaseDueSync_leased:
  "LeaseDueSync owner now lease d = (Inr (Some w), d1) \<Longrightarrow> lease_due owner now lease d = Inr (Some (sw_Operation w), d1)"
  by (auto simp: LeaseDueSync_def WithWriteTx_Inr split: prod.splits sum.splits option.splits)

text \<open>
  C9: an operation handed to a worker is that worker's alone until its lease expires: whatever other
  workers do to the queue before that time (taking due operations, renewing, confirming,
  rescheduling or failing), none of them is handed the operation, and it stays leased to the first.
\<close>
theorem sync_lease_exclusive:
  assumes "schema_ok d" "LeaseDueSync owner now lease d = (Inr (Some work), d1)"
    and "lease_run sync_lease_step d1 evs d2" "list_all (foreign_before owner (stored (now + lease))) evs"
  shows "\<exists>r. op_of d2 (op_ID (sw_Operation work)) = Some r \<and> held_by owner r \<and>
    op_LeaseExpiresAt r = Some (stored (now + lease)) \<and>
    (\<forall>who t. Take who t (Some (op_ID (sw_Operation work))) \<notin> set evs)"
proof -
  let ?i = "op_ID (sw_Operation work)"
  from sync_take [OF LeaseDueSync_leased [OF assms(2)] assms(1)]
  have "schema_ok d1" "sync_status d1 ?i = Some (Held (Some owner) (Some (stored (now + lease))))" by simp_all
  from sync_queue.exclusive [OF assms(3) this assms(4)] show ?thesis
    by (auto simp: sync_status_def held_by_def split: if_splits)
qed

theorem sync_lease_exclusive_witness:
  "\<exists>r. op_of (tx_state (lease_due ''w2'' (59 * Second) (60 * Second)) demo_leased) ''O11'' = Some r \<and> held_by ''w1'' r"
proof -
  have facts: "schema_ok demo_one" and lease: "\<exists>w. LeaseDueSync ''w1'' 0 (60 * Second) demo_one = (Inr (Some w), demo_leased) \<and> op_ID (sw_Operation w) = ''O11''"
    and other: "lease_due ''w2'' (59 * Second) (60 * Second) demo_leased = Inr (None, tx_state (lease_due ''w2'' (59 * Second) (60 * Second)) demo_leased)"
    using demo_lease_facts reachable_refines [OF demo_one_reachable] unfolding leased_facts_def demo_leased_def
    by (auto simp: prod_eq_iff demo_lease_def [symmetric] split: sum.splits option.splits intro!: tx_value_run)
  then obtain w where w: "LeaseDueSync ''w1'' 0 (60 * Second) demo_one = (Inr (Some w), demo_leased)" "op_ID (sw_Operation w) = ''O11''"
    by blast
  have "sync_lease_step demo_leased (Take ''w2'' (stored (59 * Second)) None) (tx_state (lease_due ''w2'' (59 * Second) (60 * Second)) demo_leased)"
    using sync_lease_step.take [OF other] by simp
  then have run: "lease_run sync_lease_step demo_leased [Take ''w2'' (stored (59 * Second)) None]
    (tx_state (lease_due ''w2'' (59 * Second) (60 * Second)) demo_leased)"
    by (rule lease_run.event) (rule lease_run.none)
  have "list_all (foreign_before ''w1'' (stored (0 + 60 * Second))) [Take ''w2'' (stored (59 * Second)) None]"
    by (simp add: foreign_before_def, code_simp)
  from sync_lease_exclusive [OF facts w(1) run this] show ?thesis using w(2) by auto
qed

text \<open>
  C25: the same holds for the removals of what the panel does not know: between its lease and its
  expiry no other worker is handed the removal.
\<close>
theorem drift_lease_exclusive:
  assumes "schema_ok d" "LeaseDueDriftRemoval owner now lease d = Inr (Some removal, d1)"
    and "lease_run drift_lease_step d1 evs d2" "list_all (foreign_before owner (stored (now + lease))) evs"
  shows "\<exists>r. drift_of (dr_ID removal) d2 = Some r \<and> drift_held_by owner r \<and>
    df_LeaseExpiresAt r = Some (stored (now + lease)) \<and>
    (\<forall>who t. Take who t (Some (dr_ID removal)) \<notin> set evs)"
proof -
  from drift_take [OF assms(2,1)]
  have "schema_ok d1" "drift_status d1 (dr_ID removal) = Some (Held (Some owner) (Some (stored (now + lease))))" by simp_all
  from drift_queue.exclusive [OF assms(3) this assms(4)] show ?thesis
    by (auto simp: drift_status_def drift_held_by_def split: if_splits)
qed

theorem drift_lease_exclusive_witness:
  "\<exists>d2 r. drift_of ''D1'' d2 = Some r \<and> drift_held_by ''w1'' r \<and>
     lease_run drift_lease_step demo_drift_leased [Take ''w2'' (stored (59 * Second)) None] d2"
proof -
  let ?m = "LeaseDueDriftRemoval ''w2'' (59 * Second) (60 * Second)"
  have facts: "schema_ok demo_drift" and lease: "\<exists>w. LeaseDueDriftRemoval ''w1'' 0 (60 * Second) demo_drift = Inr (Some w, demo_drift_leased) \<and> dr_ID w = ''D1''"
    and other: "?m demo_drift_leased = Inr (None, tx_state ?m demo_drift_leased)"
    using demo_drift_facts unfolding drift_facts_def demo_drift_leased_def
    by (auto intro!: tx_value_run)
  then obtain w where w: "LeaseDueDriftRemoval ''w1'' 0 (60 * Second) demo_drift = Inr (Some w, demo_drift_leased)" "dr_ID w = ''D1''"
    by blast
  have "drift_lease_step demo_drift_leased (Take ''w2'' (stored (59 * Second)) None) (tx_state ?m demo_drift_leased)"
    using drift_lease_step.take [OF other] by simp
  then have run: "lease_run drift_lease_step demo_drift_leased [Take ''w2'' (stored (59 * Second)) None] (tx_state ?m demo_drift_leased)"
    by (rule lease_run.event) (rule lease_run.none)
  have "list_all (foreign_before ''w1'' (stored (0 + 60 * Second))) [Take ''w2'' (stored (59 * Second)) None]"
    by (simp add: foreign_before_def, code_simp)
  from drift_lease_exclusive [OF facts w(1) run this] show ?thesis using w(2) run by auto
qed

section \<open>A worker that lost its lease\<close>

lemma op_alloc_exists:
  assumes "schema_ok d" "op_of d i = Some r"
  shows "\<exists>a. alloc_of d (op_AllocationID r) = Some a"
proof -
  have "op_AllocationID r \<in> alloc_ids d"
    using assms op_of_Some [OF assms(2)] by (auto simp: schema_ok_def tables_sync_ok_def op_row_ok_def list_all_iff)
  then show ?thesis unfolding alloc_ids_def alloc_of_def by (metis find_key_None option.exhaust list.set_map)
qed

lemma tx_bind_scan_eval: "q s = Some x \<Longrightarrow> tx_bind (tx_scan e q) k s = k x s"
  by (simp add: tx_bind_def tx_scan_def)

lemma renew_refused:
  assumes "schema_ok d" "op_of d i = Some r" "\<not> renewable d i owner r"
  shows "RenewSyncLease i owner now lease d = Inr (False, d)"
proof -
  have none: "\<not> renewable d i owner x" if "x \<in> set (db_ops d)" for x
    using that assms schema_op_of [OF assms(1) that] by (auto simp: renewable_def)
  then have "update_ops (renewable d i owner) f d = d" for f
    unfolding update_ops_def by (intro db_update_same sql_update_none) blast
  moreover have "rows_affected (renewable d i owner) (db_ops d) = 0"
    using none by (auto simp: rows_affected_def filter_empty_conv)
  ultimately show ?thesis using assms(1) unfolding RenewSyncLease_Inr by simp
qed

text \<open>
  C21: a worker that does not hold the lease of an operation can neither renew it, confirm it,
  reschedule it nor fail it: each of these calls leaves the database exactly as it was, and the
  renewal and the confirmation say so by returning false.
\<close>
theorem stale_worker_is_fenced:
  assumes "schema_ok d" "op_of d i = Some r" "\<not> held_by owner r"
  shows "RenewSyncLease i owner now lease d = Inr (False, d) \<and>
    ConfirmSync i owner revision version present now d = Inr (False, d) \<and>
    RescheduleSync i owner attempts next code summary clock d = Inr ((), d) \<and>
    FailSync i owner code summary now clock d = Inr ((), d)"
proof -
  obtain a where "op_with_alloc i d = Some (r, a)"
    using assms(2) op_alloc_exists [OF assms(1,2)] unfolding op_with_alloc_Some by blast
  moreover have "RenewSyncLease i owner now lease d = Inr (False, d)"
    using assms(3) by (intro renew_refused [OF assms(1,2)]) (simp add: renewable_def)
  ultimately show ?thesis
    using assms(3) unfolding ConfirmSync_def RescheduleSync_def FailSync_def finishLeased_def
    by (simp add: tx_bind_scan_eval tx_ret_apply)
qed

theorem stale_worker_is_fenced_witness:
  "ConfirmSync ''O11'' ''w2'' 1 1 True 0 demo_leased = Inr (False, demo_leased)"
proof -
  have ok: "schema_ok demo_leased"
    and ops: "map (\<lambda>x. (op_ID x, op_AllocationID x, op_DesiredRevision x, op_State x, op_LeaseOwner x)) (db_ops demo_leased)
       = [(''O11'', ''A1'', 1, SyncLeased, Some ''w1'')]"
    using demo_lease_facts unfolding leased_facts_def demo_leased_def by simp_all
  obtain r where r: "db_ops demo_leased = [r]" "op_ID r = ''O11''" "op_LeaseOwner r = Some ''w1''"
    using ops by (auto simp: map_eq_Cons_conv)
  then have "op_of demo_leased ''O11'' = Some r" "\<not> held_by ''w2'' r" by (simp_all add: op_of_def held_by_def)
  from stale_worker_is_fenced [OF ok this] show ?thesis by blast
qed

lemma drift_renew_refused:
  assumes "schema_ok d" "drift_of i d = Some r" "\<not> drift_held_by owner r"
  shows "RenewDriftRemovalLease i owner now lease d = Inr (False, d)"
proof -
  let ?p = "\<lambda>x. df_ID x = i \<and> drift_held_by owner x"
  have none: "\<not> ?p x" if "x \<in> set (db_drifts d)" for x
    using that assms schema_drift_of [OF assms(1) that] by auto
  then have "update_drifts ?p f d = d" for f
    unfolding update_drifts_def by (intro db_update_same sql_update_none) blast
  moreover have "rows_affected ?p (db_drifts d) = 0"
    using none by (simp add: rows_affected_def filter_empty_conv)
  ultimately show ?thesis
    using assms(1) by (simp add: RenewDriftRemovalLease_def sql_rows_def tx_bind_def tx_seq_def tx_get_def
      sql_exec_def tx_exec_def tx_ret_def)
qed

text \<open>
  C26: likewise a worker that does not hold the lease of a removal changes nothing by renewing,
  completing, rescheduling or failing it; in particular it leaves no audit event.
\<close>
theorem stale_remover_is_fenced:
  assumes "schema_ok d" "drift_of i d = Some r" "\<not> drift_held_by owner r"
  shows "RenewDriftRemovalLease i owner now lease d = Inr (False, d) \<and>
    CompleteDriftRemoval i owner now ev d = Inr ((), d) \<and>
    RescheduleDriftRemoval i owner attempts next code summary d = Inr ((), d) \<and>
    FailDriftRemoval i owner code summary now ev d = Inr ((), d)"
  using assms drift_renew_refused [OF assms]
  unfolding CompleteDriftRemoval_def RescheduleDriftRemoval_def FailDriftRemoval_def finishDriftRemoval_def
  by (simp add: tx_bind_scan_eval tx_ret_apply)

theorem stale_remover_is_fenced_witness:
  "CompleteDriftRemoval ''D1'' ''w1'' 0 (demo_audit ''EX'') demo_drift = Inr ((), demo_drift)"
proof -
  have ok: "schema_ok demo_drift" and ids: "map (\<lambda>r. (df_ID r, df_State r)) (db_drifts demo_drift) = [(''D1'', SyncPending)]"
    using demo_drift_facts unfolding drift_facts_def by simp_all
  obtain r where "db_drifts demo_drift = [r]" "df_ID r = ''D1''" "df_State r = SyncPending"
    using ids by (auto simp: map_eq_Cons_conv)
  then have "drift_of ''D1'' demo_drift = Some r" "\<not> drift_held_by ''w1'' r"
    by (simp_all add: drift_of_def drift_held_by_def)
  from stale_remover_is_fenced [OF ok this] show ?thesis by blast
qed

section \<open>Histories of a confirmation\<close>

definition demo_synced :: db where "demo_synced = tx_state (ConfirmSync ''O11'' ''w1'' 1 1 True 0) demo_leased"

definition demo_delete :: DeleteRecord where
  "demo_delete = \<lparr>de_UserID = ''U1'', de_AllocationID = ''A1'', de_ExpectedRevision = 0,
     de_Operation = demo_op ''1'' 2 False SyncDelete, de_Command = demo_command ''KD'' ''U1'',
     de_Audit = demo_audit ''ED'', de_Now = 0\<rparr>"

definition demo_removing :: db where
  "demo_removing = tx_state (lease_due ''w1'' 0 (60 * Second)) (tx_state (SoftDeleteUser demo_delete) demo_synced)"

definition removing_facts :: "db \<Rightarrow> bool" where
  "removing_facts d \<longleftrightarrow> schema_ok d \<and> lifecycle_of ''A1'' d = Some LifecycleDeleted \<and>
     tx_value (ConfirmSync ''O12'' ''w1'' 2 0 False 0) d = Some True \<and>
     map_option op_AllocationID (op_of d ''O12'') = Some ''A1''"

lemma demo_synced_run: "tx_value (ConfirmSync ''O11'' ''w1'' 1 1 True 0) demo_leased = Some True"
  by code_simp

lemma demo_outdated_run: "tx_value (ConfirmSync ''O11'' ''w1'' 2 1 True 0) demo_leased = Some False"
  by code_simp

lemma demo_removing_facts: "removing_facts demo_removing"
  by code_simp

lemma demo_leased_maps:
  "map_option op_AllocationID (op_of demo_leased ''O11'') = Some ''A1'' \<and>
   map_option al_DesiredRevision (alloc_of demo_leased ''A1'') = Some 1"
  by code_simp

lemma demo_leased_op: "\<exists>r. op_of demo_leased ''O11'' = Some r \<and> op_AllocationID r = ''A1''"
  using demo_leased_maps by auto

lemma demo_leased_alloc: "\<exists>a. alloc_of demo_leased ''A1'' = Some a \<and> al_DesiredRevision a \<noteq> 2"
  using demo_leased_maps by auto

section \<open>Confirmations\<close>

lemma ConfirmSync_confirmed:
  assumes "ConfirmSync i owner revision version present now d = Inr (True, d1)"
  obtains r a where "op_of d i = Some r" "alloc_of d (op_AllocationID r) = Some a" "held_by owner r"
    "al_DesiredRevision a = revision" "confirm_current i (op_AllocationID r) revision version present now d = Inr ((), d1)"
  using assms by (auto simp: ConfirmSync_def tx_bind_scan op_with_alloc_Some tx_simps split: if_splits)

lemma released_not_held:
  "(\<And>x. \<not> unreleased (update_inbound f x)) \<Longrightarrow>
   sql_update (holds_port a) g (sql_update (holds_port a) (update_inbound f) rows) = sql_update (holds_port a) (update_inbound f) rows"
  by (induction rows) (auto simp: holds_port_def)

text \<open>The rows a confirmation leaves, table by table.\<close>

definition confirmed_cred :: "ID \<Rightarrow> int \<Rightarrow> instant \<Rightarrow> AccessCredential \<Rightarrow> AccessCredential" where
  "confirmed_cred a version now c =
     (if cr_AllocationID c \<noteq> a then c
      else if cr_Version c < version \<and> cr_State c \<noteq> CredentialDestroyed then destroy_cred now c
      else if cr_Version c = version \<and> cr_State c = CredentialPending
      then c\<lparr>cr_State := CredentialActive, cr_ActivatedAt := Some (stored now)\<rparr> else c)"

definition confirmed_alloc :: "ID \<Rightarrow> Revision \<Rightarrow> int \<Rightarrow> bool \<Rightarrow> AccessAllocation \<Rightarrow> AccessAllocation \<Rightarrow> bool" where
  "confirmed_alloc a revision version present x y \<longleftrightarrow>
     (if al_ID x \<noteq> a then y = x
      else al_ID y = a \<and> al_SyncedRevision y = revision \<and> al_DesiredRevision y = al_DesiredRevision x \<and>
        al_ObservedPresent y = Some present \<and> al_SyncedCredentialVersion y = (if present then Some version else None))"

definition same_port :: "InboundRecord \<Rightarrow> InboundRecord \<Rightarrow> bool" where
  "same_port x y \<longleftrightarrow> di_AllocationID (ir_Inbound y) = di_AllocationID (ir_Inbound x) \<and>
     listen_key y = listen_key x \<and> di_InboundTag (ir_Inbound y) = di_InboundTag (ir_Inbound x)"

lemma confirm_present_tables:
  assumes "confirm_current i a revision version True now d = Inr ((), d1)"
  shows "db_creds d1 = map (confirmed_cred a version now) (db_creds d) \<and>
    list_all2 (confirmed_alloc a revision version True) (db_allocs d) (db_allocs d1) \<and>
    list_all2 (\<lambda>x y. same_port x y \<and> unreleased y = unreleased x) (db_inbounds d) (db_inbounds d1)"
  using assms
  by (auto simp: confirm_current_def activate_version_def confirmInboundPresence_def update_alloc_def update_creds_def
      update_ops_def tx_simps sql_update_def confirmed_cred_def destroy_cred_def confirmed_alloc_def same_port_def
      listen_key_def unreleased_def update_inbound_def list_all2_map2 list.rel_refl_strong list.rel_refl)

lemma confirm_absent_tables:
  assumes "confirm_current i a revision version False now d = Inr ((), d1)"
  shows "db_creds d1 = (if lifecycle_of a d = Some LifecycleDeleted
      then sql_update (\<lambda>c. cr_AllocationID c = a \<and> cr_State c \<noteq> CredentialDestroyed) (destroy_cred now) (db_creds d)
      else db_creds d) \<and>
    list_all2 (confirmed_alloc a revision version False) (db_allocs d) (db_allocs d1) \<and>
    list_all2 (\<lambda>x y. same_port x y \<and> unreleased y =
      (unreleased x \<and> \<not> (di_AllocationID (ir_Inbound x) = a \<and> lifecycle_of a d = Some LifecycleDeleted)))
      (db_inbounds d) (db_inbounds d1)"
proof (cases "lifecycle_of a d = Some LifecycleDeleted")
  case True
  with assms show ?thesis
    by (auto simp: confirm_current_def destroy_all_def releaseInboundPort_def confirmInboundPresence_def
      update_alloc_def update_creds_def update_ops_def tx_simps released_not_held unreleased_def update_inbound_def
      confirmed_alloc_def same_port_def listen_key_def holds_port_def sql_update_def list_all2_map2
      intro!: list.rel_refl)
next
  case False
  with assms show ?thesis
    by (auto simp: confirm_current_def confirmInboundPresence_def
      update_alloc_def update_creds_def update_ops_def tx_simps unreleased_def update_inbound_def
      confirmed_alloc_def same_port_def listen_key_def holds_port_def sql_update_def list_all2_map2
      intro!: list.rel_refl)
qed

lemma list_all2_pre: "list_all2 P xs ys \<Longrightarrow> y \<in> set ys \<Longrightarrow> \<exists>x \<in> set xs. P x y"
  by (induction rule: list_all2_induct) auto

lemma list_all2_post: "list_all2 P xs ys \<Longrightarrow> x \<in> set xs \<Longrightarrow> \<exists>y \<in> set ys. P x y"
  by (induction rule: list_all2_induct) auto

lemma held_ports_same:
  assumes "list_all2 (\<lambda>x y. same_port x y \<and> unreleased y = (unreleased x \<and> \<not> (di_AllocationID (ir_Inbound x) = a \<and> gone))) xs ys"
    and "b \<noteq> a \<or> \<not> gone"
  shows "listen_key ` {y \<in> set ys. holds_port b y} = listen_key ` {x \<in> set xs. holds_port b x}"
proof
  show "listen_key ` {y \<in> set ys. holds_port b y} \<subseteq> listen_key ` {x \<in> set xs. holds_port b x}"
  proof (rule image_subsetI)
    fix y assume "y \<in> {y \<in> set ys. holds_port b y}"
    then obtain x where "x \<in> set xs" "same_port x y" "holds_port b x"
      using list_all2_pre [OF assms(1), of y] by (auto simp: holds_port_def same_port_def)
    then show "listen_key y \<in> listen_key ` {x \<in> set xs. holds_port b x}" by (auto simp: same_port_def)
  qed
  show "listen_key ` {x \<in> set xs. holds_port b x} \<subseteq> listen_key ` {y \<in> set ys. holds_port b y}"
  proof (rule image_subsetI)
    fix x assume "x \<in> {x \<in> set xs. holds_port b x}"
    then obtain y where "y \<in> set ys" "same_port x y" "holds_port b y"
      using list_all2_post [OF assms(1), of x] assms(2) by (auto simp: holds_port_def same_port_def)
    then show "listen_key x \<in> listen_key ` {y \<in> set ys. holds_port b y}"
      by (metis (mono_tags, lifting) image_eqI mem_Collect_eq same_port_def)
  qed
qed

lemma released_port_free:
  assumes "list_all2 (\<lambda>x y. same_port x y \<and> unreleased y = (unreleased x \<and> \<not> (di_AllocationID (ir_Inbound x) = a \<and> True))) xs ys"
    and "uniq_where unreleased listen_key xs" "x \<in> set xs" "holds_port a x"
  shows "listen_key x \<notin> listen_key ` {y \<in> set ys. unreleased y}"
proof
  assume "listen_key x \<in> listen_key ` {y \<in> set ys. unreleased y}"
  then obtain y where y: "y \<in> set ys" "unreleased y" "listen_key y = listen_key x" by auto
  with list_all2_pre [OF assms(1)] obtain z where z: "z \<in> set xs" "same_port z y" "unreleased z"
    "di_AllocationID (ir_Inbound z) \<noteq> a" by blast
  then have "z = x" using y assms by (intro uniq_whereD [OF assms(2) z(1) assms(3)]) (auto simp: same_port_def holds_port_def)
  with z assms(4) show False by (simp add: holds_port_def)
qed

lemma confirmed_alloc_of:
  assumes "list_all2 (confirmed_alloc a revision version present) xs ys" "List.find (\<lambda>x. al_ID x = a) xs = Some x"
  shows "\<exists>y. List.find (\<lambda>x. al_ID x = a) ys = Some y \<and> confirmed_alloc a revision version present x y"
  using assms by (induction rule: list_all2_induct) (auto simp: confirmed_alloc_def split: if_splits)

lemma schema_cred_destroyed:
  "schema_ok d \<Longrightarrow> c \<in> set (db_creds d) \<Longrightarrow> cr_State c = CredentialDestroyed \<Longrightarrow> cr_KeyCiphertext c = [] \<and> cr_KeyNonce c = []"
  by (auto simp: schema_ok_def tables_cred_ok_def cred_row_ok_def list_all_iff)

text \<open>
  C22: a confirmation that a user is present at a credential version makes that version the one in
  use: it is active with its key, every older version of the allocation is destroyed and its key
  material erased, the credentials of other allocations are untouched, and the allocation records the
  confirmed revision, which is its desired one, and version.
\<close>
theorem confirm_present_rotates_keys:
  assumes "schema_ok d" "op_of d i = Some r" "ConfirmSync i owner revision version True now d = Inr (True, d1)"
  shows "(\<forall>c \<in> set (db_creds d1). cr_AllocationID c = op_AllocationID r \<longrightarrow> cr_Version c < version \<longrightarrow>
      cr_State c = CredentialDestroyed \<and> cr_KeyCiphertext c = [] \<and> cr_KeyNonce c = []) \<and>
    (\<forall>c \<in> set (db_creds d). cr_AllocationID c = op_AllocationID r \<longrightarrow> cr_Version c = version \<longrightarrow>
      cr_State c \<in> {CredentialPending, CredentialActive} \<longrightarrow>
      (\<exists>c1 \<in> set (db_creds d1). cr_ID c1 = cr_ID c \<and> cr_State c1 = CredentialActive \<and>
        cr_KeyCiphertext c1 = cr_KeyCiphertext c \<and> cr_KeyNonce c1 = cr_KeyNonce c)) \<and>
    (\<forall>c \<in> set (db_creds d). cr_AllocationID c \<noteq> op_AllocationID r \<longrightarrow> c \<in> set (db_creds d1)) \<and>
    (\<exists>x. alloc_of d1 (op_AllocationID r) = Some x \<and> al_DesiredRevision x = revision \<and> al_SyncedRevision x = revision \<and>
      al_SyncedCredentialVersion x = Some version \<and> al_ObservedPresent x = Some True)"
proof -
  let ?a = "op_AllocationID r"
  obtain a where a: "alloc_of d ?a = Some a" "al_DesiredRevision a = revision"
    and run: "confirm_current i ?a revision version True now d = Inr ((), d1)"
    using assms(2,3) by (auto elim!: ConfirmSync_confirmed)
  note t = confirm_present_tables [OF run]
  have old: "cr_State c1 = CredentialDestroyed \<and> cr_KeyCiphertext c1 = [] \<and> cr_KeyNonce c1 = []"
    if c1: "c1 \<in> set (db_creds d1)" "cr_AllocationID c1 = ?a" "cr_Version c1 < version" for c1
  proof -
    obtain c where c: "c \<in> set (db_creds d)" "c1 = confirmed_cred ?a version now c" using c1(1) t by auto
    then show ?thesis using c1(2,3) schema_cred_destroyed [OF assms(1) c(1)]
      by (auto simp: confirmed_cred_def destroy_cred_def split: if_splits)
  qed
  have current: "\<exists>c1 \<in> set (db_creds d1). cr_ID c1 = cr_ID c \<and> cr_State c1 = CredentialActive \<and>
      cr_KeyCiphertext c1 = cr_KeyCiphertext c \<and> cr_KeyNonce c1 = cr_KeyNonce c"
    if "c \<in> set (db_creds d)" "cr_AllocationID c = ?a" "cr_Version c = version"
      "cr_State c \<in> {CredentialPending, CredentialActive}" for c
    using t that by (intro bexI [of _ "confirmed_cred ?a version now c"]) (auto simp: confirmed_cred_def)
  have other: "c \<in> set (db_creds d1)" if "c \<in> set (db_creds d)" "cr_AllocationID c \<noteq> ?a" for c
    using t that by (auto simp: confirmed_cred_def intro!: image_eqI [of c _ c])
  obtain x where "alloc_of d1 ?a = Some x" "confirmed_alloc ?a revision version True a x"
    using confirmed_alloc_of [OF conjunct1 [OF conjunct2 [OF t]]] a(1) unfolding alloc_of_def by blast
  moreover have "al_ID a = ?a" using a(1) unfolding alloc_of_def by (auto dest: find_keyD)
  ultimately have "\<exists>x. alloc_of d1 ?a = Some x \<and> al_DesiredRevision x = revision \<and> al_SyncedRevision x = revision \<and>
      al_SyncedCredentialVersion x = Some version \<and> al_ObservedPresent x = Some True"
    using a(2) by (auto simp: confirmed_alloc_def)
  then show ?thesis using old current other by blast
qed

theorem confirm_present_rotates_keys_witness:
  "\<exists>d1. ConfirmSync ''O11'' ''w1'' 1 1 True 0 demo_leased = Inr (True, d1) \<and>
     (\<exists>x. alloc_of d1 ''A1'' = Some x \<and> al_SyncedCredentialVersion x = Some 1)"
proof -
  have ok: "schema_ok demo_leased" using demo_lease_facts unfolding leased_facts_def demo_leased_def by simp
  obtain r where r: "op_of demo_leased ''O11'' = Some r" "op_AllocationID r = ''A1''" using demo_leased_op by blast
  show ?thesis
    using confirm_present_rotates_keys [OF ok r(1) tx_value_run [OF demo_synced_run]] tx_value_run [OF demo_synced_run] r(2) by auto
qed

text \<open>
  C23: a confirmation of absence decides by the user's lifecycle. A deleted user's keys are all
  destroyed and erased and its port is released, so that its address and port are held by nobody; a
  user that is merely disabled keeps every credential and its port, ready to be enabled again. The
  ports of other allocations are untouched.
\<close>
theorem confirm_absent_releases_deleted:
  assumes "schema_ok d" "op_of d i = Some r" "ConfirmSync i owner revision version False now d = Inr (True, d1)"
  shows "(if lifecycle_of (op_AllocationID r) d = Some LifecycleDeleted
      then (\<forall>c \<in> set (db_creds d1). cr_AllocationID c = op_AllocationID r \<longrightarrow>
          cr_State c = CredentialDestroyed \<and> cr_KeyCiphertext c = [] \<and> cr_KeyNonce c = []) \<and>
        (\<forall>x \<in> set (db_inbounds d). holds_port (op_AllocationID r) x \<longrightarrow>
          listen_key x \<notin> listen_key ` {y \<in> set (db_inbounds d1). unreleased y})
      else db_creds d1 = db_creds d \<and>
        listen_key ` {y \<in> set (db_inbounds d1). holds_port (op_AllocationID r) y} =
        listen_key ` {y \<in> set (db_inbounds d). holds_port (op_AllocationID r) y}) \<and>
    (\<forall>b. b \<noteq> op_AllocationID r \<longrightarrow> listen_key ` {y \<in> set (db_inbounds d1). holds_port b y} =
      listen_key ` {y \<in> set (db_inbounds d). holds_port b y})"
proof -
  let ?a = "op_AllocationID r" and ?gone = "lifecycle_of (op_AllocationID r) d = Some LifecycleDeleted"
  have "confirm_current i ?a revision version False now d = Inr ((), d1)"
    using assms(2,3) by (auto elim!: ConfirmSync_confirmed)
  note t = confirm_absent_tables [OF this]
  then have ports: "list_all2 (\<lambda>x y. same_port x y \<and> unreleased y = (unreleased x \<and> \<not> (di_AllocationID (ir_Inbound x) = ?a \<and> ?gone)))
      (db_inbounds d) (db_inbounds d1)" by blast
  have uniq: "uniq_where unreleased listen_key (db_inbounds d)"
    using assms(1) by (simp add: schema_ok_def tables_inbound_ok_def)
  have keys: "cr_State c = CredentialDestroyed \<and> cr_KeyCiphertext c = [] \<and> cr_KeyNonce c = []"
    if gone: ?gone and c: "c \<in> set (db_creds d1)" "cr_AllocationID c = ?a" for c
  proof -
    obtain x where "x \<in> set (db_creds d)" "c = (if cr_AllocationID x = ?a \<and> cr_State x \<noteq> CredentialDestroyed then destroy_cred now x else x)"
      using t gone c(1) by (auto simp: in_sql_update)
    then show ?thesis using c(2) schema_cred_destroyed [OF assms(1)]
      by (auto simp: destroy_cred_def split: if_splits)
  qed
  show ?thesis
  proof (cases ?gone)
    case True
    then show ?thesis
      using keys held_ports_same [OF ports] released_port_free [of ?a "db_inbounds d" "db_inbounds d1", OF _ uniq] ports
      by simp
  next
    case False
    then show ?thesis using held_ports_same [OF ports] t by simp
  qed
qed

theorem confirm_absent_releases_deleted_witness:
  "\<exists>d1. ConfirmSync ''O12'' ''w1'' 2 0 False 0 demo_removing = Inr (True, d1) \<and>
     (\<forall>c \<in> set (db_creds d1). cr_AllocationID c = ''A1'' \<longrightarrow> cr_KeyCiphertext c = [])"
proof -
  have facts: "removing_facts demo_removing" by (rule demo_removing_facts)
  then have ok: "schema_ok demo_removing" and gone: "lifecycle_of ''A1'' demo_removing = Some LifecycleDeleted"
    and run: "tx_value (ConfirmSync ''O12'' ''w1'' 2 0 False 0) demo_removing = Some True"
    and op: "map_option op_AllocationID (op_of demo_removing ''O12'') = Some ''A1''"
    unfolding removing_facts_def by blast+
  obtain r where r: "op_of demo_removing ''O12'' = Some r" "op_AllocationID r = ''A1''" using op by auto
  show ?thesis
    using confirm_absent_releases_deleted [OF ok r(1) tx_value_run [OF run]] tx_value_run [OF run] gone r(2) by auto
qed

text \<open>
  C24: a confirmation for a revision that is no longer the allocation's desired one confirms nothing:
  it returns false, no credential, allocation or port changes, and the operation itself, when the
  worker still holds it, is closed as superseded.
\<close>
theorem outdated_confirmation_is_superseded:
  assumes "op_of d i = Some r" "alloc_of d (op_AllocationID r) = Some a" "al_DesiredRevision a \<noteq> revision"
    and "ConfirmSync i owner revision version present now d = Inr (confirmed, d1)"
  shows "\<not> confirmed \<and> db_creds d1 = db_creds d \<and> db_allocs d1 = db_allocs d \<and> db_inbounds d1 = db_inbounds d \<and>
    (if held_by owner r then map_option op_State (op_of d1 i) = Some SyncSuperseded else d1 = d)"
proof -
  have run: "(if \<not> held_by owner r then tx_ret False
      else tx_seq (sql_exec (update_ops (\<lambda>x. op_ID x = i) (supersede_op now))) (tx_ret False)) d = Inr (confirmed, d1)"
    using assms by (auto simp: ConfirmSync_def tx_bind_scan op_with_alloc_Some)
  show ?thesis
  proof (cases "held_by owner r")
    case True
    with run have d1: "d1 = update_ops (\<lambda>x. op_ID x = i) (supersede_op now) d" "\<not> confirmed" by (auto simp: tx_simps)
    have "op_of d1 i = Some (supersede_op now r)"
      using assms(1) unfolding d1(1) by (subst op_of_finish) (auto simp: supersede_op_def)
    with True d1 show ?thesis by (simp add: update_ops_def supersede_op_def)
  next
    case False
    with run show ?thesis by (simp add: tx_simps)
  qed
qed

theorem outdated_confirmation_is_superseded_witness:
  "\<exists>d1. ConfirmSync ''O11'' ''w1'' 2 1 True 0 demo_leased = Inr (False, d1) \<and> db_creds d1 = db_creds demo_leased"
proof -
  obtain r where r: "op_of demo_leased ''O11'' = Some r" "op_AllocationID r = ''A1''" using demo_leased_op by blast
  obtain a where a: "alloc_of demo_leased (op_AllocationID r) = Some a" "al_DesiredRevision a \<noteq> 2"
    using demo_leased_alloc r(2) by auto
  note run = tx_value_run [OF demo_outdated_run]
  from outdated_confirmation_is_superseded [OF r(1) a run] run show ?thesis by blast
qed

end
