(* ===== verification/Store_Commands.thy ===== *)
theory Store_Commands
  imports Store_Invariants Store_Promises
begin

text \<open>
  What the store promises to the services about repeated requests: a command that was carried out is
  on record for good, repeating it replays the record without a write, and its identifier is never
  accepted for another request. The facts come from the interpretations of \<open>idempotent_command\<close>.
\<close>

section \<open>A history with a second worker step\<close>

definition demo_later :: db where
  "demo_later = tx_state (lease_due ''w1'' 0 (60 * Second)) demo_one"

definition demo_other :: "UserCreateRecord" where
  "demo_other = (demo_create ''2'' 2001)\<lparr>uc_Command := (demo_command ''K1'' ''U2'')\<lparr>dc_RequestFingerprint := [8]\<rparr>\<rparr>"

lemma demo_later_run: "tx_ok (lease_due ''w1'' 0 (60 * Second)) demo_one"
  by code_simp

lemma demo_later_steps: "store_step\<^sup>*\<^sup>* demo_one demo_later"
  using tx_ok_run [OF demo_later_run] unfolding demo_later_def by (auto intro: store_step.lease)

lemma demo_create_run: "\<exists>ib. CreateUser (demo_create ''1'' 2000) demo_setup = Inr (ib, demo_one)"
  using tx_ok_run [OF demo_one_run] unfolding demo_one_def by auto

lemma demo_setup_ok: "schema_ok demo_setup"
  using reachable_refines [OF demo_setup_reachable] by blast

section \<open>Properties\<close>





end
