(* ===== verification/Ledger.thy ===== *)
theory Ledger
  imports Store_Invariants Store_Promises
begin

text \<open>
  The traffic ledger of the store: for every allocation the lifetime total, the sum of its days and
  the gross sum of its quota cycles are the same number of bytes, in every reachable database.
\<close>

section \<open>The books\<close>

definition bytes_of :: "('r \<Rightarrow> ID) \<Rightarrow> ('r \<Rightarrow> int) \<Rightarrow> ID \<Rightarrow> 'r list \<Rightarrow> int" where
  "bytes_of k v a rows = sum_list (map v (filter (\<lambda>r. k r = a) rows))"

definition balanced :: "db \<Rightarrow> bool" where
  "balanced d \<longleftrightarrow> (\<forall>a.
     bytes_of tt_AllocationID tt_UplinkBytes a (db_totals d) = bytes_of dy_AllocationID dy_UplinkBytes a (db_daily d) \<and>
     bytes_of tt_AllocationID tt_DownlinkBytes a (db_totals d) = bytes_of dy_AllocationID dy_DownlinkBytes a (db_daily d) \<and>
     bytes_of tt_AllocationID tt_UplinkBytes a (db_totals d) = bytes_of qc_AllocationID qc_GrossUplinkBytes a (db_cycles d) \<and>
     bytes_of tt_AllocationID tt_DownlinkBytes a (db_totals d) = bytes_of qc_AllocationID qc_GrossDownlinkBytes a (db_cycles d))"

text \<open>Every allocation has its account: a row of totals and an open cycle.\<close>

definition accounts :: "db \<Rightarrow> bool" where
  "accounts d \<longleftrightarrow> (\<forall>a \<in> alloc_ids d. a \<in> tt_AllocationID ` set (db_totals d) \<and> open_cycle a d \<noteq> None)"

definition books :: "db \<Rightarrow> bool" where
  "books d \<longleftrightarrow> accounts d \<and> balanced d"

lemma bytes_of_Nil [simp]: "bytes_of k v a [] = 0"
  by (simp add: bytes_of_def)

lemma bytes_of_Cons [simp]: "bytes_of k v a (r # rs) = (if k r = a then v r else 0) + bytes_of k v a rs"
  by (simp add: bytes_of_def)

lemma bytes_of_append [simp]: "bytes_of k v a (rs @ qs) = bytes_of k v a rs + bytes_of k v a qs"
  by (simp add: bytes_of_def)

lemma bytes_of_update_same:
  "(\<And>r. p r \<Longrightarrow> k (f r) = k r \<and> v (f r) = v r) \<Longrightarrow> bytes_of k v a (sql_update p f rows) = bytes_of k v a rows"
  by (induction rows) auto

lemma bytes_of_absent: "a \<notin> k ` set rows \<Longrightarrow> bytes_of k v a rows = 0"
  by (induction rows) auto

lemma bytes_of_single:
  assumes "distinct rows" "r \<in> set rows" "k r = a" "\<And>x. x \<in> set rows \<Longrightarrow> k x = a \<Longrightarrow> x = r"
  shows "bytes_of k v a rows = v r"
  using assms(1,2,4)
proof (induction rows)
  case (Cons x rows)
  show ?case
  proof (cases "x = r")
    case True
    have "k y \<noteq> a" if "y \<in> set rows" for y
      using Cons.prems(1) Cons.prems(3) [of y] that True by auto
    then have "bytes_of k v a rows = 0" by (intro bytes_of_absent) blast
    with True assms(3) show ?thesis by simp
  next
    case False
    then have "r \<in> set rows" using Cons.prems(2) by simp
    moreover have "k x \<noteq> a" using Cons.prems(3) [of x] False by auto
    moreover have "bytes_of k v a rows = v r"
      using Cons.prems(1,3) \<open>r \<in> set rows\<close> by (intro Cons.IH) simp_all
    ultimately show ?thesis by simp
  qed
qed simp

text \<open>An update of one row adds its delta to the account of the row.\<close>

lemma bytes_of_update_one:
  assumes "distinct rows" "r \<in> set rows" "p r" "\<And>x. x \<in> set rows \<Longrightarrow> p x \<Longrightarrow> x = r"
    and "k (f r) = k r" "v (f r) = v r + n"
  shows "bytes_of k v a (sql_update p f rows) = bytes_of k v a rows + (if k r = a then n else 0)"
  using assms(1,2,4)
proof (induction rows)
  case (Cons x rows)
  show ?case
  proof (cases "x = r")
    case True
    with Cons.prems(1) have "r \<notin> set rows" by simp
    then have "\<forall>y \<in> set rows. \<not> p y" using Cons.prems(3) by auto
    then have "sql_update p f rows = rows" by (rule sql_update_none)
    with True assms(3,5,6) show ?thesis by simp
  next
    case False
    then have r: "r \<in> set rows" using Cons.prems(2) by simp
    have "\<not> p x" using Cons.prems(3) [of x] False by auto
    moreover have "bytes_of k v a (sql_update p f rows) = bytes_of k v a rows + (if k r = a then n else 0)"
      using Cons.prems(1,3) r by (intro Cons.IH) simp_all
    ultimately show ?thesis by simp
  qed
qed simp

lemma find_update_other:
  "(\<And>r. r \<in> set rows \<Longrightarrow> p r \<Longrightarrow> \<not> q r \<and> \<not> q (f r)) \<Longrightarrow> List.find q (sql_update p f rows) = List.find q rows"
  by (induction rows) simp_all

lemma open_cycleD: "open_cycle a d = Some c \<Longrightarrow> c \<in> set (db_cycles d) \<and> qc_AllocationID c = a \<and> qc_Open c"
  by (auto simp: open_cycle_def find_Some_iff)

lemma open_cycle_update:
  assumes "\<And>c. p c \<Longrightarrow> qc_AllocationID (f c) = qc_AllocationID c \<and> qc_Open (f c) = qc_Open c"
  shows "open_cycle a (db_cycles_update (sql_update p f) s) = map_option (\<lambda>c. if p c then f c else c) (open_cycle a s)"
  by (simp add: open_cycle_def find_sql_update assms)

lemma alloc_ids_update:
  "(\<And>x. al_ID (f x) = al_ID x) \<Longrightarrow> alloc_ids (db_allocs_update (sql_update p f) s) = alloc_ids s"
  by (simp add: alloc_ids_def map_sql_update flip: set_map)

section \<open>Every write keeps the books\<close>

lemma books_cong:
  assumes "alloc_ids t = alloc_ids s" "db_totals t = db_totals s" "db_daily t = db_daily s"
    and "\<And>a. (open_cycle a t = None) = (open_cycle a s = None)"
    and "\<And>a. bytes_of qc_AllocationID qc_GrossUplinkBytes a (db_cycles t) = bytes_of qc_AllocationID qc_GrossUplinkBytes a (db_cycles s)"
    and "\<And>a. bytes_of qc_AllocationID qc_GrossDownlinkBytes a (db_cycles t) = bytes_of qc_AllocationID qc_GrossDownlinkBytes a (db_cycles s)"
  shows "books t = books s"
  unfolding books_def accounts_def balanced_def assms ..

lemma books_frames [simp]:
  "books (db_settings_update f1 s) = books s" "books (db_instance_update f2 s) = books s"
  "books (db_admins_update f3 s) = books s" "books (db_sessions_update f4 s) = books s"
  "books (db_templates_update f5 s) = books s" "books (db_users_update f7 s) = books s"
  "books (db_inbounds_update f8 s) = books s" "books (db_creds_update f9 s) = books s"
  "books (db_policies_update f10 s) = books s" "books (db_cursors_update f13 s) = books s"
  "books (db_events_update f15 s) = books s" "books (db_ops_update f16 s) = books s"
  "books (db_resets_update f17 s) = books s" "books (db_audits_update f18 s) = books s"
  "books (db_drifts_update f19 s) = books s" "books (insert_command c s) = books s"
  "books (db_identities_update f20 s) = books s"
  by (rule books_cong; simp add: alloc_ids_def open_cycle_def insert_command_def)+

lemma books_alloc: "(\<And>x. al_ID (f x) = al_ID x) \<Longrightarrow> books s \<Longrightarrow> books (db_allocs_update (sql_update p f) s)"
  by (subst books_cong [where s = s]) (simp_all add: alloc_ids_update open_cycle_def)

lemma books_cycles:
  assumes "\<And>c. p c \<Longrightarrow> qc_AllocationID (f c) = qc_AllocationID c \<and> qc_Open (f c) = qc_Open c \<and>
      qc_GrossUplinkBytes (f c) = qc_GrossUplinkBytes c \<and> qc_GrossDownlinkBytes (f c) = qc_GrossDownlinkBytes c"
    and "books s"
  shows "books (db_cycles_update (sql_update p f) s)"
  using assms by (subst books_cong [where s = s]) (simp_all add: alloc_ids_def open_cycle_update bytes_of_update_same)

lemma books_roll:
  assumes "schema_ok s" "books s" "open_cycle a s = Some old"
    and "roll_cycle old (new_cycle i a start stop tz day now) now s = Inr ((), t)"
  shows "books t"
proof -
  let ?n = "new_cycle i a start stop tz day now"
  let ?p = "\<lambda>c. qc_ID c = qc_ID old \<and> qc_Open c" and ?f = "\<lambda>c. c\<lparr>qc_Open := False, qc_ClosedAt := Some (stored now)\<rparr>"
  have n: "qc_Open ?n" "qc_AllocationID ?n = a" "qc_GrossUplinkBytes ?n = 0" "qc_GrossDownlinkBytes ?n = 0"
    by (simp_all add: new_cycle_def)
  have t: "t = db_cycles_update (\<lambda>rows. sql_update ?p ?f rows @ [?n]) s"
    using assms(4) by (auto simp: roll_cycle_def tx_simps o_def)
  have old: "old \<in> set (db_cycles s)" "qc_AllocationID old = a"
    using assms(3) by (auto simp: open_cycle_def find_Some_iff)
  have "open_cycle b t = open_cycle b s" if "b \<noteq> a" for b
  proof -
    have "qc_AllocationID c \<noteq> b" if "c \<in> set (db_cycles s)" "?p c" for c
      using distinct_map_eqD [of qc_ID "db_cycles s" c old] that old \<open>b \<noteq> a\<close> assms(1)
      by (auto simp: schema_ok_def tables_quota_ok_def)
    then have "List.find (\<lambda>c. qc_AllocationID c = b \<and> qc_Open c) (sql_update ?p ?f (db_cycles s)) =
        List.find (\<lambda>c. qc_AllocationID c = b \<and> qc_Open c) (db_cycles s)"
      by (intro find_update_other) auto
    then show ?thesis using that n by (simp add: open_cycle_def t find_append split: option.splits)
  qed
  moreover have "open_cycle a t = Some ?n" using roll_cycle_open [OF assms(4) n(1)] n(2) by simp
  ultimately have "(open_cycle b t = None) = (open_cycle b s = None)" for b
    using assms(3) by (cases "b = a") simp_all
  then have "books t = books s"
    by (intro books_cong) (simp_all add: t new_cycle_def alloc_ids_def bytes_of_update_same)
  with assms(2) show ?thesis by simp
qed

lemma totals_row:
  assumes "schema_ok s" "a \<in> tt_AllocationID ` set (db_totals s)"
  shows "\<exists>r \<in> set (db_totals s). tt_AllocationID r = a \<and> (\<forall>x \<in> set (db_totals s). tt_AllocationID x = a \<longrightarrow> x = r)"
proof -
  obtain r where r: "r \<in> set (db_totals s)" "tt_AllocationID r = a" using assms(2) by blast
  have d: "distinct (map tt_AllocationID (db_totals s))" using assms(1) by (simp add: schema_ok_def tables_traffic_ok_def)
  have "x = r" if "x \<in> set (db_totals s)" "tt_AllocationID x = a" for x
    using distinct_map_eqD [OF d that(1) r(1)] that(2) r(2) by simp
  with r show ?thesis by blast
qed

lemma add_totals_bytes:
  assumes "schema_ok s" "a \<in> tt_AllocationID ` set (db_totals s)"
  shows "bytes_of tt_AllocationID tt_UplinkBytes b (db_totals (add_totals a up down s)) =
      bytes_of tt_AllocationID tt_UplinkBytes b (db_totals s) + (if a = b then up else 0)"
    "bytes_of tt_AllocationID tt_DownlinkBytes b (db_totals (add_totals a up down s)) =
      bytes_of tt_AllocationID tt_DownlinkBytes b (db_totals s) + (if a = b then down else 0)"
proof -
  obtain r where r: "r \<in> set (db_totals s)" "tt_AllocationID r = a"
    "\<And>x. x \<in> set (db_totals s) \<Longrightarrow> tt_AllocationID x = a \<Longrightarrow> x = r"
    using totals_row [OF assms] by metis
  have d: "distinct (db_totals s)" using assms(1) by (auto simp: schema_ok_def tables_traffic_ok_def distinct_map)
  show "bytes_of tt_AllocationID tt_UplinkBytes b (db_totals (add_totals a up down s)) =
      bytes_of tt_AllocationID tt_UplinkBytes b (db_totals s) + (if a = b then up else 0)"
    using r(2) by (simp add: add_totals_def bytes_of_update_one [OF d r(1), where n = up] r(3))
  show "bytes_of tt_AllocationID tt_DownlinkBytes b (db_totals (add_totals a up down s)) =
      bytes_of tt_AllocationID tt_DownlinkBytes b (db_totals s) + (if a = b then down else 0)"
    using r(2) by (simp add: add_totals_def bytes_of_update_one [OF d r(1), where n = down] r(3))
qed

lemma add_cycle_bytes:
  assumes "schema_ok s" "open_cycle a s \<noteq> None"
  shows "bytes_of qc_AllocationID qc_GrossUplinkBytes b (db_cycles (add_cycle a up down s)) =
      bytes_of qc_AllocationID qc_GrossUplinkBytes b (db_cycles s) + (if a = b then up else 0)"
    "bytes_of qc_AllocationID qc_GrossDownlinkBytes b (db_cycles (add_cycle a up down s)) =
      bytes_of qc_AllocationID qc_GrossDownlinkBytes b (db_cycles s) + (if a = b then down else 0)"
    "(open_cycle b (add_cycle a up down s) = None) = (open_cycle b s = None)"
proof -
  obtain r where r: "r \<in> set (db_cycles s)" "qc_AllocationID r = a \<and> qc_Open r"
    using assms(2) open_cycleD by (cases "open_cycle a s") blast+
  have uniq: "x = r" if "x \<in> set (db_cycles s)" "qc_AllocationID x = a \<and> qc_Open x" for x
    using uniq_whereD [of qc_Open qc_AllocationID "db_cycles s" x r] that r assms(1)
    by (simp add: schema_ok_def tables_quota_ok_def)
  have d: "distinct (db_cycles s)" using assms(1) by (auto simp: schema_ok_def tables_quota_ok_def distinct_map)
  show "bytes_of qc_AllocationID qc_GrossUplinkBytes b (db_cycles (add_cycle a up down s)) =
      bytes_of qc_AllocationID qc_GrossUplinkBytes b (db_cycles s) + (if a = b then up else 0)"
    using r(2) uniq by (simp add: add_cycle_def bytes_of_update_one [OF d r(1), where n = up])
  show "bytes_of qc_AllocationID qc_GrossDownlinkBytes b (db_cycles (add_cycle a up down s)) =
      bytes_of qc_AllocationID qc_GrossDownlinkBytes b (db_cycles s) + (if a = b then down else 0)"
    using r(2) uniq by (simp add: add_cycle_def bytes_of_update_one [OF d r(1), where n = down])
  show "(open_cycle b (add_cycle a up down s) = None) = (open_cycle b s = None)"
    by (simp add: add_cycle_def open_cycle_update)
qed

lemma add_daily_bytes:
  assumes "distinct (map (\<lambda>r. (dy_AllocationID r, dy_DayStartUTC r)) rows)"
  shows "bytes_of dy_AllocationID dy_UplinkBytes b (add_daily n rows) =
      bytes_of dy_AllocationID dy_UplinkBytes b rows + (if dy_AllocationID n = b then dy_UplinkBytes n else 0)"
    "bytes_of dy_AllocationID dy_DownlinkBytes b (add_daily n rows) =
      bytes_of dy_AllocationID dy_DownlinkBytes b rows + (if dy_AllocationID n = b then dy_DownlinkBytes n else 0)"
proof -
  let ?same = "\<lambda>r. dy_AllocationID r = dy_AllocationID n \<and> dy_DayStartUTC r = dy_DayStartUTC n"
  have d: "distinct rows" using assms by (simp add: distinct_map)
  have *: "bytes_of dy_AllocationID dy_UplinkBytes b (add_daily n rows) =
      bytes_of dy_AllocationID dy_UplinkBytes b rows + (if dy_AllocationID n = b then dy_UplinkBytes n else 0) \<and>
    bytes_of dy_AllocationID dy_DownlinkBytes b (add_daily n rows) =
      bytes_of dy_AllocationID dy_DownlinkBytes b rows + (if dy_AllocationID n = b then dy_DownlinkBytes n else 0)"
  proof (cases "list_ex ?same rows")
    case True
    then obtain r where r: "r \<in> set rows" "?same r" by (auto simp: list_ex_iff)
    have uniq: "x = r" if "x \<in> set rows" "?same x" for x
      using distinct_map_eqD [OF assms that(1) r(1)] that(2) r(2) by simp
    have "add_daily n rows = sql_update ?same (\<lambda>r. r\<lparr>dy_UplinkBytes := dy_UplinkBytes r + dy_UplinkBytes n,
             dy_DownlinkBytes := dy_DownlinkBytes r + dy_DownlinkBytes n\<rparr>) rows"
      using True by (simp add: add_daily_def)
    then show ?thesis
      using r(2) uniq by (simp add: bytes_of_update_one [OF d r(1), where n = "dy_UplinkBytes n"]
          bytes_of_update_one [OF d r(1), where n = "dy_DownlinkBytes n"])
  next
    case False
    then have "add_daily n rows = rows @ [n]" by (simp only: add_daily_def Let_def if_False)
    then show ?thesis by simp
  qed
  show "bytes_of dy_AllocationID dy_UplinkBytes b (add_daily n rows) =
      bytes_of dy_AllocationID dy_UplinkBytes b rows + (if dy_AllocationID n = b then dy_UplinkBytes n else 0)"
    using * by blast
  show "bytes_of dy_AllocationID dy_DownlinkBytes b (add_daily n rows) =
      bytes_of dy_AllocationID dy_DownlinkBytes b rows + (if dy_AllocationID n = b then dy_DownlinkBytes n else 0)"
    using * by blast
qed

lemma add_daily_mem: "\<exists>r \<in> set (add_daily n rows). dy_AllocationID r = dy_AllocationID n"
proof (cases "list_ex (\<lambda>r. dy_AllocationID r = dy_AllocationID n \<and> dy_DayStartUTC r = dy_DayStartUTC n) rows")
  case True
  let ?p = "\<lambda>r. dy_AllocationID r = dy_AllocationID n \<and> dy_DayStartUTC r = dy_DayStartUTC n"
  let ?f = "\<lambda>r. r\<lparr>dy_UplinkBytes := dy_UplinkBytes r + dy_UplinkBytes n,
             dy_DownlinkBytes := dy_DownlinkBytes r + dy_DownlinkBytes n\<rparr>"
  have eq: "add_daily n rows = sql_update ?p ?f rows" using True by (simp add: add_daily_def)
  have "dy_AllocationID n \<in> set (map dy_AllocationID rows)" using True by (auto simp: list_ex_iff intro: rev_image_eqI)
  also have "map dy_AllocationID rows = map dy_AllocationID (add_daily n rows)"
    unfolding eq by (rule map_sql_update [symmetric]) simp
  finally show ?thesis by (auto simp: image_iff)
next
  case False
  then have "add_daily n rows = rows @ [n]" by (simp only: add_daily_def Let_def if_False)
  then show ?thesis by simp
qed

lemma balancedD:
  assumes "balanced d"
  shows "bytes_of tt_AllocationID tt_UplinkBytes a (db_totals d) = bytes_of dy_AllocationID dy_UplinkBytes a (db_daily d)"
    "bytes_of tt_AllocationID tt_DownlinkBytes a (db_totals d) = bytes_of dy_AllocationID dy_DownlinkBytes a (db_daily d)"
    "bytes_of tt_AllocationID tt_UplinkBytes a (db_totals d) = bytes_of qc_AllocationID qc_GrossUplinkBytes a (db_cycles d)"
    "bytes_of tt_AllocationID tt_DownlinkBytes a (db_totals d) = bytes_of qc_AllocationID qc_GrossDownlinkBytes a (db_cycles d)"
  using assms unfolding balanced_def by blast+

lemma books_deltas:
  assumes "schema_ok s" "books s" "write_deltas u s = Inr ((), t)"
  shows "books t"
proof (cases "tu_UplinkDelta u = 0 \<and> tu_DownlinkDelta u = 0")
  case True
  with assms show ?thesis by (simp add: write_deltas_def tx_simps)
next
  case False
  let ?a = "tu_AllocationID u" and ?up = "tu_UplinkDelta u" and ?down = "tu_DownlinkDelta u"
  let ?n = "\<lparr>dy_AllocationID = ?a, dy_DayStartUTC = stored (tu_DayStartUTC u),
         dy_LocalDate = tu_LocalDate u, dy_Timezone = tu_Timezone u, dy_UplinkBytes = ?up, dy_DownlinkBytes = ?down\<rparr>"
  define s1 where "s1 = add_totals ?a ?up ?down s"
  define s2 where "s2 = db_daily_update (add_daily ?n) s1"
  have s2: "schema_ok s2" and t: "t = add_cycle ?a ?up ?down s2"
    using assms(3) False by (auto simp: write_deltas_def Let_def tx_simps s1_def s2_def)
  have "\<exists>r \<in> set (db_daily s2). dy_AllocationID r = ?a"
    using add_daily_mem [of ?n "db_daily s1"] by (simp add: s2_def)
  then have "?a \<in> alloc_ids s2" using s2 by (auto simp: schema_ok_def tables_traffic_ok_def list_all_iff)
  then have a: "?a \<in> alloc_ids s" by (simp add: s2_def s1_def add_totals_def alloc_ids_def)
  have acc: "?a \<in> tt_AllocationID ` set (db_totals s)" "open_cycle ?a s \<noteq> None"
    using assms(2) a by (auto simp: books_def accounts_def)
  then have open2: "open_cycle ?a s2 \<noteq> None" by (simp add: s2_def s1_def add_totals_def open_cycle_def)
  have days: "distinct (map (\<lambda>r. (dy_AllocationID r, dy_DayStartUTC r)) (db_daily s))"
    using assms(1) by (simp add: schema_ok_def tables_traffic_ok_def)
  have tables: "db_totals t = db_totals (add_totals ?a ?up ?down s)" "db_daily t = add_daily ?n (db_daily s)"
    "db_cycles s2 = db_cycles s" "alloc_ids t = alloc_ids s"
    by (simp_all add: t s2_def s1_def add_cycle_def add_totals_def alloc_ids_def)
  have cycles: "db_cycles t = db_cycles (add_cycle ?a ?up ?down s2)" by (simp only: t)
  have bal: "balanced s" using assms(2) by (simp add: books_def)
  have "balanced t"
    unfolding balanced_def tables(1,2) cycles add_totals_bytes [OF assms(1) acc(1)]
      add_cycle_bytes [OF s2 open2] add_daily_bytes [OF days] tables(3)
    using balancedD [OF bal] by (intro allI conjI) simp_all
  moreover have "tt_AllocationID ` set (db_totals t) = tt_AllocationID ` set (db_totals s)"
    unfolding tables add_totals_def by (simp add: map_sql_update flip: set_map)
  moreover have "(open_cycle b t = None) = (open_cycle b s = None)" for b
  proof -
    have "(open_cycle b t = None) = (open_cycle b s2 = None)" unfolding t by (rule add_cycle_bytes(3) [OF s2 open2])
    then show ?thesis by (simp add: s2_def s1_def add_totals_def open_cycle_def)
  qed
  ultimately show ?thesis using assms(2) by (simp add: books_def accounts_def tables(4))
qed

lemma books_create:
  assumes "schema_ok s" "books s" "new_user_ok r" "insert_user_rows r s = Inr ((), t)"
  shows "books t"
proof -
  let ?i = "al_ID (uc_Allocation r)" and ?c = "cycle_row (uc_Cycle r)"
  have t: "alloc_ids t = insert ?i (alloc_ids s)" "db_cycles t = db_cycles s @ [?c]" "db_daily t = db_daily s"
    "db_totals t = db_totals s @ [\<lparr>tt_AllocationID = ?i, tt_UplinkBytes = 0, tt_DownlinkBytes = 0\<rparr>]"
    using assms(4) by (auto simp: insert_user_rows_def insertDedicatedInbound_def tx_simps alloc_ids_def alloc_row_def)
  have c: "qc_AllocationID ?c = ?i" "qc_Open ?c" "qc_GrossUplinkBytes ?c = 0" "qc_GrossDownlinkBytes ?c = 0"
    using assms(3) by (simp_all add: new_user_ok_def cycle_row_def)
  have cycles: "open_cycle b t = (case open_cycle b s of None \<Rightarrow> if b = ?i then Some ?c else None | Some x \<Rightarrow> Some x)" for b
    unfolding open_cycle_def t(2) find_append using c(1,2) by (simp split: option.split)
  have "open_cycle ?i t \<noteq> None" unfolding cycles by (simp split: option.split)
  moreover have "open_cycle b t \<noteq> None" if "open_cycle b s \<noteq> None" for b
    using that unfolding cycles by auto
  ultimately have "accounts t" using assms(2) unfolding books_def accounts_def t(1,4) by auto
  moreover have bal: "balanced s" using assms(2) by (simp add: books_def)
  have "balanced t" unfolding balanced_def t(2-4) bytes_of_append
    using balancedD [OF bal] c(3,4) by (intro allI conjI) simp_all
  ultimately show ?thesis by (simp add: books_def)
qed

interpretation ledger: table_invariant books
proof
  fix s t :: db and i a old start stop tz day now
  assume "schema_ok s" "books s" "open_cycle a s = Some old"
    "roll_cycle old (new_cycle i a start stop tz day now) now s = Inr ((), t)"
  then show "books t" by (rule books_roll)
next
  fix s :: db and i
  assume "books s"
  then show "books (db_cycles_update (sql_update (\<lambda>x. qc_ID x = i)
        (\<lambda>x. x\<lparr>qc_AccountedUplinkBytes := 0, qc_AccountedDownlinkBytes := 0,
              qc_ManualResetCount := qc_ManualResetCount x + 1\<rparr>)) s)"
    by (rule books_cycles [rotated]) simp
qed (auto intro: books_alloc books_deltas books_create)

section \<open>Properties\<close>

text \<open>
  C5: in every database the program can reach the traffic books balance: for each allocation the
  lifetime total, the sum over its days and the gross sum over its quota cycles agree in both
  directions, and each allocation has its totals row and an open cycle. Rollovers and manual resets
  move no bytes.
\<close>
theorem traffic_books_balance:
  assumes "reachable d" "a \<in> set (db_allocs d)"
  shows "(\<exists>t \<in> set (db_totals d). tt_AllocationID t = al_ID a \<and>
      tt_UplinkBytes t = bytes_of dy_AllocationID dy_UplinkBytes (al_ID a) (db_daily d) \<and>
      tt_DownlinkBytes t = bytes_of dy_AllocationID dy_DownlinkBytes (al_ID a) (db_daily d) \<and>
      tt_UplinkBytes t = bytes_of qc_AllocationID qc_GrossUplinkBytes (al_ID a) (db_cycles d) \<and>
      tt_DownlinkBytes t = bytes_of qc_AllocationID qc_GrossDownlinkBytes (al_ID a) (db_cycles d)) \<and>
    (\<exists>c. open_cycle (al_ID a) d = Some c)"
proof -
  have "books empty_db" by (simp add: books_def accounts_def balanced_def empty_db_def alloc_ids_def)
  then have b: "books d" by (rule ledger.reachable_keeps [OF assms(1)])
  have ok: "schema_ok d" using reachable_refines [OF assms(1)] by blast
  have "al_ID a \<in> alloc_ids d" using assms(2) by (simp add: alloc_ids_def)
  then have acc: "al_ID a \<in> tt_AllocationID ` set (db_totals d)" "open_cycle (al_ID a) d \<noteq> None"
    using b by (auto simp: books_def accounts_def)
  obtain t where t: "t \<in> set (db_totals d)" "tt_AllocationID t = al_ID a"
    "\<And>x. x \<in> set (db_totals d) \<Longrightarrow> tt_AllocationID x = al_ID a \<Longrightarrow> x = t"
    using totals_row [OF ok acc(1)] by metis
  have "distinct (db_totals d)" using ok by (auto simp: schema_ok_def tables_traffic_ok_def distinct_map)
  then have "bytes_of tt_AllocationID v (al_ID a) (db_totals d) = v t" for v
    using bytes_of_single t by metis
  then show ?thesis using balancedD [of d "al_ID a"] b t(1,2) acc(2) unfolding books_def
    by (intro conjI bexI [of _ t]) auto
qed

lemma traffic_books_balance_witness:
  "\<exists>a \<in> set (db_allocs demo_one). (\<exists>t \<in> set (db_totals demo_one). tt_AllocationID t = al_ID a \<and>
      tt_UplinkBytes t = bytes_of dy_AllocationID dy_UplinkBytes (al_ID a) (db_daily demo_one))"
  using traffic_books_balance [OF demo_one_reachable, of "hd (db_allocs demo_one)"] demo_one_facts
  by (cases "db_allocs demo_one") (auto simp: demo_facts_def)

end
