(* ===== verification/World.thy ===== *)
theory World
  imports Store_Steps
begin

text \<open>
  The world in which the services and the workers of the panel run, and the actions they take on it.
  A world holds the database, the node and the panel's own volatile state; the surroundings of an
  action are the clock, new identifiers and the other goroutines, which may change the database
  before each of its accesses to the store (\<open>en_interferes\<close>). All three are functions of the number
  of calls made so far. The last sections say when an action keeps to the steps of the store.
\<close>

section \<open>Worlds and actions\<close>

text \<open>
  \<open>wd_failures\<close> counts consecutive failures of the synchronizer, \<open>wd_degraded\<close> is the flag of the
  reconciler, \<open>wd_wakes\<close> counts the notifications of the synchronizer, and \<open>wd_revalidate\<close> lists the
  templates handed to the validator.
\<close>

record 'n world =
  wd_db :: db
  wd_node :: 'n
  wd_tick :: nat
  wd_failures :: int
  wd_degraded :: bool
  wd_wakes :: nat
  wd_revalidate :: "ID list"

record surroundings =
  en_now :: "nat \<Rightarrow> instant"
  en_newID :: "nat \<Rightarrow> ID"
  en_interferes :: "nat \<Rightarrow> db \<Rightarrow> db"

text \<open>An action returns a value and the next world; errors are values, as in Go.\<close>

type_synonym ('n, 'a) act = "'n world \<Rightarrow> 'a \<times> 'n world"

definition act_ret :: "'a \<Rightarrow> ('n, 'a) act" where
  "act_ret x = (\<lambda>w. (x, w))"

definition act_bind :: "('n, 'a) act \<Rightarrow> ('a \<Rightarrow> ('n, 'b) act) \<Rightarrow> ('n, 'b) act" where
  "act_bind m k = (\<lambda>w. case m w of (x, w') \<Rightarrow> k x w')"

text \<open>\<open>if err != nil { return err }\<close> after an action, and after a computation.\<close>

definition act_try :: "('n, err + 'a) act \<Rightarrow> ('a \<Rightarrow> ('n, err + 'b) act) \<Rightarrow> ('n, err + 'b) act" where
  "act_try m k = act_bind m (\<lambda>r. case r of Inl e \<Rightarrow> act_ret (Inl e) | Inr x \<Rightarrow> k x)"

definition act_check :: "err + 'a \<Rightarrow> ('a \<Rightarrow> ('n, err + 'b) act) \<Rightarrow> ('n, err + 'b) act" where
  "act_check r k = (case r of Inl e \<Rightarrow> act_ret (Inl e) | Inr x \<Rightarrow> k x)"

text \<open>An early return of an error unless a condition holds.\<close>

definition act_guard :: "err \<Rightarrow> bool \<Rightarrow> ('n, err + 'b) act \<Rightarrow> ('n, err + 'b) act" where
  "act_guard e b m = (if b then m else act_ret (Inl e))"

definition act_now :: "'e surroundings_scheme \<Rightarrow> ('n, instant) act" where
  "act_now s = (\<lambda>w. (en_now s (wd_tick w), w\<lparr>wd_tick := wd_tick w + 1\<rparr>))"

definition act_newID :: "'e surroundings_scheme \<Rightarrow> ('n, ID) act" where
  "act_newID s = (\<lambda>w. (en_newID s (wd_tick w), w\<lparr>wd_tick := wd_tick w + 1\<rparr>))"

text \<open>A transaction or a query of the store, on the database as the other goroutines left it.\<close>

definition act_store :: "'e surroundings_scheme \<Rightarrow> (db \<Rightarrow> (err + 'a) \<times> db) \<Rightarrow> ('n, err + 'a) act" where
  "act_store s m = (\<lambda>w. case m (en_interferes s (wd_tick w) (wd_db w)) of
     (r, d) \<Rightarrow> (r, w\<lparr>wd_db := d, wd_tick := wd_tick w + 1\<rparr>))"

definition act_query :: "'e surroundings_scheme \<Rightarrow> (db \<Rightarrow> 'a) \<Rightarrow> ('n, 'a) act" where
  "act_query s q = (\<lambda>w. case en_interferes s (wd_tick w) (wd_db w) of
     d \<Rightarrow> (q d, w\<lparr>wd_db := d, wd_tick := wd_tick w + 1\<rparr>))"

definition act_rpc :: "('n \<Rightarrow> (err + 'a) \<times> 'n) \<Rightarrow> ('n, err + 'a) act" where
  "act_rpc f = (\<lambda>w. case f (wd_node w) of
     (r, n) \<Rightarrow> (r, w\<lparr>wd_node := n, wd_tick := wd_tick w + 1\<rparr>))"

text \<open>An action on each element of a list, stopping at the first error.\<close>

primrec act_each :: "('a \<Rightarrow> ('n, err + unit) act) \<Rightarrow> 'a list \<Rightarrow> ('n, err + unit) act" where
  "act_each f [] = act_ret (Inr ())"
| "act_each f (x # xs) = act_try (f x) (\<lambda>_. act_each f xs)"

primrec act_fold :: "('a \<Rightarrow> 'b \<Rightarrow> ('n, err + 'b) act) \<Rightarrow> 'a list \<Rightarrow> 'b \<Rightarrow> ('n, err + 'b) act" where
  "act_fold f [] acc = act_ret (Inr acc)"
| "act_fold f (x # xs) acc = act_try (f x acc) (\<lambda>acc'. act_fold f xs acc')"

text \<open>\<open>if s.notify != nil { s.notify() }\<close>, with the channel of the synchronizer.\<close>

definition act_notify :: "bool \<Rightarrow> ('n, unit) act" where
  "act_notify due = (\<lambda>w. ((), if due then w\<lparr>wd_wakes := wd_wakes w + 1\<rparr> else w))"

definition act_revalidate :: "ID \<Rightarrow> ('n, unit) act" where
  "act_revalidate i = (\<lambda>w. ((), w\<lparr>wd_revalidate := wd_revalidate w @ [i]\<rparr>))"

section \<open>Actions that keep to the steps of the store\<close>

text \<open>The other goroutines take steps of the store only.\<close>

definition steps_only :: "'e surroundings_scheme \<Rightarrow> bool" where
  "steps_only s \<longleftrightarrow> (\<forall>t d. reachable d \<longrightarrow> store_step\<^sup>*\<^sup>* d (en_interferes s t d))"

text \<open>
  \<open>lawful P m Q\<close>: from a reachable database where \<open>P\<close> holds, the action takes it to another by steps
  of the store, and leaves \<open>Q\<close> of its result and the database.
\<close>

definition lawful :: "(db \<Rightarrow> bool) \<Rightarrow> ('n, 'a) act \<Rightarrow> ('a \<Rightarrow> db \<Rightarrow> bool) \<Rightarrow> bool" where
  "lawful P m Q \<longleftrightarrow> (\<forall>w x w'. reachable (wd_db w) \<longrightarrow> P (wd_db w) \<longrightarrow> m w = (x, w') \<longrightarrow>
     store_step\<^sup>*\<^sup>* (wd_db w) (wd_db w') \<and> Q x (wd_db w'))"

abbreviation steady :: "(db \<Rightarrow> bool) \<Rightarrow> ('n, 'a) act \<Rightarrow> bool" where
  "steady P m \<equiv> lawful P m (\<lambda>_. P)"

abbreviation keeps_to_steps :: "('n, 'a) act \<Rightarrow> bool" where
  "keeps_to_steps m \<equiv> steady (\<lambda>_. True) m"

text \<open>A fact the steps of the store keep.\<close>

definition lasting :: "(db \<Rightarrow> bool) \<Rightarrow> bool" where
  "lasting P \<longleftrightarrow> (\<forall>d d'. reachable d \<longrightarrow> P d \<longrightarrow> store_step\<^sup>*\<^sup>* d d' \<longrightarrow> P d')"

lemma lasting_True [simp, intro]: "lasting (\<lambda>_. True)"
  by (simp add: lasting_def)

lemma reachable_steps: "reachable d \<Longrightarrow> store_step\<^sup>*\<^sup>* d d' \<Longrightarrow> reachable d'"
  unfolding reachable_def by (rule rtranclp_trans)

lemma lawfulI:
  assumes "\<And>w x w'. reachable (wd_db w) \<Longrightarrow> P (wd_db w) \<Longrightarrow> m w = (x, w') \<Longrightarrow>
    store_step\<^sup>*\<^sup>* (wd_db w) (wd_db w') \<and> Q x (wd_db w')"
  shows "lawful P m Q"
  using assms unfolding lawful_def by blast

lemma lawfulD:
  "lawful P m Q \<Longrightarrow> m w = (x, w') \<Longrightarrow> reachable (wd_db w) \<Longrightarrow> P (wd_db w) \<Longrightarrow>
   store_step\<^sup>*\<^sup>* (wd_db w) (wd_db w') \<and> Q x (wd_db w')"
  unfolding lawful_def by blast

lemma lawful_weaken:
  "lawful P m Q \<Longrightarrow> (\<And>d. P' d \<Longrightarrow> P d) \<Longrightarrow> (\<And>x d. Q x d \<Longrightarrow> Q' x d) \<Longrightarrow> lawful P' m Q'"
  unfolding lawful_def by blast

lemma lawful_keeps: "lawful P m Q \<Longrightarrow> (\<And>d. P d) \<Longrightarrow> keeps_to_steps m"
  unfolding lawful_def by blast

lemma lawful_pure: "(\<And>w. wd_db (snd (m w)) = wd_db w) \<Longrightarrow> lawful P m (\<lambda>_. P)"
  by (rule lawfulI) (metis rtranclp.rtrancl_refl snd_conv)

lemma lawful_bind:
  assumes "lawful P m Q" "\<And>x. lawful (Q x) (k x) R"
  shows "lawful P (act_bind m k) R"
proof (rule lawfulI)
  fix w x w'
  assume w: "reachable (wd_db w)" "P (wd_db w)" and run: "act_bind m k w = (x, w')"
  then obtain y u where y: "m w = (y, u)" "k y u = (x, w')" by (auto simp: act_bind_def split: prod.splits)
  have 1: "store_step\<^sup>*\<^sup>* (wd_db w) (wd_db u) \<and> Q y (wd_db u)" by (rule lawfulD [OF assms(1) y(1) w])
  then have "store_step\<^sup>*\<^sup>* (wd_db u) (wd_db w') \<and> R x (wd_db w')"
    using lawfulD [OF assms(2) y(2)] reachable_steps [OF w(1)] by blast
  with 1 show "store_step\<^sup>*\<^sup>* (wd_db w) (wd_db w') \<and> R x (wd_db w')" by (meson rtranclp_trans)
qed

lemma lawful_ret: "(\<And>d. P d \<Longrightarrow> Q x d) \<Longrightarrow> lawful P (act_ret x) Q"
  by (rule lawfulI) (auto simp: act_ret_def)

lemma lawful_try:
  assumes "lawful P m Q" "\<And>x. lawful (Q (Inr x)) (k x) R" "\<And>e d. Q (Inl e) d \<Longrightarrow> R (Inl e) d"
  shows "lawful P (act_try m k) R"
  unfolding act_try_def
proof (rule lawful_bind [OF assms(1)])
  fix r show "lawful (Q r) (case r of Inl e \<Rightarrow> act_ret (Inl e) | Inr x \<Rightarrow> k x) R"
    using assms(2,3) by (cases r) (auto intro: lawful_ret)
qed

lemma lawful_check:
  assumes "\<And>x. r = Inr x \<Longrightarrow> lawful P (k x) R" "\<And>e d. P d \<Longrightarrow> R (Inl e) d"
  shows "lawful P (act_check r k) R"
  using assms by (cases r) (auto simp: act_check_def intro: lawful_ret)

lemma lawful_guard:
  assumes "b \<Longrightarrow> lawful P m R" "\<And>d. P d \<Longrightarrow> R (Inl e) d"
  shows "lawful P (act_guard e b m) R"
  using assms by (auto simp: act_guard_def intro: lawful_ret)

lemma lawful_tick: "lawful P (act_now s) (\<lambda>_. P)" "lawful P (act_newID s) (\<lambda>_. P)"
  "lawful P (act_notify b) (\<lambda>_. P)" "lawful P (act_revalidate i) (\<lambda>_. P)"
  by (rule lawful_pure; simp add: act_now_def act_newID_def act_notify_def act_revalidate_def)+

lemma lawful_rpc: "lawful P (act_rpc f) (\<lambda>_. P)"
  by (rule lawful_pure) (simp add: act_rpc_def split: prod.splits)

lemma lawful_query:
  assumes "steps_only s" "lasting P"
  shows "lawful P (act_query s q) (\<lambda>x d. reachable d \<and> P d \<and> x = q d)"
proof (rule lawfulI)
  fix w x w'
  assume w: "reachable (wd_db w)" "P (wd_db w)" and run: "act_query s q w = (x, w')"
  have "store_step\<^sup>*\<^sup>* (wd_db w) (en_interferes s (wd_tick w) (wd_db w))"
    using assms(1) w(1) unfolding steps_only_def by blast
  with run assms(2) w show "store_step\<^sup>*\<^sup>* (wd_db w) (wd_db w') \<and> reachable (wd_db w') \<and> P (wd_db w') \<and> x = q (wd_db w')"
    by (auto simp: act_query_def lasting_def intro: reachable_steps)
qed

text \<open>A write: each successful run of the transaction is a step of the store.\<close>

lemma lawful_store:
  assumes "steps_only s" "lasting P"
    and "\<And>d y d'. reachable d \<Longrightarrow> P d \<Longrightarrow> m d = (Inr y, d') \<Longrightarrow> store_step\<^sup>*\<^sup>* d d'"
    and "\<And>d e d'. m d = (Inl e, d') \<Longrightarrow> d' = d"
  shows "lawful P (act_store s m) (\<lambda>_. P)"
proof (rule lawfulI)
  fix w x w'
  assume w: "reachable (wd_db w)" "P (wd_db w)" and run: "act_store s m w = (x, w')"
  let ?d = "en_interferes s (wd_tick w) (wd_db w)"
  have 1: "store_step\<^sup>*\<^sup>* (wd_db w) ?d" using assms(1) w(1) unfolding steps_only_def by blast
  then have d: "reachable ?d" "P ?d" using w assms(2) by (auto simp: lasting_def intro: reachable_steps)
  from run have m: "m ?d = (x, wd_db w')" by (auto simp: act_store_def split: prod.splits)
  have 2: "store_step\<^sup>*\<^sup>* ?d (wd_db w')"
  proof (cases x)
    case (Inl e)
    with m have "wd_db w' = ?d" using assms(4) by simp
    then show ?thesis by simp
  qed (use assms(3) d m in auto)
  then have "P (wd_db w')" using assms(2) d unfolding lasting_def by blast
  with 1 2 show "store_step\<^sup>*\<^sup>* (wd_db w) (wd_db w') \<and> P (wd_db w')" by (meson rtranclp_trans)
qed

lemma lawful_write:
  assumes "steps_only s" "lasting P"
    and "\<And>d y d'. reachable d \<Longrightarrow> P d \<Longrightarrow> m d = Inr (y, d') \<Longrightarrow> store_step d d'"
  shows "lawful P (act_store s (WithWriteTx m)) (\<lambda>_. P)"
proof (rule lawful_store [OF assms(1,2)])
  fix d y d'
  assume "reachable d" "P d" "WithWriteTx m d = (Inr y, d')"
  then show "store_step\<^sup>*\<^sup>* d d'" using assms(3) by (auto simp: WithWriteTx_Inr)
next
  fix d e d'
  assume "WithWriteTx m d = (Inl e, d')"
  then show "d' = d" by (auto simp: WithWriteTx_def split: sum.splits prod.splits)
qed

lemma lawful_read:
  assumes "steps_only s" "lasting P"
  shows "lawful P (act_store s (\<lambda>d. (q d, d))) (\<lambda>_. P)"
  by (rule lawful_store [OF assms]) simp_all

lemma lawful_each:
  assumes "\<And>x. lawful P (f x) (\<lambda>_. P)"
  shows "lawful P (act_each f xs) (\<lambda>_. P)"
  by (induction xs) (auto intro: lawful_ret lawful_try assms)

lemma lawful_fold:
  assumes "\<And>x acc. lawful P (f x acc) (\<lambda>_. P)"
  shows "lawful P (act_fold f xs acc) (\<lambda>_. P)"
  by (induction xs arbitrary: acc) (auto intro: lawful_ret lawful_try assms)

text \<open>Rules for actions that carry one fact along.\<close>

lemma steady_forget: "steady P m \<Longrightarrow> lawful P m (\<lambda>_ _. True)"
  unfolding lawful_def by blast

lemma steady_rules:
  "steady P (act_ret x)" "steady P (act_now s)" "steady P (act_newID s)"
  "steady P (act_notify b)" "steady P (act_revalidate i)" "steady P (act_rpc f)"
  "steady P m \<Longrightarrow> (\<And>x. steady P (k x)) \<Longrightarrow> steady P (act_bind m k)"
  "steady P n \<Longrightarrow> (\<And>x. steady P (j x)) \<Longrightarrow> steady P (act_try n j)"
  "(\<And>x. steady P (h x)) \<Longrightarrow> steady P (act_check r h)"
  "steady P l \<Longrightarrow> steady P (act_guard e c l)"
  "(\<And>x. steady P (f' x)) \<Longrightarrow> steady P (act_each f' xs)"
  "(\<And>x y. steady P (g x y)) \<Longrightarrow> steady P (act_fold g xs acc)"
  by (auto intro: lawful_ret lawful_tick lawful_rpc lawful_bind lawful_try lawful_check lawful_guard lawful_each lawful_fold)

lemma steady_query: "steps_only s \<Longrightarrow> lasting P \<Longrightarrow> steady P (act_query s q)"
  using lawful_query [of s P q] unfolding lawful_def by blast

lemma steady_split:
  "(b \<Longrightarrow> steady P m) \<Longrightarrow> (\<not> b \<Longrightarrow> steady P n) \<Longrightarrow> steady P (if b then m else n)"
  "(x = None \<Longrightarrow> steady P n') \<Longrightarrow> (\<And>y. x = Some y \<Longrightarrow> steady P (f y)) \<Longrightarrow>
     steady P (case x of None \<Rightarrow> n' | Some y \<Rightarrow> f y)"
  "(\<And>a. r = Inl a \<Longrightarrow> steady P (g a)) \<Longrightarrow> (\<And>c. r = Inr c \<Longrightarrow> steady P (h c)) \<Longrightarrow>
     steady P (case r of Inl a \<Rightarrow> g a | Inr c \<Rightarrow> h c)"
  "(\<And>u v. p = (u, v) \<Longrightarrow> steady P (k u v)) \<Longrightarrow> steady P (case p of (u, v) \<Rightarrow> k u v)"
  "(\<And>z. steady P (j z)) \<Longrightarrow> steady P (let z = v' in j z)"
  by (auto split: option.split sum.split prod.split simp: Let_def)

section \<open>Revisions only grow\<close>

text \<open>The desired revision of an allocation, once read, is a lower bound for good.\<close>

definition revision_reached :: "ID \<Rightarrow> Revision \<Rightarrow> db \<Rightarrow> bool" where
  "revision_reached a k d \<longleftrightarrow> (\<forall>n. (a, n) \<in> set (snd (sync_log d)) \<longrightarrow> k \<le> n) \<and> (\<exists>n. (a, n) \<in> set (snd (sync_log d)))"

lemma log_step_grows:
  assumes "log_step l l'" "log_ok l" "(i, n) \<in> set (snd l)"
  shows "\<exists>m. (i, m) \<in> set (snd l') \<and> n \<le> m"
  using assms
proof (induction rule: log_step.induct)
  case (intend j v as m xs b)
  have "distinct (map fst as)" using intend.prems(1) by (simp add: log_ok_def)
  then have v: "n = v" if "i = j" using intend.hyps(1) intend.prems(2) that
    by (auto dest: distinct_map_eqD [of fst as "(j, n)" "(j, v)"])
  have "\<not> m \<le> v"
  proof
    assume "m \<le> v"
    with intend have "\<exists>c. (j, m, c) \<in> set xs" unfolding log_ok_def fst_conv snd_conv by blast
    with intend.hyps(4) show False by blast
  qed
  then have "n \<le> (if i = j then m else n)" using v by auto
  moreover have "(i, if i = j then m else n) \<in> set (map (\<lambda>(i, k). (i, if i = j then m else k)) as)"
    using intend.prems(2) by force
  ultimately show ?case by auto
qed auto

lemma log_steps_grow:
  assumes "log_step\<^sup>*\<^sup>* l l'" "log_ok l" "(i, n) \<in> set (snd l)"
  shows "log_ok l' \<and> (\<exists>m. (i, m) \<in> set (snd l') \<and> n \<le> m)"
  using assms
proof (induction rule: rtranclp_induct)
  case (step y z)
  then obtain m where "log_ok y" "(i, m) \<in> set (snd y)" "n \<le> m" by blast
  with log_step_grows [OF step.hyps(2) this(1,2)] show ?case
    using log_steps_ok [of y z] step.hyps(2) by (metis dual_order.trans r_into_rtranclp)
qed auto

lemma store_steps_log:
  assumes "store_step\<^sup>*\<^sup>* d d'" "schema_ok d"
  shows "schema_ok d' \<and> log_step\<^sup>*\<^sup>* (sync_log d) (sync_log d')"
  using assms
proof (induction rule: rtranclp_induct)
  case (step y z)
  then show ?case using store_step_refines [OF step.hyps(2)] by (meson rtranclp_trans)
qed simp

lemma revision_reachedI:
  assumes "log_ok (sync_log d)" "(a, m) \<in> set (snd (sync_log d))" "k \<le> m"
  shows "revision_reached a k d"
  unfolding revision_reached_def
proof (intro conjI allI impI exI)
  fix j
  assume j: "(a, j) \<in> set (snd (sync_log d))"
  have "distinct (map fst (snd (sync_log d)))" using assms(1) by (simp add: log_ok_def)
  then have "(a, j) = (a, m)" by (rule distinct_map_eqD) (use j assms(2) in simp_all)
  then show "k \<le> j" using assms(3) by simp
qed (rule assms(2))

lemma revision_lasting: "lasting (revision_reached a k)"
  unfolding lasting_def
proof (intro allI impI)
  fix d d'
  assume d: "reachable d" "revision_reached a k d" "store_step\<^sup>*\<^sup>* d d'"
  then obtain n where n: "(a, n) \<in> set (snd (sync_log d))" "k \<le> n" unfolding revision_reached_def by blast
  have ok: "log_ok (sync_log d)" "schema_ok d" using reachable_log_ok [OF d(1)] reachable_refines [OF d(1)] by auto
  obtain m where m: "log_ok (sync_log d')" "(a, m) \<in> set (snd (sync_log d'))" "n \<le> m"
    using log_steps_grow [OF conjunct2 [OF store_steps_log [OF d(3) ok(2)]] ok(1) n(1)] by blast
  show "revision_reached a k d'" by (rule revision_reachedI [OF m(1,2)]) (use m(3) n(2) in simp)
qed

lemma loadUser_row: "loadUser p d = Inr r \<Longrightarrow> r \<in> set (user_rows d) \<and> p r"
  using list.set_intros(1) [of r] by (auto simp: loadUser_def filter_eq_Cons_iff split: list.splits)

lemma user_rows_alloc: "r \<in> set (user_rows d) \<Longrightarrow> ur_Allocation r \<in> set (db_allocs d)"
  by (auto simp: user_rows_def)

lemma loadUser_alloc: "loadUser p d = Inr r \<Longrightarrow> ur_Allocation r \<in> set (db_allocs d)"
  using loadUser_row user_rows_alloc by blast

lemma read_revision:
  assumes "reachable d" "x \<in> set (db_allocs d)"
  shows "revision_reached (al_ID x) (al_DesiredRevision x) d"
  by (rule revision_reachedI [OF reachable_log_ok [OF assms(1)], where m = "al_DesiredRevision x"])
    (use assms(2) in \<open>auto simp: sync_log_def alloc_view_def\<close>)

lemma follows_reached:
  assumes "revision_reached (op_AllocationID r) k d" "0 \<le> k" "op_DesiredRevision r = k + 1"
  shows "follows r (sync_log d)"
  using assms by (auto simp: follows_def revision_reached_def list_all_iff)

text \<open>What a service knows of a user for good once it read it.\<close>

definition after_read :: "UserRecord \<Rightarrow> db \<Rightarrow> bool" where
  "after_read r d \<longleftrightarrow> 0 \<le> al_DesiredRevision (ur_Allocation r) \<and>
     revision_reached (al_ID (ur_Allocation r)) (al_DesiredRevision (ur_Allocation r)) d"

lemma after_read_lasting: "lasting (after_read r)"
  using revision_lasting unfolding lasting_def after_read_def by blast

lemma after_reading:
  assumes "reachable d" "r \<in> set (user_rows d)"
  shows "after_read r d"
proof -
  have a: "ur_Allocation r \<in> set (db_allocs d)" using assms(2) by (rule user_rows_alloc)
  moreover have "schema_ok d" using reachable_refines [OF assms(1)] by blast
  then have "list_all (alloc_row_ok d) (db_allocs d)" by (simp add: schema_ok_def tables_user_ok_def)
  ultimately show ?thesis using read_revision [OF assms(1) a]
    by (auto simp: after_read_def list_all_iff alloc_row_ok_def)
qed

lemma lawful_user:
  assumes "steps_only s" "\<And>r. lawful (after_read r) (k r) R" "\<And>e d. R (Inl e) d"
  shows "lawful (\<lambda>_. True) (act_try (act_query s (User i)) k) R"
proof -
  let ?Q = "\<lambda>x d. case x of Inl e \<Rightarrow> True | Inr r \<Rightarrow> after_read r d"
  have "?Q (User i d) d" if "reachable d" for d
    using loadUser_row [of _ d] after_reading [OF that] by (auto simp: User_def split: sum.splits)
  then have "lawful (\<lambda>_. True) (act_query s (User i)) ?Q"
    using lawful_query [OF assms(1) lasting_True, of "User i"] unfolding lawful_def by blast
  then show ?thesis by (rule lawful_try) (use assms(2,3) in simp_all)
qed

end
