(* ===== verification/Xray_Adapter.thy ===== *)
theory Xray_Adapter
  imports Template_Model
begin

text \<open>
  The interface to Xray (\<open>internal/ports/xray.go\<close>) and its implementation over gRPC
  (\<open>internal/adapter/xray/handler.go\<close>, \<open>inbound.go\<close>, \<open>errors.go\<close>). The node and its RPCs are
  parameters: a node state and, per RPC, a function from it to a result and the next state. The
  receipts of mutations, which no caller reads, are left out.
\<close>

section \<open>The interface\<close>

record RuntimeInbound =
  ri_TemplateID :: ID
  ri_InboundTag :: string
  ri_Method :: string

record InboundClient =
  ic_StatisticsID :: string
  ic_CredentialVersion :: int
  ic_UserKey :: string

record CreateInboundCommand =
  ci_OperationID :: ID
  ci_InboundTag :: string
  ci_ListenAddress :: string
  ci_Port :: int
  ci_Method :: string
  ci_Network :: Network
  ci_ServerKey :: string
  ci_Client :: InboundClient

record RemoteInbound =
  re_InboundTag :: string
  re_PanelManaged :: bool
  re_UserCount :: int

record RemoteUser =
  ru_StatisticsID :: string
  ru_CredentialVersion :: int
  ru_Present :: bool
  ru_Kind :: string

record AddUserCommand =
  au_OperationID :: ID
  au_InboundTag :: string
  au_AllocationID :: ID
  au_StatisticsID :: string
  au_CredentialVersion :: int
  au_UserKey :: string

record RemoveUserCommand =
  rm_OperationID :: ID
  rm_InboundTag :: string
  rm_StatisticsID :: string
  rm_ExpectedStatisticsID :: string

text \<open>The operations of \<open>ports.Adapter\<close> the synchronizer uses, over a node state.\<close>

record 'n adapter =
  ap_ListInbounds :: "'n \<Rightarrow> (err + RemoteInbound list) \<times> 'n"
  ap_CreateInbound :: "CreateInboundCommand \<Rightarrow> 'n \<Rightarrow> (err + unit) \<times> 'n"
  ap_RemoveInbound :: "string \<Rightarrow> 'n \<Rightarrow> (err + unit) \<times> 'n"
  ap_ListUsers :: "RuntimeInbound \<Rightarrow> 'n \<Rightarrow> (err + RemoteUser list) \<times> 'n"
  ap_AddUser :: "AddUserCommand \<Rightarrow> 'n \<Rightarrow> (err + unit) \<times> 'n"
  ap_RemoveUser :: "RemoveUserCommand \<Rightarrow> 'n \<Rightarrow> (err + unit) \<times> 'n"

section \<open>Errors of the RPCs\<close>

datatype GrpcCode =
    CodeDeadlineExceeded | CodeUnavailable | CodeInvalidArgument | CodeNotFound | CodeAlreadyExists
  | CodePermissionDenied | CodeUnauthenticated | CodeOther

text \<open>\<open>ContextDeadline\<close> is the value \<open>context.DeadlineExceeded\<close>, whose status code is Unknown.\<close>

datatype rpc_err = GrpcStatus GrpcCode string | ContextDeadline

fun rpc_code :: "rpc_err \<Rightarrow> GrpcCode" where
  "rpc_code (GrpcStatus c m) = c"
| "rpc_code ContextDeadline = CodeOther"

fun rpc_message :: "rpc_err \<Rightarrow> string" where
  "rpc_message (GrpcStatus c m) = map asciiLower m"
| "rpc_message ContextDeadline = ''context deadline exceeded''"

definition map_kind :: "string \<Rightarrow> rpc_err \<Rightarrow> string \<times> bool \<times> string" where
  "map_kind operation e = (let code = rpc_code e; text = rpc_message e in
     if code = CodeDeadlineExceeded \<or> e = ContextDeadline
     then (''deadline_exceeded'', True, ''Xray operation timed out'')
     else if code = CodeUnavailable then (''instance_unavailable'', True, ''Xray API is unavailable'')
     else if code = CodeInvalidArgument then (''invalid_argument'', False, ''Xray rejected invalid input'')
     else if code = CodeNotFound then
       (if operation = ''validate_template'' \<or> operation = ''list_users''
        then (''profile_not_found'', False, ''inbound was not found'')
        else if operation = ''read_traffic'' then (''stats_not_found'', False, ''Xray statistics were not found'')
        else if operation = ''remove_inbound'' \<or> operation = ''list_inbounds''
        then (''inbound_not_found'', False, ''inbound was not found'')
        else (''user_not_found'', False, ''Xray target was not found''))
     else if code = CodeAlreadyExists then (''user_already_exists'', False, ''Xray user already exists'')
     else if code = CodePermissionDenied \<or> code = CodeUnauthenticated
     then (''upstream_rejected'', False, ''Xray rejected the operation'')
     else if Contains text ''address already in use''
     then (''port_unavailable'', False, ''port is already in use on the node'')
     else if Contains text ''existing tag found''
     then (''inbound_already_exists'', False, ''inbound tag already exists'')
     else if Contains text ''handler not found'' then (''inbound_not_found'', False, ''inbound was not found'')
     else if Contains text ''not enough information for making a decision'' \<and> operation = ''remove_inbound''
     then (''inbound_not_found'', False, ''inbound was not found'')
     else if Contains text ''not a usermanager''
     then (''incompatible_profile'', False, ''inbound does not support dynamic users'')
     else if Contains text ''already exists'' then (''user_already_exists'', False, ''Xray user already exists'')
     else if Contains text ''not found'' then (''user_not_found'', False, ''Xray target was not found'')
     else (''internal'', True, ''Xray operation failed''))"

definition mapError :: "string \<Rightarrow> rpc_err \<Rightarrow> err" where
  "mapError operation e = (case map_kind operation e of
     (kind, retryable, summary) \<Rightarrow> AdapterError kind operation retryable summary)"

section \<open>Standard library: keys and addresses\<close>

text \<open>\<open>base64.StdEncoding.DecodeString\<close>: line breaks are skipped; the length of the result.\<close>

definition base64_char :: "char \<Rightarrow> bool" where
  "base64_char c \<longleftrightarrow> (CHR ''A'' \<le> c \<and> c \<le> CHR ''Z'') \<or> (CHR ''a'' \<le> c \<and> c \<le> CHR ''z'') \<or>
     (CHR ''0'' \<le> c \<and> c \<le> CHR ''9'') \<or> c = CHR ''+'' \<or> c = CHR ''/''"

definition base64_length :: "string \<Rightarrow> nat option" where
  "base64_length encoded =
     (let s = filter (\<lambda>c. c \<noteq> CHR 0x0A \<and> c \<noteq> CHR 0x0D) encoded;
          body = takeWhile base64_char s; pad = length s - length body
      in if length s mod 4 = 0 \<and> pad \<le> 2 \<and> list_all (\<lambda>c. c = CHR ''='') (drop (length body) s)
         then Some (3 * (length s div 4) - pad) else None)"

definition ValidateUserKey :: "string \<Rightarrow> string \<Rightarrow> err + unit" where
  "ValidateUserKey method encoded = (case methodKeyLength method of
     Inl e \<Rightarrow> Inl e
   | Inr n \<Rightarrow> if base64_length encoded = Some n then Inr ()
             else Inl (PlainError (''invalid key for '' @ method)))"

definition methodFromKey :: "string \<Rightarrow> string" where
  "methodFromKey encoded = (if base64_length encoded = Some 16
     then ''2022-blake3-aes-128-gcm'' else ''2022-blake3-aes-256-gcm'')"

fun split_on :: "char \<Rightarrow> string \<Rightarrow> string \<Rightarrow> string list" where
  "split_on sep acc [] = [rev acc]"
| "split_on sep acc (c # s) = (if c = sep then rev acc # split_on sep [] s else split_on sep (c # acc) s)"

definition decimal :: "string \<Rightarrow> nat" where
  "decimal s = foldl (\<lambda>n c. 10 * n + (of_char c - 48)) 0 s"

definition ipv4_octet :: "string \<Rightarrow> bool" where
  "ipv4_octet s \<longleftrightarrow> s \<noteq> [] \<and> length s \<le> 3 \<and> list_all (\<lambda>c. CHR ''0'' \<le> c \<and> c \<le> CHR ''9'') s \<and>
     (length s > 1 \<longrightarrow> hd s \<noteq> CHR ''0'') \<and> decimal s \<le> 255"

definition ipv4 :: "string \<Rightarrow> bool" where
  "ipv4 s \<longleftrightarrow> (let parts = split_on CHR ''.'' [] s in length parts = 4 \<and> list_all ipv4_octet parts)"

definition ipv6_group :: "string \<Rightarrow> bool" where
  "ipv6_group s \<longleftrightarrow> s \<noteq> [] \<and> length s \<le> 4 \<and> list_all (\<lambda>c. lower_hex (asciiLower c)) s"

text \<open>How many 16-bit units colon-separated groups make; an IPv4 address may end them (two units).\<close>

fun ipv6_units :: "bool \<Rightarrow> string list \<Rightarrow> nat option" where
  "ipv6_units v4 [] = Some 0"
| "ipv6_units v4 [g] = (if ipv6_group g then Some 1 else if v4 \<and> ipv4 g then Some 2 else None)"
| "ipv6_units v4 (g # h # gs) = (if ipv6_group g then map_option Suc (ipv6_units v4 (h # gs)) else None)"

text \<open>The text before and after the first \<open>::\<close>.\<close>

fun cut_ellipsis :: "string \<Rightarrow> string \<Rightarrow> (string \<times> string) option" where
  "cut_ellipsis acc (c # d # s) =
     (if c = CHR '':'' \<and> d = CHR '':'' then Some (rev acc, s) else cut_ellipsis (c # acc) (d # s))"
| "cut_ellipsis acc _ = None"

definition groups :: "string \<Rightarrow> string list" where
  "groups s = (if s = [] then [] else split_on CHR '':'' [] s)"

definition ipv6 :: "string \<Rightarrow> bool" where
  "ipv6 s \<longleftrightarrow> (case cut_ellipsis [] s of
     None \<Rightarrow> ipv6_units True (groups s) = Some 8
   | Some (l, r) \<Rightarrow> (case (ipv6_units False (groups l), ipv6_units True (groups r)) of
        (Some m, Some n) \<Rightarrow> m + n \<le> 7 | _ \<Rightarrow> False))"

text \<open>Whether \<open>net.ParseIP\<close> accepts the text: an IPv6 literal when it has a colon before any dot.\<close>

definition ParseIP :: "string \<Rightarrow> bool" where
  "ParseIP s \<longleftrightarrow> ipv4 s \<or> (CHR '':'' \<in> set s \<and> ipv6 s)"

section \<open>Building an inbound\<close>

datatype XrayNetwork = Network_TCP | Network_UDP

fun networksFor :: "Network \<Rightarrow> XrayNetwork list" where
  "networksFor NetworkTCP = [Network_TCP]"
| "networksFor NetworkUDP = [Network_UDP]"
| "networksFor NetworkTCPUDP = [Network_TCP, Network_UDP]"

record InboundHandlerConfig =
  ih_Tag :: string
  ih_Listen :: string
  ih_Port :: int
  ih_Method :: string
  ih_Key :: string
  ih_Users :: "(string \<times> string) list"
  ih_Network :: "XrayNetwork list"

definition invalid_create :: "string \<Rightarrow> err" where
  "invalid_create summary = AdapterError ''invalid_argument'' ''create_inbound'' False summary"

definition buildInboundConfig :: "CreateInboundCommand \<Rightarrow> err + InboundHandlerConfig" where
  "buildInboundConfig c =
     (case ValidateInboundTag (ci_InboundTag c) of Inl e \<Rightarrow> Inl e | Inr _ \<Rightarrow>
      case ValidateInboundClients 1 of Inl e \<Rightarrow> Inl e | Inr _ \<Rightarrow>
      if ic_StatisticsID (ci_Client c) = '''' \<or> \<not> IsPanelNamespace (ic_StatisticsID (ci_Client c))
      then Inl (invalid_create ''client statistics identity must use the panel namespace'')
      else if ci_Port c < MinAssignablePort \<or> ci_Port c > MaxAssignablePort
      then Inl (invalid_create ''port is outside the assignable range'')
      else if \<not> ParseIP (ci_ListenAddress c)
      then Inl (invalid_create ''listen address must be an IP literal'')
      else if ValidateUserKey (ci_Method c) (ci_ServerKey c) \<noteq> Inr ()
      then Inl (invalid_create ''invalid server key for the selected method'')
      else if ValidateUserKey (ci_Method c) (ic_UserKey (ci_Client c)) \<noteq> Inr ()
      then Inl (invalid_create ''invalid user key for the selected method'')
      else Inr \<lparr>ih_Tag = ci_InboundTag c, ih_Listen = ci_ListenAddress c, ih_Port = ci_Port c,
                ih_Method = ci_Method c, ih_Key = ci_ServerKey c,
                ih_Users = [(ic_StatisticsID (ci_Client c), ic_UserKey (ci_Client c))],
                ih_Network = networksFor (ci_Network c)\<rparr>)"

definition guardPanelInbound :: "string \<Rightarrow> string \<Rightarrow> err + unit" where
  "guardPanelInbound operation tag =
     (if IsPanelNamespace tag then Inr ()
      else Inl (AdapterError ''invalid_argument'' operation False
        ''refusing to mutate an inbound outside the panel namespace''))"

section \<open>The client over gRPC\<close>

record 'n rpcs =
  rp_AddInbound :: "InboundHandlerConfig \<Rightarrow> 'n \<Rightarrow> rpc_err option \<times> 'n"
  rp_RemoveInbound :: "string \<Rightarrow> 'n \<Rightarrow> rpc_err option \<times> 'n"
  rp_ListInbounds :: "'n \<Rightarrow> (rpc_err + string list) \<times> 'n"
  rp_GetInboundUsers :: "string \<Rightarrow> 'n \<Rightarrow> (rpc_err + string list) \<times> 'n"
  rp_GetInboundUsersCount :: "string \<Rightarrow> 'n \<Rightarrow> (rpc_err + int) \<times> 'n"
  rp_AlterAddUser :: "string \<Rightarrow> string \<Rightarrow> string \<Rightarrow> 'n \<Rightarrow> rpc_err option \<times> 'n"
  rp_AlterRemoveUser :: "string \<Rightarrow> string \<Rightarrow> 'n \<Rightarrow> rpc_err option \<times> 'n"
  rp_portFree :: "string \<Rightarrow> int \<Rightarrow> 'n \<Rightarrow> bool"

definition mutation :: "string \<Rightarrow> rpc_err option \<times> 'n \<Rightarrow> (err + unit) \<times> 'n" where
  "mutation operation r = (case r of (None, n) \<Rightarrow> (Inr (), n) | (Some e, n) \<Rightarrow> (Inl (mapError operation e), n))"

definition client_CreateInbound :: "'n rpcs \<Rightarrow> CreateInboundCommand \<Rightarrow> 'n \<Rightarrow> (err + unit) \<times> 'n" where
  "client_CreateInbound x c n =
     (case buildInboundConfig c of
        Inl e \<Rightarrow> (Inl e, n)
      | Inr config \<Rightarrow>
          if \<not> rp_portFree x (ci_ListenAddress c) (ci_Port c) n
          then (Inl (AdapterError ''port_unavailable'' ''create_inbound'' False
                  ''port is already in use on the node''), n)
          else mutation ''create_inbound'' (rp_AddInbound x config n))"

definition client_RemoveInbound :: "'n rpcs \<Rightarrow> string \<Rightarrow> 'n \<Rightarrow> (err + unit) \<times> 'n" where
  "client_RemoveInbound x tag n =
     (if \<not> IsPanelNamespace tag
      then (Inl (AdapterError ''invalid_argument'' ''remove_inbound'' False
              ''refusing to remove an inbound outside the panel namespace''), n)
      else mutation ''remove_inbound'' (rp_RemoveInbound x tag n))"

fun count_users :: "'n rpcs \<Rightarrow> string list \<Rightarrow> 'n \<Rightarrow> (err + RemoteInbound list) \<times> 'n" where
  "count_users x [] n = (Inr [], n)"
| "count_users x (tag # tags) n =
     (if IsPanelNamespace tag
      then (case rp_GetInboundUsersCount x tag n of
              (Inl e, n1) \<Rightarrow> (Inl (mapError ''list_inbounds'' e), n1)
            | (Inr count, n1) \<Rightarrow> (case count_users x tags n1 of
                 (Inl e, n2) \<Rightarrow> (Inl e, n2)
               | (Inr rs, n2) \<Rightarrow> (Inr (\<lparr>re_InboundTag = tag, re_PanelManaged = True, re_UserCount = count\<rparr> # rs), n2)))
      else (case count_users x tags n of
              (Inl e, n2) \<Rightarrow> (Inl e, n2)
            | (Inr rs, n2) \<Rightarrow> (Inr (\<lparr>re_InboundTag = tag, re_PanelManaged = False, re_UserCount = 0\<rparr> # rs), n2)))"

definition client_ListInbounds :: "'n rpcs \<Rightarrow> 'n \<Rightarrow> (err + RemoteInbound list) \<times> 'n" where
  "client_ListInbounds x n = (case rp_ListInbounds x n of
     (Inl e, n1) \<Rightarrow> (Inl (mapError ''list_inbounds'' e), n1)
   | (Inr tags, n1) \<Rightarrow> count_users x tags n1)"

definition remote_user :: "string \<Rightarrow> RemoteUser" where
  "remote_user email = \<lparr>ru_StatisticsID = email, ru_CredentialVersion = 0, ru_Present = True,
     ru_Kind = (if IsPanelNamespace email then ''managed'' else ''external'')\<rparr>"

definition client_ListUsers :: "'n rpcs \<Rightarrow> RuntimeInbound \<Rightarrow> 'n \<Rightarrow> (err + RemoteUser list) \<times> 'n" where
  "client_ListUsers x inbound n = (case rp_GetInboundUsers x (ri_InboundTag inbound) n of
     (Inl e, n1) \<Rightarrow> (Inl (mapError ''list_users'' e), n1)
   | (Inr emails, n1) \<Rightarrow> (Inr (map remote_user emails), n1))"

definition client_AddUser :: "'n rpcs \<Rightarrow> AddUserCommand \<Rightarrow> 'n \<Rightarrow> (err + unit) \<times> 'n" where
  "client_AddUser x c n =
     (case guardPanelInbound ''add_user'' (au_InboundTag c) of
        Inl e \<Rightarrow> (Inl e, n)
      | Inr _ \<Rightarrow>
          if ValidateUserKey (methodFromKey (au_UserKey c)) (au_UserKey c) \<noteq> Inr ()
          then (Inl (AdapterError ''invalid_argument'' ''add_user'' False ''invalid user key''), n)
          else mutation ''add_user'' (rp_AlterAddUser x (au_InboundTag c) (au_StatisticsID c) (au_UserKey c) n))"

text \<open>
  The survivors of a removal are the expected identity and its rotation identity; the target itself
  is never one.
\<close>

definition removal_refused :: "RemoveUserCommand \<Rightarrow> string list \<Rightarrow> bool" where
  "removal_refused c emails \<longleftrightarrow>
     list_ex (\<lambda>m. m = rm_StatisticsID c) emails \<and>
     \<not> list_ex (\<lambda>m. m \<noteq> rm_StatisticsID c \<and>
          (m = rm_ExpectedStatisticsID c \<or> m = RotationSafetyID (rm_ExpectedStatisticsID c))) emails"

definition client_RemoveUser :: "'n rpcs \<Rightarrow> RemoveUserCommand \<Rightarrow> 'n \<Rightarrow> (err + unit) \<times> 'n" where
  "client_RemoveUser x c n =
     (case guardPanelInbound ''remove_user'' (rm_InboundTag c) of
        Inl e \<Rightarrow> (Inl e, n)
      | Inr _ \<Rightarrow>
          if rm_ExpectedStatisticsID c = ''''
          then (Inl (AdapterError ''invalid_argument'' ''remove_user'' False
                  ''remove_user requires the inbound's expected managed identity''), n)
          else (case rp_GetInboundUsers x (rm_InboundTag c) n of
              (Inl e, n1) \<Rightarrow> (Inl (mapError ''remove_user'' e), n1)
            | (Inr emails, n1) \<Rightarrow>
                if removal_refused c emails
                then (Inl (AdapterError ''last_managed_client'' ''remove_user'' False
                        ''refusing to remove the last managed client of an inbound''), n1)
                else mutation ''remove_user'' (rp_AlterRemoveUser x (rm_InboundTag c) (rm_StatisticsID c) n1)))"

definition client_adapter :: "'n rpcs \<Rightarrow> 'n adapter" where
  "client_adapter x = \<lparr>ap_ListInbounds = client_ListInbounds x, ap_CreateInbound = client_CreateInbound x,
     ap_RemoveInbound = client_RemoveInbound x, ap_ListUsers = client_ListUsers x,
     ap_AddUser = client_AddUser x, ap_RemoveUser = client_RemoveUser x\<rparr>"

end
