(* ===== verification/Synchronizer.thy ===== *)
theory Synchronizer
  imports World Xray_Adapter Store_Templates Store_Drift
begin

text \<open>
  The worker that carries the intents of the database out on Xray:
  \<open>internal/worker/synchronizer.go\<close>, over the world of the theory \<open>World\<close>. The random source
  and the generator of safety keys are parameters, like key decryption. Logging is left out.
\<close>

section \<open>The worker\<close>

text \<open>Options of the worker, with \<open>sy_random\<close> = \<open>None\<close> for nil.\<close>

record 'n syncer = surroundings +
  sy_adapter :: "'n adapter"
  sy_owner :: string
  sy_maxRetry :: duration
  sy_lease :: duration
  sy_random :: "(int \<Rightarrow> int) option"
  sy_decrypt :: "8 word list \<Rightarrow> 8 word list \<Rightarrow> string \<Rightarrow> string option"
  sy_safetyKey :: "string \<Rightarrow> string option"

section \<open>Errors\<close>

fun describe :: "err \<Rightarrow> string \<times> bool" where
  "describe (AdapterError kind operation retryable summary) = (kind, retryable)"
| "describe DeadlineExceeded = (''deadline_exceeded'', True)"
| "describe _ = (''internal'', True)"

fun summaryOf :: "err \<Rightarrow> string" where
  "summaryOf (AdapterError kind operation retryable summary) =
     (if summary \<noteq> '''' then summary else ''Xray operation failed'')"
| "summaryOf _ = ''Xray operation failed''"

section \<open>Finishing an operation\<close>

definition fence :: "'n syncer \<Rightarrow> SyncWork \<Rightarrow> ('n, err + bool) act" where
  "fence s work = act_bind (act_now s) (\<lambda>now.
     act_store s (WithWriteTx (RenewSyncLease (op_ID (sw_Operation work)) (sy_owner s) now (sy_lease s))))"

text \<open>\<open>if held, err := s.fence(..); err != nil || !held { return err }\<close>, then the rest.\<close>

definition fenced :: "'n syncer \<Rightarrow> SyncWork \<Rightarrow> ('n, err + unit) act \<Rightarrow> ('n, err + unit) act" where
  "fenced s work rest = act_try (fence s work) (\<lambda>held. if held then rest else act_ret (Inr ()))"

definition audit :: "'n syncer \<Rightarrow> SyncWork \<Rightarrow> string \<Rightarrow> AuditResult \<Rightarrow> string \<Rightarrow> instant \<Rightarrow> ('n, err + unit) act" where
  "audit s work action result summary now = act_bind (act_newID s) (\<lambda>i.
     act_store s (WithWriteTx (AppendAudit \<lparr>ae_ID = i, ae_OccurredAt = now, ae_ActorType = ActorSystem,
       ae_ActorID = None, ae_TargetType = ''user'', ae_TargetID = mu_ID (sw_User work), ae_Action = action,
       ae_Result = result, ae_CommandID = None, ae_OperationID = Some (op_ID (sw_Operation work)),
       ae_SafeSummary = summary\<rparr>)))"

text \<open>
  \<open>recordSuccess\<close> logs an error of the store and goes on; the callback to the validator has no
  effect on this world.
\<close>

definition recordSuccess :: "'n syncer \<Rightarrow> instant \<Rightarrow> ('n, unit) act" where
  "recordSuccess s now = act_bind (\<lambda>w. ((), w\<lparr>wd_failures := 0\<rparr>)) (\<lambda>_.
     act_bind (act_store s (WithWriteTx (MarkInstanceHealthy None now))) (\<lambda>_. act_ret ()))"

definition inbound_summary :: "string \<Rightarrow> SyncWork \<Rightarrow> string" where
  "inbound_summary sentence work = sentence @ '' (tag '' @ di_InboundTag (ir_Inbound (sw_Inbound work)) @
     '', port '' @ int_digits (di_Port (ir_Inbound (sw_Inbound work))) @ '')''"

definition confirm :: "'n syncer \<Rightarrow> SyncWork \<Rightarrow> bool \<Rightarrow> int \<Rightarrow> ('n, err + unit) act" where
  "confirm s work present version = act_bind (act_now s) (\<lambda>now.
     act_try (act_store s (WithWriteTx (ConfirmSync (op_ID (sw_Operation work)) (sy_owner s)
        (op_DesiredRevision (sw_Operation work)) version present now))) (\<lambda>confirmed.
     act_bind (recordSuccess s now) (\<lambda>_.
     if \<not> confirmed then act_ret (Inr ())
     else act_try (audit s work ''sync_succeeded'' AuditSucceeded ''Xray projection confirmed'' now) (\<lambda>_.
       if op_Reason (sw_Operation work) = SyncRotate then act_ret (Inr ())
       else act_try (audit s work (if present then ''inbound_created'' else ''inbound_removed'') AuditSucceeded
           (inbound_summary (if present then ''dedicated inbound created and listening''
              else ''dedicated inbound removed; the port stopped listening'') work) now) (\<lambda>_.
         if \<not> present \<and> mu_Lifecycle (sw_User work) = LifecycleDeleted
         then audit s work ''port_released'' AuditSucceeded
           (''port '' @ int_digits (di_Port (ir_Inbound (sw_Inbound work))) @
            '' released back to the template pool (tag '' @ di_InboundTag (ir_Inbound (sw_Inbound work)) @ '')'') now
         else act_ret (Inr ()))))))"

definition fail :: "'n syncer \<Rightarrow> SyncWork \<Rightarrow> string \<Rightarrow> string \<Rightarrow> ('n, err + unit) act" where
  "fail s work kind summary = act_bind (act_now s) (\<lambda>now. act_bind (act_now s) (\<lambda>clock.
     act_try (act_store s (WithWriteTx (FailSync (op_ID (sw_Operation work)) (sy_owner s) kind summary now clock)))
       (\<lambda>_. audit s work ''sync_failed'' AuditFailed summary now)))"

definition reschedule :: "'n syncer \<Rightarrow> SyncWork \<Rightarrow> instant \<Rightarrow> string \<Rightarrow> string \<Rightarrow> ('n, err + unit) act" where
  "reschedule s work now kind summary =
     (let attempts = op_AttemptCount (sw_Operation work) + 1;
          next = now + NextBackoff attempts (sy_maxRetry s) (sy_random s)
      in act_bind (act_now s) (\<lambda>clock.
         act_store s (WithWriteTx (RescheduleSync (op_ID (sw_Operation work)) (sy_owner s) attempts next
           kind summary clock))))"

definition retryLater :: "'n syncer \<Rightarrow> SyncWork \<Rightarrow> string \<Rightarrow> string \<Rightarrow> ('n, err + unit) act" where
  "retryLater s work kind summary =
     act_bind (act_now s) (\<lambda>now. reschedule s work now kind summary)"

definition trackDrift :: "'n syncer \<Rightarrow> SyncWork \<Rightarrow> string \<Rightarrow> string \<Rightarrow> instant \<Rightarrow> ('n, unit) act" where
  "trackDrift s work kind summary now =
     (if kind \<in> set [''incompatible_profile'', ''unsupported_protocol'', ''profile_not_found'', ''version_mismatch'']
      then act_bind (act_store s (WithWriteTx (SetTemplateCompatibility (tm_ID (sw_Template work))
             CompatibilityIncompatible summary now))) (\<lambda>_. act_ret ())
      else if kind \<in> set [''instance_unavailable'', ''deadline_exceeded'']
      then act_bind (\<lambda>w. (wd_failures w + 1, w\<lparr>wd_failures := wd_failures w + 1\<rparr>)) (\<lambda>count.
           act_bind (act_store s (WithWriteTx (MarkInstanceUnreachable kind summary now))) (\<lambda>_.
           if count \<ge> 3 \<and> tm_Compatibility (sw_Template work) = CompatibilityCompatible
           then act_bind (act_store s (WithWriteTx (SetTemplateCompatibility (tm_ID (sw_Template work))
                  CompatibilityUnreachable summary now))) (\<lambda>_. act_ret ())
           else act_ret ()))
      else act_ret ())"

definition maxInternalAttempts :: int where "maxInternalAttempts = 20"

definition retry :: "'n syncer \<Rightarrow> SyncWork \<Rightarrow> err \<Rightarrow> ('n, err + unit) act" where
  "retry s work cause = (case describe cause of (kind, retryable) \<Rightarrow>
     act_bind (act_now s) (\<lambda>now.
     act_bind (trackDrift s work kind (summaryOf cause) now) (\<lambda>_.
     if \<not> retryable \<or> (kind = ''internal'' \<and> op_AttemptCount (sw_Operation work) + 1 \<ge> maxInternalAttempts)
     then fail s work kind (summaryOf cause)
     else reschedule s work now kind (summaryOf cause))))"

definition rotationPending :: "'n syncer \<Rightarrow> SyncWork \<Rightarrow> err \<Rightarrow> ('n, err + unit) act" where
  "rotationPending s work cause = retryLater s work (fst (describe cause)) (summaryOf cause)"

section \<open>Reading Xray\<close>

definition inboundPresent :: "'n syncer \<Rightarrow> string \<Rightarrow> ('n, err + bool) act" where
  "inboundPresent s tag = act_try (act_rpc (ap_ListInbounds (sy_adapter s)))
     (\<lambda>rs. act_ret (Inr (list_ex (\<lambda>r. re_InboundTag r = tag) rs)))"

definition carriesClient :: "'n syncer \<Rightarrow> RuntimeInbound \<Rightarrow> string \<Rightarrow> ('n, err + bool) act" where
  "carriesClient s inbound statisticsID = act_try (act_rpc (ap_ListUsers (sy_adapter s) inbound))
     (\<lambda>us. act_ret (Inr (list_ex (\<lambda>u. ru_StatisticsID u = statisticsID \<and> ru_Present u) us)))"

definition observe :: "'n syncer \<Rightarrow> RuntimeInbound \<Rightarrow> string \<Rightarrow> ('n, err + bool) act" where
  "observe s inbound statisticsID = act_try (act_rpc (ap_ListUsers (sy_adapter s) inbound))
     (\<lambda>us. act_ret (Inr (case List.find (\<lambda>u. ru_StatisticsID u = statisticsID) us of
        None \<Rightarrow> False | Some u \<Rightarrow> ru_Present u)))"

section \<open>Projecting an intent\<close>

definition runtime_inbound :: "SyncWork \<Rightarrow> RuntimeInbound" where
  "runtime_inbound work = \<lparr>ri_TemplateID = tm_ID (sw_Template work),
     ri_InboundTag = di_InboundTag (ir_Inbound (sw_Inbound work)), ri_Method = tm_Method (sw_Template work)\<rparr>"

text \<open>The associated data of a stored secret (\<open>internal/security/secrets.go\<close>).\<close>

definition SecretAAD :: "string \<Rightarrow> ID \<Rightarrow> string \<Rightarrow> int \<Rightarrow> string" where
  "SecretAAD entity rowID field version =
     entity @ [CHR 0x00] @ rowID @ [CHR 0x00] @ field @ [CHR 0x00] @ int_digits version"

definition server_key :: "'n syncer \<Rightarrow> SyncWork \<Rightarrow> string option" where
  "server_key s work = sy_decrypt s (ir_ServerKeyCiphertext (sw_Inbound work)) (ir_ServerKeyNonce (sw_Inbound work))
     (SecretAAD ''dedicated_inbounds'' (al_ID (sw_Allocation work)) ''server_key''
        (ir_KeyEncryptionVersion (sw_Inbound work)))"

definition user_key :: "'n syncer \<Rightarrow> SyncWork \<Rightarrow> string option" where
  "user_key s work = sy_decrypt s (cr_KeyCiphertext (sw_Credential work)) (cr_KeyNonce (sw_Credential work))
     (SecretAAD ''access_credentials'' (al_ID (sw_Allocation work)) ''user_key''
        (cr_KeyEncryptionVersion (sw_Credential work)))"

definition create_command :: "SyncWork \<Rightarrow> string \<Rightarrow> string \<Rightarrow> CreateInboundCommand" where
  "create_command work serverKey userKey =
     \<lparr>ci_OperationID = op_ID (sw_Operation work),
      ci_InboundTag = di_InboundTag (ir_Inbound (sw_Inbound work)),
      ci_ListenAddress = di_ListenAddress (ir_Inbound (sw_Inbound work)),
      ci_Port = di_Port (ir_Inbound (sw_Inbound work)), ci_Method = tm_Method (sw_Template work),
      ci_Network = tm_Network (sw_Template work), ci_ServerKey = serverKey,
      ci_Client = \<lparr>ic_StatisticsID = xi_StatisticsID (sw_Identity work),
        ic_CredentialVersion = cr_Version (sw_Credential work), ic_UserKey = userKey\<rparr>\<rparr>"

definition work_tag :: "SyncWork \<Rightarrow> string" where
  "work_tag work = di_InboundTag (ir_Inbound (sw_Inbound work))"

definition remove_inbound :: "'n syncer \<Rightarrow> SyncWork \<Rightarrow> ('n, err + unit) act" where
  "remove_inbound s work = act_rpc (ap_RemoveInbound (sy_adapter s) (work_tag work))"

definition confirm_present :: "'n syncer \<Rightarrow> SyncWork \<Rightarrow> ('n, err + unit) act" where
  "confirm_present s work = confirm s work True (cr_Version (sw_Credential work))"

text \<open>What \<open>createDedicatedInbound\<close> does when \<open>CreateInbound\<close> returned the error \<open>e\<close>.\<close>

definition create_failed :: "'n syncer \<Rightarrow> SyncWork \<Rightarrow> err \<Rightarrow> ('n, err + unit) act" where
  "create_failed s work e = (case describe e of (kind, retryable) \<Rightarrow>
     if retryable \<and> kind \<noteq> ''instance_unavailable'' then
       fenced s work (act_bind (inboundPresent s (work_tag work)) (\<lambda>r.
         if r = Inr True then confirm_present s work else retry s work e))
     else if kind = ''port_unavailable'' \<or> kind = ''inbound_already_exists'' then
       fenced s work (act_bind (inboundPresent s (work_tag work)) (\<lambda>r.
         if r = Inr True then
           (if kind = ''port_unavailable''
            then act_bind (remove_inbound s work) (\<lambda>_. retryLater s work kind (summaryOf e))
            else act_bind (carriesClient s (runtime_inbound work) (xi_StatisticsID (sw_Identity work))) (\<lambda>h.
              if h = Inr True then confirm_present s work
              else act_bind (remove_inbound s work) (\<lambda>_. retryLater s work kind (summaryOf e))))
         else if kind = ''port_unavailable'' then retryLater s work kind (summaryOf e)
         else retry s work e))
     else retry s work e)"

definition createDedicatedInbound :: "'n syncer \<Rightarrow> SyncWork \<Rightarrow> ('n, err + unit) act" where
  "createDedicatedInbound s work =
     (case server_key s work of
        None \<Rightarrow> fail s work ''internal'' ''inbound key could not be decrypted''
      | Some serverKey \<Rightarrow>
        (case user_key s work of
           None \<Rightarrow> fail s work ''internal'' ''credential key could not be decrypted''
         | Some userKey \<Rightarrow> fenced s work
             (act_bind (act_rpc (ap_CreateInbound (sy_adapter s) (create_command work serverKey userKey)))
               (\<lambda>r. case r of Inl e \<Rightarrow> create_failed s work e | Inr _ \<Rightarrow> confirm_present s work))))"

section \<open>Rotating a credential\<close>

definition add_command :: "SyncWork \<Rightarrow> string \<Rightarrow> string \<Rightarrow> AddUserCommand" where
  "add_command work statisticsID key = \<lparr>au_OperationID = op_ID (sw_Operation work),
     au_InboundTag = work_tag work, au_AllocationID = al_ID (sw_Allocation work),
     au_StatisticsID = statisticsID, au_CredentialVersion = cr_Version (sw_Credential work), au_UserKey = key\<rparr>"

definition remove_command :: "SyncWork \<Rightarrow> string \<Rightarrow> RemoveUserCommand" where
  "remove_command work statisticsID = \<lparr>rm_OperationID = op_ID (sw_Operation work),
     rm_InboundTag = work_tag work, rm_StatisticsID = statisticsID,
     rm_ExpectedStatisticsID = xi_StatisticsID (sw_Identity work)\<rparr>"

text \<open>Step 4: the transition client goes.\<close>

definition rotate_cleanup :: "'n syncer \<Rightarrow> SyncWork \<Rightarrow> ('n, err + unit) act" where
  "rotate_cleanup s work = fenced s work (act_bind
     (act_rpc (ap_RemoveUser (sy_adapter s) (remove_command work (RotationSafetyID (xi_StatisticsID (sw_Identity work))))))
     (\<lambda>r. case r of
        Inl e \<Rightarrow> if fst (describe e) \<noteq> ''user_not_found'' \<and> fst (describe e) \<noteq> ''inbound_not_found''
                 then rotationPending s work e else confirm_present s work
      | Inr _ \<Rightarrow> confirm_present s work))"

text \<open>Step 3: the client comes back with the desired version's key.\<close>

definition rotate_add :: "'n syncer \<Rightarrow> SyncWork \<Rightarrow> ('n, err + unit) act" where
  "rotate_add s work = (case user_key s work of
     None \<Rightarrow> fail s work ''internal'' ''credential key could not be decrypted''
   | Some key \<Rightarrow> fenced s work (act_bind
       (act_rpc (ap_AddUser (sy_adapter s) (add_command work (xi_StatisticsID (sw_Identity work)) key)))
       (\<lambda>r. case r of
          Inr _ \<Rightarrow> rotate_cleanup s work
        | Inl e \<Rightarrow> (case describe e of (kind, retryable) \<Rightarrow>
            if kind = ''user_already_exists'' then rotate_cleanup s work
            else if kind = ''inbound_not_found'' then createDedicatedInbound s work
            else if retryable \<and> kind \<noteq> ''instance_unavailable''
            then fenced s work (act_bind (carriesClient s (runtime_inbound work) (xi_StatisticsID (sw_Identity work)))
              (\<lambda>h. if h = Inr True then rotate_cleanup s work else rotationPending s work e))
            else rotationPending s work e))))"

text \<open>Step 2: the old client goes, when it was there.\<close>

definition rotate_remove :: "'n syncer \<Rightarrow> SyncWork \<Rightarrow> bool \<Rightarrow> ('n, err + unit) act" where
  "rotate_remove s work present =
     (if \<not> present then rotate_add s work
      else fenced s work (act_bind
        (act_rpc (ap_RemoveUser (sy_adapter s) (remove_command work (xi_StatisticsID (sw_Identity work)))))
        (\<lambda>r. case r of
           Inr _ \<Rightarrow> rotate_add s work
         | Inl e \<Rightarrow> if fst (describe e) = ''inbound_not_found'' then createDedicatedInbound s work
                   else if fst (describe e) = ''user_not_found'' then rotate_add s work
                   else retry s work e)))"

text \<open>Step 1: the transition client, when it is not there yet.\<close>

definition rotate_safety :: "'n syncer \<Rightarrow> SyncWork \<Rightarrow> bool \<Rightarrow> bool \<Rightarrow> ('n, err + unit) act" where
  "rotate_safety s work present safetyPresent =
     (if safetyPresent then rotate_remove s work present
      else (case sy_safetyKey s (tm_Method (sw_Template work)) of
         None \<Rightarrow> fail s work ''internal'' ''rotation safety key could not be generated''
       | Some key \<Rightarrow> fenced s work (act_bind
           (act_rpc (ap_AddUser (sy_adapter s)
              (add_command work (RotationSafetyID (xi_StatisticsID (sw_Identity work))) key)))
           (\<lambda>r. case r of
              Inr _ \<Rightarrow> rotate_remove s work present
            | Inl e \<Rightarrow> (case describe e of (kind, retryable) \<Rightarrow>
                if kind = ''user_already_exists'' then rotate_remove s work present
                else if kind = ''inbound_not_found'' then createDedicatedInbound s work
                else if \<not> retryable \<or> kind = ''instance_unavailable'' then retry s work e
                else fenced s work (act_bind (carriesClient s (runtime_inbound work)
                       (RotationSafetyID (xi_StatisticsID (sw_Identity work))))
                     (\<lambda>h. if h = Inr True then rotate_remove s work present else retry s work e)))))))"

definition user_present :: "string \<Rightarrow> RemoteUser list \<Rightarrow> bool" where
  "user_present statisticsID us \<longleftrightarrow> list_ex (\<lambda>u. ru_Present u \<and> ru_StatisticsID u = statisticsID) us"

definition rotateWithinInbound :: "'n syncer \<Rightarrow> SyncWork \<Rightarrow> ('n, err + unit) act" where
  "rotateWithinInbound s work = fenced s work (act_bind
     (act_rpc (ap_ListUsers (sy_adapter s) (runtime_inbound work)))
     (\<lambda>r. case r of
        Inl e \<Rightarrow> if fst (describe e) = ''inbound_not_found'' then createDedicatedInbound s work
                 else retry s work e
      | Inr us \<Rightarrow> rotate_safety s work (user_present (xi_StatisticsID (sw_Identity work)) us)
          (user_present (RotationSafetyID (xi_StatisticsID (sw_Identity work))) us)))"

section \<open>The handler\<close>

definition handle_absent :: "'n syncer \<Rightarrow> SyncWork \<Rightarrow> ('n, err + unit) act" where
  "handle_absent s work = fenced s work (act_bind (remove_inbound s work) (\<lambda>r. case r of
     Inr _ \<Rightarrow> confirm s work False 0
   | Inl e \<Rightarrow> (case describe e of (kind, retryable) \<Rightarrow>
       if kind = ''inbound_not_found'' then confirm s work False 0
       else if retryable \<and> kind \<noteq> ''instance_unavailable''
       then fenced s work (act_bind (inboundPresent s (work_tag work)) (\<lambda>p.
         if p = Inr False then confirm s work False 0 else retry s work e))
       else retry s work e)))"

definition handle_port_change :: "'n syncer \<Rightarrow> SyncWork \<Rightarrow> ('n, err + unit) act" where
  "handle_port_change s work = fenced s work (act_bind (remove_inbound s work) (\<lambda>r. case r of
     Inr _ \<Rightarrow> createDedicatedInbound s work
   | Inl e \<Rightarrow> if fst (describe e) \<noteq> ''inbound_not_found'' then retry s work e
             else createDedicatedInbound s work))"

definition handle :: "'n syncer \<Rightarrow> SyncWork \<Rightarrow> ('n, err + unit) act" where
  "handle s work = act_bind (act_now s) (\<lambda>started.
     if \<not> op_DesiredPresence (sw_Operation work) then handle_absent s work
     else if op_Reason (sw_Operation work) = SyncRotate then rotateWithinInbound s work
     else if op_Reason (sw_Operation work) = SyncPortChange then handle_port_change s work
     else createDedicatedInbound s work)"

section \<open>Drift removals\<close>

definition drift_audit :: "'n syncer \<Rightarrow> DriftRemoval \<Rightarrow> AuditResult \<Rightarrow> string \<Rightarrow> instant \<Rightarrow> ('n, AuditEvent) act" where
  "drift_audit s removal result summary now = act_bind (act_newID s) (\<lambda>i. act_ret
     \<lparr>ae_ID = i, ae_OccurredAt = now, ae_ActorType = ActorSystem, ae_ActorID = None,
      ae_TargetType = ''template'', ae_TargetID = dr_TemplateID removal,
      ae_Action = ''reconcile_removed_unknown'', ae_Result = result, ae_CommandID = None,
      ae_OperationID = Some (dr_ID removal), ae_SafeSummary = summary\<rparr>)"

definition fence_drift :: "'n syncer \<Rightarrow> DriftRemoval \<Rightarrow> ('n, err + unit) act \<Rightarrow> ('n, err + unit) act" where
  "fence_drift s removal rest = act_bind (act_now s) (\<lambda>now.
     act_try (act_store s (WithWriteTx (RenewDriftRemovalLease (dr_ID removal) (sy_owner s) now (sy_lease s))))
       (\<lambda>held. if held then rest else act_ret (Inr ())))"

definition drift_observe :: "'n syncer \<Rightarrow> DriftRemoval \<Rightarrow> ('n, err + bool) act" where
  "drift_observe s removal =
     (if dr_Kind removal = ''inbound'' then inboundPresent s (dr_InboundTag removal)
      else observe s \<lparr>ri_TemplateID = dr_TemplateID removal, ri_InboundTag = dr_InboundTag removal, ri_Method = ''''\<rparr>
             (dr_StatisticsID removal))"

definition drift_remove :: "'n syncer \<Rightarrow> DriftRemoval \<Rightarrow> ('n, err + unit) act" where
  "drift_remove s removal =
     (if dr_Kind removal = ''inbound'' then act_rpc (ap_RemoveInbound (sy_adapter s) (dr_InboundTag removal))
      else act_rpc (ap_RemoveUser (sy_adapter s) \<lparr>rm_OperationID = dr_ID removal,
        rm_InboundTag = dr_InboundTag removal, rm_StatisticsID = dr_StatisticsID removal,
        rm_ExpectedStatisticsID = dr_ExpectedStatisticsID removal\<rparr>))"

definition drift_complete :: "'n syncer \<Rightarrow> DriftRemoval \<Rightarrow> instant \<Rightarrow> string \<Rightarrow> ('n, err + unit) act" where
  "drift_complete s removal now summary = act_bind (drift_audit s removal AuditSucceeded summary now) (\<lambda>e.
     act_store s (WithWriteTx (CompleteDriftRemoval (dr_ID removal) (sy_owner s) now e)))"

definition drift_not_converged :: "'n syncer \<Rightarrow> DriftRemoval \<Rightarrow> instant \<Rightarrow> err \<Rightarrow> ('n, err + unit) act" where
  "drift_not_converged s removal now e = (case describe e of (kind, retryable) \<Rightarrow>
     let attempts = dr_AttemptCount removal + 1 in
     if \<not> retryable \<or> (kind = ''internal'' \<and> attempts \<ge> maxInternalAttempts)
     then act_bind (drift_audit s removal AuditFailed (''removal of unknown identity failed: '' @ summaryOf e) now) (\<lambda>ev.
       act_store s (WithWriteTx (FailDriftRemoval (dr_ID removal) (sy_owner s) kind (summaryOf e) now ev)))
     else act_store s (WithWriteTx (RescheduleDriftRemoval (dr_ID removal) (sy_owner s) attempts
       (now + NextBackoff attempts (sy_maxRetry s) (sy_random s)) kind (summaryOf e))))"

definition drift_execute :: "'n syncer \<Rightarrow> DriftRemoval \<Rightarrow> instant \<Rightarrow> ('n, err + unit) act" where
  "drift_execute s removal now = act_bind (drift_remove s removal) (\<lambda>r.
     let removed = ''removed unknown '' @ dr_Kind removal @ '' from the managed namespace'';
         absent = ''unknown '' @ dr_Kind removal @ '' confirmed absent from the managed namespace''
     in case r of
        Inr _ \<Rightarrow> drift_complete s removal now removed
      | Inl e \<Rightarrow> (case describe e of (kind, retryable) \<Rightarrow>
          if kind = ''user_not_found'' \<or> kind = ''inbound_not_found''
          then drift_complete s removal now absent
          else if retryable \<and> kind \<noteq> ''instance_unavailable''
          then fence_drift s removal (act_bind (drift_observe s removal) (\<lambda>p.
            if p = Inr False then drift_complete s removal now removed
            else drift_not_converged s removal now e))
          else drift_not_converged s removal now e))"

definition handleDriftRemoval :: "'n syncer \<Rightarrow> DriftRemoval \<Rightarrow> ('n, err + unit) act" where
  "handleDriftRemoval s removal = act_bind (act_now s) (\<lambda>now. fence_drift s removal
     (if dr_Reclaimed removal
      then act_bind (drift_observe s removal) (\<lambda>p.
        if p = Inr False
        then drift_complete s removal now ''drift target confirmed absent after lease reclaim''
        else drift_execute s removal now)
      else drift_execute s removal now))"

section \<open>Draining the queue\<close>

text \<open>
  The two loops of \<open>Drain\<close>: first every due operation, then every due removal. Other goroutines may
  enqueue for ever, so the loops take fuel, and running out of it is \<open>None\<close>. The result is the
  number of intents handled; cancellation of the context is left out.
\<close>

primrec drain_sync :: "'n syncer \<Rightarrow> nat \<Rightarrow> int \<Rightarrow> ('n, (err + int) option) act" where
  "drain_sync s 0 processed = act_ret None"
| "drain_sync s (Suc fuel) processed = act_bind (act_now s) (\<lambda>now.
     act_bind (act_store s (LeaseDueSync (sy_owner s) now (sy_lease s))) (\<lambda>r. case r of
       Inl e \<Rightarrow> act_ret (Some (Inl e))
     | Inr None \<Rightarrow> act_ret (Some (Inr processed))
     | Inr (Some work) \<Rightarrow> act_bind (handle s work) (\<lambda>h. case h of
         Inl e \<Rightarrow> act_ret (Some (Inl e))
       | Inr _ \<Rightarrow> drain_sync s fuel (processed + 1))))"

primrec drain_drift :: "'n syncer \<Rightarrow> nat \<Rightarrow> int \<Rightarrow> ('n, (err + int) option) act" where
  "drain_drift s 0 processed = act_ret None"
| "drain_drift s (Suc fuel) processed = act_bind (act_now s) (\<lambda>now.
     act_bind (act_store s (WithWriteTx (LeaseDueDriftRemoval (sy_owner s) now (sy_lease s)))) (\<lambda>r. case r of
       Inl e \<Rightarrow> act_ret (Some (Inl e))
     | Inr None \<Rightarrow> act_ret (Some (Inr processed))
     | Inr (Some removal) \<Rightarrow> act_bind (handleDriftRemoval s removal) (\<lambda>h. case h of
         Inl e \<Rightarrow> act_ret (Some (Inl e))
       | Inr _ \<Rightarrow> drain_drift s fuel (processed + 1))))"

definition Drain :: "'n syncer \<Rightarrow> nat \<Rightarrow> ('n, (err + int) option) act" where
  "Drain s fuel = act_bind (drain_sync s fuel 0) (\<lambda>r. case r of
     Some (Inr processed) \<Rightarrow> drain_drift s fuel processed
   | _ \<Rightarrow> act_ret r)"

end
