(* ===== verification/Names.thy ===== *)
theory Names
  imports Xray_Adapter Quota_Model
begin

text \<open>
  Names as administrators enter them and keys as the panel generates them: the constructors of
  \<open>internal/domain/user.go\<close> and \<open>internal/domain/template.go\<close>, the key generation of
  \<open>internal/security/tokens.go\<close>, and the parts of the packages \<open>unicode/utf8\<close>, \<open>strings\<close> and
  \<open>encoding/base64\<close> they use. The tables of Unicode (NFKC, lower case, case folding) are
  parameters.
\<close>

section \<open>UTF-8\<close>

definition byte :: "char \<Rightarrow> nat" where
  "byte c = of_char c"

definition continuation :: "nat \<Rightarrow> nat \<Rightarrow> char \<Rightarrow> bool" where
  "continuation lo hi c \<longleftrightarrow> lo \<le> byte c \<and> byte c \<le> hi"

text \<open>
  \<open>utf8.DecodeRuneInString\<close>: the first rune and its width; \<open>U+FFFD\<close> of width 1 for an invalid byte.
\<close>

definition decode_rune :: "string \<Rightarrow> nat \<times> nat" where
  "decode_rune s = (case s of
     [] \<Rightarrow> (0xFFFD, 0)
   | c0 # r \<Rightarrow>
     (let b0 = byte c0; bad = (0xFFFD, 1);
          lo = (if b0 = 0xE0 then 0xA0 else if b0 = 0xF0 then 0x90 else 0x80);
          hi = (if b0 = 0xED then 0x9F else if b0 = 0xF4 then 0x8F else 0xBF)
      in if b0 < 0x80 then (b0, 1)
         else if 0xC2 \<le> b0 \<and> b0 \<le> 0xDF then
           (case r of c1 # _ \<Rightarrow> if continuation 0x80 0xBF c1 then ((b0 mod 32) * 64 + byte c1 mod 64, 2) else bad
            | [] \<Rightarrow> bad)
         else if 0xE0 \<le> b0 \<and> b0 \<le> 0xEF then
           (case r of c1 # c2 # _ \<Rightarrow> if continuation lo hi c1 \<and> continuation 0x80 0xBF c2
                then ((b0 mod 16) * 4096 + (byte c1 mod 64) * 64 + byte c2 mod 64, 3) else bad
            | _ \<Rightarrow> bad)
         else if 0xF0 \<le> b0 \<and> b0 \<le> 0xF4 then
           (case r of c1 # c2 # c3 # _ \<Rightarrow>
                if continuation lo hi c1 \<and> continuation 0x80 0xBF c2 \<and> continuation 0x80 0xBF c3
                then ((b0 mod 8) * 262144 + (byte c1 mod 64) * 4096 + (byte c2 mod 64) * 64 + byte c3 mod 64, 4)
                else bad
            | _ \<Rightarrow> bad)
         else bad))"

text \<open>The runes of a string, each with its bytes.\<close>

function runes :: "string \<Rightarrow> (nat \<times> string) list" where
  "runes s = (if s = [] then [] else
     (case decode_rune s of (r, w) \<Rightarrow> (r, take (max 1 w) s) # runes (drop (max 1 w) s)))"
  by auto

termination by (relation "measure length") (auto simp: max_def)

declare runes.simps [simp del]

lemma runes_Nil [simp]: "runes [] = []"
  by (simp add: runes.simps)

lemma runes_Cons: "runes (c # s) = (case decode_rune (c # s) of (r, w) \<Rightarrow>
    (r, take (max 1 w) (c # s)) # runes (drop (max 1 w) (c # s)))"
  by (simp add: runes.simps [of "c # s"])

lemma runes_bytes: "concat (map snd (runes s)) = s"
proof (induction s rule: runes.induct)
  case (1 s)
  then show ?case by (cases s) (auto simp: runes_Cons split: prod.splits)
qed

definition RuneCountInString :: "string \<Rightarrow> nat" where
  "RuneCountInString s = length (runes s)"

definition char_at :: "nat \<Rightarrow> char" where
  "char_at n = char_of n"

text \<open>\<open>utf8.AppendRune\<close>; surrogates and values out of range are written as \<open>U+FFFD\<close>.\<close>

definition encode_rune :: "nat \<Rightarrow> string" where
  "encode_rune r =
     (if r < 0x80 then [char_at r]
      else if r < 0x800 then [char_at (0xC0 + r div 64), char_at (0x80 + r mod 64)]
      else if (0xD800 \<le> r \<and> r \<le> 0xDFFF) \<or> 0x10FFFF < r then [char_at 0xEF, char_at 0xBF, char_at 0xBD]
      else if r < 0x10000 then [char_at (0xE0 + r div 4096), char_at (0x80 + r div 64 mod 64), char_at (0x80 + r mod 64)]
      else [char_at (0xF0 + r div 262144), char_at (0x80 + r div 4096 mod 64), char_at (0x80 + r div 64 mod 64),
            char_at (0x80 + r mod 64)])"

text \<open>Of ASCII, each character is a rune.\<close>

lemma runes_ascii: "list_all (\<lambda>c. byte c < 128) s \<Longrightarrow> runes s = map (\<lambda>c. (byte c, [c])) s"
  by (induction s) (auto simp: runes_Cons decode_rune_def Let_def)

lemma encode_ascii: "byte c < 128 \<Longrightarrow> encode_rune (byte c) = [c]"
  by (simp add: encode_rune_def char_at_def byte_def)

section \<open>Strings\<close>

definition IsSpace :: "nat \<Rightarrow> bool" where
  "IsSpace r \<longleftrightarrow> (9 \<le> r \<and> r \<le> 13) \<or> r = 32 \<or> r = 0x85 \<or> r = 0xA0 \<or> r = 0x1680 \<or> (0x2000 \<le> r \<and> r \<le> 0x200A) \<or>
     r = 0x2028 \<or> r = 0x2029 \<or> r = 0x202F \<or> r = 0x205F \<or> r = 0x3000"

definition IsControl :: "nat \<Rightarrow> bool" where
  "IsControl r \<longleftrightarrow> r < 32 \<or> (127 \<le> r \<and> r < 160)"

definition trim_runes :: "(nat \<times> string) list \<Rightarrow> (nat \<times> string) list" where
  "trim_runes rs = rev (dropWhile (IsSpace \<circ> fst) (rev (dropWhile (IsSpace \<circ> fst) rs)))"

definition TrimSpace :: "string \<Rightarrow> string" where
  "TrimSpace s = concat (map snd (trim_runes (runes s)))"

fun field_scan :: "string \<Rightarrow> (nat \<times> string) list \<Rightarrow> string list" where
  "field_scan acc [] = (if acc = [] then [] else [acc])"
| "field_scan acc ((r, b) # rs) =
     (if IsSpace r then (if acc = [] then field_scan [] rs else acc # field_scan [] rs) else field_scan (acc @ b) rs)"

definition Fields :: "string \<Rightarrow> string list" where
  "Fields s = field_scan [] (runes s)"

fun Join :: "string list \<Rightarrow> string \<Rightarrow> string" where
  "Join [] sep = []"
| "Join [x] sep = x"
| "Join (x # xs) sep = x @ sep @ Join xs sep"

text \<open>The tables of Unicode: normalization form KC, lower case, a representative up to case.\<close>

record unicode =
  un_NFKC :: "string \<Rightarrow> string"
  un_lower :: "nat \<Rightarrow> nat"
  un_fold :: "nat \<Rightarrow> nat"

definition ToLower :: "'u unicode_scheme \<Rightarrow> string \<Rightarrow> string" where
  "ToLower u s = concat (map (encode_rune \<circ> un_lower u \<circ> fst) (runes s))"

definition EqualFold :: "'u unicode_scheme \<Rightarrow> string \<Rightarrow> string \<Rightarrow> bool" where
  "EqualFold u s t \<longleftrightarrow> map (un_fold u \<circ> fst) (runes s) = map (un_fold u \<circ> fst) (runes t)"

section \<open>Display names, users and templates\<close>

definition NormalizeDisplayName :: "'u unicode_scheme \<Rightarrow> string \<Rightarrow> err + string" where
  "NormalizeDisplayName u value =
     (let trimmed = TrimSpace value; count = RuneCountInString trimmed in
      if count < 1 \<or> count > 64 then Inl (PlainError ''display name must contain 1 to 64 characters'')
      else if list_ex (IsControl \<circ> fst) (runes trimmed)
      then Inl (PlainError ''display name must not contain control characters'')
      else Inr (ToLower u (Join (Fields (un_NFKC u trimmed)) '' '')))"

text \<open>\<open>&ValidationError{Field: field, Message: err.Error()}\<close> around an error made by \<open>errors.New\<close>.\<close>

definition as_field :: "string \<Rightarrow> err \<Rightarrow> err" where
  "as_field field e = (case e of PlainError m \<Rightarrow> ValidationError field m | _ \<Rightarrow> e)"

definition NewManagedUser :: "'u unicode_scheme \<Rightarrow> ID \<Rightarrow> string \<Rightarrow> instant \<Rightarrow> err + ManagedUser" where
  "NewManagedUser u i displayName now = (case NormalizeDisplayName u displayName of
     Inl e \<Rightarrow> Inl (as_field ''display_name'' e)
   | Inr normalized \<Rightarrow> Inr \<lparr>mu_ID = i, mu_DisplayName = TrimSpace displayName, mu_NormalizedName = normalized,
       mu_Lifecycle = LifecycleActive, mu_Revision = 0, mu_CreatedAt = now, mu_UpdatedAt = now, mu_DeletedAt = None\<rparr>)"

text \<open>\<open>strings.Trim(s, "[]")\<close>.\<close>

definition trim_brackets :: "string \<Rightarrow> string" where
  "trim_brackets s = (let b = (\<lambda>c. c = CHR ''['' \<or> c = CHR '']'') in rev (dropWhile b (rev (dropWhile b s))))"

text \<open>The string values of \<open>Network\<close>.\<close>

definition network_string :: "Network \<Rightarrow> string" where
  "network_string n = (case n of NetworkTCP \<Rightarrow> ''tcp'' | NetworkUDP \<Rightarrow> ''udp'' | NetworkTCPUDP \<Rightarrow> ''tcp_udp'')"

definition parse_network :: "string \<Rightarrow> Network option" where
  "parse_network s = List.find (\<lambda>n. network_string n = s) [NetworkTCP, NetworkUDP, NetworkTCPUDP]"

definition NewInboundTemplate :: "'u unicode_scheme \<Rightarrow> ID \<Rightarrow> ID \<Rightarrow> string \<Rightarrow> string \<Rightarrow> string \<Rightarrow> int \<Rightarrow> int \<Rightarrow>
    string \<Rightarrow> string \<Rightarrow> instant \<Rightarrow> err + InboundTemplate" where
  "NewInboundTemplate u i inst name publicHost listenAddress poolStart poolEnd method network now =
     (case NormalizeDisplayName u name of
        Inl e \<Rightarrow> Inl (as_field ''name'' e)
      | Inr normalized \<Rightarrow>
        if TrimSpace publicHost = '''' then Inl (ValidationError ''public_host'' ''public host is required'')
        else if \<not> ParseIP (trim_brackets publicHost) \<and> list_ex (\<lambda>c. c \<in> set '' /?#'') publicHost
        then Inl (ValidationError ''public_host'' ''public host is invalid'')
        else let listen = TrimSpace listenAddress in
        if \<not> ParseIP listen then Inl (ValidationError ''listen_address'' ''listen address must be an IP literal'')
        else (case NewPortPool poolStart poolEnd of
          Inl e \<Rightarrow> Inl e
        | Inr pool \<Rightarrow>
          if method \<noteq> ''2022-blake3-aes-128-gcm'' \<and> method \<noteq> ''2022-blake3-aes-256-gcm''
          then Inl (ValidationError ''method'' ''unsupported Shadowsocks 2022 method'')
          else (case parse_network network of
            None \<Rightarrow> Inl (ValidationError ''network'' ''network must be tcp, udp, or tcp_udp'')
          | Some net \<Rightarrow> Inr \<lparr>tm_ID = i, tm_InstanceID = inst, tm_Name = TrimSpace name, tm_NormalizedName = normalized,
            tm_PublicHost = TrimSpace publicHost, tm_ListenAddress = listen, tm_Pool = pool, tm_Method = method,
            tm_Network = net, tm_Compatibility = CompatibilityUnverified, tm_CompatibilityReason = '''',
            tm_LastValidatedAt = None, tm_ValidatedGeneration = 0, tm_Revision = 0, tm_ArchivedAt = None,
            tm_CreatedAt = now, tm_UpdatedAt = now\<rparr>)))"

section \<open>Base64 and keys\<close>

definition alphabet :: string where
  "alphabet = ''ABCDEFGHIJKLMNOPQRSTUVWXYZabcdefghijklmnopqrstuvwxyz0123456789+/''"

definition sextet :: "nat \<Rightarrow> char" where
  "sextet n = alphabet ! (n mod 64)"

text \<open>\<open>base64.RawStdEncoding.EncodeToString\<close>, and \<open>StdEncoding\<close> with its padding.\<close>

fun base64_raw :: "8 word list \<Rightarrow> string" where
  "base64_raw [] = []"
| "base64_raw [a] = (let n = unat a * 65536 in [sextet (n div 262144), sextet (n div 4096)])"
| "base64_raw [a, b] = (let n = unat a * 65536 + unat b * 256 in
     [sextet (n div 262144), sextet (n div 4096), sextet (n div 64)])"
| "base64_raw (a # b # c # rest) = (let n = unat a * 65536 + unat b * 256 + unat c in
     [sextet (n div 262144), sextet (n div 4096), sextet (n div 64), sextet n] @ base64_raw rest)"

definition base64_std :: "8 word list \<Rightarrow> string" where
  "base64_std bs = base64_raw bs @ replicate ((3 - length bs mod 3) mod 3) (CHR ''='')"

definition url_char :: "char \<Rightarrow> char" where
  "url_char c = (if c = CHR ''+'' then CHR ''-'' else if c = CHR ''/'' then CHR ''_'' else c)"

definition base64_url :: "8 word list \<Rightarrow> string" where
  "base64_url bs = map url_char (base64_raw bs)"

definition bytes_of_string :: "string \<Rightarrow> 8 word list" where
  "bytes_of_string s = map (\<lambda>c. of_nat (byte c)) s"

definition string_of_bytes :: "8 word list \<Rightarrow> string" where
  "string_of_bytes bs = map (\<lambda>b. char_at (unat b)) bs"

text \<open>The bytes are those \<open>rand.Read\<close> fills: one list for each length.\<close>

definition GenerateUserKey :: "(nat \<Rightarrow> 8 word list) \<Rightarrow> string \<Rightarrow> err + string" where
  "GenerateUserKey rnd method = (case methodKeyLength method of
     Inl e \<Rightarrow> Inl e | Inr n \<Rightarrow> Inr (base64_std (rnd n)))"

section \<open>Facts\<close>

lemma string_of_bytes_of [simp]: "string_of_bytes (bytes_of_string s) = s"
proof -
  have "char_at (unat (of_nat (byte c) :: 8 word)) = c" for c
    by (simp add: char_at_def byte_def unat_of_nat)
  then show ?thesis by (simp add: string_of_bytes_def bytes_of_string_def comp_def)
qed

lemma alphabet_base64: "list_all base64_char alphabet"
  by code_simp

lemma length_alphabet: "length alphabet = 64"
  by code_simp

lemma sextet_base64 [simp]: "base64_char (sextet n)"
  using alphabet_base64 by (simp add: sextet_def list_all_length length_alphabet)

lemma base64_raw_chars: "list_all base64_char (base64_raw bs)"
  by (induction bs rule: base64_raw.induct) (simp_all add: Let_def)

lemma length_base64_raw: "length (base64_raw bs) = (8 * length bs + 5) div 6"
  by (induction bs rule: base64_raw.induct) (simp_all add: Let_def)

lemma base64_char_plain: "base64_char c \<Longrightarrow> c \<noteq> CHR 0x0A \<and> c \<noteq> CHR 0x0D \<and> c \<noteq> CHR ''=''"
  by (auto simp: base64_char_def less_eq_char_def)

lemma base64_padded:
  "length (base64_raw bs) + (3 - length bs mod 3) mod 3 = 4 * ((length bs + 2) div 3)"
  "3 * ((length bs + 2) div 3) - (3 - length bs mod 3) mod 3 = length bs"
proof -
  define q r where "q = length bs div 3" and "r = length bs mod 3"
  have n: "length bs = 3 * q + r" and r: "r < 3" by (simp_all add: q_def r_def)
  have m: "length bs mod 3 = r" by (simp add: r_def)
  have up: "(length bs + 2) div 3 = q + (r + 2) div 3" unfolding n by simp
  have raw: "length (base64_raw bs) = 4 * q + (8 * r + 5) div 6" unfolding length_base64_raw n by simp
  from r consider "r = 0" | "r = 1" | "r = 2" by linarith
  then show "length (base64_raw bs) + (3 - length bs mod 3) mod 3 = 4 * ((length bs + 2) div 3)"
    unfolding raw m up by cases simp_all
  from r consider "r = 0" | "r = 1" | "r = 2" by linarith
  then show "3 * ((length bs + 2) div 3) - (3 - length bs mod 3) mod 3 = length bs"
    unfolding m up by cases (simp_all add: n)
qed

lemma base64_length_std: "base64_length (base64_std bs) = Some (length bs)"
proof -
  let ?raw = "base64_raw bs" and ?pad = "(3 - length bs mod 3) mod 3"
  have raw: "base64_char c" if "c \<in> set ?raw" for c using base64_raw_chars that by (auto simp: list_all_iff)
  have "CHR ''='' \<noteq> CHR 0x0A \<and> CHR ''='' \<noteq> CHR 0x0D" by simp
  then have "c \<noteq> CHR 0x0A \<and> c \<noteq> CHR 0x0D" if "c \<in> set (base64_std bs)" for c
    using that base64_char_plain [OF raw [of c]] by (auto simp: base64_std_def)
  then have plain: "filter (\<lambda>c. c \<noteq> CHR 0x0A \<and> c \<noteq> CHR 0x0D) (base64_std bs) = base64_std bs"
    by (simp add: filter_id_conv)
  have eq: "\<not> base64_char (CHR ''='')" by code_simp
  have "takeWhile base64_char (replicate n (CHR ''='')) = []" for n by (cases n) (simp_all add: eq)
  then have body: "takeWhile base64_char (base64_std bs) = ?raw"
    using raw by (simp add: base64_std_def takeWhile_append2)
  have len: "length (base64_std bs) = 4 * ((length bs + 2) div 3)"
    using base64_padded(1) [of bs] by (simp add: base64_std_def)
  have pad: "length (base64_std bs) - length ?raw = ?pad" by (simp add: base64_std_def)
  have tail: "list_all (\<lambda>c. c = CHR ''='') (drop (length ?raw) (base64_std bs))"
    by (simp add: base64_std_def list_all_iff)
  have "length (base64_std bs) mod 4 = 0" "3 * (length (base64_std bs) div 4) - ?pad = length bs"
    unfolding len using base64_padded(2) [of bs] by simp_all
  moreover have "?pad < 3" by (rule mod_less_divisor) simp
  then have "?pad \<le> 2" by linarith
  ultimately show ?thesis unfolding base64_length_def Let_def plain body pad using tail by simp
qed

lemma generated_key_valid:
  assumes "\<And>n. length (rnd n) = n" "GenerateUserKey rnd method = Inr key"
  shows "ValidateUserKey method key = Inr ()"
  using assms by (auto simp: GenerateUserKey_def ValidateUserKey_def base64_length_std split: sum.splits)

end
