(* ===== verification/User_Service.thy ===== *)
theory User_Service
  imports Names Synchronizer
begin

text \<open>
  The services behind the pages on users: \<open>internal/application/user_service.go\<close>. Every method is an
  action on the world; its accesses to the store are separate, as in the code, so other goroutines
  may act between them. Encryption and the random source are parameters, SHA-256 is one too.
\<close>

section \<open>What the services share\<close>

record services = surroundings +
  sv_unicode :: unicode
  sv_sha :: "string \<Rightarrow> 8 word list"
  sv_random :: "nat \<Rightarrow> nat \<Rightarrow> 8 word list"
  sv_encrypt :: "nat \<Rightarrow> string \<Rightarrow> string \<Rightarrow> 8 word list \<times> 8 word list"
  sv_decrypt :: "8 word list \<Rightarrow> 8 word list \<Rightarrow> string \<Rightarrow> string option"
  sv_zones :: "string \<Rightarrow> Location option"
  sv_fresh :: "nat \<Rightarrow> nat \<Rightarrow> ID"
  sv_notify :: bool

definition act_userKey :: "services \<Rightarrow> string \<Rightarrow> ('n, err + string) act" where
  "act_userKey s method = (\<lambda>w. (GenerateUserKey (sv_random s (wd_tick w)) method, w\<lparr>wd_tick := wd_tick w + 1\<rparr>))"

definition act_encrypt :: "services \<Rightarrow> string \<Rightarrow> string \<Rightarrow> ('n, 8 word list \<times> 8 word list) act" where
  "act_encrypt s plaintext aad = (\<lambda>w. (sv_encrypt s (wd_tick w) plaintext aad, w\<lparr>wd_tick := wd_tick w + 1\<rparr>))"

text \<open>New identifiers, one call for each.\<close>

primrec act_newIDs :: "services \<Rightarrow> nat \<Rightarrow> ('n, ID list) act" where
  "act_newIDs s 0 = act_ret []"
| "act_newIDs s (Suc n) = act_bind (act_newID s) (\<lambda>i. act_bind (act_newIDs s n) (\<lambda>is. act_ret (i # is)))"

definition invalid_request :: err where
  "invalid_request = ValidationError ''_request_id'' ''invalid request identifier''"

definition limit_text :: "int option \<Rightarrow> string" where
  "limit_text limit = (case limit of None \<Rightarrow> ''unlimited'' | Some l \<Rightarrow> int_digits l)"

definition bool_text :: "bool \<Rightarrow> string" where
  "bool_text b = (if b then ''true'' else ''false'')"

text \<open>The handler's fingerprint, or that of the fields of the request.\<close>

definition request_fingerprint :: "services \<Rightarrow> 8 word list \<Rightarrow> string list \<Rightarrow> 8 word list" where
  "request_fingerprint s given parts = (if given = [] then Fingerprint (sv_sha s) parts else given)"

definition user_command :: "ID \<Rightarrow> ID \<Rightarrow> string \<Rightarrow> ID \<Rightarrow> 8 word list \<Rightarrow> string \<Rightarrow> instant \<Rightarrow> DomainCommand" where
  "user_command request actor action target fingerprint reference now =
     \<lparr>dc_ID = request, dc_ActorType = ActorAdministrator, dc_ActorID = Some actor, dc_CommandType = action,
      dc_TargetType = ''user'', dc_TargetID = target, dc_RequestFingerprint = fingerprint,
      dc_State = CommandCompleted, dc_ResultReference = reference, dc_CreatedAt = now, dc_CompletedAt = Some now\<rparr>"

definition user_audit :: "ID \<Rightarrow> ID \<Rightarrow> ID \<Rightarrow> ID \<Rightarrow> string \<Rightarrow> ID option \<Rightarrow> string \<Rightarrow> instant \<Rightarrow> AuditEvent" where
  "user_audit i request actor target action operation summary now =
     \<lparr>ae_ID = i, ae_OccurredAt = now, ae_ActorType = ActorAdministrator, ae_ActorID = Some actor,
      ae_TargetType = ''user'', ae_TargetID = target, ae_Action = action, ae_Result = AuditAccepted,
      ae_CommandID = Some request, ae_OperationID = operation, ae_SafeSummary = summary\<rparr>"

section \<open>Creating a user\<close>

record CreateUserInput =
  cu_DisplayName :: string
  cu_TemplateID :: ID
  cu_Port :: "int option"
  cu_LimitBytes :: "int option"
  cu_ResetDay :: int
  cu_RequestID :: ID
  cu_ActorID :: ID
  cu_Fingerprint :: "8 word list"

text \<open>
  \<open>Time.AddDate\<close> with a number of months: the same local day of the month and time of day, for days
  that every month has.
\<close>

definition date_clock :: "Location \<Rightarrow> int \<Rightarrow> int \<Rightarrow> instant \<Rightarrow> instant" where
  "date_clock l D secs ns =
     (let sec = D * 86400 + secs; (off, start, stop) = zone_lookup l sec; utc = sec - off;
          off2 = (if off \<noteq> 0 \<and> (utc < start \<or> utc \<ge> stop) then offset_at l utc else off)
      in (sec - off2) * Second + ns)"

definition local_clock :: "Location \<Rightarrow> instant \<Rightarrow> int" where
  "local_clock l t = (unix t + offset_at l (unix t)) mod 86400"

definition add_months :: "Location \<Rightarrow> instant \<Rightarrow> int \<Rightarrow> instant" where
  "add_months l t n = (let D = local_day l t in
     date_clock l (month_start (month_index D + n) + day_of D - 1) (local_clock l t) (t mod Second))"

definition invalid_timezone :: err where
  "invalid_timezone = PlainError ''unknown time zone''"

definition initialCycleBounds ::
  "(string \<Rightarrow> Location option) \<Rightarrow> instant \<Rightarrow> string \<Rightarrow> int \<Rightarrow> err + (instant \<times> instant)" where
  "initialCycleBounds zones now timezone resetDay = (case zones timezone of
     None \<Rightarrow> Inl invalid_timezone
   | Some l \<Rightarrow>
     (let start0 = go_date l (month_index (local_day l now)) resetDay;
          start = (if now < start0 then add_months l start0 (- 1) else start0);
          stop = add_months l start 1
      in if \<not> stop > start then Inl (PlainError ''invalid quota cycle'') else Inr (start, stop)))"

text \<open>The checks of the request itself, in their order.\<close>

definition check_create :: "CreateUserInput \<Rightarrow> err + unit" where
  "check_create c =
     (if \<not> Valid (cu_RequestID c) then Inl invalid_request
      else if cu_ResetDay c < 1 \<or> cu_ResetDay c > 28
      then Inl (ValidationError ''reset_day'' ''reset day must be between 1 and 28'')
      else if (case cu_LimitBytes c of None \<Rightarrow> False | Some l \<Rightarrow> l \<le> 0 \<or> l > 2 ^ 62)
      then Inl (ValidationError ''limit_bytes'' ''quota must be positive and at most 2^62 bytes'')
      else Inr ())"

definition check_template :: "InboundTemplate \<Rightarrow> err + unit" where
  "check_template t =
     (if tm_Compatibility t \<noteq> CompatibilityCompatible \<or> tm_ArchivedAt t \<noteq> None
      then Inl (InvalidStateError ''inbound template is not compatible'') else Inr ())"

text \<open>The capability evidence must be of the generation the node is known to run.\<close>

definition check_generation :: "ManagedInstanceRecord \<Rightarrow> InboundTemplate \<Rightarrow> err + unit" where
  "check_generation i t =
     (if mi_CapabilityGeneration i \<le> 0 \<or> tm_ValidatedGeneration t \<le> 0 \<or>
         tm_ValidatedGeneration t \<noteq> mi_CapabilityGeneration i
      then Inl (InvalidStateError ''inbound template must be revalidated against the running node'') else Inr ())"

definition choose_port :: "InboundTemplate \<Rightarrow> int option \<Rightarrow> int list \<Rightarrow> err + int" where
  "choose_port t wanted assigned = (case wanted of
     Some p \<Rightarrow> (case ValidateRequestedPort (tm_Pool t) p assigned of Inl e \<Rightarrow> Inl e | Inr _ \<Rightarrow> Inr p)
   | None \<Rightarrow> NextAvailablePort (tm_Pool t) assigned)"

text \<open>The record of a new user, from what the service read and made.\<close>

record new_user =
  nu_Input :: CreateUserInput
  nu_Template :: InboundTemplate
  nu_Port :: int
  nu_Now :: "instant"
  nu_IDs :: "ID list"
  nu_User :: ManagedUser
  nu_StatisticsID :: string
  nu_Key :: "8 word list \<times> 8 word list"
  nu_ServerKey :: "8 word list \<times> 8 word list"
  nu_Timezone :: string
  nu_Bounds :: "instant \<times> instant"
  nu_Fingerprint :: "8 word list"
  nu_PortAuditID :: ID

definition create_record :: "new_user \<Rightarrow> UserCreateRecord" where
  "create_record n =
     (let c = nu_Input n; t = nu_Template n; now = nu_Now n; ids = nu_IDs n;
          user = ids ! 0; alloc = ids ! 1; identity = ids ! 2; cred = ids ! 3; cycle = ids ! 4; op = ids ! 5;
          tag = InboundTag alloc
      in \<lparr>uc_User = nu_User n,
          uc_Identity = \<lparr>xi_ID = identity, xi_InstanceID = tm_InstanceID t, xi_TemplateID = tm_ID t,
            xi_StatisticsID = nu_StatisticsID n, xi_Kind = IdentityManaged, xi_CreatedAt = now\<rparr>,
          uc_Allocation = \<lparr>al_ID = alloc, al_UserID = user, al_TemplateID = tm_ID t, al_IdentityID = identity,
            al_AdminEnabled = True, al_QuotaState = QuotaWithinLimit, al_ProjectionState = ProjectionPending,
            al_ObservedPresent = None, al_DesiredRevision = 1, al_SyncedRevision = 0, al_DesiredCredentialVersion = 1,
            al_SyncedCredentialVersion = None, al_LastSyncAt = None, al_LastSyncErrorCode = '''',
            al_LastSyncErrorSummary = '''', al_CreatedAt = now, al_UpdatedAt = now\<rparr>,
          uc_Inbound = \<lparr>ir_Inbound = \<lparr>di_AllocationID = alloc, di_TemplateID = tm_ID t, di_InboundTag = tag,
              di_ListenAddress = tm_ListenAddress t, di_Port = nu_Port n, di_DesiredPresent = True,
              di_ObservedPresent = None, di_LastSyncAt = None, di_ReleasedAt = None, di_CreatedAt = now,
              di_UpdatedAt = now\<rparr>,
            ir_ServerKeyCiphertext = fst (nu_ServerKey n), ir_ServerKeyNonce = snd (nu_ServerKey n),
            ir_KeyEncryptionVersion = 1\<rparr>,
          uc_Credential = \<lparr>cr_ID = cred, cr_AllocationID = alloc, cr_Version = 1, cr_State = CredentialPending,
            cr_KeyCiphertext = fst (nu_Key n), cr_KeyNonce = snd (nu_Key n), cr_KeyEncryptionVersion = 1,
            cr_CreatedAt = now, cr_ActivatedAt = None, cr_RetiredAt = None\<rparr>,
          uc_Policy = \<lparr>qp_AllocationID = alloc, qp_LimitBytes = cu_LimitBytes c, qp_ResetDay = cu_ResetDay c,
            qp_Revision = 0, qp_CreatedAt = now, qp_UpdatedAt = now\<rparr>,
          uc_Cycle = \<lparr>qc_ID = cycle, qc_AllocationID = alloc, qc_StartsAt = fst (nu_Bounds n),
            qc_EndsAt = snd (nu_Bounds n), qc_Timezone = nu_Timezone n, qc_ResetDay = cu_ResetDay c, qc_Open = True,
            qc_GrossUplinkBytes = 0, qc_GrossDownlinkBytes = 0, qc_AccountedUplinkBytes = 0,
            qc_AccountedDownlinkBytes = 0, qc_ManualResetCount = 0, qc_OpenedAt = now, qc_ClosedAt = None\<rparr>,
          uc_Operation = NewSynchronizationOperation op alloc 1 True (Some 1) SyncCreate (InboundPhaseFor True) now,
          uc_Command = user_command (cu_RequestID c) (cu_ActorID c) ''user_created'' user (nu_Fingerprint n)
            (''/users/'' @ user) now,
          uc_Audit = user_audit (ids ! 6) (cu_RequestID c) (cu_ActorID c) user ''user_created'' (Some op)
            ''user created; Xray projection pending'' now,
          uc_PortAudit = user_audit (nu_PortAuditID n) (cu_RequestID c) (cu_ActorID c) user ''port_assigned'' (Some op)
            (''port '' @ int_digits (nu_Port n) @ '' assigned on '' @ tm_ListenAddress t @ '' (tag '' @ tag @ '')'') now\<rparr>)"

definition create_cycle :: "services \<Rightarrow> instant \<Rightarrow> string \<Rightarrow> int \<Rightarrow> err + (instant \<times> instant)" where
  "create_cycle s now timezone resetDay = (case initialCycleBounds (sv_zones s) now timezone resetDay of
     Inl e \<Rightarrow> Inl (ValidationError ''reset_day'' ''quota cycle could not be calculated'') | Inr b \<Rightarrow> Inr b)"

definition make_user :: "services \<Rightarrow> CreateUserInput \<Rightarrow> InboundTemplate \<Rightarrow> int \<Rightarrow> ('n, err + new_user) act" where
  "make_user s c t port = act_bind (act_now s) (\<lambda>now. act_bind (act_newIDs s 7) (\<lambda>ids.
     act_check (NewManagedUser (sv_unicode s) (ids ! 0) (cu_DisplayName c) now) (\<lambda>user.
     act_check (StatisticsID (ids ! 1)) (\<lambda>statistics.
     act_try (act_userKey s (tm_Method t)) (\<lambda>key.
     act_bind (act_encrypt s key (SecretAAD ''access_credentials'' (ids ! 1) ''user_key'' 1)) (\<lambda>sealed.
     act_try (act_userKey s (tm_Method t)) (\<lambda>server.
     act_bind (act_encrypt s server (SecretAAD ''dedicated_inbounds'' (ids ! 1) ''server_key'' 1)) (\<lambda>server_sealed.
     act_try (act_query s (\<lambda>d. fst (WithWriteTx PanelSettings d))) (\<lambda>settings.
     act_check (create_cycle s now (ps_QuotaTimezone settings) (cu_ResetDay c)) (\<lambda>bounds.
     act_bind (act_newID s) (\<lambda>port_audit.
     act_ret (Inr \<lparr>nu_Input = c, nu_Template = t, nu_Port = port, nu_Now = now, nu_IDs = ids, nu_User = user,
       nu_StatisticsID = statistics, nu_Key = sealed, nu_ServerKey = server_sealed,
       nu_Timezone = ps_QuotaTimezone settings, nu_Bounds = bounds,
       nu_Fingerprint = request_fingerprint s (cu_Fingerprint c) [''user_created'', mu_NormalizedName user,
         cu_TemplateID c, limit_text (cu_LimitBytes c), int_digits (cu_ResetDay c)],
       nu_PortAuditID = port_audit\<rparr>))))))))))))"

definition UserService_CreateUser :: "services \<Rightarrow> CreateUserInput \<Rightarrow> ('n, err + (ID \<times> bool)) act" where
  "UserService_CreateUser s c =
     act_check (check_create c) (\<lambda>_.
     act_try (act_query s (Template (cu_TemplateID c))) (\<lambda>t.
     act_check (check_template t) (\<lambda>_.
     act_try (act_query s (\<lambda>d. fst (WithWriteTx ManagedInstance d))) (\<lambda>i.
     act_check (check_generation i t) (\<lambda>_.
     act_bind (act_query s (AssignedPorts (tm_ID t))) (\<lambda>assigned.
     act_check (choose_port t (cu_Port c) assigned) (\<lambda>port.
     act_try (make_user s c t port) (\<lambda>n.
     act_try (act_store s (WithWriteTx (CreateUser (create_record n)))) (\<lambda>(i, replay).
     act_bind (act_notify (\<not> replay \<and> sv_notify s)) (\<lambda>_. act_ret (Inr (i, replay))))))))))))"

section \<open>Repeated requests\<close>

text \<open>\<open>commandReplayed\<close>: the check before the page's revision is compared.\<close>

definition command_replayed :: "ID \<Rightarrow> 8 word list \<Rightarrow> db \<Rightarrow> err + bool" where
  "command_replayed request fingerprint d = (case FindCommand request d of
     None \<Rightarrow> Inr False
   | Some e \<Rightarrow> if dc_RequestFingerprint e \<noteq> fingerprint then Inl reused_command else Inr True)"

definition commandReplayed :: "services \<Rightarrow> ID \<Rightarrow> 8 word list \<Rightarrow> ('n, err + bool) act \<Rightarrow> ('n, err + bool) act" where
  "commandReplayed s request fingerprint rest =
     act_try (act_query s (command_replayed request fingerprint)) (\<lambda>replayed.
       if replayed then act_ret (Inr True) else rest)"

text \<open>The checks of a command on a user: not deleted, and as the page showed it.\<close>

definition check_live :: "UserRecord \<Rightarrow> err + unit" where
  "check_live r = (if mu_Lifecycle (ur_User r) = LifecycleDeleted
     then Inl (InvalidStateError ''user is deleted'') else Inr ())"

definition check_current :: "UserRecord \<Rightarrow> Revision \<Rightarrow> err + unit" where
  "check_current r expected = (case check_live r of Inl e \<Rightarrow> Inl e
   | Inr _ \<Rightarrow> if mu_Revision (ur_User r) \<noteq> expected
       then Inl (ConflictError ''user changed since the page was loaded'') else Inr ())"

section \<open>Editing a user\<close>

record UpdateUserInput =
  ui_ID :: ID
  ui_DisplayName :: string
  ui_LimitBytes :: "int option"
  ui_ResetDay :: int
  ui_AdminEnabled :: bool
  ui_ExpectedRevision :: Revision
  ui_RequestID :: ID
  ui_ActorID :: ID
  ui_Fingerprint :: "8 word list"

text \<open>Operation templates carry an identifier and a time only; the store decides the rest.\<close>

definition operation_template :: "ID \<Rightarrow> ID \<Rightarrow> instant \<Rightarrow> SynchronizationOperation" where
  "operation_template i a now = (NewSynchronizationOperation i a 0 False None SyncCreate (InboundPhaseFor False) 0)
     \<lparr>op_CreatedAt := now\<rparr>"

definition update_audits :: "UpdateUserInput \<Rightarrow> UserRecord \<Rightarrow> ID list \<Rightarrow> instant \<Rightarrow> AuditEvent list" where
  "update_audits c r ids now =
     (let was = al_AdminEnabled (ur_Allocation r);
          note1 = (\<lambda>i action summary. user_audit i (ui_RequestID c) (ui_ActorID c) (mu_ID (ur_User r)) action None summary now)
      in note1 (ids ! 2) ''user_updated'' ''user profile or quota policy updated'' #
         (if was \<and> \<not> ui_AdminEnabled c then [note1 (ids ! 3) ''user_disabled'' ''administrator disabled access'']
          else if \<not> was \<and> ui_AdminEnabled c then [note1 (ids ! 3) ''user_enabled'' ''administrator enabled access'']
          else []))"

definition update_record :: "UpdateUserInput \<Rightarrow> UserRecord \<Rightarrow> ManagedUser \<Rightarrow> ID list \<Rightarrow> 8 word list \<Rightarrow> instant \<Rightarrow>
    UserUpdateRecord" where
  "update_record c r renamed ids fingerprint now =
     \<lparr>uu_UserID = mu_ID (ur_User r), uu_ExpectedRevision = ui_ExpectedRevision c,
      uu_DisplayName = mu_DisplayName renamed, uu_NormalizedName = mu_NormalizedName renamed,
      uu_LimitBytes = ui_LimitBytes c, uu_ResetDay = ui_ResetDay c, uu_AdminEnabled = ui_AdminEnabled c,
      uu_OperationTemplate = operation_template (ids ! 0) '''' now,
      uu_QuotaAudit = Some (user_audit (ids ! 1) (ui_RequestID c) (ui_ActorID c) (mu_ID (ur_User r)) '''' None '''' now),
      uu_Command = user_command (ui_RequestID c) (ui_ActorID c) ''user_updated'' (mu_ID (ur_User r)) fingerprint
        (''/users/'' @ mu_ID (ur_User r)) now,
      uu_Audits = update_audits c r ids now, uu_Now = now\<rparr>"

definition UserService_UpdateUser :: "services \<Rightarrow> UpdateUserInput \<Rightarrow> ('n, err + bool) act" where
  "UserService_UpdateUser s c =
     act_guard invalid_request (Valid (ui_RequestID c)) (
     act_check (ValidateQuotaPolicy (ui_LimitBytes c) (ui_ResetDay c)) (\<lambda>_.
     act_check (case NormalizeDisplayName (sv_unicode s) (ui_DisplayName c) of
         Inl e \<Rightarrow> Inl (as_field ''display_name'' e) | Inr x \<Rightarrow> Inr x) (\<lambda>normalized.
     (let fingerprint = request_fingerprint s (ui_Fingerprint c) [''user_updated'', ui_ID c, normalized,
            limit_text (ui_LimitBytes c), int_digits (ui_ResetDay c), bool_text (ui_AdminEnabled c),
            int_digits (ui_ExpectedRevision c)]
      in commandReplayed s (ui_RequestID c) fingerprint (
     act_try (act_query s (User (ui_ID c))) (\<lambda>r.
     act_check (check_current r (ui_ExpectedRevision c)) (\<lambda>_.
     act_bind (act_now s) (\<lambda>now.
     act_check (NewManagedUser (sv_unicode s) (mu_ID (ur_User r)) (ui_DisplayName c) now) (\<lambda>renamed.
     act_bind (act_newIDs s 4) (\<lambda>ids.
     act_try (act_store s (WithWriteTx (UpdateUser (update_record c r renamed ids fingerprint now)))) (\<lambda>(replay, created).
     act_bind (act_notify (\<not> replay \<and> created \<and> sv_notify s)) (\<lambda>_. act_ret (Inr replay)))))))))))))"

record SetEnabledInput =
  sn_UserID :: ID
  sn_Enabled :: bool
  sn_ExpectedRevision :: Revision
  sn_RequestID :: ID
  sn_ActorID :: ID
  sn_Fingerprint :: "8 word list"

definition SetAdminEnabled :: "services \<Rightarrow> SetEnabledInput \<Rightarrow> ('n, err + bool) act" where
  "SetAdminEnabled s c = act_try (act_query s (User (sn_UserID c))) (\<lambda>r.
     UserService_UpdateUser s \<lparr>ui_ID = sn_UserID c, ui_DisplayName = mu_DisplayName (ur_User r),
       ui_LimitBytes = qp_LimitBytes (ur_Policy r), ui_ResetDay = qp_ResetDay (ur_Policy r),
       ui_AdminEnabled = sn_Enabled c, ui_ExpectedRevision = sn_ExpectedRevision c, ui_RequestID = sn_RequestID c,
       ui_ActorID = sn_ActorID c, ui_Fingerprint = sn_Fingerprint c\<rparr>)"

section \<open>Resetting the traffic of the cycle\<close>

record ResetTrafficInput =
  rt_ID :: ID
  rt_RequestID :: ID
  rt_ActorID :: ID
  rt_Fingerprint :: "8 word list"

definition reset_record :: "ResetTrafficInput \<Rightarrow> UserRecord \<Rightarrow> ID list \<Rightarrow> 8 word list \<Rightarrow> instant \<Rightarrow> QuotaResetRecord" where
  "reset_record c r ids fingerprint now =
     \<lparr>qr_AllocationID = al_ID (ur_Allocation r), qr_CycleID = qc_ID (ur_Cycle r), qr_EventID = ids ! 0,
      qr_ActorID = rt_ActorID c,
      qr_Command = user_command (rt_RequestID c) (rt_ActorID c) ''traffic_reset'' (mu_ID (ur_User r)) fingerprint
        (''/users/'' @ mu_ID (ur_User r)) now,
      qr_OperationTemplate = operation_template (ids ! 2) '''' now,
      qr_Audit = user_audit (ids ! 1) (rt_RequestID c) (rt_ActorID c) (mu_ID (ur_User r)) ''traffic_reset'' None
        ''current cycle accounted usage reset to zero'' now,
      qr_Now = now\<rparr>"

definition ResetTraffic :: "services \<Rightarrow> ResetTrafficInput \<Rightarrow> ('n, err + bool) act" where
  "ResetTraffic s c =
     act_guard invalid_request (Valid (rt_RequestID c)) (
     act_try (act_query s (User (rt_ID c))) (\<lambda>r.
     act_check (check_live r) (\<lambda>_.
     (let fingerprint = request_fingerprint s (rt_Fingerprint c)
            [''traffic_reset'', mu_ID (ur_User r), qc_ID (ur_Cycle r)]
      in commandReplayed s (rt_RequestID c) fingerprint (
     act_bind (act_now s) (\<lambda>now.
     act_bind (act_newIDs s 3) (\<lambda>ids.
     act_try (act_store s (WithWriteTx (ResetCycleTraffic (reset_record c r ids fingerprint now)))) (\<lambda>(replay, created).
     act_bind (act_notify (\<not> replay \<and> created \<and> sv_notify s)) (\<lambda>_. act_ret (Inr replay))))))))))"

section \<open>Ports, keys and deletion\<close>

record ChangePortInput =
  cp_UserID :: ID
  cp_NewPort :: int
  cp_ExpectedRevision :: Revision
  cp_RequestID :: ID
  cp_ActorID :: ID
  cp_Fingerprint :: "8 word list"

text \<open>The intent after the revision the service read.\<close>

definition next_operation :: "ID \<Rightarrow> UserRecord \<Rightarrow> bool \<Rightarrow> int option \<Rightarrow> SyncReason \<Rightarrow> SyncPhase \<Rightarrow> instant \<Rightarrow>
    SynchronizationOperation" where
  "next_operation i r present version reason phase now =
     NewSynchronizationOperation i (al_ID (ur_Allocation r)) (al_DesiredRevision (ur_Allocation r) + 1) present version
       reason phase now"

definition change_record :: "ChangePortInput \<Rightarrow> UserRecord \<Rightarrow> ID \<Rightarrow> ID \<Rightarrow> 8 word list \<Rightarrow> instant \<Rightarrow> PortChangeRecord" where
  "change_record c r op aid fingerprint now =
     (let present = DesiredPresent (ur_Allocation r) (ur_User r); old = di_Port (ir_Inbound (ur_Inbound r))
      in \<lparr>pc_UserID = mu_ID (ur_User r), pc_AllocationID = al_ID (ur_Allocation r),
          pc_ExpectedRevision = cp_ExpectedRevision c, pc_OldPort = old, pc_NewPort = cp_NewPort c,
          pc_Operation = next_operation op r present (Some (al_DesiredCredentialVersion (ur_Allocation r)))
            SyncPortChange (InboundPhaseFor present) now,
          pc_Command = user_command (cp_RequestID c) (cp_ActorID c) ''port_changed'' (mu_ID (ur_User r)) fingerprint
            (''/users/'' @ mu_ID (ur_User r)) now,
          pc_Audit = user_audit aid (cp_RequestID c) (cp_ActorID c) (mu_ID (ur_User r)) ''port_changed'' (Some op)
            (''port changed from '' @ int_digits old @ '' to '' @ int_digits (cp_NewPort c) @ '' on '' @
             tm_ListenAddress (ur_Template r)) now,
          pc_Now = now\<rparr>)"

definition ChangePort :: "services \<Rightarrow> ChangePortInput \<Rightarrow> ('n, err + bool) act" where
  "ChangePort s c =
     act_guard invalid_request (Valid (cp_RequestID c)) (
     (let fingerprint = request_fingerprint s (cp_Fingerprint c) [''port_changed'', cp_UserID c, int_digits (cp_NewPort c),
            int_digits (cp_ExpectedRevision c)]
      in commandReplayed s (cp_RequestID c) fingerprint (
     act_try (act_query s (User (cp_UserID c))) (\<lambda>r.
     act_check (check_current r (cp_ExpectedRevision c)) (\<lambda>_.
     act_guard (ValidationError ''port'' ''port is already assigned to this user'')
       (cp_NewPort c \<noteq> di_Port (ir_Inbound (ur_Inbound r))) (
     act_bind (act_query s (AssignedPorts (tm_ID (ur_Template r)))) (\<lambda>assigned.
     act_check (ValidateRequestedPort (tm_Pool (ur_Template r)) (cp_NewPort c) assigned) (\<lambda>_.
     act_bind (act_now s) (\<lambda>now.
     act_bind (act_newID s) (\<lambda>op. act_bind (act_newID s) (\<lambda>aid.
     act_try (act_store s (WithWriteTx (ChangeInboundPort (change_record c r op aid fingerprint now)))) (\<lambda>replay.
     act_bind (act_notify (\<not> replay \<and> sv_notify s)) (\<lambda>_. act_ret (Inr replay))))))))))))))"

record LifecycleInput =
  li_ID :: ID
  li_ExpectedRevision :: Revision
  li_RequestID :: ID
  li_ActorID :: ID
  li_Fingerprint :: "8 word list"

definition rotation_record :: "LifecycleInput \<Rightarrow> UserRecord \<Rightarrow> ID \<Rightarrow> 8 word list \<times> 8 word list \<Rightarrow> ID \<Rightarrow> ID \<Rightarrow>
    8 word list \<Rightarrow> instant \<Rightarrow> RotationRecord" where
  "rotation_record c r cred sealed op aid fingerprint now =
     (let version = cr_Version (ur_Credential r) + 1
      in \<lparr>rr_UserID = mu_ID (ur_User r), rr_AllocationID = al_ID (ur_Allocation r),
          rr_ExpectedRevision = li_ExpectedRevision c,
          rr_Credential = \<lparr>cr_ID = cred, cr_AllocationID = al_ID (ur_Allocation r), cr_Version = version,
            cr_State = CredentialPending, cr_KeyCiphertext = fst sealed, cr_KeyNonce = snd sealed,
            cr_KeyEncryptionVersion = 1, cr_CreatedAt = now, cr_ActivatedAt = None, cr_RetiredAt = None\<rparr>,
          rr_Operation = next_operation op r (DesiredPresent (ur_Allocation r) (ur_User r)) (Some version)
            SyncRotate SyncAddDesired now,
          rr_Command = user_command (li_RequestID c) (li_ActorID c) ''credential_rotated'' (mu_ID (ur_User r)) fingerprint
            (''/users/'' @ mu_ID (ur_User r)) now,
          rr_Audit = user_audit aid (li_RequestID c) (li_ActorID c) (mu_ID (ur_User r)) ''credential_rotated'' (Some op)
            ''credential rotation started; old credential retires after Xray confirms the new one'' now,
          rr_Now = now\<rparr>)"

definition UserService_RotateCredential :: "services \<Rightarrow> LifecycleInput \<Rightarrow> ('n, err + bool) act" where
  "UserService_RotateCredential s c =
     act_guard invalid_request (Valid (li_RequestID c)) (
     (let fingerprint = request_fingerprint s (li_Fingerprint c) [''credential_rotated'', li_ID c,
            int_digits (li_ExpectedRevision c)]
      in commandReplayed s (li_RequestID c) fingerprint (
     act_try (act_query s (User (li_ID c))) (\<lambda>r.
     act_check (check_current r (li_ExpectedRevision c)) (\<lambda>_.
     act_guard (ConflictError ''credential rotation already in progress'') (cr_State (ur_Credential r) \<noteq> CredentialPending) (
     act_bind (act_now s) (\<lambda>now. act_bind (act_newID s) (\<lambda>cred.
     act_try (act_userKey s (tm_Method (ur_Template r))) (\<lambda>key.
     act_bind (act_encrypt s key (SecretAAD ''access_credentials'' (al_ID (ur_Allocation r)) ''user_key'' 1)) (\<lambda>sealed.
     act_bind (act_newID s) (\<lambda>op. act_bind (act_newID s) (\<lambda>aid.
     act_try (act_store s (WithWriteTx (RotateCredential (rotation_record c r cred sealed op aid fingerprint now)))) (\<lambda>replay.
     act_bind (act_notify (\<not> replay \<and> sv_notify s)) (\<lambda>_. act_ret (Inr replay)))))))))))))))"

definition delete_record :: "LifecycleInput \<Rightarrow> UserRecord \<Rightarrow> ID \<Rightarrow> ID \<Rightarrow> 8 word list \<Rightarrow> instant \<Rightarrow> DeleteRecord" where
  "delete_record c r op aid fingerprint now =
     \<lparr>de_UserID = mu_ID (ur_User r), de_AllocationID = al_ID (ur_Allocation r),
      de_ExpectedRevision = li_ExpectedRevision c,
      de_Operation = next_operation op r False None SyncDelete (InboundPhaseFor False) now,
      de_Command = user_command (li_RequestID c) (li_ActorID c) ''user_deleted'' (mu_ID (ur_User r)) fingerprint ''/users'' now,
      de_Audit = user_audit aid (li_RequestID c) (li_ActorID c) (mu_ID (ur_User r)) ''user_deleted'' (Some op)
        ''user soft-deleted; removal from Xray requested; history retained'' now,
      de_Now = now\<rparr>"

definition DeleteUser :: "services \<Rightarrow> LifecycleInput \<Rightarrow> ('n, err + bool) act" where
  "DeleteUser s c =
     act_guard invalid_request (Valid (li_RequestID c)) (
     (let fingerprint = request_fingerprint s (li_Fingerprint c) [''user_deleted'', li_ID c, int_digits (li_ExpectedRevision c)]
      in commandReplayed s (li_RequestID c) fingerprint (
     act_try (act_query s (User (li_ID c))) (\<lambda>r.
     act_check (check_current r (li_ExpectedRevision c)) (\<lambda>_.
     act_bind (act_now s) (\<lambda>now.
     act_bind (act_newID s) (\<lambda>op. act_bind (act_newID s) (\<lambda>aid.
     act_try (act_store s (WithWriteTx (SoftDeleteUser (delete_record c r op aid fingerprint now)))) (\<lambda>replay.
     act_bind (act_notify (\<not> replay \<and> sv_notify s)) (\<lambda>_. act_ret (Inr replay)))))))))))"

section \<open>The services keep to the steps of the store\<close>

lemma steady_userKey: "steady P (act_userKey s method)" "steady P (act_encrypt s plaintext aad)"
  by (rule lawful_pure; simp add: act_userKey_def act_encrypt_def)+

lemma steady_newIDs: "steady P (act_newIDs s n)"
  by (induction n) (simp_all add: steady_rules)

lemma steady_replayed:
  "steps_only s \<Longrightarrow> lasting P \<Longrightarrow> steady P m \<Longrightarrow> steady P (commandReplayed s request fingerprint m)"
  unfolding commandReplayed_def by (intro steady_rules steady_split steady_query)

lemmas service_rules = steady_rules steady_userKey steady_newIDs steady_split steady_replayed steady_query lasting_True

lemma create_record_ok: "new_user_ok (create_record n)"
  by (simp add: new_user_ok_def create_record_def Let_def NewSynchronizationOperation_def)

lemma next_operation_follows:
  assumes "after_read r d"
  shows "follows (next_operation i r present version reason phase now) (sync_log d)"
  using assms by (intro follows_reached [where k = "al_DesiredRevision (ur_Allocation r)"])
    (simp_all add: next_operation_def NewSynchronizationOperation_def after_read_def)

lemma next_operation_alloc [simp]:
  "op_AllocationID (next_operation i r present version reason phase now) = al_ID (ur_Allocation r)"
  by (simp add: next_operation_def NewSynchronizationOperation_def)

lemma CreateUser_service: "steps_only s \<Longrightarrow> keeps_to_steps (UserService_CreateUser s c)"
  unfolding UserService_CreateUser_def make_user_def
  by (intro service_rules lawful_write) (auto intro: store_step.create create_record_ok)

lemma UpdateUser_service: "steps_only s \<Longrightarrow> keeps_to_steps (UserService_UpdateUser s c)"
  unfolding UserService_UpdateUser_def Let_def
  by (intro service_rules lawful_write) (auto intro: store_step.update)

lemma SetAdminEnabled_service: "steps_only s \<Longrightarrow> keeps_to_steps (SetAdminEnabled s c)"
  unfolding SetAdminEnabled_def by (intro service_rules UpdateUser_service)

lemma ResetTraffic_service: "steps_only s \<Longrightarrow> keeps_to_steps (ResetTraffic s c)"
  unfolding ResetTraffic_def Let_def
  by (intro service_rules lawful_write) (auto intro: store_step.reset)

lemma steady_after: "(\<And>r. steady (after_read r) (k r)) \<Longrightarrow> steps_only s \<Longrightarrow>
    keeps_to_steps (act_try (act_query s (User i)) k)"
  by (rule lawful_user) (auto intro: steady_forget)

lemma lifecycle_steps:
  "after_read r d \<Longrightarrow> ChangeInboundPort (change_record cp r op aid fp now) d = Inr (b, d') \<Longrightarrow> store_step d d'"
  "after_read r d \<Longrightarrow> RotateCredential (rotation_record li r cred sealed op aid fp now) d = Inr (b, d') \<Longrightarrow> store_step d d'"
  "after_read r d \<Longrightarrow> SoftDeleteUser (delete_record li r op aid fp now) d = Inr (b, d') \<Longrightarrow> store_step d d'"
  by (erule store_step.port store_step.rotate store_step.delete;
    simp add: change_record_def rotation_record_def delete_record_def Let_def next_operation_follows)+

lemma ChangePort_service: "steps_only s \<Longrightarrow> keeps_to_steps (ChangePort s c)"
  unfolding ChangePort_def Let_def
  by (intro steady_rules(10) steady_replayed lasting_True steady_after service_rules lawful_write after_read_lasting)
    (assumption | (erule lifecycle_steps, assumption))+

lemma RotateCredential_service: "steps_only s \<Longrightarrow> keeps_to_steps (UserService_RotateCredential s c)"
  unfolding UserService_RotateCredential_def Let_def
  by (intro steady_rules(10) steady_replayed lasting_True steady_after service_rules lawful_write after_read_lasting)
    (assumption | (erule lifecycle_steps, assumption))+

lemma DeleteUser_service: "steps_only s \<Longrightarrow> keeps_to_steps (DeleteUser s c)"
  unfolding DeleteUser_def Let_def
  by (intro steady_rules(10) steady_replayed lasting_True steady_after service_rules lawful_write after_read_lasting)
    (assumption | (erule lifecycle_steps, assumption))+

end
