(* ===== verification/Store_Queries.thy ===== *)
theory Store_Queries
  imports Names Store_Templates Store_Users World
begin

text \<open>
  The read side: the lists of users, templates, audit events and synchronization operations of the
  store (\<open>store_users.go\<close>, \<open>store_templates.go\<close>, \<open>store_audit.go\<close>, \<open>store_dashboard.go\<close>) and the
  dashboard over them (\<open>internal/application/dashboard_service.go\<close>).
\<close>

section \<open>Lists of users and templates\<close>

record UserFilter =
  uf_Query :: string
  uf_Status :: string
  uf_IncludeDeleted :: bool

text \<open>\<open>strconv.Atoi\<close> with its error ignored: 0 for malformed text, the nearest \<open>int64\<close> out of range.\<close>

definition atoi_digits :: "string \<Rightarrow> int option" where
  "atoi_digits s = (if s \<noteq> [] \<and> list_all (\<lambda>c. CHR ''0'' \<le> c \<and> c \<le> CHR ''9'') s then Some (int (decimal s)) else None)"

definition Atoi :: "string \<Rightarrow> int" where
  "Atoi s =
     (case (case s of c # r \<Rightarrow> if c = CHR ''-'' then map_option uminus (atoi_digits r)
              else if c = CHR ''+'' then atoi_digits r else atoi_digits s
            | [] \<Rightarrow> None) of
        None \<Rightarrow> 0
      | Some n \<Rightarrow> max MinInt64 (min MaxInt64 n))"

text \<open>\<open>LIKE '%x%'\<close> without wildcards in \<open>x\<close>: a substring, up to the case of ASCII letters.\<close>

definition like_infix :: "string \<Rightarrow> string \<Rightarrow> bool" where
  "like_infix s x \<longleftrightarrow> Contains (map asciiLower s) (map asciiLower x)"

text \<open>A query that cannot be normalized searches for the empty string.\<close>

definition search_name :: "'u unicode_scheme \<Rightarrow> string \<Rightarrow> string" where
  "search_name u query = (if TrimSpace query = '''' then ''''
     else case NormalizeDisplayName u query of Inl e \<Rightarrow> '''' | Inr n \<Rightarrow> n)"

definition matches_query :: "'u unicode_scheme \<Rightarrow> UserFilter \<Rightarrow> UserRecord \<Rightarrow> bool" where
  "matches_query u f r \<longleftrightarrow>
     (let name = search_name u (uf_Query f); port = Atoi (TrimSpace (uf_Query f)) in
      (name = '''' \<or>
       like_infix (mu_NormalizedName (ur_User r)) (filter (\<lambda>c. c \<noteq> CHR ''%'' \<and> c \<noteq> CHR ''_'') name) \<or>
       (port \<noteq> 0 \<and> di_Port (ir_Inbound (ur_Inbound r)) = port)) \<and>
      (uf_IncludeDeleted f \<or> mu_DeletedAt (ur_User r) = None))"

definition ListUsers :: "'u unicode_scheme \<Rightarrow> UserFilter \<Rightarrow> db \<Rightarrow> UserRecord list" where
  "ListUsers u f d = filter (\<lambda>r. matchesStatus r (uf_Status f))
     (sort_key (\<lambda>r. mu_NormalizedName (ur_User r)) (sort_key (\<lambda>r. mu_ID (ur_User r))
       (filter (matches_query u f) (user_rows d))))"

text \<open>\<open>UserService.List\<close>: the filter on deleted users includes them.\<close>

definition UserService_List :: "'u unicode_scheme \<Rightarrow> UserFilter \<Rightarrow> db \<Rightarrow> UserRecord list" where
  "UserService_List u f d =
     ListUsers u (if uf_Status f = ''deleted'' then f\<lparr>uf_IncludeDeleted := True\<rparr> else f) d"

definition Templates :: "bool \<Rightarrow> db \<Rightarrow> InboundTemplate list" where
  "Templates compatibleOnly d = sort_key tm_NormalizedName (sort_key tm_ID
     (filter (\<lambda>t. tm_ArchivedAt t = None \<and> (compatibleOnly \<longrightarrow> tm_Compatibility t = CompatibilityCompatible))
       (db_templates d)))"

section \<open>Audit events\<close>

record AuditCursor =
  ac_OccurredAt :: "instant"
  ac_ID :: ID

record AuditFilter =
  af_TargetID :: ID
  af_Action :: string
  af_Result :: "AuditResult option"
  af_Before :: "AuditCursor option"
  af_Limit :: int

definition audit_limit :: "AuditFilter \<Rightarrow> nat" where
  "audit_limit f = (if af_Limit f \<le> 0 \<or> af_Limit f > 200 then 50 else nat (af_Limit f))"

definition audit_matches :: "AuditFilter \<Rightarrow> AuditEvent \<Rightarrow> bool" where
  "audit_matches f e \<longleftrightarrow>
     (af_TargetID f = '''' \<or> ae_TargetID e = af_TargetID f) \<and> (af_Action f = '''' \<or> ae_Action e = af_Action f) \<and>
     (case af_Result f of None \<Rightarrow> True | Some r \<Rightarrow> ae_Result e = r) \<and>
     (case af_Before f of None \<Rightarrow> True
      | Some c \<Rightarrow> ae_OccurredAt e < stored (ac_OccurredAt c) \<or>
          (ae_OccurredAt e = stored (ac_OccurredAt c) \<and> ae_ID e < ac_ID c))"

text \<open>\<open>ORDER BY occurred_at DESC, id DESC\<close>.\<close>

definition newest_first :: "AuditEvent list \<Rightarrow> AuditEvent list" where
  "newest_first es = rev (sort_key ae_OccurredAt (sort_key ae_ID es))"

definition AuditEvents :: "AuditFilter \<Rightarrow> db \<Rightarrow> AuditEvent list \<times> AuditCursor option" where
  "AuditEvents f d =
     (let n = audit_limit f; rows = take (n + 1) (newest_first (filter (audit_matches f) (db_audits d)))
      in if length rows > n
         then (take n rows, Some \<lparr>ac_OccurredAt = ae_OccurredAt (rows ! (n - 1)), ac_ID = ae_ID (rows ! (n - 1))\<rparr>)
         else (rows, None))"

section \<open>The dashboard's queries\<close>

record FailedOperationRecord =
  fo_UserID :: ID
  fo_DisplayName :: string
  fo_Reason :: SyncReason
  fo_State :: SyncState
  fo_ErrorCode :: string
  fo_ErrorSummary :: string
  fo_AttemptCount :: int
  fo_NextAttemptAt :: "instant"
  fo_UpdatedAt :: "instant"

text \<open>An error code of \<open>""\<close> is NULL.\<close>

definition op_troubled :: "SynchronizationOperation \<Rightarrow> bool" where
  "op_troubled r \<longleftrightarrow> op_State r = SyncRetryWait \<or> op_State r = SyncPermanentFailed \<or>
     ((op_State r = SyncPending \<or> op_State r = SyncLeased) \<and> op_LastErrorCode r \<noteq> '''')"

definition query_limit :: "int \<Rightarrow> int \<Rightarrow> nat" where
  "query_limit limit fallback = nat (if limit \<le> 0 then fallback else limit)"

definition FailedOperations :: "int \<Rightarrow> db \<Rightarrow> FailedOperationRecord list" where
  "FailedOperations limit d = take (query_limit limit 5) (sort_key (\<lambda>r. - fo_NextAttemptAt r)
     [\<lparr>fo_UserID = mu_ID u, fo_DisplayName = mu_DisplayName u, fo_Reason = op_Reason r, fo_State = op_State r,
       fo_ErrorCode = op_LastErrorCode r, fo_ErrorSummary = op_LastErrorSummary r,
       fo_AttemptCount = op_AttemptCount r, fo_NextAttemptAt = op_NextAttemptAt r,
       fo_UpdatedAt = (case op_CompletedAt r of Some t \<Rightarrow> t
         | None \<Rightarrow> (case op_StartedAt r of Some t \<Rightarrow> t | None \<Rightarrow> op_CreatedAt r))\<rparr>.
      r \<leftarrow> filter op_troubled (db_ops d),
      a \<leftarrow> filter (\<lambda>a. al_ID a = op_AllocationID r) (db_allocs d),
      u \<leftarrow> filter (\<lambda>u. mu_ID u = al_UserID a) (db_users d)])"

definition LastCollectionAt :: "db \<Rightarrow> instant option" where
  "LastCollectionAt d = (case List.map_filter tc_LastSuccessAt (db_cursors d) of
     [] \<Rightarrow> None | t # ts \<Rightarrow> Some (foldl max t ts))"

definition DailyAggregates :: "ID \<Rightarrow> instant \<Rightarrow> instant \<Rightarrow> db \<Rightarrow> DailyRow list" where
  "DailyAggregates a start stop d = sort_key dy_DayStartUTC (filter (\<lambda>r. dy_AllocationID r = a \<and>
     stored start \<le> dy_DayStartUTC r \<and> dy_DayStartUTC r < stored stop) (db_daily d))"

definition ContinuityEvents :: "ID \<Rightarrow> int \<Rightarrow> db \<Rightarrow> ContinuityEventRecord list" where
  "ContinuityEvents a limit d = take (query_limit limit 20)
     (rev (sort_key cv_OccurredAt (sort_key cv_ID (filter (\<lambda>r. cv_AllocationID r = a) (db_events d)))))"

definition SyncOperations :: "ID \<Rightarrow> int \<Rightarrow> db \<Rightarrow> SynchronizationOperation list" where
  "SyncOperations a limit d = take (query_limit limit 10)
     (sort_key (\<lambda>r. - op_DesiredRevision r) (sort_key (\<lambda>r. - op_CreatedAt r)
       (filter (\<lambda>r. op_AllocationID r = a) (db_ops d))))"

section \<open>The dashboard\<close>

record dashboards = surroundings +
  ds_interval :: duration
  ds_reconcile :: duration
  ds_unicode :: unicode

record DashboardSummary =
  sm_Instance :: "ManagedInstanceRecord option"
  sm_LastCollectionAt :: "instant option"
  sm_Stale :: bool
  sm_TotalUsers :: int
  sm_Active :: int
  sm_Disabled :: int
  sm_QuotaExceeded :: int
  sm_Pending :: int
  sm_StuckSync :: int
  sm_Deleted :: int
  sm_AccountedBytes :: int
  sm_PortsCapacity :: int
  sm_PortsAssigned :: int
  sm_PortsRemaining :: int
  sm_PortsOutside :: int
  sm_PortsRebuilding :: int
  sm_Failed :: "FailedOperationRecord list"
  sm_GeneratedAt :: "instant"

definition empty_summary :: "instant \<Rightarrow> DashboardSummary" where
  "empty_summary now = \<lparr>sm_Instance = None, sm_LastCollectionAt = None, sm_Stale = False, sm_TotalUsers = 0,
     sm_Active = 0, sm_Disabled = 0, sm_QuotaExceeded = 0, sm_Pending = 0, sm_StuckSync = 0, sm_Deleted = 0,
     sm_AccountedBytes = 0, sm_PortsCapacity = 0, sm_PortsAssigned = 0, sm_PortsRemaining = 0, sm_PortsOutside = 0,
     sm_PortsRebuilding = 0, sm_Failed = [], sm_GeneratedAt = now\<rparr>"

definition isStale :: "duration \<Rightarrow> ManagedInstanceRecord \<Rightarrow> instant option \<Rightarrow> instant \<Rightarrow> bool" where
  "isStale interval i recent now =
     (if mi_HealthState i = ''unreachable'' \<or> mi_HealthState i = ''incompatible'' then True
      else case recent of
        None \<Rightarrow> (case mi_LastSuccessAt i of None \<Rightarrow> True | Some t \<Rightarrow> time_sub now t > wrap64 (2 * interval))
      | Some t \<Rightarrow> time_sub now t > wrap64 (2 * interval))"

definition observed_listening :: "UserRecord \<Rightarrow> bool" where
  "observed_listening r \<longleftrightarrow> di_ObservedPresent (ir_Inbound (ur_Inbound r)) = Some True"

definition count_user :: "duration \<Rightarrow> instant \<Rightarrow> UserRecord \<Rightarrow> DashboardSummary \<Rightarrow> DashboardSummary" where
  "count_user reconcile now r s =
     (let a = ur_Allocation r; state = display_state a (ur_User r) in
      if state = DisplayDeleted then s\<lparr>sm_Deleted := sm_Deleted s + 1\<rparr>
      else s\<lparr>sm_Active := sm_Active s + (if state = DisplayActive then 1 else 0),
             sm_Disabled := sm_Disabled s + (if state = DisplayDisabled \<or> state = DisplayDisabling then 1 else 0),
             sm_QuotaExceeded := sm_QuotaExceeded s +
               (if state = DisplayQuotaExceeded \<or> state = DisplayQuotaDisabling then 1 else 0),
             sm_TotalUsers := sm_TotalUsers s + 1,
             sm_Pending := sm_Pending s + (if PendingSync a then 1 else 0),
             sm_StuckSync := sm_StuckSync s +
               (if PendingSync a \<and> time_sub now (al_UpdatedAt a) > wrap64 (3 * reconcile) then 1 else 0),
             sm_PortsRebuilding := sm_PortsRebuilding s +
               (if DesiredPresent a (ur_User r) \<and> \<not> observed_listening r then 1 else 0),
             sm_AccountedBytes := wrap64 (sm_AccountedBytes s +
               wrap64 (qc_AccountedUplinkBytes (ur_Cycle r) + qc_AccountedDownlinkBytes (ur_Cycle r)))\<rparr>)"

definition count_pool :: "PoolUsage \<Rightarrow> DashboardSummary \<Rightarrow> DashboardSummary" where
  "count_pool u s = s\<lparr>sm_PortsCapacity := sm_PortsCapacity s + pu_Capacity u,
     sm_PortsAssigned := sm_PortsAssigned s + pu_Assigned u, sm_PortsRemaining := sm_PortsRemaining s + pu_Remaining u,
     sm_PortsOutside := sm_PortsOutside s + int (length (pu_Outside u))\<rparr>"

definition Summary :: "dashboards \<Rightarrow> ('n, err + DashboardSummary) act" where
  "Summary s = act_bind (act_now s) (\<lambda>now.
     act_try (act_query s (\<lambda>d. fst (WithWriteTx ManagedInstance d))) (\<lambda>inst.
     act_bind (act_query s LastCollectionAt) (\<lambda>recent.
     act_bind (act_query s (ListUsers (ds_unicode s) \<lparr>uf_Query = '''', uf_Status = '''', uf_IncludeDeleted = True\<rparr>)) (\<lambda>users.
     (let counted = foldl (\<lambda>acc r. count_user (ds_reconcile s) now r acc)
            ((empty_summary now)\<lparr>sm_Instance := Some inst, sm_LastCollectionAt := recent,
              sm_Stale := isStale (ds_interval s) inst recent now\<rparr>) users
      in act_bind (act_query s (Templates False)) (\<lambda>templates.
         act_try (act_fold (\<lambda>t acc. act_try (act_query s (PortPoolUsage (tm_ID t))) (\<lambda>u.
             act_ret (Inr (count_pool u acc)))) templates counted) (\<lambda>pooled.
         act_bind (act_query s (FailedOperations 5)) (\<lambda>failed.
         act_ret (Inr (pooled\<lparr>sm_Failed := failed\<rparr>))))))))))"

record UserDetail =
  ud_Record :: UserRecord
  ud_Daily :: "DailyRow list"
  ud_Events :: "ContinuityEventRecord list"
  ud_Sync :: "SynchronizationOperation list"

definition DashboardService_UserDetail :: "dashboards \<Rightarrow> UserRecord \<Rightarrow> ('n, UserDetail) act" where
  "DashboardService_UserDetail s r =
     (let a = al_ID (ur_Allocation r) in
      act_bind (act_query s (DailyAggregates a (qc_StartsAt (ur_Cycle r)) (qc_EndsAt (ur_Cycle r)))) (\<lambda>daily.
      act_bind (act_query s (ContinuityEvents a 20)) (\<lambda>events.
      act_bind (act_query s (SyncOperations a 10)) (\<lambda>ops.
      act_ret \<lparr>ud_Record = r, ud_Daily = daily, ud_Events = events, ud_Sync = ops\<rparr>))))"

end
