(* ===== verification/Panel_Services.thy ===== *)
theory Panel_Services
  imports User_Service Store_Queries
begin

text \<open>
  The smaller services: quota rollover (\<open>internal/application/quota_service.go\<close>) with its scheduler
  (\<open>internal/worker/scheduler.go\<close>), panel settings (\<open>settings_service.go\<close>) and connection
  information (\<open>connection_service.go\<close>).
\<close>

section \<open>Quota rollover\<close>

definition rollover_record :: "UserRecord \<Rightarrow> ID list \<Rightarrow> instant \<Rightarrow> CycleRollover" where
  "rollover_record r ids now =
     \<lparr>ro_AllocationID = al_ID (ur_Allocation r), ro_OperationTemplate = operation_template (ids ! 0) '''' now,
      ro_Audit = Some \<lparr>ae_ID = ids ! 1, ae_OccurredAt = now, ae_ActorType = ActorSystem, ae_ActorID = None,
        ae_TargetType = ''user'', ae_TargetID = mu_ID (ur_User r), ae_Action = ''cycle_restored'',
        ae_Result = AuditAccepted, ae_CommandID = None, ae_OperationID = None,
        ae_SafeSummary = ''new quota cycle opened; access restore requested''\<rparr>, ro_Now = now\<rparr>"

text \<open>A rollover of the store with the identifiers it draws for the cycles it opens.\<close>

definition act_rollover :: "services \<Rightarrow> CycleRollover \<Rightarrow> ('n, err + (int \<times> bool)) act" where
  "act_rollover s v = (\<lambda>w. act_store s (WithWriteTx (RolloverCycle (sv_zones s) (sv_fresh s (wd_tick w)) v)) w)"

text \<open>
  The loop returns the boundaries crossed so far with its error, and whether any access was
  restored. The user is read again only to log the new cycle.
\<close>

primrec rollover_loop :: "services \<Rightarrow> instant \<Rightarrow> UserRecord list \<Rightarrow> int \<Rightarrow> bool \<Rightarrow> ('n, int \<times> bool \<times> err option) act" where
  "rollover_loop s now [] n any = act_ret (n, any, None)"
| "rollover_loop s now (r # rs) n any = act_bind (act_newIDs s 2) (\<lambda>ids.
     act_bind (act_rollover s (rollover_record r ids now)) (\<lambda>res. case res of
       Inl e \<Rightarrow> act_ret (n, any, Some e)
     | Inr (rolled, restored) \<Rightarrow>
       if rolled > 0
       then act_bind (act_query s (User (mu_ID (ur_User r)))) (\<lambda>current. case current of
           Inl e \<Rightarrow> act_ret (n + rolled, any, Some e)
         | Inr c \<Rightarrow> rollover_loop s now rs (n + rolled) (any \<or> restored))
       else rollover_loop s now rs n (any \<or> restored)))"

definition RolloverDue :: "services \<Rightarrow> instant \<Rightarrow> ('n, int \<times> err option) act" where
  "RolloverDue s now = act_bind (act_query s (DueCycles now)) (\<lambda>due.
     act_bind (rollover_loop s now due 0 False) (\<lambda>(n, any, e).
     case e of Some x \<Rightarrow> act_ret (n, Some x)
     | None \<Rightarrow> act_bind (act_notify (any \<and> sv_notify s)) (\<lambda>_. act_ret (n, None))))"

definition NextBoundary :: "services \<Rightarrow> ('n, instant option) act" where
  "NextBoundary s = act_query s NextCycleEnd"

definition Scheduler_RunOnce :: "services \<Rightarrow> ('n, unit) act" where
  "Scheduler_RunOnce s = act_bind (act_now s) (\<lambda>now. act_bind (RolloverDue s now) (\<lambda>_. act_ret ()))"

text \<open>One turn of the scheduler's loop: settle what is due, then how long it waits.\<close>

definition scheduler_wait :: "duration \<Rightarrow> instant option \<Rightarrow> instant \<Rightarrow> duration" where
  "scheduler_wait sweep boundary now = (case boundary of None \<Rightarrow> sweep
   | Some t \<Rightarrow> (let until = time_sub t now in if until > 0 \<and> until < sweep then until else sweep))"

definition Scheduler_turn :: "services \<Rightarrow> duration \<Rightarrow> ('n, duration) act" where
  "Scheduler_turn s sweep = act_bind (Scheduler_RunOnce s) (\<lambda>_. act_bind (NextBoundary s) (\<lambda>boundary.
     case boundary of None \<Rightarrow> act_ret sweep
     | Some t \<Rightarrow> act_bind (act_now s) (\<lambda>now. act_ret (scheduler_wait sweep (Some t) now))))"

section \<open>Settings\<close>

record UpdateSettingsInput =
  us_QuotaTimezone :: string
  us_ExpectedRevision :: Revision
  us_RequestID :: ID
  us_ActorID :: ID
  us_Fingerprint :: "8 word list"

definition settingsTargetID :: ID where
  "settingsTargetID = ''00000000-0000-4000-8000-000000000001''"

definition bad_timezone :: err where
  "bad_timezone = ValidationError ''quota_timezone'' ''timezone must be a valid IANA name''"

definition SettingsService_Update :: "services \<Rightarrow> UpdateSettingsInput \<Rightarrow> ('n, err + bool) act" where
  "SettingsService_Update s c =
     act_guard invalid_request (Valid (us_RequestID c)) (
     (let name = TrimSpace (us_QuotaTimezone c) in
     act_guard bad_timezone (name \<noteq> '''' \<and> name \<noteq> ''Local'') (
     act_guard bad_timezone (sv_zones s name \<noteq> None) (
     act_bind (act_now s) (\<lambda>now. act_bind (act_newID s) (\<lambda>i.
     act_store s (WithWriteTx (UpdateSettings name (us_ExpectedRevision c)
       \<lparr>dc_ID = us_RequestID c, dc_ActorType = ActorAdministrator, dc_ActorID = Some (us_ActorID c),
        dc_CommandType = ''settings_updated'', dc_TargetType = ''settings'', dc_TargetID = settingsTargetID,
        dc_RequestFingerprint = request_fingerprint s (us_Fingerprint c)
          [''settings_updated'', name, int_digits (us_ExpectedRevision c)],
        dc_State = CommandCompleted, dc_ResultReference = ''/settings'', dc_CreatedAt = now, dc_CompletedAt = Some now\<rparr>
       \<lparr>ae_ID = i, ae_OccurredAt = now, ae_ActorType = ActorAdministrator, ae_ActorID = Some (us_ActorID c),
        ae_TargetType = ''settings'', ae_TargetID = settingsTargetID, ae_Action = ''settings_updated'',
        ae_Result = AuditSucceeded, ae_CommandID = Some (us_RequestID c), ae_OperationID = None,
        ae_SafeSummary = ''quota timezone set to '' @ name @ ''; applies from the next cycle''\<rparr>))))))))"

text \<open>The panel's time zone, UTC when it cannot be read or loaded.\<close>

definition panel_location :: "(string \<Rightarrow> Location option) \<Rightarrow> db \<Rightarrow> Location" where
  "panel_location zones d = (case fst (WithWriteTx PanelSettings d) of
     Inl e \<Rightarrow> UTC | Inr p \<Rightarrow> the_location (zones (ps_QuotaTimezone p)))"

section \<open>Connection information\<close>

definition ErrConnectionPending :: err where
  "ErrConnectionPending = PlainError ''connection information is pending synchronization''"

record ConnectionInfo =
  ki_Host :: string
  ki_Port :: int
  ki_Method :: string
  ki_Label :: string
  ki_Password :: string
  ki_URI :: string
  ki_Inactive :: bool

text \<open>\<open>net.JoinHostPort\<close> and \<open>url.PathEscape\<close>.\<close>

definition JoinHostPort :: "string \<Rightarrow> string \<Rightarrow> string" where
  "JoinHostPort host port =
     (if list_ex (\<lambda>c. c = CHR '':'' \<or> c = CHR ''%'') host then ''['' @ host @ '']:'' @ port else host @ '':'' @ port)"

definition path_safe :: "char \<Rightarrow> bool" where
  "path_safe c \<longleftrightarrow> (CHR ''a'' \<le> c \<and> c \<le> CHR ''z'') \<or> (CHR ''A'' \<le> c \<and> c \<le> CHR ''Z'') \<or>
     (CHR ''0'' \<le> c \<and> c \<le> CHR ''9'') \<or> c \<in> set ''-_.~$&+=:@''"

definition upper_hex :: "nat \<Rightarrow> char" where
  "upper_hex n = ''0123456789ABCDEF'' ! (n mod 16)"

definition PathEscape :: "string \<Rightarrow> string" where
  "PathEscape s = concat (map (\<lambda>c. if path_safe c then [c]
     else [CHR ''%'', upper_hex (byte c div 16), upper_hex (byte c)]) s)"

definition userinfo :: "string \<Rightarrow> string \<Rightarrow> string" where
  "userinfo method password = base64_url (bytes_of_string (method @ '':'' @ password))"

definition connection_info :: "UserRecord \<Rightarrow> string \<Rightarrow> string \<Rightarrow> ConnectionInfo" where
  "connection_info r serverKey userKey =
     (let t = ur_Template r; port = di_Port (ir_Inbound (ur_Inbound r)); password = serverKey @ '':'' @ userKey
      in \<lparr>ki_Host = tm_PublicHost t, ki_Port = port, ki_Method = tm_Method t, ki_Label = mu_DisplayName (ur_User r),
          ki_Password = password,
          ki_URI = ''ss://'' @ userinfo (tm_Method t) password @ ''@'' @
            JoinHostPort (tm_PublicHost t) (int_digits port) @ ''#'' @ PathEscape (mu_DisplayName (ur_User r)),
          ki_Inactive = (\<not> DesiredPresent (ur_Allocation r) (ur_User r))\<rparr>)"

definition build_connection ::
  "(8 word list \<Rightarrow> 8 word list \<Rightarrow> string \<Rightarrow> string option) \<Rightarrow> UserRecord \<Rightarrow> err + ConnectionInfo" where
  "build_connection decrypt r =
     (if mu_Lifecycle (ur_User r) = LifecycleDeleted
      then Inl (InvalidStateError ''connection information is unavailable for deleted users'')
      else if cr_State (ur_Credential r) \<noteq> CredentialActive \<or>
        al_DesiredCredentialVersion (ur_Allocation r) \<noteq> cr_Version (ur_Credential r)
      then Inl ErrConnectionPending
      else case decrypt (ir_ServerKeyCiphertext (ur_Inbound r)) (ir_ServerKeyNonce (ur_Inbound r))
          (SecretAAD ''dedicated_inbounds'' (al_ID (ur_Allocation r)) ''server_key'' (ir_KeyEncryptionVersion (ur_Inbound r))) of
        None \<Rightarrow> Inl (PlainError ''inbound key is unavailable'')
      | Some serverKey \<Rightarrow>
        (case decrypt (cr_KeyCiphertext (ur_Credential r)) (cr_KeyNonce (ur_Credential r))
            (SecretAAD ''access_credentials'' (al_ID (ur_Allocation r)) ''user_key''
              (cr_KeyEncryptionVersion (ur_Credential r))) of
          None \<Rightarrow> Inl (PlainError ''credential key is unavailable'')
        | Some userKey \<Rightarrow> Inr (connection_info r serverKey userKey)))"

definition BuildConnectionInfo :: "services \<Rightarrow> ID \<Rightarrow> ('n, err + ConnectionInfo) act" where
  "BuildConnectionInfo s i = act_try (act_query s (User i)) (\<lambda>r. act_ret (build_connection (sv_decrypt s) r))"

section \<open>The services keep to the steps of the store\<close>

lemma steady_rollover: "steps_only s \<Longrightarrow> keeps_to_steps (act_rollover s v)"
  unfolding lawful_def act_rollover_def
proof (intro allI impI)
  fix w w' :: "'a world" and x
  assume s: "steps_only s" and w: "reachable (wd_db w)"
    and run: "act_store s (WithWriteTx (RolloverCycle (sv_zones s) (sv_fresh s (wd_tick w)) v)) w = (x, w')"
  have "keeps_to_steps (act_store s (WithWriteTx (RolloverCycle (sv_zones s) (sv_fresh s (wd_tick w)) v)) :: 'a world \<Rightarrow> _)"
    by (intro lawful_write s lasting_True) (metis store_step.rollover surj_pair)
  from lawfulD [OF this run w] show "store_step\<^sup>*\<^sup>* (wd_db w) (wd_db w') \<and> True" by simp
qed

lemma rollover_loop_steps: "steps_only s \<Longrightarrow> keeps_to_steps (rollover_loop s now rs n any)"
proof (induction rs arbitrary: n any)
  case (Cons r rs)
  show ?case unfolding rollover_loop.simps
    by (intro service_rules steady_rollover Cons.IH [OF Cons.prems] Cons.prems)
qed (simp add: service_rules)

lemma RolloverDue_service: "steps_only s \<Longrightarrow> keeps_to_steps (RolloverDue s now)"
  unfolding RolloverDue_def by (intro service_rules rollover_loop_steps)

lemma Scheduler_turn_steps: "steps_only s \<Longrightarrow> keeps_to_steps (Scheduler_turn s sweep)"
  unfolding Scheduler_turn_def Scheduler_RunOnce_def NextBoundary_def
  by (intro service_rules RolloverDue_service)

lemma SettingsService_steps: "steps_only s \<Longrightarrow> keeps_to_steps (SettingsService_Update s c)"
  unfolding SettingsService_Update_def Let_def
  by (intro service_rules lawful_write) (auto intro: store_step.other other_write.settings)

lemma BuildConnectionInfo_steps: "steps_only s \<Longrightarrow> keeps_to_steps (BuildConnectionInfo s i)"
  unfolding BuildConnectionInfo_def by (intro service_rules)

end
