(* ===== verification/Xray_Probe.thy ===== *)
theory Xray_Probe
  imports Names World
begin

text \<open>
  Observing the node: the probe of \<open>internal/adapter/xray/handler.go\<close>, the counters of \<open>stats.go\<close> and
  the template validation of \<open>inbound.go\<close> and \<open>probe.go\<close>. The RPCs, the clock, random bytes and the
  authenticated exchange through the probe inbound are fields of \<open>stats_rpcs\<close>, the record of RPCs
  extended; \<open>rp_polls\<close> is how often the counters are polled within the probe's time budget.
\<close>

section \<open>Observations\<close>

record InstanceObservation =
  io_ObservedAt :: "instant"
  io_UptimeSeconds :: "32 word"
  io_BootEpoch :: "instant"
  io_BootEpochKnown :: bool

record CounterSnapshot =
  sp_StatisticsID :: string
  sp_Direction :: Direction
  sp_Bytes :: "64 word"
  sp_ObservedAt :: "instant"
  sp_Found :: bool

record TrafficRound =
  tr_Observation :: InstanceObservation
  tr_Snapshots :: "CounterSnapshot list"

record TemplateProbe =
  pr_TemplateID :: ID
  pr_ListenAddress :: string
  pr_ProbePort :: int
  pr_Method :: string
  pr_Network :: Network

record TemplateCapabilities =
  cb_InboundCreatable :: bool
  cb_InboundRemovable :: bool
  cb_ProtocolSupported :: bool
  cb_MethodSupported :: bool
  cb_MultiUserSupported :: bool
  cb_TrafficAccounted :: bool
  cb_ProbeStatisticsID :: string
  cb_CompatibilityReason :: string

definition Compatible :: "TemplateCapabilities \<Rightarrow> bool" where
  "Compatible c \<longleftrightarrow> cb_InboundCreatable c \<and> cb_InboundRemovable c \<and> cb_ProtocolSupported c \<and>
     cb_MethodSupported c \<and> cb_MultiUserSupported c \<and> cb_TrafficAccounted c"

text \<open>The part of the adapter that only observes.\<close>

record 'n observer =
  ob_Probe :: "'n \<Rightarrow> (err + InstanceObservation) \<times> 'n"
  ob_ValidateTemplate :: "TemplateProbe \<Rightarrow> 'n \<Rightarrow> (err + TemplateCapabilities) \<times> 'n"
  ob_ReadTraffic :: "string list \<Rightarrow> 'n \<Rightarrow> (err + TrafficRound) \<times> 'n"

section \<open>The RPCs\<close>

record 'n stats_rpcs = "'n rpcs" +
  rp_now :: "'n \<Rightarrow> instant \<times> 'n"
  rp_random :: "nat \<Rightarrow> 'n \<Rightarrow> 8 word list \<times> 'n"
  rp_GetSysStats :: "'n \<Rightarrow> (rpc_err + 32 word) \<times> 'n"
  rp_GetStats :: "string \<Rightarrow> bool \<Rightarrow> 'n \<Rightarrow> (rpc_err + (string \<times> int) option) \<times> 'n"
  rp_exchange :: "XrayNetwork \<Rightarrow> string \<Rightarrow> int \<Rightarrow> string \<Rightarrow> string \<Rightarrow> string \<Rightarrow> 'n \<Rightarrow> err option \<times> 'n"
  rp_polls :: nat

text \<open>\<open>Time.Truncate(time.Second)\<close> rounds down since the zero time, a whole second.\<close>

definition truncate_second :: "instant \<Rightarrow> instant" where
  "truncate_second t = t - t mod Second"

definition client_Probe :: "'n stats_rpcs \<Rightarrow> 'n \<Rightarrow> (err + InstanceObservation) \<times> 'n" where
  "client_Probe x n = (case rp_GetSysStats x n of
     (Inl e, n1) \<Rightarrow> (Inl (mapError ''probe'' e), n1)
   | (Inr uptime, n1) \<Rightarrow> (case rp_now x n1 of (now, n2) \<Rightarrow>
       (Inr \<lparr>io_ObservedAt = now, io_UptimeSeconds = uptime,
          io_BootEpoch = truncate_second now - uint uptime * Second, io_BootEpochKnown = True\<rparr>, n2)))"

section \<open>Reading counters\<close>

text \<open>One counter: absent, or its value; anything malformed is an error of the round.\<close>

definition read_counter :: "'n stats_rpcs \<Rightarrow> instant \<Rightarrow> string \<Rightarrow> Direction \<Rightarrow> 'n \<Rightarrow> (err + CounterSnapshot) \<times> 'n" where
  "read_counter x observedAt i direction n = (case CounterName i direction of
     Inl e \<Rightarrow> (Inl e, n)
   | Inr name \<Rightarrow> (case rp_GetStats x name False n of
       (Inl e, n1) \<Rightarrow>
         (if rpc_code e = CodeNotFound
          then (Inr \<lparr>sp_StatisticsID = i, sp_Direction = direction, sp_Bytes = 0, sp_ObservedAt = observedAt,
            sp_Found = False\<rparr>, n1)
          else (Inl (mapError ''read_traffic'' e), n1))
     | (Inr stat, n1) \<Rightarrow> (case stat of
         None \<Rightarrow> (Inl (AdapterError ''internal'' ''read_traffic'' True ''malformed Xray statistics response''), n1)
       | Some (stat_name, v) \<Rightarrow>
         (if stat_name \<noteq> name \<or> v < 0
          then (Inl (AdapterError ''internal'' ''read_traffic'' True ''malformed Xray statistics response''), n1)
          else (Inr \<lparr>sp_StatisticsID = i, sp_Direction = direction, sp_Bytes = word_of_int v, sp_ObservedAt = observedAt,
            sp_Found = True\<rparr>, n1)))))"

fun read_counters :: "'n stats_rpcs \<Rightarrow> instant \<Rightarrow> (string \<times> Direction) list \<Rightarrow> 'n \<Rightarrow> (err + CounterSnapshot list) \<times> 'n" where
  "read_counters x observedAt [] n = (Inr [], n)"
| "read_counters x observedAt ((i, direction) # rest) n = (case read_counter x observedAt i direction n of
     (Inl e, n1) \<Rightarrow> (Inl e, n1)
   | (Inr s, n1) \<Rightarrow> (case read_counters x observedAt rest n1 of
       (Inl e, n2) \<Rightarrow> (Inl e, n2) | (Inr ss, n2) \<Rightarrow> (Inr (s # ss), n2)))"

definition both_directions :: "string list \<Rightarrow> (string \<times> Direction) list" where
  "both_directions ids = concat (map (\<lambda>i. [(i, Uplink), (i, Downlink)]) ids)"

definition client_ReadTraffic :: "'n stats_rpcs \<Rightarrow> string list \<Rightarrow> 'n \<Rightarrow> (err + TrafficRound) \<times> 'n" where
  "client_ReadTraffic x ids n =
     (if length ids > 20
      then (Inl (AdapterError ''invalid_argument'' ''read_traffic'' False ''traffic query exceeds supported allocation count''), n)
      else (case client_Probe x n of (probe, n1) \<Rightarrow>
        (case (case probe of Inr o1 \<Rightarrow> (o1, n1)
               | Inl e \<Rightarrow> (case rp_now x n1 of (now, n2) \<Rightarrow> (\<lparr>io_ObservedAt = now, io_UptimeSeconds = 0,
                   io_BootEpoch = zero_time, io_BootEpochKnown = False\<rparr>, n2))) of
           (observation, n3) \<Rightarrow>
             (case read_counters x (io_ObservedAt observation) (both_directions ids) n3 of
                (Inl e, n4) \<Rightarrow> (Inl e, n4)
              | (Inr snaps, n4) \<Rightarrow> (Inr \<lparr>tr_Observation = observation, tr_Snapshots = snaps\<rparr>, n4)))))"

section \<open>Validating a template\<close>

text \<open>
  Addresses a dialler cannot use: those that are no IP, and the unspecified ones, whose digits are all
  zero (the IPv4-mapped spellings of \<open>0.0.0.0\<close> are not recognized here).
\<close>

definition dialTarget :: "string \<Rightarrow> string" where
  "dialTarget a = (if \<not> ParseIP a \<or> list_all (\<lambda>c. c \<in> set ''0:.'') a then ''127.0.0.1'' else a)"

definition counter_seen :: "Direction \<Rightarrow> CounterSnapshot list \<Rightarrow> bool" where
  "counter_seen direction snaps \<longleftrightarrow>
     list_ex (\<lambda>s. sp_Found s \<and> sp_Bytes s \<noteq> 0 \<and> (sp_Direction s = Uplink \<longleftrightarrow> direction = Uplink)) snaps"

definition no_counters :: string where
  "no_counters = ''node does not report per-user traffic counters; enable statsUserUplink and statsUserDownlink''"

primrec poll_counters :: "'n stats_rpcs \<Rightarrow> string \<Rightarrow> nat \<Rightarrow> 'n \<Rightarrow> (err + bool) \<times> 'n" where
  "poll_counters x i 0 n = (Inr False, n)"
| "poll_counters x i (Suc k) n = (case client_ReadTraffic x [i] n of
     (Inl e, n1) \<Rightarrow> (Inl e, n1)
   | (Inr round1, n1) \<Rightarrow>
       (if counter_seen Uplink (tr_Snapshots round1) \<and> counter_seen Downlink (tr_Snapshots round1)
        then (Inr True, n1) else poll_counters x i k n1))"

definition reset_counter :: "'n stats_rpcs \<Rightarrow> string \<Rightarrow> Direction \<Rightarrow> 'n \<Rightarrow> 'n" where
  "reset_counter x i direction n = (case CounterName i direction of
     Inl e \<Rightarrow> n | Inr name \<Rightarrow> snd (rp_GetStats x name True n))"

definition resetCounters :: "'n stats_rpcs \<Rightarrow> string \<Rightarrow> 'n \<Rightarrow> 'n" where
  "resetCounters x i n = reset_counter x i Downlink (reset_counter x i Uplink n)"

primrec exchange_all :: "'n stats_rpcs \<Rightarrow> TemplateProbe \<Rightarrow> string \<Rightarrow> string \<Rightarrow> XrayNetwork list \<Rightarrow> 'n \<Rightarrow> err option \<times> 'n" where
  "exchange_all x p server user [] n = (None, n)"
| "exchange_all x p server user (w # ws) n =
     (case rp_exchange x w (dialTarget (pr_ListenAddress p)) (pr_ProbePort p) (pr_Method p) server user n of
        (Some e, n1) \<Rightarrow> (Some e, n1) | (None, n1) \<Rightarrow> exchange_all x p server user ws n1)"

text \<open>The counters are reset on every way out.\<close>

definition verifyUserTrafficAccounting ::
  "'n stats_rpcs \<Rightarrow> TemplateProbe \<Rightarrow> string \<Rightarrow> string \<Rightarrow> string \<Rightarrow> 'n \<Rightarrow> (err + bool) \<times> 'n" where
  "verifyUserTrafficAccounting x p server user i n =
     (case (case exchange_all x p server user (networksFor (pr_Network p)) n of
              (Some e, n1) \<Rightarrow> (Inl e, n1)
            | (None, n1) \<Rightarrow> poll_counters x i (rp_polls x) n1) of
        (r, n2) \<Rightarrow> (r, resetCounters x i n2))"

definition probe_tag :: "ID \<Rightarrow> string" where
  "probe_tag i = NamespacePrefix @ ''probe-'' @ i"

definition no_capabilities :: TemplateCapabilities where
  "no_capabilities = \<lparr>cb_InboundCreatable = False, cb_InboundRemovable = False, cb_ProtocolSupported = True,
     cb_MethodSupported = False, cb_MultiUserSupported = False, cb_TrafficAccounted = False,
     cb_ProbeStatisticsID = '''', cb_CompatibilityReason = ''''\<rparr>"

text \<open>The body after the probe inbound was asked for, before its removal.\<close>

definition validate_body ::
  "'n stats_rpcs \<Rightarrow> TemplateProbe \<Rightarrow> CreateInboundCommand \<Rightarrow> TemplateCapabilities \<Rightarrow> 'n \<Rightarrow>
   (err option \<times> TemplateCapabilities) \<times> 'n" where
  "validate_body x p c cap n = (case client_CreateInbound (rpcs.truncate x) c n of
     (Inl e, n1) \<Rightarrow> (case e of
         AdapterError kind operation retryable summary \<Rightarrow>
           (if \<not> retryable
            then ((None, cap\<lparr>cb_CompatibilityReason := ''node could not create a probe inbound: '' @ summary\<rparr>), n1)
            else ((Some e, cap), n1))
       | _ \<Rightarrow> ((Some e, cap), n1))
   | (Inr _, n1) \<Rightarrow>
     (let cap1 = cap\<lparr>cb_InboundCreatable := True\<rparr> in
      case rp_GetInboundUsersCount x (ci_InboundTag c) n1 of
        (Inl e, n2) \<Rightarrow> ((Some (mapError ''validate_template'' e), cap1), n2)
      | (Inr k, n2) \<Rightarrow>
        (if \<not> k > 0
         then ((None, cap1\<lparr>cb_CompatibilityReason :=
             ''node does not satisfy the Shadowsocks 2022 multi-user contract''\<rparr>), n2)
         else (case verifyUserTrafficAccounting x p (ci_ServerKey c) (ic_UserKey (ci_Client c))
             (ic_StatisticsID (ci_Client c)) n2 of
            (Inl e, n3) \<Rightarrow> ((Some e, cap1\<lparr>cb_MultiUserSupported := True\<rparr>), n3)
          | (Inr accounted, n3) \<Rightarrow> ((None, cap1\<lparr>cb_MultiUserSupported := True, cb_TrafficAccounted := accounted,
              cb_CompatibilityReason := (if accounted then '''' else no_counters)\<rparr>), n3)))))"

text \<open>The deferred removal: the probe inbound goes whatever happened, and the outcome counts.\<close>

definition validate_cleanup ::
  "'n stats_rpcs \<Rightarrow> string \<Rightarrow> (err option \<times> TemplateCapabilities) \<times> 'n \<Rightarrow> (err + TemplateCapabilities) \<times> 'n" where
  "validate_cleanup x tag r = (case r of ((e, cap), n) \<Rightarrow>
     (case client_RemoveInbound (rpcs.truncate x) tag n of (res, n1) \<Rightarrow>
       (let removed = (case res of Inr _ \<Rightarrow> True
              | Inl (AdapterError kind operation retryable summary) \<Rightarrow> kind = ''inbound_not_found''
              | Inl _ \<Rightarrow> False);
            cap1 = cap\<lparr>cb_InboundRemovable := removed\<rparr>;
            cap2 = (if cb_InboundCreatable cap1 \<and> \<not> removed
              then cap1\<lparr>cb_CompatibilityReason := ''node created the probe inbound but could not remove it''\<rparr> else cap1)
        in (case e of Some err1 \<Rightarrow> Inl err1 | None \<Rightarrow> Inr cap2, n1))))"

definition client_ValidateTemplate :: "'n stats_rpcs \<Rightarrow> TemplateProbe \<Rightarrow> 'n \<Rightarrow> (err + TemplateCapabilities) \<times> 'n" where
  "client_ValidateTemplate x p n =
     (case methodKeyLength (pr_Method p) of
        Inl e \<Rightarrow> (Inr (no_capabilities\<lparr>cb_CompatibilityReason := ''unsupported Shadowsocks 2022 method''\<rparr>), n)
      | Inr len \<Rightarrow> (case rp_random x len n of (server, n1) \<Rightarrow> (case rp_random x len n1 of (user, n2) \<Rightarrow>
          (case rp_random x 16 n2 of (run, n3) \<Rightarrow>
            (let tag = probe_tag (pr_TemplateID p); i = NamespacePrefix @ ''probe-'' @ NewID run;
                 c = \<lparr>ci_OperationID = '''', ci_InboundTag = tag, ci_ListenAddress = pr_ListenAddress p,
                      ci_Port = pr_ProbePort p, ci_Method = pr_Method p, ci_Network = pr_Network p,
                      ci_ServerKey = base64_std server,
                      ci_Client = \<lparr>ic_StatisticsID = i, ic_CredentialVersion = 1, ic_UserKey = base64_std user\<rparr>\<rparr>
             in validate_cleanup x tag (validate_body x p c
                  (no_capabilities\<lparr>cb_MethodSupported := True, cb_ProbeStatisticsID := i\<rparr>) n3))))))"

definition client_observer :: "'n stats_rpcs \<Rightarrow> 'n observer" where
  "client_observer x = \<lparr>ob_Probe = client_Probe x, ob_ValidateTemplate = client_ValidateTemplate x,
     ob_ReadTraffic = client_ReadTraffic x\<rparr>"

end
