(* ===== verification/Template_Service.thy ===== *)
theory Template_Service
  imports Panel_Services Xray_Probe
begin

text \<open>
  Registering, editing and validating inbound templates (\<open>internal/application/template_service.go\<close>)
  and the worker that validates them (\<open>internal/worker/validator.go\<close>). Probing and validating go
  through the observing part of the adapter.
\<close>

section \<open>Registering and editing\<close>

record TemplateInput =
  ti_Name :: string
  ti_PublicHost :: string
  ti_ListenAddress :: string
  ti_PortPoolStart :: int
  ti_PortPoolEnd :: int
  ti_Method :: string
  ti_Network :: string
  ti_RequestID :: ID
  ti_ExpectedRevision :: Revision
  ti_ActorID :: ID
  ti_Fingerprint :: "8 word list"

definition template_command :: "TemplateInput \<Rightarrow> ID \<Rightarrow> string \<Rightarrow> instant \<Rightarrow> 8 word list \<Rightarrow> DomainCommand" where
  "template_command c i action now fingerprint =
     \<lparr>dc_ID = ti_RequestID c, dc_ActorType = ActorAdministrator, dc_ActorID = Some (ti_ActorID c),
      dc_CommandType = action, dc_TargetType = ''template'', dc_TargetID = i, dc_RequestFingerprint = fingerprint,
      dc_State = CommandCompleted, dc_ResultReference = ''/templates/'' @ i, dc_CreatedAt = now, dc_CompletedAt = Some now\<rparr>"

definition template_audit :: "ID \<Rightarrow> ID \<Rightarrow> ID \<Rightarrow> ID \<Rightarrow> string \<Rightarrow> AuditResult \<Rightarrow> string \<Rightarrow> instant \<Rightarrow> AuditEvent" where
  "template_audit aid request actor i action result summary now =
     \<lparr>ae_ID = aid, ae_OccurredAt = now, ae_ActorType = ActorAdministrator, ae_ActorID = Some actor,
      ae_TargetType = ''template'', ae_TargetID = i, ae_Action = action, ae_Result = result,
      ae_CommandID = Some request, ae_OperationID = None, ae_SafeSummary = summary\<rparr>"

text \<open>\<open>Validator.Enqueue\<close>: the queue holds 64 templates, and one that does not fit is dropped.\<close>

definition Validator_Enqueue :: "bool \<Rightarrow> ID \<Rightarrow> ('n, unit) act" where
  "Validator_Enqueue due i = (\<lambda>w. if due \<and> length (wd_revalidate w) < 64 then act_revalidate i w else ((), w))"

definition RegisterTemplate :: "services \<Rightarrow> TemplateInput \<Rightarrow> ('n, err + ID) act" where
  "RegisterTemplate s c =
     act_guard invalid_request (Valid (ti_RequestID c)) (
     act_try (act_query s (\<lambda>d. fst (WithWriteTx ManagedInstance d))) (\<lambda>inst.
     act_bind (act_newID s) (\<lambda>i. act_bind (act_now s) (\<lambda>now.
     act_check (NewInboundTemplate (sv_unicode s) i (mi_ID inst) (ti_Name c) (ti_PublicHost c) (ti_ListenAddress c)
         (ti_PortPoolStart c) (ti_PortPoolEnd c) (ti_Method c) (ti_Network c) now) (\<lambda>t.
     (let fingerprint = request_fingerprint s (ti_Fingerprint c) [''template_registered'', ti_Name c, ti_PublicHost c,
            ti_ListenAddress c, int_digits (ti_PortPoolStart c), int_digits (ti_PortPoolEnd c), ti_Method c,
            ti_Network c]
      in act_bind (act_newID s) (\<lambda>aid.
     act_try (act_store s (WithWriteTx (CreateTemplate t (template_command c i ''template_registered'' now fingerprint)
         (template_audit aid (ti_RequestID c) (ti_ActorID c) i ''template_registered'' AuditSucceeded
           ''inbound template saved'' now)))) (\<lambda>(j, replay).
     act_bind (Validator_Enqueue (\<not> replay \<and> sv_notify s) j) (\<lambda>_. act_ret (Inr j))))))))))"

text \<open>The edited template keeps what the form does not show; a new contract must be validated again.\<close>

definition contract_changed :: "InboundTemplate \<Rightarrow> InboundTemplate \<Rightarrow> bool" where
  "contract_changed old new \<longleftrightarrow> tm_Method old \<noteq> tm_Method new \<or> tm_ListenAddress old \<noteq> tm_ListenAddress new"

definition carry_over :: "InboundTemplate \<Rightarrow> InboundTemplate \<Rightarrow> instant \<Rightarrow> InboundTemplate" where
  "carry_over old new now =
     (let t = new\<lparr>tm_Revision := tm_Revision old, tm_CreatedAt := tm_CreatedAt old, tm_UpdatedAt := now,
            tm_Compatibility := tm_Compatibility old, tm_CompatibilityReason := tm_CompatibilityReason old,
            tm_LastValidatedAt := tm_LastValidatedAt old, tm_ArchivedAt := tm_ArchivedAt old\<rparr>
      in if contract_changed old new
         then t\<lparr>tm_Compatibility := CompatibilityUnverified, tm_CompatibilityReason := '''', tm_LastValidatedAt := None\<rparr>
         else t)"

definition TemplateService_UpdateTemplate :: "services \<Rightarrow> ID \<Rightarrow> TemplateInput \<Rightarrow> ('n, err + unit) act" where
  "TemplateService_UpdateTemplate s i c =
     act_try (act_query s (Template i)) (\<lambda>old.
     act_bind (act_now s) (\<lambda>made.
     act_check (NewInboundTemplate (sv_unicode s) i (tm_InstanceID old) (ti_Name c) (ti_PublicHost c) (ti_ListenAddress c)
         (ti_PortPoolStart c) (ti_PortPoolEnd c) (ti_Method c) (ti_Network c) made) (\<lambda>new.
     act_bind (act_now s) (\<lambda>now.
     (let t = carry_over old new now;
          fingerprint = request_fingerprint s (ti_Fingerprint c) [''template_updated'', i, ti_Name c, ti_PublicHost c,
            ti_ListenAddress c, int_digits (ti_PortPoolStart c), int_digits (ti_PortPoolEnd c), ti_Method c,
            ti_Network c, int_digits (ti_ExpectedRevision c)]
      in act_bind (act_newID s) (\<lambda>aid.
     act_try (act_store s (WithWriteTx (UpdateTemplate t (ti_ExpectedRevision c)
         (template_command c i ''template_updated'' now fingerprint)
         (template_audit aid (ti_RequestID c) (ti_ActorID c) i ''template_updated'' AuditSucceeded
           ''inbound template saved'' now)))) (\<lambda>replay.
     act_bind (Validator_Enqueue (contract_changed old new \<and> sv_notify s) i) (\<lambda>_. act_ret (Inr ())))))))))"

record RevalidateInput =
  ri_ID :: ID
  ri_ExpectedRevision :: Revision
  ri_RequestID :: ID
  ri_ActorID :: ID
  ri_Fingerprint :: "8 word list"

definition Revalidate :: "services \<Rightarrow> RevalidateInput \<Rightarrow> ('n, err + bool) act" where
  "Revalidate s c =
     act_guard invalid_request (Valid (ri_RequestID c)) (
     act_bind (act_now s) (\<lambda>now. act_bind (act_newID s) (\<lambda>aid.
     act_try (act_store s (WithWriteTx (RequestRevalidation (ri_ID c) (ri_ExpectedRevision c)
       \<lparr>dc_ID = ri_RequestID c, dc_ActorType = ActorAdministrator, dc_ActorID = Some (ri_ActorID c),
        dc_CommandType = ''template_revalidation_requested'', dc_TargetType = ''template'', dc_TargetID = ri_ID c,
        dc_RequestFingerprint = request_fingerprint s (ri_Fingerprint c) [''template_revalidation_requested'', ri_ID c,
          int_digits (ri_ExpectedRevision c)],
        dc_State = CommandCompleted, dc_ResultReference = ''/templates/'' @ ri_ID c, dc_CreatedAt = now,
        dc_CompletedAt = Some now\<rparr>
       (template_audit aid (ri_RequestID c) (ri_ActorID c) (ri_ID c) ''template_revalidation_requested'' AuditAccepted
         ''administrator requested template revalidation'' now)))) (\<lambda>replay.
     act_bind (Validator_Enqueue (\<not> replay \<and> sv_notify s) (ri_ID c)) (\<lambda>_. act_ret (Inr replay))))))"

definition StatsSuspect :: "services \<Rightarrow> ID \<Rightarrow> ('n, bool) act" where
  "StatsSuspect s i = act_bind (act_query s (TemplateCounterEvidence i)) (\<lambda>(listening, observed).
     act_ret (listening > 0 \<and> observed = 0))"

section \<open>Validation\<close>

definition ErrValidationStale :: err where
  "ErrValidationStale = PlainError ''template changed during validation; result discarded''"

definition adapterSummary :: "err \<Rightarrow> string \<Rightarrow> string" where
  "adapterSummary e fallback = (case e of
     AdapterError kind operation retryable summary \<Rightarrow> if summary \<noteq> '''' then summary else fallback
   | _ \<Rightarrow> fallback)"

definition known_observation :: "InstanceObservation option \<Rightarrow> InstanceObservation option" where
  "known_observation o1 = (case o1 of None \<Rightarrow> None | Some x \<Rightarrow> if io_BootEpochKnown x then Some x else None)"

text \<open>The outcome to commit: what the state says of the node's health.\<close>

definition validation_outcome :: "InboundTemplate \<Rightarrow> CompatibilityState \<Rightarrow> string \<Rightarrow> instant option \<Rightarrow> int \<Rightarrow> ID \<Rightarrow> instant \<Rightarrow>
    ValidationOutcome" where
  "validation_outcome t state reason epoch generation aid now =
     \<lparr>vo_TemplateID = tm_ID t, vo_ExpectedRevision = tm_Revision t, vo_State = state, vo_Reason = reason,
      vo_ValidatedAt = now,
      vo_Health = (case state of CompatibilityCompatible \<Rightarrow> ''healthy'' | CompatibilityUnreachable \<Rightarrow> ''unreachable''
        | CompatibilityUnverified \<Rightarrow> ''healthy'' | CompatibilityIncompatible \<Rightarrow> ''incompatible''),
      vo_BootEpoch = map_option epoch_text epoch, vo_CapabilityGeneration = generation,
      vo_ErrorCode = (case state of CompatibilityCompatible \<Rightarrow> '''' | CompatibilityUnreachable \<Rightarrow> ''instance_unavailable''
        | CompatibilityUnverified \<Rightarrow> '''' | CompatibilityIncompatible \<Rightarrow> ''incompatible_profile''),
      vo_ErrorSummary = (if state = CompatibilityCompatible then '''' else reason),
      vo_SuccessAt = (if state = CompatibilityCompatible then Some now else None),
      vo_Audit = \<lparr>ae_ID = aid, ae_OccurredAt = now, ae_ActorType = ActorSystem, ae_ActorID = None,
        ae_TargetType = ''template'', ae_TargetID = tm_ID t, ae_Action = ''template_validated'',
        ae_Result = (if state = CompatibilityCompatible then AuditSucceeded else AuditFailed), ae_CommandID = None,
        ae_OperationID = None, ae_SafeSummary = reason\<rparr>\<rparr>"

definition complete_validation :: "services \<Rightarrow> InboundTemplate \<Rightarrow> CompatibilityState \<Rightarrow> string \<Rightarrow>
    InstanceObservation option \<Rightarrow> instant \<Rightarrow> ('n, err + unit) act" where
  "complete_validation s t state reason observation now =
     act_try (case known_observation observation of
         None \<Rightarrow> act_ret (Inr 0)
       | Some x \<Rightarrow> act_try (act_store s (WithWriteTx (AdvanceCapabilityGeneration
           \<lparr>cs_BootEpoch = io_BootEpoch x, cs_UptimeSeconds = io_UptimeSeconds x, cs_Known = True,
            cs_SuspectedRestart = False\<rparr> CapabilityGenerationTolerance now))) (\<lambda>(g, advanced). act_ret (Inr g)))
     (\<lambda>generation. act_bind (act_newID s) (\<lambda>aid.
     act_try (act_store s (WithWriteTx (CompleteTemplateValidation (validation_outcome t state reason
         (map_option io_BootEpoch (known_observation observation)) generation aid now)))) (\<lambda>applied.
     if applied then act_ret (Inr ()) else act_ret (Inl ErrValidationStale))))"

text \<open>What the validation RPCs say of the template.\<close>

definition judge :: "err + TemplateCapabilities \<Rightarrow> CompatibilityState \<times> string" where
  "judge r = (case r of
     Inl e \<Rightarrow> ((case e of AdapterError kind operation retryable summary \<Rightarrow>
          if retryable then CompatibilityUnreachable else CompatibilityIncompatible
        | _ \<Rightarrow> CompatibilityIncompatible), adapterSummary e ''template validation failed'')
   | Inr c \<Rightarrow> if \<not> Compatible c
       then (CompatibilityIncompatible, if cb_CompatibilityReason c = ''''
          then ''node does not satisfy the SS2022 multi-user contract'' else cb_CompatibilityReason c)
       else (CompatibilityCompatible, ''''))"

definition RunValidation :: "services \<Rightarrow> 'n observer \<Rightarrow> ID \<Rightarrow> ('n, err + unit) act" where
  "RunValidation s ob i =
     act_try (act_query s (Template i)) (\<lambda>t.
     act_bind (act_now s) (\<lambda>now.
     act_bind (act_rpc (ob_Probe ob)) (\<lambda>probe. case probe of
       Inl e \<Rightarrow> complete_validation s t CompatibilityUnreachable (adapterSummary e ''Xray API is unavailable'') None now
     | Inr observation \<Rightarrow>
       act_bind (act_query s (AssignedPorts i)) (\<lambda>assigned.
       case NextAvailablePort (tm_Pool t) assigned of
         Inl e \<Rightarrow> complete_validation s t CompatibilityUnverified
           ''port pool is exhausted; free a port or widen the range before validating'' (Some observation) now
       | Inr port \<Rightarrow>
         act_bind (act_rpc (ob_ValidateTemplate ob \<lparr>pr_TemplateID = i, pr_ListenAddress = tm_ListenAddress t,
             pr_ProbePort = port, pr_Method = tm_Method t, pr_Network = tm_Network t\<rparr>)) (\<lambda>r.
         complete_validation s t (fst (judge r)) (snd (judge r)) (Some observation) now)))))"

section \<open>The validator\<close>

text \<open>A failed validation is logged; the sweep goes on.\<close>

primrec validate_all :: "services \<Rightarrow> 'n observer \<Rightarrow> ID list \<Rightarrow> ('n, unit) act" where
  "validate_all s ob [] = act_ret ()"
| "validate_all s ob (i # is) = act_bind (RunValidation s ob i) (\<lambda>_. validate_all s ob is)"

definition needs_validation :: "InboundTemplate \<Rightarrow> bool" where
  "needs_validation t \<longleftrightarrow> tm_Compatibility t = CompatibilityUnverified \<or> tm_Compatibility t = CompatibilityUnreachable"

definition SweepOnce :: "services \<Rightarrow> 'n observer \<Rightarrow> ('n, unit) act" where
  "SweepOnce s ob = act_bind (act_query s (Templates False)) (\<lambda>ts.
     validate_all s ob (map tm_ID (filter needs_validation ts)))"

text \<open>One turn of the loop on a queued template.\<close>

definition Validator_turn :: "services \<Rightarrow> 'n observer \<Rightarrow> ('n, unit) act" where
  "Validator_turn s ob = (\<lambda>w. case wd_revalidate w of
     [] \<Rightarrow> ((), w)
   | i # rest \<Rightarrow> validate_all s ob [i] (w\<lparr>wd_revalidate := rest\<rparr>))"

section \<open>The services keep to the steps of the store\<close>

lemma steady_enqueue: "steady P (Validator_Enqueue due i)"
  by (rule lawful_pure) (simp add: Validator_Enqueue_def act_revalidate_def)

lemma RegisterTemplate_steps: "steps_only s \<Longrightarrow> keeps_to_steps (RegisterTemplate s c)"
  unfolding RegisterTemplate_def Let_def
  by (intro service_rules lawful_write steady_enqueue) (auto intro: store_step.other other_write.create_template)

lemma UpdateTemplate_steps: "steps_only s \<Longrightarrow> keeps_to_steps (TemplateService_UpdateTemplate s i c)"
  unfolding TemplateService_UpdateTemplate_def Let_def
  by (intro service_rules lawful_write steady_enqueue) (auto intro: store_step.other other_write.update_template)

lemma Revalidate_steps: "steps_only s \<Longrightarrow> keeps_to_steps (Revalidate s c)"
  unfolding Revalidate_def
  by (intro service_rules lawful_write steady_enqueue) (auto intro: store_step.other other_write.revalidation)

lemma complete_validation_steps: "steps_only s \<Longrightarrow> keeps_to_steps (complete_validation s t state reason observation now)"
  unfolding complete_validation_def
  by (intro service_rules lawful_write)
    (auto intro: store_step.other other_write.generation other_write.validation)

lemma RunValidation_steps: "steps_only s \<Longrightarrow> keeps_to_steps (RunValidation s ob i)"
  unfolding RunValidation_def by (intro service_rules complete_validation_steps)

lemma validate_all_steps: "steps_only s \<Longrightarrow> keeps_to_steps (validate_all s ob is)"
  by (induction "is") (simp_all add: service_rules RunValidation_steps)

lemma SweepOnce_steps: "steps_only s \<Longrightarrow> keeps_to_steps (SweepOnce s ob)"
  unfolding SweepOnce_def by (intro service_rules validate_all_steps)

lemma Validator_turn_steps: "steps_only s \<Longrightarrow> keeps_to_steps (Validator_turn s ob)"
proof (rule lawfulI)
  fix w w' :: "'a world" and x
  assume s: "steps_only s" and w: "reachable (wd_db w)" and run: "Validator_turn s ob w = (x, w')"
  show "store_step\<^sup>*\<^sup>* (wd_db w) (wd_db w') \<and> True"
  proof (cases "wd_revalidate w")
    case (Cons i rest)
    with run have "validate_all s ob [i] (w\<lparr>wd_revalidate := rest\<rparr>) = (x, w')" by (simp add: Validator_turn_def)
    from lawfulD [OF validate_all_steps [OF s] this] w show ?thesis by simp
  qed (use run in \<open>simp add: Validator_turn_def\<close>)
qed

end
