(* ===== verification/Traffic_Service.thy ===== *)
theory Traffic_Service
  imports Template_Service
begin

text \<open>
  Collecting traffic: \<open>internal/application/traffic_service.go\<close>, run by \<open>internal/worker/collector.go\<close>.
  A round reads the counters of every listening user in batches, turns them into updates of the
  cursors, and commits all of them in one transaction.
\<close>

section \<open>Reading a round\<close>

record collector = services +
  co_interval :: duration

datatype round_error =
    RoundFailed err
  | RoundInconsistent string "instant option"

definition epochString :: "InstanceObservation \<Rightarrow> instant option" where
  "epochString x = (if io_BootEpochKnown x then Some (epoch_text (io_BootEpoch x)) else None)"

definition bootEpochQuantization :: duration where
  "bootEpochQuantization = Second"

text \<open>Why a later batch cannot belong to the same round, \<open>""\<close> when it can.\<close>

definition observationMismatch :: "InstanceObservation \<Rightarrow> InstanceObservation \<Rightarrow> InstanceObservation \<Rightarrow> string" where
  "observationMismatch first1 previous current =
     (let d = time_sub (io_BootEpoch current) (io_BootEpoch first1); difference = (if d < 0 then wrap64 (- d) else d)
      in if io_BootEpochKnown first1 \<noteq> io_BootEpochKnown current then ''boot epoch visibility changed between batches''
         else if io_BootEpochKnown first1 \<and> difference > bootEpochQuantization
         then ''Xray restarted between batches (boot epoch changed)''
         else if io_BootEpochKnown first1 \<and> io_ObservedAt previous \<noteq> zero_time \<and>
           io_UptimeSeconds current < io_UptimeSeconds previous
         then ''Xray restarted between batches (uptime decreased)''
         else if io_ObservedAt previous \<noteq> zero_time \<and> io_ObservedAt current < io_ObservedAt previous
         then ''observation time regressed between batches'' else '''')"

definition readBatchSize :: nat where
  "readBatchSize = 20"

text \<open>The identities in batches of twenty.\<close>

function batches :: "string list \<Rightarrow> string list list" where
  "batches ids = (if ids = [] then [] else take readBatchSize ids # batches (drop readBatchSize ids))"
  by auto

termination by (relation "measure length") (auto simp: readBatchSize_def)

declare batches.simps [simp del]

text \<open>The later batches: the first observation, the previous one and the snapshots so far.\<close>

primrec read_batches :: "'n observer \<Rightarrow> string list list \<Rightarrow> InstanceObservation \<Rightarrow> InstanceObservation \<Rightarrow>
    CounterSnapshot list \<Rightarrow> ('n, round_error + TrafficRound) act" where
  "read_batches ob [] first1 previous snaps = act_ret (Inr \<lparr>tr_Observation =
     (if io_ObservedAt previous \<noteq> zero_time then first1\<lparr>io_ObservedAt := io_ObservedAt previous\<rparr> else first1),
     tr_Snapshots = snaps\<rparr>)"
| "read_batches ob (b # bs) first1 previous snaps = act_bind (act_rpc (ob_ReadTraffic ob b)) (\<lambda>r. case r of
     Inl e \<Rightarrow> act_ret (Inl (RoundFailed e))
   | Inr x \<Rightarrow>
     (let reason = observationMismatch first1 previous (tr_Observation x) in
      if reason \<noteq> '''' then act_ret (Inl (RoundInconsistent reason (epochString (tr_Observation x))))
      else read_batches ob bs first1 (tr_Observation x) (snaps @ tr_Snapshots x)))"

text \<open>\<open>readAll\<close> is called with at least one identity.\<close>

definition readAll :: "'n observer \<Rightarrow> string list \<Rightarrow> ('n, round_error + TrafficRound) act" where
  "readAll ob ids = (case batches ids of
     [] \<Rightarrow> act_ret (Inr \<lparr>tr_Observation = \<lparr>io_ObservedAt = zero_time, io_UptimeSeconds = 0, io_BootEpoch = zero_time,
       io_BootEpochKnown = False\<rparr>, tr_Snapshots = []\<rparr>)
   | b # bs \<Rightarrow> act_bind (act_rpc (ob_ReadTraffic ob b)) (\<lambda>r. case r of
       Inl e \<Rightarrow> act_ret (Inl (RoundFailed e))
     | Inr x \<Rightarrow> read_batches ob bs (tr_Observation x) (tr_Observation x) (tr_Snapshots x)))"

section \<open>From samples to an update\<close>

text \<open>\<open>Time.Format("2006-01-02")\<close> of a day number, for years of up to four digits.\<close>

definition pad_digits :: "nat \<Rightarrow> int \<Rightarrow> string" where
  "pad_digits n i = (let s = int_digits i in replicate (n - length s) (CHR ''0'') @ s)"

definition date_text :: "int \<Rightarrow> string" where
  "date_text D = (let k = month_index D in
     pad_digits 4 (k div 12) @ ''-'' @ pad_digits 2 (k mod 12 + 1) @ ''-'' @ pad_digits 2 (day_of D))"

text \<open>The last snapshot of an identity and direction counts; none is a sample not found.\<close>

definition sample_of :: "CounterSnapshot list \<Rightarrow> string \<Rightarrow> Direction \<Rightarrow> TrafficSample" where
  "sample_of snaps i direction = (case filter (\<lambda>x. sp_StatisticsID x = i \<and> sp_Direction x = direction) (rev snaps) of
     [] \<Rightarrow> \<lparr>sa_Found = False, sa_Bytes = 0\<rparr> | x # _ \<Rightarrow> \<lparr>sa_Found = sp_Found x, sa_Bytes = sp_Bytes x\<rparr>)"

fun dedupe_restart :: "bool \<Rightarrow> ContinuityEvent list \<Rightarrow> ContinuityEvent list" where
  "dedupe_restart seen [] = []"
| "dedupe_restart seen (e # es) =
     (if ce_Type e = EventNodeRestart
      then (if seen then dedupe_restart seen es else e\<lparr>ce_Direction := ''''\<rparr> # dedupe_restart True es)
      else e # dedupe_restart seen es)"

definition restart_confirmed :: "TrafficCursorRecord \<Rightarrow> InstanceObservation \<Rightarrow> duration \<Rightarrow> bool" where
  "restart_confirmed c x interval = (case tc_BootEpoch c of None \<Rightarrow> False
   | Some e \<Rightarrow> RestartConfirmed e (io_BootEpoch x) (io_BootEpochKnown x) interval)"

definition direction_result :: "TrafficCursorRecord \<Rightarrow> CounterSnapshot list \<Rightarrow> string \<Rightarrow> InstanceObservation \<Rightarrow> duration \<Rightarrow>
    Direction \<Rightarrow> DeltaResult" where
  "direction_result c snaps i x interval direction =
     ApplySample direction
       (if direction = Uplink then \<lparr>cu_Counter = tc_UplinkCounter c, cu_Epoch = tc_UplinkEpoch c\<rparr>
        else \<lparr>cu_Counter = tc_DownlinkCounter c, cu_Epoch = tc_DownlinkEpoch c\<rparr>)
       (sample_of snaps i direction) (restart_confirmed c x interval) (tc_MissingSince c \<noteq> None)"

text \<open>A delta that would overflow the lifetime total or the cycle is dropped.\<close>

definition total_overflows :: "int \<Rightarrow> int \<Rightarrow> bool" where
  "total_overflows base delta \<longleftrightarrow> (case AddDelta base delta of Inl e \<Rightarrow> True | Inr n \<Rightarrow> False)"

definition kept_delta :: "int \<Rightarrow> int \<Rightarrow> int \<Rightarrow> int" where
  "kept_delta total1 accounted delta =
     (let d = (if total_overflows total1 delta then 0 else delta) in if total_overflows accounted d then 0 else d)"

definition overflow_events :: "int \<Rightarrow> int \<Rightarrow> Direction \<Rightarrow> ContinuityEvent list" where
  "overflow_events total1 delta direction = (if total_overflows total1 delta
     then [event EventOverflow direction None None 0 ''lifetime total would overflow''] else [])"

text \<open>
  The cursor after the samples. Its boot epoch moves on when either direction was found; it stays
  while both are missing.
\<close>

definition next_cursor :: "CollectionTarget \<Rightarrow> DeltaResult \<Rightarrow> DeltaResult \<Rightarrow> InstanceObservation \<Rightarrow> instant \<Rightarrow> TrafficCursorRecord" where
  "next_cursor t up down x observedAt =
     (let c = ct_Cursor t; found = (\<not> dr_Missing up \<or> \<not> dr_Missing down)
      in \<lparr>tc_AllocationID = al_ID (ct_Allocation t),
          tc_BootEpoch = (if io_BootEpochKnown x \<and> found then epochString x else tc_BootEpoch c),
          tc_UplinkCounter = cu_Counter (dr_Cursor up), tc_DownlinkCounter = cu_Counter (dr_Cursor down),
          tc_UplinkEpoch = cu_Epoch (dr_Cursor up), tc_DownlinkEpoch = cu_Epoch (dr_Cursor down),
          tc_LastObservedAt = Some observedAt,
          tc_LastSuccessAt = (if found then Some observedAt else tc_LastSuccessAt c),
          tc_MissingSince = (if dr_Missing up \<or> dr_Missing down
            then (case tc_MissingSince c of None \<Rightarrow> Some observedAt | Some m \<Rightarrow> Some m) else None)\<rparr>)"

definition late_sample :: "CollectionTarget \<Rightarrow> instant \<Rightarrow> bool" where
  "late_sample t observedAt \<longleftrightarrow> (case tc_LastObservedAt (ct_Cursor t) of None \<Rightarrow> False | Some m \<Rightarrow> observedAt < m)"

definition update_events :: "CollectionTarget \<Rightarrow> DeltaResult \<Rightarrow> DeltaResult \<Rightarrow> bool \<Rightarrow> instant \<Rightarrow> duration \<Rightarrow> ContinuityEvent list" where
  "update_events t up down restart observedAt interval =
     (let es = dr_Events up @ dr_Events down; es1 = (if restart then dedupe_restart False es else es)
      in es1 @ (case tc_LastObservedAt (ct_Cursor t) of None \<Rightarrow> []
           | Some m \<Rightarrow> if BoundaryGap m observedAt interval
               then [event EventBoundaryGap '''' None None 0 ''collection gap exceeded two intervals''] else []) @
         overflow_events (ct_TotalUplink t) (dr_Delta up) Uplink @
         overflow_events (ct_TotalDownlink t) (dr_Delta down) Downlink)"

definition traffic_update :: "collector \<Rightarrow> CollectionTarget \<Rightarrow> DeltaResult \<Rightarrow> DeltaResult \<Rightarrow> InstanceObservation \<Rightarrow>
    instant \<Rightarrow> ContinuityEventRecord list \<Rightarrow> ID \<Rightarrow> ID \<Rightarrow> TrafficUpdate" where
  "traffic_update s t up down x observedAt events op aid =
     (let zone = qc_Timezone (ct_Cycle t);
          (day, localDate) = DayBounds observedAt (sv_zones s zone); a = al_ID (ct_Allocation t)
      in \<lparr>tu_AllocationID = a, tu_Cursor = next_cursor t up down x observedAt,
          tu_UplinkDelta = kept_delta (ct_TotalUplink t) (qc_AccountedUplinkBytes (ct_Cycle t)) (dr_Delta up),
          tu_DownlinkDelta = kept_delta (ct_TotalDownlink t) (qc_AccountedDownlinkBytes (ct_Cycle t)) (dr_Delta down),
          tu_DayStartUTC = day, tu_LocalDate = date_text localDate, tu_Timezone = zone, tu_Events = events,
          tu_QuotaBlock = Some (operation_template op a observedAt),
          tu_Audit = Some \<lparr>ae_ID = aid, ae_OccurredAt = observedAt, ae_ActorType = ActorSystem, ae_ActorID = None,
            ae_TargetType = ''user'', ae_TargetID = mu_ID (ct_User t), ae_Action = ''quota_exceeded'',
            ae_Result = AuditAccepted, ae_CommandID = None, ae_OperationID = None,
            ae_SafeSummary = ''accounted usage reached the quota; removal requested''\<rparr>\<rparr>)"

definition number_events :: "ID \<Rightarrow> instant \<Rightarrow> ID list \<Rightarrow> ContinuityEvent list \<Rightarrow> ContinuityEventRecord list" where
  "number_events a observedAt ids es =
     map (\<lambda>(i, e). \<lparr>cv_ID = i, cv_AllocationID = a, cv_Event = e, cv_OccurredAt = observedAt\<rparr>) (zip ids es)"

text \<open>\<open>buildUpdate\<close>: \<open>None\<close> for a late sample.\<close>

definition buildUpdate :: "collector \<Rightarrow> CollectionTarget \<Rightarrow> CounterSnapshot list \<Rightarrow> InstanceObservation \<Rightarrow> instant \<Rightarrow>
    ('n, TrafficUpdate option) act" where
  "buildUpdate s t snaps x observedAt =
     (if late_sample t observedAt then act_ret None
      else let i = xi_StatisticsID (ct_Identity t); c = ct_Cursor t;
               up = direction_result c snaps i x (co_interval s) Uplink;
               down = direction_result c snaps i x (co_interval s) Downlink;
               es = update_events t up down (restart_confirmed c x (co_interval s)) observedAt (co_interval s)
           in act_bind (act_newIDs (services.truncate s) (length es)) (\<lambda>ids.
              act_bind (act_newID s) (\<lambda>op. act_bind (act_newID s) (\<lambda>aid.
              act_ret (Some (traffic_update s t up down x observedAt
                (number_events (al_ID (ct_Allocation t)) observedAt ids es) op aid))))))"

primrec build_updates :: "collector \<Rightarrow> CounterSnapshot list \<Rightarrow> InstanceObservation \<Rightarrow> instant \<Rightarrow> CollectionTarget list \<Rightarrow>
    ('n, TrafficUpdate option list) act" where
  "build_updates s snaps x observedAt [] = act_ret []"
| "build_updates s snaps x observedAt (t # ts) = act_bind (buildUpdate s t snaps x observedAt) (\<lambda>u.
     act_bind (build_updates s snaps x observedAt ts) (\<lambda>us. act_ret (u # us)))"

section \<open>A round\<close>

record CollectionSummary =
  cl_Targets :: int
  cl_Applied :: int
  cl_Blocked :: int
  cl_Rolled :: int
  cl_Restored :: int
  cl_Skipped :: int
  cl_Events :: int
  cl_Duration :: duration

definition no_collection :: CollectionSummary where
  "no_collection = \<lparr>cl_Targets = 0, cl_Applied = 0, cl_Blocked = 0, cl_Rolled = 0, cl_Restored = 0, cl_Skipped = 0,
     cl_Events = 0, cl_Duration = 0\<rparr>"

definition failure_of :: "err \<Rightarrow> string \<times> string" where
  "failure_of e = (case e of AdapterError kind operation retryable summary \<Rightarrow> (kind, summary)
   | _ \<Rightarrow> (''internal'', ''traffic collection failed''))"

text \<open>Errors of these two writes are logged.\<close>

definition recordFailure :: "collector \<Rightarrow> err \<Rightarrow> ('n, unit) act" where
  "recordFailure s cause = act_bind (act_now s) (\<lambda>now.
     act_bind (act_store s (WithWriteTx (MarkInstanceUnreachable (fst (failure_of cause)) (snd (failure_of cause)) now)))
       (\<lambda>_. act_ret ()))"

definition recordInconsistency :: "collector \<Rightarrow> instant option \<Rightarrow> ('n, unit) act" where
  "recordInconsistency s lastEpoch =
     act_bind (case lastEpoch of None \<Rightarrow> act_ret ()
       | Some observed \<Rightarrow> act_bind (act_now s) (\<lambda>now.
           act_bind (act_store s (WithWriteTx (AdvanceCapabilityGeneration \<lparr>cs_BootEpoch = observed, cs_UptimeSeconds = 0,
             cs_Known = True, cs_SuspectedRestart = True\<rparr> CapabilityGenerationTolerance now))) (\<lambda>_. act_ret ()))) (\<lambda>_.
     act_bind (act_now s) (\<lambda>now.
     act_bind (act_store s (WithWriteTx (MarkInstanceHealthy lastEpoch now))) (\<lambda>_. act_ret ())))"

definition advanceGeneration :: "collector \<Rightarrow> InstanceObservation \<Rightarrow> ('n, err + (int \<times> bool)) act" where
  "advanceGeneration s x = act_bind (act_now s) (\<lambda>now.
     act_store s (WithWriteTx (AdvanceCapabilityGeneration \<lparr>cs_BootEpoch = io_BootEpoch x,
       cs_UptimeSeconds = io_UptimeSeconds x, cs_Known = io_BootEpochKnown x, cs_SuspectedRestart = False\<rparr>
       CapabilityGenerationTolerance now)))"

definition markHealthy :: "collector \<Rightarrow> InstanceObservation \<Rightarrow> ('n, err + unit) act" where
  "markHealthy s x = act_bind (act_now s) (\<lambda>now. act_store s (WithWriteTx (MarkInstanceHealthy (epochString x) now)))"

definition act_commit :: "collector \<Rightarrow> TrafficBatch \<Rightarrow> ('n, err + TrafficCommitResult) act" where
  "act_commit s batch = (\<lambda>w. act_store s (WithWriteTx (CommitTrafficBatch (sv_zones s) (sv_fresh s (wd_tick w)) batch)) w)"

definition with_error :: "CollectionSummary \<Rightarrow> ('n, err + 'b) act \<Rightarrow> ('b \<Rightarrow> ('n, CollectionSummary \<times> round_error option) act) \<Rightarrow>
    ('n, CollectionSummary \<times> round_error option) act" where
  "with_error summary m k = act_bind m (\<lambda>r. case r of
     Inl e \<Rightarrow> act_ret (summary, Some (RoundFailed e)) | Inr x \<Rightarrow> k x)"

text \<open>Without targets a round only probes the node.\<close>

definition collect_idle :: "collector \<Rightarrow> 'n observer \<Rightarrow> ('n, CollectionSummary \<times> round_error option) act" where
  "collect_idle s ob = act_bind (act_rpc (ob_Probe ob)) (\<lambda>r. case r of
     Inl e \<Rightarrow> act_bind (recordFailure s e) (\<lambda>_. act_ret (no_collection, Some (RoundFailed e)))
   | Inr x \<Rightarrow> with_error no_collection (advanceGeneration s x) (\<lambda>_.
       with_error no_collection (markHealthy s x) (\<lambda>_. act_ret (no_collection, None))))"

definition collect_commit :: "collector \<Rightarrow> instant \<Rightarrow> CollectionTarget list \<Rightarrow> TrafficRound \<Rightarrow>
    ('n, CollectionSummary \<times> round_error option) act" where
  "collect_commit s started targets round1 =
     (let x = tr_Observation round1 in
      act_bind (if io_ObservedAt x = zero_time then act_now s else act_ret (io_ObservedAt x)) (\<lambda>observedAt.
      act_bind (build_updates s (tr_Snapshots round1) x observedAt targets) (\<lambda>us.
      (let updates = List.map_filter id us;
           summary = no_collection\<lparr>cl_Targets := int (length targets), cl_Applied := int (length updates),
             cl_Skipped := int (length us) - int (length updates),
             cl_Events := int (length (concat (map tu_Events updates)))\<rparr>
       in with_error summary (act_commit s \<lparr>tb_ObservedAt = observedAt, tb_Updates = updates\<rparr>) (\<lambda>res.
          (let done1 = summary\<lparr>cl_Blocked := cm_Blocked res, cl_Rolled := cm_Rolled res, cl_Restored := cm_Restored res\<rparr>
           in act_bind (act_notify (cm_Blocked res + cm_Restored res > 0 \<and> sv_notify s)) (\<lambda>_.
              with_error done1 (advanceGeneration s x) (\<lambda>_.
              with_error done1 (markHealthy s x) (\<lambda>_.
              act_bind (act_now s) (\<lambda>now. act_ret (done1\<lparr>cl_Duration := time_sub now started\<rparr>, None)))))))))))"

definition CollectOnce :: "collector \<Rightarrow> 'n observer \<Rightarrow> ('n, CollectionSummary \<times> round_error option) act" where
  "CollectOnce s ob = act_bind (act_now s) (\<lambda>started.
     act_bind (act_query s CollectionTargets) (\<lambda>targets.
     if targets = [] then collect_idle s ob
     else act_bind (readAll ob (map (xi_StatisticsID \<circ> ct_Identity) targets)) (\<lambda>r. case r of
       Inl (RoundInconsistent reason lastEpoch) \<Rightarrow> act_bind (recordInconsistency s lastEpoch) (\<lambda>_.
         act_ret (no_collection\<lparr>cl_Targets := int (length targets), cl_Skipped := int (length targets)\<rparr>,
           Some (RoundInconsistent reason lastEpoch)))
     | Inl (RoundFailed e) \<Rightarrow> act_bind (recordFailure s e) (\<lambda>_.
         act_ret (no_collection\<lparr>cl_Targets := int (length targets)\<rparr>, Some (RoundFailed e)))
     | Inr round1 \<Rightarrow> collect_commit s started targets round1)))"

text \<open>The collector logs the result of a round.\<close>

definition Collector_RunOnce :: "collector \<Rightarrow> 'n observer \<Rightarrow> ('n, unit) act" where
  "Collector_RunOnce s ob = act_bind (CollectOnce s ob) (\<lambda>_. act_ret ())"

section \<open>The collector keeps to the steps of the store\<close>

text \<open>A transaction whose code depends on the number of calls made so far.\<close>

lemma lawful_commit: "steps_only s \<Longrightarrow> lasting P \<Longrightarrow> steady P (act_commit s batch)"
proof (rule lawfulI)
  fix w w' :: "'a world" and x
  assume s: "steps_only s" "lasting P" and w: "reachable (wd_db w)" "P (wd_db w)" and run: "act_commit s batch w = (x, w')"
  have "steady P (act_store s (WithWriteTx (CommitTrafficBatch (sv_zones s) (sv_fresh s (wd_tick w)) batch)))"
    by (rule lawful_write [OF s]) (auto intro: store_step.traffic)
  from lawfulD [OF this, where w = w and x = x and w' = w'] w run show "store_step\<^sup>*\<^sup>* (wd_db w) (wd_db w') \<and> P (wd_db w')"
    by (simp add: act_commit_def)
qed

lemma recordFailure_steps: "steps_only s \<Longrightarrow> keeps_to_steps (recordFailure s e)"
  unfolding recordFailure_def by (intro service_rules lawful_write) (auto intro: store_step.other other_write.unreachable)

lemma recordInconsistency_steps: "steps_only s \<Longrightarrow> keeps_to_steps (recordInconsistency s e)"
  unfolding recordInconsistency_def
  by (intro service_rules lawful_write) (auto intro: store_step.other other_write.generation other_write.healthy)

lemma advanceGeneration_steps: "steps_only s \<Longrightarrow> keeps_to_steps (advanceGeneration s x)"
  unfolding advanceGeneration_def by (intro service_rules lawful_write) (auto intro: store_step.other other_write.generation)

lemma markHealthy_steps: "steps_only s \<Longrightarrow> keeps_to_steps (markHealthy s x)"
  unfolding markHealthy_def by (intro service_rules lawful_write) (auto intro: store_step.other other_write.healthy)

lemma steady_with_error: "steady P m \<Longrightarrow> (\<And>x. steady P (k x)) \<Longrightarrow> steady P (with_error summary m k)"
  unfolding with_error_def by (intro service_rules)

lemma build_updates_steady: "steady P (build_updates s snaps x observedAt ts)"
  by (induction ts) (simp_all add: buildUpdate_def Let_def service_rules)

lemma read_batches_steady: "steady P (read_batches ob bs first1 previous snaps)"
  by (induction bs arbitrary: previous snaps) (auto simp: Let_def intro!: service_rules)

lemma readAll_steady: "steady P (readAll ob ids)"
  unfolding readAll_def by (auto intro!: service_rules read_batches_steady split: list.splits)

lemma collect_steps:
  assumes "steps_only s"
  shows "keeps_to_steps (collect_idle s ob)" "keeps_to_steps (collect_commit s started targets round1)"
  unfolding collect_idle_def collect_commit_def Let_def
  by (intro service_rules steady_with_error recordFailure_steps advanceGeneration_steps markHealthy_steps
      build_updates_steady lawful_commit assms)+

lemma CollectOnce_steps: "steps_only s \<Longrightarrow> keeps_to_steps (CollectOnce s ob)"
  unfolding CollectOnce_def
  by (intro service_rules collect_steps readAll_steady)
    (auto intro!: service_rules recordInconsistency_steps recordFailure_steps collect_steps split: sum.splits round_error.splits)

lemma Collector_RunOnce_steps: "steps_only s \<Longrightarrow> keeps_to_steps (Collector_RunOnce s ob)"
  unfolding Collector_RunOnce_def by (intro service_rules CollectOnce_steps)

end
