(* ===== verification/Reconcile_Service.thy ===== *)
theory Reconcile_Service
  imports Traffic_Service Synchronizer
begin

text \<open>
  Repairing drift between the database and the node:
  \<open>internal/application/reconciliation_service.go\<close>, run by \<open>internal/worker/reconciler.go\<close>. A round
  lists what the node serves, queues the removal of what the panel does not know in its namespace,
  and queues an operation for each allocation whose inbound is missing or should not be there.
\<close>

section \<open>A round and its errors\<close>

text \<open>
  \<open>rc_order\<close> is the order in which Go ranges over the map of the remote tags; \<open>rc_revalidate\<close> says
  whether the callback, \<open>TemplateService.RunValidation\<close>, is set.
\<close>

record reconciler = services +
  rc_interval :: duration
  rc_revalidate :: bool
  rc_order :: "string list \<Rightarrow> string list"

record ReconcileSummary =
  rs_Profiles :: int
  rs_Drift :: int
  rs_RemovedUnknown :: int
  rs_ConfirmedAbsent :: int
  rs_StuckSync :: int
  rs_Revalidated :: int
  rs_Reconnected :: bool
  rs_Duration :: duration

definition no_reconciliation :: ReconcileSummary where
  "no_reconciliation = \<lparr>rs_Profiles = 0, rs_Drift = 0, rs_RemovedUnknown = 0, rs_ConfirmedAbsent = 0,
     rs_StuckSync = 0, rs_Revalidated = 0, rs_Reconnected = False, rs_Duration = 0\<rparr>"

text \<open>The summary so far and whether an operation was queued; an error ends the round with the summary.\<close>

type_synonym progress = "ReconcileSummary \<times> bool"

type_synonym 'n round_act = "('n, progress \<times> err option) act"

definition or_fail :: "progress \<Rightarrow> ('n, err + 'b) act \<Rightarrow> ('b \<Rightarrow> 'n round_act) \<Rightarrow> 'n round_act" where
  "or_fail acc m k = act_bind m (\<lambda>r. case r of Inl e \<Rightarrow> act_ret (acc, Some e) | Inr x \<Rightarrow> k x)"

definition and_then :: "'n round_act \<Rightarrow> (progress \<Rightarrow> 'n round_act) \<Rightarrow> 'n round_act" where
  "and_then m k = act_bind m (\<lambda>(acc, e). case e of None \<Rightarrow> k acc | Some x \<Rightarrow> act_ret (acc, Some x))"

primrec round_each :: "('a \<Rightarrow> progress \<Rightarrow> 'n round_act) \<Rightarrow> 'a list \<Rightarrow> progress \<Rightarrow> 'n round_act" where
  "round_each f [] acc = act_ret (acc, None)"
| "round_each f (x # xs) acc = and_then (f x acc) (round_each f xs)"

definition adapterKind :: "err \<Rightarrow> string \<times> string" where
  "adapterKind e = (case e of AdapterError kind operation retryable summary \<Rightarrow> (kind, summary)
   | _ \<Rightarrow> (''internal'', ''Xray operation failed''))"

definition markDegraded :: "reconciler \<Rightarrow> err \<Rightarrow> ('n, unit) act" where
  "markDegraded s e = act_bind (\<lambda>w. ((), w\<lparr>wd_degraded := True\<rparr>)) (\<lambda>_. act_bind (act_now s) (\<lambda>now.
     act_bind (act_store s (WithWriteTx (MarkInstanceUnreachable (fst (adapterKind e)) (snd (adapterKind e)) now)))
       (\<lambda>_. act_ret ())))"

definition clearDegraded :: "('n, bool) act" where
  "clearDegraded = (\<lambda>w. (wd_degraded w, w\<lparr>wd_degraded := False\<rparr>))"

text \<open>A failed RPC degrades the panel before the round ends.\<close>

definition or_degrade :: "reconciler \<Rightarrow> progress \<Rightarrow> ('n, err + 'b) act \<Rightarrow> ('b \<Rightarrow> 'n round_act) \<Rightarrow> 'n round_act" where
  "or_degrade s acc m k = act_bind m (\<lambda>r. case r of
     Inl e \<Rightarrow> act_bind (markDegraded s e) (\<lambda>_. act_ret (acc, Some e)) | Inr x \<Rightarrow> k x)"

definition queue_removal :: "reconciler \<Rightarrow> ID \<Rightarrow> string \<Rightarrow> string \<Rightarrow> string \<Rightarrow> instant \<Rightarrow> ('n, err + bool) act" where
  "queue_removal s templateID tag kind statisticsID now = act_bind (act_newID s) (\<lambda>i.
     act_store s (WithWriteTx (EnqueueDriftRemoval i templateID tag kind statisticsID now)))"

definition removed_unknown :: "bool \<Rightarrow> progress \<Rightarrow> progress" where
  "removed_unknown created acc =
     (if created then ((fst acc)\<lparr>rs_RemovedUnknown := rs_RemovedUnknown (fst acc) + 1\<rparr>, True) else acc)"

definition confirmed_absent :: "bool \<Rightarrow> progress \<Rightarrow> progress" where
  "confirmed_absent created acc =
     (if created then ((fst acc)\<lparr>rs_ConfirmedAbsent := rs_ConfirmedAbsent (fst acc) + 1\<rparr>, True) else acc)"

section \<open>Restarts and stale evidence\<close>

text \<open>
  Every inbound that should listen is gone, and one was seen listening in an earlier round: the sign
  of a restart, given once.
\<close>

definition user_tag :: "UserRecord \<Rightarrow> string" where
  "user_tag r = di_InboundTag (ir_Inbound (ur_Inbound r))"

definition vanished :: "string list \<Rightarrow> UserRecord list \<Rightarrow> bool" where
  "vanished remote users =
     (let expected = filter (\<lambda>r. DesiredPresent (ur_Allocation r) (ur_User r)) users;
          listening = filter (\<lambda>r. user_tag r \<in> set remote) expected;
          previous = filter (\<lambda>r. di_ObservedPresent (ir_Inbound (ur_Inbound r)) = Some True) expected
      in length expected > 0 \<and> length listening = 0 \<and> length previous > 0)"

text \<open>An error of the validation is ignored.\<close>

definition revalidate :: "reconciler \<Rightarrow> 'n observer \<Rightarrow> ID \<Rightarrow> ('n, unit) act" where
  "revalidate s ob i = (if rc_revalidate s
     then act_bind (RunValidation (services.truncate s) ob i) (\<lambda>_. act_ret ()) else act_ret ())"

primrec revalidate_each :: "reconciler \<Rightarrow> 'n observer \<Rightarrow> ID list \<Rightarrow> ('n, unit) act" where
  "revalidate_each s ob [] = act_ret ()"
| "revalidate_each s ob (i # is) = act_bind (revalidate s ob i) (\<lambda>_. revalidate_each s ob is)"

definition refresh_evidence :: "reconciler \<Rightarrow> 'n observer \<Rightarrow> InstanceObservation \<Rightarrow> bool \<Rightarrow> instant \<Rightarrow> progress \<Rightarrow>
    'n round_act" where
  "refresh_evidence s ob x suspected now acc =
     or_fail acc (act_store s (WithWriteTx (AdvanceCapabilityGeneration \<lparr>cs_BootEpoch = io_BootEpoch x,
        cs_UptimeSeconds = io_UptimeSeconds x, cs_Known = io_BootEpochKnown x, cs_SuspectedRestart = suspected\<rparr>
        CapabilityGenerationTolerance now))) (\<lambda>(generation, advanced).
     or_fail acc (act_store s (WithWriteTx (MarkInstanceHealthy (epochString x) now))) (\<lambda>_.
     or_fail acc (act_store s (WithWriteTx (InvalidateStaleCapabilityEvidence generation now))) (\<lambda>stale.
     act_bind (revalidate_each s ob stale) (\<lambda>_.
     act_ret (((fst acc)\<lparr>rs_Revalidated := int (length stale)\<rparr>, snd acc), None)))))"

definition count_templates :: "reconciler \<Rightarrow> 'n observer \<Rightarrow> InboundTemplate list \<Rightarrow> progress \<Rightarrow> 'n round_act" where
  "count_templates s ob ts acc = act_bind (revalidate_each s ob
       (if rs_Reconnected (fst acc) then map tm_ID (filter (\<lambda>t. tm_Compatibility t = CompatibilityUnreachable) ts) else []))
     (\<lambda>_. act_ret (((fst acc)\<lparr>rs_Profiles := rs_Profiles (fst acc) + int (length ts)\<rparr>, snd acc), None))"

section \<open>Unknown inbounds and clients\<close>

definition anyTemplateID :: "InboundTemplate list \<Rightarrow> ID" where
  "anyTemplateID ts = (case List.find (\<lambda>t. tm_ArchivedAt t = None) ts of None \<Rightarrow> '''' | Some t \<Rightarrow> tm_ID t)"

definition queue_orphan :: "reconciler \<Rightarrow> InboundTemplate list \<Rightarrow> UserRecord list \<Rightarrow> instant \<Rightarrow> string \<Rightarrow> progress \<Rightarrow>
    'n round_act" where
  "queue_orphan s ts users now tag acc =
     (if tag \<in> set (map user_tag users) then act_ret (acc, None)
      else or_fail acc (queue_removal s (anyTemplateID ts) tag ''inbound'' tag now) (\<lambda>created.
        act_ret (removed_unknown created acc, None)))"

text \<open>
  What an inbound may carry: the client of its allocation and, while a rotation is open, the
  transition client.
\<close>

definition tolerated :: "string \<Rightarrow> bool \<Rightarrow> RemoteUser \<Rightarrow> bool" where
  "tolerated own rotating u \<longleftrightarrow> \<not> ru_Present u \<or> ru_StatisticsID u = own \<or>
     (rotating \<and> ru_StatisticsID u = RotationSafetyID own)"

definition queue_client :: "reconciler \<Rightarrow> ID \<Rightarrow> string \<Rightarrow> string \<Rightarrow> bool \<Rightarrow> instant \<Rightarrow> RemoteUser \<Rightarrow> progress \<Rightarrow>
    'n round_act" where
  "queue_client s templateID tag own rotating now u acc =
     (if tolerated own rotating u then act_ret (acc, None)
      else or_fail acc (queue_removal s templateID tag ''identity'' (ru_StatisticsID u) now) (\<lambda>created.
        act_ret (removed_unknown created acc, None)))"

definition carries_own :: "string \<Rightarrow> RemoteUser list \<Rightarrow> bool" where
  "carries_own own remote \<longleftrightarrow> list_ex (\<lambda>u. ru_Present u \<and> ru_StatisticsID u = own) remote"

text \<open>An inbound that listens is inspected; the rest of the round sees whether it carries its client.\<close>

definition inspect :: "reconciler \<Rightarrow> 'n adapter \<Rightarrow> InboundTemplate \<Rightarrow> UserRecord \<Rightarrow> instant \<Rightarrow> progress \<Rightarrow>
    (bool \<Rightarrow> progress \<Rightarrow> 'n round_act) \<Rightarrow> 'n round_act" where
  "inspect s ad t r now acc k =
     (let tag = user_tag r; own = xi_StatisticsID (ur_Identity r) in
      or_degrade s acc (act_rpc (ap_ListUsers ad
          \<lparr>ri_TemplateID = tm_ID t, ri_InboundTag = tag, ri_Method = tm_Method t\<rparr>)) (\<lambda>remote.
      act_bind (act_query s (HasOpenRotation (al_ID (ur_Allocation r)))) (\<lambda>rotating.
      and_then (round_each (queue_client s (tm_ID t) tag own rotating now) remote acc) (k (carries_own own remote)))))"

section \<open>An allocation\<close>

definition stuck :: "reconciler \<Rightarrow> UserRecord \<Rightarrow> instant \<Rightarrow> bool" where
  "stuck s r now \<longleftrightarrow> time_sub now (al_UpdatedAt (ur_Allocation r)) > wrap64 (3 * rc_interval s)"

definition reconcile_operation :: "UserRecord \<Rightarrow> ID \<Rightarrow> instant \<Rightarrow> SynchronizationOperation" where
  "reconcile_operation r i now =
     (let a = ur_Allocation r; desired = DesiredPresent a (ur_User r) in
      NewSynchronizationOperation i (al_ID a) (al_DesiredRevision a + 1) desired
        (Some (al_DesiredCredentialVersion a)) SyncReconcile (InboundPhaseFor desired) now)"

definition drifted :: "progress \<Rightarrow> progress" where
  "drifted acc = ((fst acc)\<lparr>rs_Drift := rs_Drift (fst acc) + 1\<rparr>, True)"

definition repair :: "reconciler \<Rightarrow> UserRecord \<Rightarrow> instant \<Rightarrow> bool \<Rightarrow> progress \<Rightarrow> 'n round_act" where
  "repair s r now actual acc =
     (let a = ur_Allocation r in
      or_fail acc (act_store s (WithWriteTx (RecordObservation (al_ID a) actual now))) (\<lambda>_.
      or_fail acc (act_store s (WithWriteTx (ConfirmInboundPresence (al_ID a) actual now))) (\<lambda>_.
      if PendingSync a
      then act_ret ((if stuck s r now then ((fst acc)\<lparr>rs_StuckSync := rs_StuckSync (fst acc) + 1\<rparr>, snd acc) else acc), None)
      else if actual = DesiredPresent a (ur_User r) then act_ret (acc, None)
      else act_bind (act_query s (HasOpenOperation (al_ID a))) (\<lambda>opened.
        if opened then act_ret (acc, None)
        else act_bind (act_newID s) (\<lambda>i.
          or_fail acc (act_store s (WithWriteTx (EnqueueReconcile (al_ID a) (al_DesiredRevision a)
              (reconcile_operation r i now) now))) (\<lambda>queued.
          act_ret ((if queued then drifted acc else acc), None)))))))"

text \<open>Users of a template that is archived, unknown or incompatible are left alone.\<close>

definition reconcile_user :: "reconciler \<Rightarrow> 'n adapter \<Rightarrow> InboundTemplate list \<Rightarrow> string list \<Rightarrow> instant \<Rightarrow> UserRecord \<Rightarrow>
    progress \<Rightarrow> 'n round_act" where
  "reconcile_user s ad ts remote now r acc =
     (case List.find (\<lambda>t. tm_ID t = al_TemplateID (ur_Allocation r)) (rev ts) of
        None \<Rightarrow> act_ret (acc, None)
      | Some t \<Rightarrow>
          if tm_Compatibility t = CompatibilityIncompatible then act_ret (acc, None)
          else if user_tag r \<in> set remote then inspect s ad t r now acc (repair s r now)
          else repair s r now False acc)"

section \<open>Failed removals\<close>

definition requeue_removal :: "reconciler \<Rightarrow> string list \<Rightarrow> ID \<Rightarrow> instant \<Rightarrow> DriftRemoval \<Rightarrow> progress \<Rightarrow> 'n round_act" where
  "requeue_removal s remote templateID now removal acc =
     (if dr_InboundTag removal \<in> set remote then act_ret (acc, None)
      else or_fail acc (queue_removal s templateID (dr_InboundTag removal) (dr_Kind removal) (dr_StatisticsID removal) now)
        (\<lambda>created. act_ret (confirmed_absent created acc, None)))"

definition requeue_template :: "reconciler \<Rightarrow> string list \<Rightarrow> instant \<Rightarrow> InboundTemplate \<Rightarrow> progress \<Rightarrow> 'n round_act" where
  "requeue_template s remote now t acc = act_bind (act_query s (StaleDriftRemovals (tm_ID t))) (\<lambda>stale.
     round_each (requeue_removal s remote (tm_ID t) now) stale acc)"

section \<open>The round\<close>

definition repair_all :: "reconciler \<Rightarrow> 'n adapter \<Rightarrow> InboundTemplate list \<Rightarrow> UserRecord list \<Rightarrow> string list \<Rightarrow> instant \<Rightarrow>
    progress \<Rightarrow> 'n round_act" where
  "repair_all s ad ts users remote now acc =
     and_then (round_each (queue_orphan s ts users now) (rc_order s (remdups remote)) acc) (\<lambda>acc.
     and_then (round_each (reconcile_user s ad ts remote now) users acc) (\<lambda>acc.
     and_then (round_each (requeue_template s remote now) ts acc) (\<lambda>acc.
     act_bind (act_query s OrphanStaleDriftRemovals) (\<lambda>orphans.
     round_each (requeue_removal s remote '''' now) orphans acc))))"

definition finish_round :: "reconciler \<Rightarrow> instant \<Rightarrow> 'n round_act \<Rightarrow> ('n, ReconcileSummary \<times> err option) act" where
  "finish_round s started m = act_bind m (\<lambda>(acc, e). case e of
     Some x \<Rightarrow> act_ret (fst acc, Some x)
   | None \<Rightarrow> act_bind (act_notify (snd acc \<and> sv_notify s)) (\<lambda>_. act_bind (act_now s) (\<lambda>now.
       act_ret ((fst acc)\<lparr>rs_Duration := time_sub now started\<rparr>, None))))"

definition ReconcileOnce :: "reconciler \<Rightarrow> 'n adapter \<Rightarrow> 'n observer \<Rightarrow> ('n, ReconcileSummary \<times> err option) act" where
  "ReconcileOnce s ad ob = act_bind (act_now s) (\<lambda>started.
     finish_round s started (
     or_degrade s (no_reconciliation, False) (act_rpc (ob_Probe ob)) (\<lambda>x.
     act_bind clearDegraded (\<lambda>reconnected.
     let acc = (no_reconciliation\<lparr>rs_Reconnected := reconnected\<rparr>, False) in
     act_bind (act_now s) (\<lambda>now.
     act_bind (act_query s (Templates False)) (\<lambda>ts.
     act_bind (act_query s (ListUsers (sv_unicode s) \<lparr>uf_Query = '''', uf_Status = '''', uf_IncludeDeleted = True\<rparr>)) (\<lambda>users.
     or_degrade s acc (act_rpc (ap_ListInbounds ad)) (\<lambda>inbounds.
     let remote = map re_InboundTag (filter re_PanelManaged inbounds) in
     and_then (refresh_evidence s ob x (reconnected \<or> vanished remote users) now acc) (\<lambda>acc.
     and_then (count_templates s ob ts acc) (\<lambda>acc.
     repair_all s ad ts users remote now acc))))))))))"

text \<open>The reconciler logs an error of a round.\<close>

definition Reconciler_RunOnce :: "reconciler \<Rightarrow> 'n adapter \<Rightarrow> 'n observer \<Rightarrow> ('n, unit) act" where
  "Reconciler_RunOnce s ad ob = act_bind (ReconcileOnce s ad ob) (\<lambda>_. act_ret ())"

section \<open>The reconciler keeps to the steps of the store\<close>

lemma steady_round:
  "steady P m \<Longrightarrow> (\<And>x. steady P (k x)) \<Longrightarrow> steady P (or_fail acc m k)"
  "steady P h \<Longrightarrow> (\<And>acc. steady P (j acc)) \<Longrightarrow> steady P (and_then h j)"
  unfolding or_fail_def and_then_def by (intro steady_rules steady_split; simp add: steady_rules)+

lemma steady_each: "(\<And>x acc. x \<in> set xs \<Longrightarrow> steady P (f x acc)) \<Longrightarrow> steady P (round_each f xs acc)"
  by (induction xs arbitrary: acc) (simp_all add: steady_rules steady_round)

lemma steady_flags: "steady P (\<lambda>w. ((), w\<lparr>wd_degraded := b\<rparr>))" "steady P clearDegraded"
  by (rule lawful_pure; simp add: clearDegraded_def)+

lemma markDegraded_steps: "steps_only s \<Longrightarrow> keeps_to_steps (markDegraded s e)"
  unfolding markDegraded_def
  by (intro service_rules steady_flags lawful_write) (auto intro: store_step.other other_write.unreachable)

lemma steady_degrade:
  "steps_only s \<Longrightarrow> keeps_to_steps m \<Longrightarrow> (\<And>x. keeps_to_steps (k x)) \<Longrightarrow> keeps_to_steps (or_degrade s acc m k)"
  unfolding or_degrade_def by (intro service_rules markDegraded_steps)

lemmas round_rules = service_rules steady_round steady_flags steady_degrade

lemma steps_only_truncate [simp]: "steps_only (services.truncate s) = steps_only s"
  by (simp add: steps_only_def services.truncate_def)

lemma queue_removal_steps: "steps_only s \<Longrightarrow> keeps_to_steps (queue_removal s t tag kind sid now)"
  unfolding queue_removal_def by (intro round_rules lawful_write) (auto intro: store_step.other other_write.drift)

lemma revalidate_each_steps: "steps_only s \<Longrightarrow> keeps_to_steps (revalidate_each s ob is)"
  by (induction "is") (simp_all add: revalidate_def service_rules RunValidation_steps)

lemma refresh_evidence_steps: "steps_only s \<Longrightarrow> keeps_to_steps (refresh_evidence s ob x b now acc)"
  unfolding refresh_evidence_def
  by (intro round_rules revalidate_each_steps lawful_write)
    (auto intro: store_step.other other_write.generation other_write.healthy other_write.evidence)

lemma count_templates_steps: "steps_only s \<Longrightarrow> keeps_to_steps (count_templates s ob ts acc)"
  unfolding count_templates_def by (intro round_rules revalidate_each_steps)

lemma queue_orphan_steps: "steps_only s \<Longrightarrow> keeps_to_steps (queue_orphan s ts users now tag acc)"
  unfolding queue_orphan_def by (intro round_rules queue_removal_steps)

lemma inspect_steps:
  "steps_only s \<Longrightarrow> (\<And>b acc. keeps_to_steps (k b acc)) \<Longrightarrow> keeps_to_steps (inspect s ad t r now acc k)"
  unfolding inspect_def Let_def queue_client_def by (intro round_rules steady_each queue_removal_steps)

lemma repair_steps:
  assumes "steps_only s" "0 \<le> al_DesiredRevision (ur_Allocation r)"
  shows "keeps_to_steps (repair s r now actual acc)"
proof -
  have "store_step d d'" if "EnqueueReconcile (al_ID (ur_Allocation r)) (al_DesiredRevision (ur_Allocation r))
      (reconcile_operation r i now) now d = Inr (b, d')" for i b d d'
    by (rule store_step.reconcile [OF that])
      (use assms(2) in \<open>simp_all add: reconcile_operation_def Let_def NewSynchronizationOperation_def\<close>)
  then show ?thesis
    unfolding repair_def Let_def
    by (intro round_rules lawful_write assms) (auto intro: store_step.observe store_step.presence)
qed

lemma reconcile_user_steps:
  assumes "steps_only s" "0 \<le> al_DesiredRevision (ur_Allocation r)"
  shows "keeps_to_steps (reconcile_user s ad ts remote now r acc)"
  unfolding reconcile_user_def by (intro round_rules inspect_steps repair_steps assms)

lemma requeue_steps: "steps_only s \<Longrightarrow> keeps_to_steps (requeue_removal s remote i now x acc)"
  unfolding requeue_removal_def by (intro round_rules queue_removal_steps)

lemma repair_all_steps:
  assumes "steps_only s" "\<And>r. r \<in> set users \<Longrightarrow> 0 \<le> al_DesiredRevision (ur_Allocation r)"
  shows "keeps_to_steps (repair_all s ad ts users remote now acc)"
  unfolding repair_all_def requeue_template_def
  by (intro round_rules steady_each queue_orphan_steps reconcile_user_steps requeue_steps assms)

text \<open>A query that is followed by an action which relies on a fact of its result.\<close>

lemma lawful_query_fact:
  assumes "steps_only s" "\<And>d. reachable d \<Longrightarrow> F (q d)" "\<And>x. F x \<Longrightarrow> keeps_to_steps (k x)"
  shows "keeps_to_steps (act_bind (act_query s q) k)"
proof (rule lawful_bind)
  show "lawful (\<lambda>_. True) (act_query s q) (\<lambda>x d. F x)"
    using lawful_query [OF assms(1) lasting_True, of q] assms(2) unfolding lawful_def by blast
  show "lawful (\<lambda>d. F x) (k x) (\<lambda>_ _. True)" for x
    using assms(3) [of x] unfolding lawful_def by blast
qed

lemma listed_revision:
  assumes "reachable d" "r \<in> set (ListUsers u f d)"
  shows "0 \<le> al_DesiredRevision (ur_Allocation r)"
  using after_reading [OF assms(1), of r] assms(2) by (auto simp: ListUsers_def after_read_def)

lemma lawful_list:
  assumes "steps_only s" "\<And>us. (\<And>r. r \<in> set us \<Longrightarrow> 0 \<le> al_DesiredRevision (ur_Allocation r)) \<Longrightarrow> keeps_to_steps (k us)"
  shows "keeps_to_steps (act_bind (act_query s (ListUsers u f)) k)"
  by (rule lawful_query_fact [where F = "\<lambda>us. \<forall>r \<in> set us. 0 \<le> al_DesiredRevision (ur_Allocation r)"])
    (use assms listed_revision in blast)+

lemma ReconcileOnce_steps: "steps_only s \<Longrightarrow> keeps_to_steps (ReconcileOnce s ad ob)"
  unfolding ReconcileOnce_def finish_round_def Let_def
  by (intro lawful_list round_rules refresh_evidence_steps count_templates_steps repair_all_steps)

lemma Reconciler_RunOnce_steps: "steps_only s \<Longrightarrow> keeps_to_steps (Reconciler_RunOnce s ad ob)"
  unfolding Reconciler_RunOnce_def by (intro service_rules ReconcileOnce_steps)

end
