(* ===== verification/Session_Service.thy ===== *)
theory Session_Service
  imports World Store_Invariants
begin

text \<open>
  Browser sessions: \<open>internal/persistence/sqlite/sessions.go\<close>. A token is stored by its SHA-256 digest,
  a parameter. The session store has its own clock; its statements outside a transaction are separate
  accesses to the database.
\<close>

section \<open>The session store\<close>

record session_store = surroundings +
  ss_idle :: duration
  ss_absolute :: duration
  ss_digest :: "string \<Rightarrow> 8 word list"

text \<open>The join with the administrator, whose password version must be that of the session.\<close>

definition current_owner :: "db \<Rightarrow> SessionRow \<Rightarrow> bool" where
  "current_owner d r \<longleftrightarrow>
     list_ex (\<lambda>a. ad_ID a = sr_AdministratorID r \<and> ad_PasswordVersion a = sr_PasswordVersion r) (db_admins d)"

definition live_session :: "8 word list \<Rightarrow> instant \<Rightarrow> db \<Rightarrow> SessionRow option" where
  "live_session digest now d = List.find (\<lambda>r. live_token digest r \<and> se_IdleExpiresAt (sr_Session r) > stored now \<and>
     se_AbsoluteExpiresAt (sr_Session r) > stored now \<and> current_owner d r) (db_sessions d)"

definition idle_until :: "'e session_store_scheme \<Rightarrow> instant \<Rightarrow> instant \<Rightarrow> instant" where
  "idle_until s now absolute = (if now + ss_idle s > absolute then absolute else now + ss_idle s)"

text \<open>The data of a live session, whose idle time starts again; an error of the refresh is returned.\<close>

definition SessionStore_Find :: "'e session_store_scheme \<Rightarrow> string \<Rightarrow> ('n, err + 8 word list option) act" where
  "SessionStore_Find s token = act_bind (act_now s) (\<lambda>now.
     act_bind (act_query s (live_session (ss_digest s token) now)) (\<lambda>found. case found of
       None \<Rightarrow> act_ret (Inr None)
     | Some r \<Rightarrow> act_try (act_store s (WithWriteTx (TouchSession (se_ID (sr_Session r)) now
           (idle_until s now (se_AbsoluteExpiresAt (sr_Session r)))))) (\<lambda>_.
         act_ret (Inr (Some (se_Data (sr_Session r)))))))"

definition session_record ::
  "'e session_store_scheme \<Rightarrow> string \<Rightarrow> 8 word list \<Rightarrow> instant \<Rightarrow> instant \<Rightarrow> ID \<Rightarrow> SessionRecord" where
  "session_record s token data expiry now i =
     (let absolute = (if expiry < now + ss_absolute s then expiry else now + ss_absolute s) in
      \<lparr>se_ID = i, se_TokenDigest = ss_digest s token, se_Data = data, se_CreatedAt = now, se_LastSeenAt = now,
       se_IdleExpiresAt = idle_until s now absolute, se_AbsoluteExpiresAt = absolute\<rparr>)"

definition make_session :: "'e session_store_scheme \<Rightarrow> string \<Rightarrow> 8 word list \<Rightarrow> instant \<Rightarrow> ('n, SessionRecord) act" where
  "make_session s token data expiry = act_bind (act_now s) (\<lambda>now. act_bind (act_newID s) (\<lambda>i.
     act_ret (session_record s token data expiry now i)))"

definition SessionStore_Commit :: "'e session_store_scheme \<Rightarrow> string \<Rightarrow> 8 word list \<Rightarrow> instant \<Rightarrow> ('n, err + unit) act" where
  "SessionStore_Commit s token data expiry =
     act_bind (act_query s Administrator) (\<lambda>admin. case admin of
       None \<Rightarrow> act_ret (Inl NoRows)
     | Some a \<Rightarrow> act_bind (make_session s token data expiry) (\<lambda>r.
         act_store s (WithWriteTx (CommitSession (session_row r a)))))"

definition SessionStore_Delete :: "'e session_store_scheme \<Rightarrow> string \<Rightarrow> ('n, err + unit) act" where
  "SessionStore_Delete s token = act_bind (act_now s) (\<lambda>now.
     act_try (act_store s (WithWriteTx (RevokeSession (ss_digest s token) now))) (\<lambda>_. act_ret (Inr ())))"

definition SessionStore_RevokeAll :: "'e session_store_scheme \<Rightarrow> ID \<Rightarrow> ('n, err + unit) act" where
  "SessionStore_RevokeAll s i = act_bind (act_now s) (\<lambda>now. act_store s (WithWriteTx (RevokeAllSessions i now)))"

text \<open>Within a transaction: a login inserts its session, a logout must revoke one.\<close>

definition ErrSessionNotLive :: err where
  "ErrSessionNotLive = PlainError ''session is not live''"

definition DeleteCtx :: "8 word list \<Rightarrow> instant \<Rightarrow> (db, unit) tx" where
  "DeleteCtx digest now = tx_bind (RevokeSession digest now) (\<lambda>revoked.
     if revoked then tx_ret () else tx_fail ErrSessionNotLive)"

section \<open>A revoked token stays revoked\<close>

context table_invariant
begin

lemma stays: "lasting P"
  unfolding lasting_def
proof (intro allI impI)
  fix d d'
  assume d: "reachable d" "P d" and steps: "store_step\<^sup>*\<^sup>* d d'"
  from steps have "schema_ok d' \<and> P d'"
  proof (induction rule: rtranclp_induct)
    case base
    then show ?case using d reachable_refines by blast
  next
    case (step y z)
    then show ?case using store_step_refines step_keeps by blast
  qed
  then show "P d'" ..
qed

end

text \<open>The rows of a digest are all revoked, and there is one.\<close>

definition rows_dead :: "8 word list \<Rightarrow> SessionRow list \<Rightarrow> bool" where
  "rows_dead digest rows \<longleftrightarrow> digest \<in> set (map (se_TokenDigest \<circ> sr_Session) rows) \<and>
     (\<forall>r \<in> set rows. se_TokenDigest (sr_Session r) = digest \<longrightarrow> sr_RevokedAt r \<noteq> None)"

definition token_dead :: "8 word list \<Rightarrow> db \<Rightarrow> bool" where
  "token_dead digest d \<longleftrightarrow> rows_dead digest (db_sessions d)"

lemma token_dead_frames [simp]:
  "token_dead g (db_settings_update f1 s) = token_dead g s" "token_dead g (db_instance_update f2 s) = token_dead g s"
  "token_dead g (db_admins_update f3 s) = token_dead g s" "token_dead g (db_templates_update f5 s) = token_dead g s"
  "token_dead g (db_identities_update f6 s) = token_dead g s" "token_dead g (db_users_update f7 s) = token_dead g s"
  "token_dead g (db_inbounds_update f8 s) = token_dead g s" "token_dead g (db_creds_update f9 s) = token_dead g s"
  "token_dead g (db_policies_update f10 s) = token_dead g s" "token_dead g (db_cycles_update f11 s) = token_dead g s"
  "token_dead g (db_totals_update f12 s) = token_dead g s" "token_dead g (db_cursors_update f13 s) = token_dead g s"
  "token_dead g (db_daily_update f14 s) = token_dead g s" "token_dead g (db_events_update f15 s) = token_dead g s"
  "token_dead g (db_ops_update f16 s) = token_dead g s" "token_dead g (db_resets_update f17 s) = token_dead g s"
  "token_dead g (db_audits_update f18 s) = token_dead g s" "token_dead g (db_drifts_update f19 s) = token_dead g s"
  "token_dead g (db_allocs_update f20 s) = token_dead g s" "token_dead g (db_commands_update f21 s) = token_dead g s"
  by (simp_all add: token_dead_def)

lemma digests_update:
  assumes "\<And>r. se_TokenDigest (sr_Session (f r)) = se_TokenDigest (sr_Session r)"
  shows "map (se_TokenDigest \<circ> sr_Session) (sql_update p f rows) = map (se_TokenDigest \<circ> sr_Session) rows"
  by (simp add: sql_update_def assms)

lemma rows_dead_update:
  assumes "\<And>r. se_TokenDigest (sr_Session (f r)) = se_TokenDigest (sr_Session r)"
    and "\<And>r. p r \<Longrightarrow> sr_RevokedAt r \<noteq> None \<Longrightarrow> sr_RevokedAt (f r) \<noteq> None" "rows_dead g rows"
  shows "rows_dead g (sql_update p f rows)"
  using assms unfolding rows_dead_def digests_update [of f, OF assms(1)]
  by (auto simp: in_sql_update split: if_splits)

lemma token_dead_update:
  assumes "\<And>r. se_TokenDigest (sr_Session (f r)) = se_TokenDigest (sr_Session r)"
    and "\<And>r. p r \<Longrightarrow> sr_RevokedAt r \<noteq> None \<Longrightarrow> sr_RevokedAt (f r) \<noteq> None" "token_dead g s"
  shows "token_dead g (db_sessions_update (sql_update p f) s)"
  using assms rows_dead_update [of f p] by (simp add: token_dead_def)

lemma token_dead_upsert: "token_dead g s \<Longrightarrow> token_dead g (db_sessions_update (upsert_session row) s)"
proof (cases "list_ex (\<lambda>r. se_TokenDigest (sr_Session r) = se_TokenDigest (sr_Session row)) (db_sessions s)")
  case False
  assume "token_dead g s"
  then show ?thesis using False by (auto simp: token_dead_def rows_dead_def upsert_session_def list_ex_iff)
qed (simp add: token_dead_def upsert_session_def rows_dead_update)

interpretation dead: table_invariant "token_dead g" for g
proof
  show "token_dead g s \<Longrightarrow> token_dead g (db_sessions_update (upsert_session row) s)" for s row
    by (rule token_dead_upsert)
qed (auto intro: token_dead_update simp: roll_cycle_def write_deltas_def add_totals_def add_cycle_def Let_def
    insert_user_rows_def insertDedicatedInbound_def insert_command_def tx_simps split: if_splits)

lemma dead_not_live: "token_dead g d \<Longrightarrow> live_session g now d = None"
  by (auto simp: token_dead_def rows_dead_def live_session_def live_token_def find_None_iff)

lemma revoked_dead:
  assumes "RevokeSession g now d = Inr (True, d')"
  shows "token_dead g d'"
proof -
  from assms have "rows_affected (live_token g) (db_sessions d) = 1" "schema_ok d'"
    and d': "d' = db_sessions_update (sql_update (live_token g) (\<lambda>r. r\<lparr>sr_RevokedAt := Some (stored now)\<rparr>)) d"
    by (auto simp: RevokeSession_def tx_simps)
  then obtain r where r: "r \<in> set (db_sessions d)" "live_token g r" by (blast elim: rows_affected_1E)
  let ?f = "\<lambda>r. r\<lparr>sr_RevokedAt := Some (stored now)\<rparr>"
  have "g \<in> set (map (se_TokenDigest \<circ> sr_Session) (sql_update (live_token g) ?f (db_sessions d)))"
    unfolding digests_update [of ?f, simplified] using r by (auto simp: live_token_def)
  then show ?thesis by (auto simp: d' token_dead_def rows_dead_def in_sql_update live_token_def)
qed

section \<open>The session store keeps to the steps of the store\<close>

lemmas session_rules = steady_rules steady_split steady_query lasting_True

lemma Find_steps: "steps_only s \<Longrightarrow> keeps_to_steps (SessionStore_Find s token)"
  unfolding SessionStore_Find_def
  by (intro session_rules lawful_write) (auto intro: store_step.other other_write.touch)

lemma Commit_steps: "steps_only s \<Longrightarrow> keeps_to_steps (SessionStore_Commit s token data expiry)"
  unfolding SessionStore_Commit_def make_session_def
  by (intro session_rules lawful_write) (auto intro: store_step.other other_write.commit_session)

lemma Delete_steps: "steps_only s \<Longrightarrow> keeps_to_steps (SessionStore_Delete s token)"
  unfolding SessionStore_Delete_def
  by (intro session_rules lawful_write) (auto intro: store_step.other other_write.revoke)

lemma RevokeAll_steps: "steps_only s \<Longrightarrow> keeps_to_steps (SessionStore_RevokeAll s i)"
  unfolding SessionStore_RevokeAll_def
  by (intro session_rules lawful_write) (auto intro: store_step.other other_write.revoke_all)

end
