(* ===== verification/Passwords.thy ===== *)
theory Passwords
  imports Names
begin

text \<open>
  User names and passwords of the administrator: \<open>internal/security/password.go\<close>, with the decoder of
  \<open>encoding/base64\<close>. Argon2id (\<open>golang.org/x/crypto/argon2\<close>) is a parameter: the password, the salt,
  iterations, memory, parallelism and the length of the key wanted.
\<close>

section \<open>Decoding base64\<close>

definition unsextet :: "char \<Rightarrow> nat" where
  "unsextet c = (if CHR ''A'' \<le> c \<and> c \<le> CHR ''Z'' then byte c - 65
     else if CHR ''a'' \<le> c \<and> c \<le> CHR ''z'' then byte c - 71
     else if CHR ''0'' \<le> c \<and> c \<le> CHR ''9'' then byte c + 4
     else if c = CHR ''+'' then 62 else 63)"

text \<open>Groups of four sextets, the last one of two or three; spare low bits are dropped.\<close>

fun decode_sextets :: "nat list \<Rightarrow> 8 word list option" where
  "decode_sextets [] = Some []"
| "decode_sextets [a] = None"
| "decode_sextets [a, b] = Some [of_nat (a * 4 + b div 16)]"
| "decode_sextets [a, b, c] = Some [of_nat (a * 4 + b div 16), of_nat (b mod 16 * 16 + c div 4)]"
| "decode_sextets (a # b # c # d # rest) = map_option
     (\<lambda>bs. of_nat (a * 4 + b div 16) # of_nat (b mod 16 * 16 + c div 4) # of_nat (c mod 4 * 64 + d) # bs)
     (decode_sextets rest)"

text \<open>\<open>RawStdEncoding.DecodeString\<close>: line breaks are skipped, \<open>None\<close> is an error.\<close>

definition base64_decode :: "string \<Rightarrow> 8 word list option" where
  "base64_decode s = (let t = filter (\<lambda>c. c \<noteq> CHR 0x0A \<and> c \<noteq> CHR 0x0D) s in
     if list_all base64_char t then decode_sextets (map unsextet t) else None)"

lemma sextet_at: "n < 64 \<Longrightarrow> unsextet (alphabet ! n) = n"
proof -
  have "\<forall>n \<in> set [0..<64]. unsextet (alphabet ! n) = n" by code_simp
  then show "n < 64 \<Longrightarrow> unsextet (alphabet ! n) = n" by simp
qed

lemma unsextet_sextet [simp]: "unsextet (sextet n) = n mod 64"
  unfolding sextet_def by (rule sextet_at) simp

text \<open>The sextets of three bytes.\<close>

lemma byte_sextets:
  fixes a b c :: nat
  assumes "a < 256" "b < 256" "c < 256"
  defines "n \<equiv> a * 65536 + b * 256 + c"
  shows "n div 262144 mod 64 = a div 4" "n div 4096 mod 64 = a mod 4 * 16 + b div 16"
    "n div 64 mod 64 = b mod 16 * 4 + c div 64" "n mod 64 = c mod 64"
proof -
  have a: "a = 4 * (a div 4) + a mod 4" and b: "b = 16 * (b div 16) + b mod 16" and c: "c = 64 * (c div 64) + c mod 64"
    by simp_all
  let ?q = "b mod 16 * 4 + c div 64"
  let ?p = "a mod 4 * 16 + b div 16"
  have q: "?q < 64" and p: "?p < 64" and r: "a div 4 < 64" using assms(1-3) by linarith+
  have n: "n = 262144 * (a div 4) + (4096 * ?p + (64 * ?q + c mod 64))"
    unfolding n_def by (subst a, subst b, subst c) (simp only: algebra_simps)
  have 1: "64 * ?q + c mod 64 < 4096" and 2: "4096 * ?p + (64 * ?q + c mod 64) < 262144"
    using p q mod_less_divisor [of 64 c] by auto
  show "n div 262144 mod 64 = a div 4" unfolding n using 2 r by simp
  show "n div 4096 mod 64 = ?p"
  proof -
    have "n = 4096 * (64 * (a div 4) + ?p) + (64 * ?q + c mod 64)" unfolding n by simp
    then have "n div 4096 = 64 * (a div 4) + ?p" using 1 by (intro div_nat_eqI) simp_all
    then show ?thesis using p by simp
  qed
  show "n div 64 mod 64 = ?q"
  proof -
    have "n = 64 * (64 * (64 * (a div 4) + ?p) + ?q) + c mod 64" unfolding n by simp
    then have "n div 64 = 64 * (64 * (a div 4) + ?p) + ?q"
      using mod_less_divisor [of 64 c] by (intro div_nat_eqI) simp_all
    then show ?thesis using q by (simp only: mod_mult_self4 mod_less)
  qed
  show "n mod 64 = c mod 64"
  proof -
    have "n = 64 * (64 * (64 * (a div 4) + ?p) + ?q) + c mod 64" unfolding n by simp
    then show ?thesis by (simp only: mod_mult_self4 mod_mod_trivial)
  qed
qed

lemma byte_parts:
  fixes a b c :: nat
  assumes "a < 256" "b < 256" "c < 256"
  shows "a div 4 * 4 + (a mod 4 * 16 + b div 16) div 16 = a"
    "(a mod 4 * 16 + b div 16) mod 16 * 16 + (b mod 16 * 4 + c div 64) div 4 = b"
    "(b mod 16 * 4 + c div 64) mod 4 * 64 + c mod 64 = c"
proof -
  have "b div 16 < 16" "c div 64 < 4" using assms by linarith+
  then show "a div 4 * 4 + (a mod 4 * 16 + b div 16) div 16 = a"
    "(a mod 4 * 16 + b div 16) mod 16 * 16 + (b mod 16 * 4 + c div 64) div 4 = b"
    "(b mod 16 * 4 + c div 64) mod 4 * 64 + c mod 64 = c"
    by (simp_all add: mod_mult_self1 div_mult_self1 mult.commute)
qed

lemma unat_byte: "unat (a :: 8 word) < 256"
  using unsigned_less [of a] by simp

lemma decode_raw: "decode_sextets (map unsextet (base64_raw bs)) = Some bs"
proof (induction bs rule: base64_raw.induct)
  have word: "of_nat (unat x) = x" for x :: "8 word" by simp
  {
    case (2 a)
    note nums = zero_less_numeral zero_less_numeral and zeros = mult_zero_left add_0_right mod_0 div_0
    note s = byte_sextets [OF unat_byte [of a] nums, unfolded zeros]
      and p = byte_parts [OF unat_byte [of a] nums, unfolded zeros]
    show ?case
      by (simp only: base64_raw.simps Let_def list.map unsextet_sextet s decode_sextets.simps p word)
  next
    case (3 a b)
    note zeros = add_0_right mod_0 div_0
    note s = byte_sextets [OF unat_byte [of a] unat_byte [of b] zero_less_numeral, unfolded zeros]
      and p = byte_parts [OF unat_byte [of a] unat_byte [of b] zero_less_numeral, unfolded zeros]
    show ?case
      by (simp only: base64_raw.simps Let_def list.map unsextet_sextet s decode_sextets.simps p word)
  next
    case (4 a b c rest)
    let ?s = "[unat a div 4, unat a mod 4 * 16 + unat b div 16, unat b mod 16 * 4 + unat c div 64, unat c mod 64]"
    have "map unsextet (base64_raw (a # b # c # rest)) = ?s @ map unsextet (base64_raw rest)"
      by (simp only: base64_raw.simps Let_def map_append list.map unsextet_sextet
          byte_sextets [OF unat_byte unat_byte unat_byte])
    then show ?case using 4
      by (simp only: append.simps decode_sextets.simps byte_parts [OF unat_byte unat_byte unat_byte] word option.map)
  }
qed simp

theorem base64_decode_raw: "base64_decode (base64_raw bs) = Some bs"
proof -
  have chars: "base64_char c" if "c \<in> set (base64_raw bs)" for c
    using base64_raw_chars that by (auto simp: list_all_iff)
  then have "filter (\<lambda>c. c \<noteq> CHR 0x0A \<and> c \<noteq> CHR 0x0D) (base64_raw bs) = base64_raw bs"
    by (intro filter_True ballI) (blast dest: chars base64_char_plain)
  then show ?thesis by (simp add: base64_decode_def base64_raw_chars decode_raw Let_def)
qed

section \<open>Names and passwords\<close>

definition NormalizeUsername :: "'u unicode_scheme \<Rightarrow> string \<Rightarrow> err + string" where
  "NormalizeUsername u username =
     (let value = ToLower u (TrimSpace (un_NFKC u username)); count = RuneCountInString value
      in if count < 1 \<or> count > 64 then Inl (PlainError ''username must contain 1 to 64 characters'') else Inr value)"

definition ValidatePassword :: "'u unicode_scheme \<Rightarrow> string \<Rightarrow> 8 word list \<Rightarrow> err + unit" where
  "ValidatePassword u username password =
     (if length password < 12 \<or> length password > 256 then Inl (PlainError ''password must contain 12 to 256 bytes'')
      else case NormalizeUsername u username of
        Inl e \<Rightarrow> Inl e
      | Inr normalized \<Rightarrow>
          if EqualFold u (TrimSpace (un_NFKC u (string_of_bytes password))) normalized
          then Inl (PlainError ''password must not equal username'') else Inr ())"

section \<open>Hashes\<close>

type_synonym argon2 = "8 word list \<Rightarrow> 8 word list \<Rightarrow> int \<Rightarrow> int \<Rightarrow> int \<Rightarrow> nat \<Rightarrow> 8 word list"

definition argonMemory :: int where "argonMemory = 64 * 1024"
definition argonIterations :: int where "argonIterations = 3"
definition argonParallelism :: int where "argonParallelism = 4"
definition argonSaltLength :: nat where "argonSaltLength = 16"
definition argonKeyLength :: nat where "argonKeyLength = 32"

definition HashPassword :: "argon2 \<Rightarrow> 8 word list \<Rightarrow> 8 word list \<Rightarrow> string" where
  "HashPassword argon salt password =
     ''$argon2id$v=19$m='' @ int_digits argonMemory @ '',t='' @ int_digits argonIterations @ '',p='' @
     int_digits argonParallelism @ ''$'' @ base64_raw salt @ ''$'' @
     base64_raw (argon password salt argonIterations argonMemory argonParallelism argonKeyLength)"

text \<open>\<open>strconv.ParseUint(s, 10, 32)\<close>.\<close>

definition ParseUint32 :: "string \<Rightarrow> int option" where
  "ParseUint32 s = (if s \<noteq> [] \<and> list_all (\<lambda>c. CHR ''0'' \<le> c \<and> c \<le> CHR ''9'') s \<and> decimal s < 2 ^ 32
     then Some (int (decimal s)) else None)"

text \<open>One item of the list: memory, iterations and parallelism with it, \<open>None\<close> for an error.\<close>

definition hash_item :: "string \<Rightarrow> int \<times> int \<times> int \<Rightarrow> (int \<times> int \<times> int) option" where
  "hash_item item p = (let key = takeWhile (\<lambda>c. c \<noteq> CHR ''='') item; value = drop (length key + 1) item in
     if CHR ''='' \<notin> set item then None
     else case ParseUint32 value of
       None \<Rightarrow> None
     | Some v \<Rightarrow> (case p of (m, t, q) \<Rightarrow>
         if key = ''m'' then Some (v, t, q) else if key = ''t'' then Some (m, v, q)
         else if key = ''p'' then Some (m, t, v) else None))"

primrec hash_items :: "string list \<Rightarrow> int \<times> int \<times> int \<Rightarrow> (int \<times> int \<times> int) option" where
  "hash_items [] p = Some p"
| "hash_items (x # xs) p = (case hash_item x p of None \<Rightarrow> None | Some q \<Rightarrow> hash_items xs q)"

definition ComparePassword :: "argon2 \<Rightarrow> string \<Rightarrow> 8 word list \<Rightarrow> err + bool" where
  "ComparePassword argon encoded password =
     (let parts = split_on (CHR ''$'') [] encoded in
      if length parts \<noteq> 6 \<or> parts ! 1 \<noteq> ''argon2id'' \<or> parts ! 2 \<noteq> ''v=19''
      then Inl (PlainError ''invalid password hash format'')
      else case hash_items (split_on (CHR '','') [] (parts ! 3)) (0, 0, 0) of
        None \<Rightarrow> Inl (PlainError ''invalid password hash parameters'')
      | Some (memory, iterations, parallelism) \<Rightarrow>
        if memory = 0 \<or> iterations = 0 \<or> parallelism = 0 \<or> parallelism > 255
        then Inl (PlainError ''invalid password hash parameters'')
        else (case base64_decode (parts ! 4) of
          None \<Rightarrow> Inl (PlainError ''invalid password hash salt'')
        | Some salt \<Rightarrow> if length salt < 8 then Inl (PlainError ''invalid password hash salt'') else
          (case base64_decode (parts ! 5) of
            None \<Rightarrow> Inl (PlainError ''invalid password hash value'')
          | Some want \<Rightarrow> if want = [] then Inl (PlainError ''invalid password hash value'')
              else Inr (argon password salt iterations memory parallelism (length want) = want))))"

lemma split_on_plain: "c \<notin> set s \<Longrightarrow> split_on c acc s = [rev acc @ s]"
  by (induction s arbitrary: acc) auto

lemma split_on_append: "c \<notin> set s \<Longrightarrow> split_on c acc (s @ c # t) = (rev acc @ s) # split_on c [] t"
  by (induction s arbitrary: acc) auto

lemma hash_parameters:
  "hash_items (split_on (CHR '','') [] ''m=65536,t=3,p=4'') (0, 0, 0) = Some (65536, 3, 4)"
  by (simp add: hash_item_def ParseUint32_def decimal_def less_eq_char_def)

lemma base64_no_dollar: "CHR ''$'' \<notin> set (base64_raw bs)"
proof
  assume "CHR ''$'' \<in> set (base64_raw bs)"
  then have "base64_char (CHR ''$'')" using base64_raw_chars by (auto simp: list_all_iff)
  moreover have "\<not> base64_char (CHR ''$'')" by code_simp
  ultimately show False by blast
qed

lemma hash_split:
  "split_on (CHR ''$'') [] (HashPassword argon salt password) =
    ['''', ''argon2id'', ''v=19'', ''m=65536,t=3,p=4'', base64_raw salt, base64_raw (argon password salt 3 65536 4 32)]"
proof -
  let ?h = "base64_raw (argon password salt 3 65536 4 32)"
  have eq: "HashPassword argon salt password =
      [] @ CHR ''$'' # ''argon2id'' @ CHR ''$'' # ''v=19'' @ CHR ''$'' # ''m=65536,t=3,p=4'' @ CHR ''$'' #
      base64_raw salt @ CHR ''$'' # ?h"
  proof -
    have "int_digits argonMemory = ''65536''" "int_digits argonIterations = ''3''" "int_digits argonParallelism = ''4''"
      by (simp_all add: int_digits_def nat_digits.simps argonMemory_def argonIterations_def argonParallelism_def)
    then show ?thesis by (simp add: HashPassword_def argonMemory_def argonIterations_def argonParallelism_def argonKeyLength_def)
  qed
  show ?thesis unfolding eq
    by (simp add: split_on_append split_on_plain base64_no_dollar)
qed

lemma compare_hash:
  assumes "length salt = argonSaltLength"
    and "\<And>p q t m n k. length (argon p q t m n k) = k"
  shows "ComparePassword argon (HashPassword argon salt password) attempt =
    Inr (argon attempt salt argonIterations argonMemory argonParallelism argonKeyLength =
      argon password salt argonIterations argonMemory argonParallelism argonKeyLength)"
proof -
  have "argon password salt 3 65536 4 32 \<noteq> []" using assms(2) [of password salt 3 65536 4 32] by auto
  then show ?thesis
    using assms by (simp add: ComparePassword_def hash_split hash_parameters base64_decode_raw Let_def
        argonSaltLength_def argonIterations_def argonMemory_def argonParallelism_def argonKeyLength_def
        del: split_on.simps hash_items.simps)
qed

text \<open>
  C33: a stored password verifies. A hash made by HashPassword with a fresh salt of 16 bytes parses, and
  ComparePassword accepts exactly the passwords whose Argon2id key under that salt and the stored
  parameters equals the stored key, so the password itself always; no hash of the panel makes the
  comparison fail with an error. Argon2id is a parameter that returns keys of the length asked for.
\<close>

theorem password_round_trip:
  assumes "length salt = argonSaltLength"
    and "\<And>p q t m n k. length (argon p q t m n k) = k"
  shows "ComparePassword argon (HashPassword argon salt password) attempt =
    Inr (argon attempt salt argonIterations argonMemory argonParallelism argonKeyLength =
      argon password salt argonIterations argonMemory argonParallelism argonKeyLength)"
  by (rule compare_hash [OF assms])

definition demo_argon :: argon2 where
  "demo_argon password salt t m p n = take n (password @ salt @ replicate n 0)"

lemma length_demo_argon [simp]: "length (demo_argon p q t m n k) = k"
  by (simp add: demo_argon_def)

lemma password_round_trip_witness:
  "ComparePassword demo_argon (HashPassword demo_argon (replicate 16 7) [1, 2, 3]) [1, 2, 3] = Inr True \<and>
   ComparePassword demo_argon (HashPassword demo_argon (replicate 16 7) [1, 2, 3]) [1, 2, 4] = Inr False"
proof -
  have len: "length (replicate 16 (7 :: 8 word)) = argonSaltLength" by (simp add: argonSaltLength_def)
  show ?thesis
    unfolding password_round_trip [where argon = demo_argon, OF len length_demo_argon]
    by (simp add: demo_argon_def argonKeyLength_def)
qed

end
