(* ===== verification/Auth_Service.thy ===== *)
theory Auth_Service
  imports Session_Service Passwords
begin

text \<open>
  Logging in: \<open>internal/application/auth_service.go\<close>. The throttle of failed logins is a value passed
  from call to call; Argon2id, salts and the hash compared for unknown users are parameters.
\<close>

section \<open>The throttle\<close>

definition Minute :: duration where "Minute = 60 * Second"

text \<open>The failures of the last quarter of an hour, oldest first, by name and source and over all.\<close>

record limiter =
  lm_bySource :: "string \<Rightarrow> instant list"
  lm_global :: "instant list"

definition no_failures :: limiter where
  "no_failures = \<lparr>lm_bySource = (\<lambda>_. []), lm_global = []\<rparr>"

definition prune :: "instant list \<Rightarrow> instant \<Rightarrow> instant list" where
  "prune values now = dropWhile (\<lambda>t. t < now - 15 * Minute) values"

definition boundedRetry :: "duration \<Rightarrow> duration" where
  "boundedRetry v = (if v < Second then Second else if v > 15 * Minute then 15 * Minute else v)"

definition limited :: "string \<Rightarrow> instant \<Rightarrow> limiter \<Rightarrow> duration option \<times> limiter" where
  "limited key now l =
     (let own = prune (lm_bySource l key) now; every = prune (lm_global l) now;
          l1 = \<lparr>lm_bySource = (lm_bySource l)(key := own), lm_global = every\<rparr>
      in (if length own \<ge> 5 then Some (boundedRetry (time_sub (own ! 0 + 15 * Minute) now))
          else if length every \<ge> 20 then Some (boundedRetry (time_sub (every ! 0 + 15 * Minute) now))
          else None, l1))"

definition recordLoginLimit :: "string \<Rightarrow> instant \<Rightarrow> limiter \<Rightarrow> duration option \<times> limiter" where
  "recordLoginLimit key now l =
     (let own = prune (lm_bySource l key) now @ [now]; every = prune (lm_global l) now @ [now]
      in (if length own \<ge> 5 \<or> length every \<ge> 20 then Some (15 * Minute) else None,
          \<lparr>lm_bySource = (lm_bySource l)(key := own), lm_global = every\<rparr>))"

definition clearFailures :: "string \<Rightarrow> instant \<Rightarrow> limiter \<Rightarrow> limiter" where
  "clearFailures key now l = \<lparr>lm_bySource = (lm_bySource l)(key := []), lm_global = prune (lm_global l) now\<rparr>"

section \<open>The service\<close>

record auth_service = session_store +
  au_unicode :: unicode
  au_argon :: argon2
  au_salt :: "nat \<Rightarrow> 8 word list"
  au_dummyHash :: string

definition act_hash :: "auth_service \<Rightarrow> 8 word list \<Rightarrow> ('n, string) act" where
  "act_hash s password = (\<lambda>w. (HashPassword (au_argon s) (au_salt s (wd_tick w)) password, w\<lparr>wd_tick := wd_tick w + 1\<rparr>))"

definition auth_event :: "ID \<Rightarrow> instant \<Rightarrow> ActorType \<Rightarrow> ID option \<Rightarrow> ID \<Rightarrow> string \<Rightarrow> AuditResult \<Rightarrow> string \<Rightarrow> AuditEvent" where
  "auth_event i now actor_type actor target action result summary =
     \<lparr>ae_ID = i, ae_OccurredAt = now, ae_ActorType = actor_type, ae_ActorID = actor,
      ae_TargetType = ''administrator'', ae_TargetID = target, ae_Action = action, ae_Result = result,
      ae_CommandID = None, ae_OperationID = None, ae_SafeSummary = summary\<rparr>"

definition already_initialized :: err where
  "already_initialized = ConflictError ''administrator already initialized; use reset-password''"

definition initialize_tx :: "AdministratorRecord \<Rightarrow> AuditEvent \<Rightarrow> (db, unit) tx" where
  "initialize_tx admin ev = tx_bind (tx_get Administrator) (\<lambda>existing. case existing of
     Some a \<Rightarrow> tx_fail already_initialized
   | None \<Rightarrow> tx_all [CreateAdministrator admin, AppendAudit ev])"

definition InitializeAdministrator :: "auth_service \<Rightarrow> string \<Rightarrow> 8 word list \<Rightarrow> ('n, err + ID) act" where
  "InitializeAdministrator s username password =
     (case NormalizeUsername (au_unicode s) username of
        Inl e \<Rightarrow> act_ret (Inl (as_field ''username'' e))
      | Inr normalized \<Rightarrow>
        (case ValidatePassword (au_unicode s) normalized password of
           Inl e \<Rightarrow> act_ret (Inl (as_field ''password'' e))
         | Inr _ \<Rightarrow>
           act_bind (act_hash s password) (\<lambda>hash. act_bind (act_newID s) (\<lambda>i. act_bind (act_newID s) (\<lambda>aid.
           act_bind (act_now s) (\<lambda>now.
           act_try (act_store s (WithWriteTx (initialize_tx
             \<lparr>ad_ID = i, ad_Username = normalized, ad_PasswordHash = hash, ad_PasswordVersion = 1, ad_CreatedAt = now,
              ad_UpdatedAt = now\<rparr>
             (auth_event aid now ActorLocalCLI None i ''administrator_initialized'' AuditSucceeded
               ''administrator initialized locally'')))) (\<lambda>_. act_ret (Inr i))))))))"

definition record_failure_tx :: "ID \<Rightarrow> instant \<Rightarrow> string \<Rightarrow> (db, unit) tx" where
  "record_failure_tx i now summary = tx_bind (tx_get Administrator) (\<lambda>admin.
     AppendAudit (auth_event i now ActorSystem None
       (case admin of None \<Rightarrow> ''00000000-0000-4000-8000-000000000000'' | Some a \<Rightarrow> ad_ID a)
       ''login'' AuditFailed summary))"

definition RecordLoginFailure :: "'e surroundings_scheme \<Rightarrow> string \<Rightarrow> ('n, err + unit) act" where
  "RecordLoginFailure s summary = act_bind (act_newID s) (\<lambda>i. act_bind (act_now s) (\<lambda>now.
     act_store s (WithWriteTx (record_failure_tx i now summary))))"

definition ErrInvalidCredentials :: err where
  "ErrInvalidCredentials = PlainError ''invalid username or password''"

text \<open>The hash to compare with, and whether the name is the administrator's.\<close>

definition login_hash :: "string \<Rightarrow> err + string \<Rightarrow> AdministratorRecord option \<Rightarrow> string \<times> bool" where
  "login_hash dummy name admin = (case (name, admin) of
     (Inr n, Some a) \<Rightarrow> if ad_Username a = n then (ad_PasswordHash a, True) else (dummy, False)
   | _ \<Rightarrow> (dummy, False))"

definition login_key :: "err + string \<Rightarrow> string \<Rightarrow> string" where
  "login_key name source = (case name of Inl e \<Rightarrow> ''invalid'' | Inr n \<Rightarrow> n) @ ''|'' @ source"

text \<open>An error of the store or of the stored hash leaves the throttle as the check left it.\<close>

definition login_failed :: "auth_service \<Rightarrow> string \<Rightarrow> instant \<Rightarrow> limiter \<Rightarrow>
    ('n, (err + AdministratorRecord) \<times> limiter) act" where
  "login_failed s key now l = act_bind (RecordLoginFailure s ''login failed: invalid credentials'') (\<lambda>r. case r of
     Inl e \<Rightarrow> act_ret (Inl e, l)
   | Inr _ \<Rightarrow> (case recordLoginLimit key now l of
       (Some retry, l1) \<Rightarrow> act_ret (Inl (RateLimitError retry), l1)
     | (None, l1) \<Rightarrow> act_ret (Inl ErrInvalidCredentials, l1)))"

definition check_credentials :: "auth_service \<Rightarrow> err + string \<Rightarrow> 8 word list \<Rightarrow> string \<Rightarrow> instant \<Rightarrow> limiter \<Rightarrow>
    ('n, (err + AdministratorRecord) \<times> limiter) act" where
  "check_credentials s name password key now l = act_bind (act_query s Administrator) (\<lambda>admin.
     case login_hash (au_dummyHash s) name admin of (hash, matched) \<Rightarrow>
     (case ComparePassword (au_argon s) hash password of
        Inl e \<Rightarrow> act_ret (Inl e, l)
      | Inr ok1 \<Rightarrow> (case admin of
          Some a \<Rightarrow> if matched \<and> ok1 then act_ret (Inr a, clearFailures key now l) else login_failed s key now l
        | None \<Rightarrow> login_failed s key now l)))"

definition Authenticate :: "auth_service \<Rightarrow> string \<Rightarrow> 8 word list \<Rightarrow> string \<Rightarrow> limiter \<Rightarrow>
    ('n, (err + AdministratorRecord) \<times> limiter) act" where
  "Authenticate s username password source l =
     (let name = NormalizeUsername (au_unicode s) username; key = login_key name source in
      act_bind (act_now s) (\<lambda>now. case limited key now l of
        (Some retry, l1) \<Rightarrow> act_bind (RecordLoginFailure s ''login throttled'') (\<lambda>r. case r of
            Inl e \<Rightarrow> act_ret (Inl e, l1) | Inr _ \<Rightarrow> act_ret (Inl (RateLimitError retry), l1))
      | (None, l1) \<Rightarrow> check_credentials s name password key now l1))"

section \<open>Sessions and audit\<close>

definition admin_event :: "ID \<Rightarrow> instant \<Rightarrow> AdministratorRecord \<Rightarrow> string \<Rightarrow> AuditResult \<Rightarrow> string \<Rightarrow> AuditEvent" where
  "admin_event i now admin action result summary =
     auth_event i now ActorAdministrator (Some (ad_ID admin)) (ad_ID admin) action result summary"

text \<open>
  The session and its audit event in one transaction. The clock and the identifier of the event are
  read within the transaction, before anything else can act on the database.
\<close>

definition EstablishSession :: "auth_service \<Rightarrow> AdministratorRecord \<Rightarrow> string \<Rightarrow> 8 word list \<Rightarrow> instant \<Rightarrow>
    ('n, err + unit) act" where
  "EstablishSession s admin token data expiry = act_bind (make_session s token data expiry) (\<lambda>r.
     act_bind (act_newID s) (\<lambda>i. act_bind (act_now s) (\<lambda>now.
     act_store s (WithWriteTx (tx_all [InsertSession r,
       AppendAudit (admin_event i now admin ''login'' AuditSucceeded ''administrator login succeeded'')])))))"

definition AuthService_RevokeSession :: "auth_service \<Rightarrow> AdministratorRecord \<Rightarrow> string \<Rightarrow> ('n, err + unit) act" where
  "AuthService_RevokeSession s admin token = act_bind (act_newID s) (\<lambda>i. act_bind (act_now s) (\<lambda>now.
     act_bind (act_now s) (\<lambda>now2.
     act_store s (WithWriteTx (tx_all
       [AppendAudit (admin_event i now admin ''logout'' AuditSucceeded ''administrator logout succeeded''),
        DeleteCtx (ss_digest s token) now2])))))"

definition auth_audit :: "auth_service \<Rightarrow> AdministratorRecord \<Rightarrow> string \<Rightarrow> AuditResult \<Rightarrow> string \<Rightarrow> ('n, err + unit) act" where
  "auth_audit s admin action result summary = act_bind (act_newID s) (\<lambda>i. act_bind (act_now s) (\<lambda>now.
     act_store s (WithWriteTx (AppendAudit (admin_event i now admin action result summary)))))"

definition RecordLogin :: "auth_service \<Rightarrow> AdministratorRecord \<Rightarrow> ('n, err + unit) act" where
  "RecordLogin s admin = auth_audit s admin ''login'' AuditSucceeded ''administrator login succeeded''"

definition Logout :: "auth_service \<Rightarrow> AdministratorRecord \<Rightarrow> ('n, err + unit) act" where
  "Logout s admin = auth_audit s admin ''logout'' AuditSucceeded ''administrator logout succeeded''"

definition LogoutFailed :: "auth_service \<Rightarrow> AdministratorRecord \<Rightarrow> string \<Rightarrow> ('n, err + unit) act" where
  "LogoutFailed s admin summary = auth_audit s admin ''logout'' AuditFailed summary"

definition Login :: "auth_service \<Rightarrow> string \<Rightarrow> 8 word list \<Rightarrow> string \<Rightarrow> limiter \<Rightarrow>
    ('n, (err + AdministratorRecord) \<times> limiter) act" where
  "Login s username password source l = act_bind (Authenticate s username password source l) (\<lambda>(r, l1). case r of
     Inl e \<Rightarrow> act_ret (Inl e, l1)
   | Inr admin \<Rightarrow> act_bind (RecordLogin s admin) (\<lambda>a. case a of
       Inl e \<Rightarrow> act_ret (Inl e, l1) | Inr _ \<Rightarrow> act_ret (Inr admin, l1)))"

definition RevokeSessions :: "auth_service \<Rightarrow> ID \<Rightarrow> ('n, err + unit) act" where
  "RevokeSessions s i = act_bind (act_now s) (\<lambda>now. act_store s (WithWriteTx (RevokeAllSessions i now)))"

definition session_valid :: "ID \<Rightarrow> int \<Rightarrow> db \<Rightarrow> bool" where
  "session_valid i version d = (case Administrator d of None \<Rightarrow> False
   | Some a \<Rightarrow> ad_ID a = i \<and> ad_PasswordVersion a = version)"

definition SessionValid :: "auth_service \<Rightarrow> ID \<Rightarrow> int \<Rightarrow> ('n, bool) act" where
  "SessionValid s i version = act_query s (session_valid i version)"

definition reset_tx :: "AdministratorRecord \<Rightarrow> string \<Rightarrow> ID \<Rightarrow> instant \<Rightarrow> (db, unit) tx" where
  "reset_tx current hash aid now = tx_all
     [UpdateAdministratorPassword (ad_ID current) hash (ad_PasswordVersion current + 1) now,
      RevokeAllSessions (ad_ID current) now,
      AppendAudit (auth_event aid now ActorLocalCLI None (ad_ID current) ''password_reset'' AuditSucceeded
        ''administrator password reset locally'')]"

definition ResetPassword :: "auth_service \<Rightarrow> 8 word list \<Rightarrow> ('n, err + unit) act" where
  "ResetPassword s password = act_bind (act_query s Administrator) (\<lambda>admin. case admin of
     None \<Rightarrow> act_ret (Inl (NotFoundError ''administrator''))
   | Some current \<Rightarrow>
     (case ValidatePassword (au_unicode s) (ad_Username current) password of
        Inl e \<Rightarrow> act_ret (Inl (as_field ''password'' e))
      | Inr _ \<Rightarrow> act_bind (act_hash s password) (\<lambda>hash. act_bind (act_newID s) (\<lambda>aid. act_bind (act_now s) (\<lambda>now.
          act_store s (WithWriteTx (reset_tx current hash aid now)))))))"

section \<open>The service keeps to the steps of the store\<close>

lemma lawful_transaction:
  assumes "steps_only s" "lasting P"
    and "\<And>d y d'. reachable d \<Longrightarrow> P d \<Longrightarrow> m d = Inr (y, d') \<Longrightarrow> store_step\<^sup>*\<^sup>* d d'"
  shows "steady P (act_store s (WithWriteTx m))"
  by (rule lawful_store [OF assms(1,2)])
    (use assms(3) in \<open>auto simp: WithWriteTx_def split: sum.splits prod.splits\<close>)

lemma other_step: "other_write d d' \<Longrightarrow> store_step\<^sup>*\<^sup>* d d'"
  by (rule r_into_rtranclp) (rule store_step.other)

definition takes_steps :: "(db, unit) tx \<Rightarrow> bool" where
  "takes_steps m \<longleftrightarrow> (\<forall>d d'. m d = Inr ((), d') \<longrightarrow> store_step\<^sup>*\<^sup>* d d')"

lemma steps_all: "list_all takes_steps ms \<Longrightarrow> tx_all ms d = Inr (y, d') \<Longrightarrow> store_step\<^sup>*\<^sup>* d d'"
proof (induction ms arbitrary: d)
  case (Cons m ms)
  then obtain d1 where d1: "m d = Inr ((), d1)" "tx_all ms d1 = Inr (y, d')" by (auto simp: tx_simps)
  have "store_step\<^sup>*\<^sup>* d d1" using Cons.prems(1) d1(1) by (simp add: takes_steps_def)
  moreover have "store_step\<^sup>*\<^sup>* d1 d'" using Cons.IH [OF _ d1(2)] Cons.prems(1) by simp
  ultimately show ?case by simp
qed (simp add: tx_simps)

lemma DeleteCtx_iff: "DeleteCtx digest now d = Inr (y, d') \<longleftrightarrow> RevokeSession digest now d = Inr (True, d')"
  by (auto simp: DeleteCtx_def tx_simps)

lemma auth_statements:
  "takes_steps (CreateAdministrator admin)" "takes_steps (AppendAudit ev)" "takes_steps (InsertSession r)"
  "takes_steps (DeleteCtx digest now)" "takes_steps (UpdateAdministratorPassword i hash version now)"
  "takes_steps (RevokeAllSessions i now)"
  unfolding takes_steps_def DeleteCtx_iff
  by (blast intro: other_step other_write.intros)+

lemma auth_transactions:
  "initialize_tx admin ev d = Inr (y, d') \<Longrightarrow> store_step\<^sup>*\<^sup>* d d'"
  "record_failure_tx i now summary d = Inr (y, d') \<Longrightarrow> store_step\<^sup>*\<^sup>* d d'"
  "tx_all [InsertSession r, AppendAudit ev] d = Inr (y, d') \<Longrightarrow> store_step\<^sup>*\<^sup>* d d'"
  "tx_all [AppendAudit ev, DeleteCtx digest now] d = Inr (y, d') \<Longrightarrow> store_step\<^sup>*\<^sup>* d d'"
  "reset_tx current hash aid now d = Inr (y, d') \<Longrightarrow> store_step\<^sup>*\<^sup>* d d'"
proof -
  show "store_step\<^sup>*\<^sup>* d d'" if "initialize_tx admin ev d = Inr (y, d')"
  proof -
    have "tx_all [CreateAdministrator admin, AppendAudit ev] d = Inr (y, d')"
      using that by (auto simp: initialize_tx_def tx_bind_iff tx_get_iff tx_fail_iff split: option.splits)
    then show ?thesis by (rule steps_all [rotated]) (simp add: auth_statements)
  qed
  show "store_step\<^sup>*\<^sup>* d d'" if "record_failure_tx i now summary d = Inr (y, d')"
    using that by (auto simp: record_failure_tx_def tx_bind_iff tx_get_iff intro: other_step other_write.audit)
qed (simp_all only: reset_tx_def, (erule steps_all [rotated], simp add: auth_statements)+)

lemma steady_hash: "steady P (act_hash s password)"
  by (rule lawful_pure) (simp add: act_hash_def)

lemmas auth_rules = session_rules steady_hash lawful_transaction

lemma InitializeAdministrator_steps: "steps_only s \<Longrightarrow> keeps_to_steps (InitializeAdministrator s username password)"
  unfolding InitializeAdministrator_def by (intro auth_rules) (auto intro: auth_transactions)

lemma RecordLoginFailure_steps: "steps_only s \<Longrightarrow> keeps_to_steps (RecordLoginFailure s summary)"
  unfolding RecordLoginFailure_def by (intro auth_rules) (auto intro: auth_transactions)

lemma login_failed_steps: "steps_only s \<Longrightarrow> keeps_to_steps (login_failed s key now l)"
  unfolding login_failed_def
  by (intro auth_rules RecordLoginFailure_steps) (auto intro!: auth_rules split: prod.split option.split)

lemma check_credentials_steps: "steps_only s \<Longrightarrow> keeps_to_steps (check_credentials s name password key now l)"
  unfolding check_credentials_def by (intro auth_rules login_failed_steps)

lemma Authenticate_steps: "steps_only s \<Longrightarrow> keeps_to_steps (Authenticate s username password source l)"
  unfolding Authenticate_def Let_def
  by (intro auth_rules RecordLoginFailure_steps check_credentials_steps)

lemma auth_audit_steps: "steps_only s \<Longrightarrow> keeps_to_steps (auth_audit s admin action result summary)"
  unfolding auth_audit_def by (intro auth_rules lawful_write) (auto intro: store_step.other other_write.audit)

lemma Login_steps: "steps_only s \<Longrightarrow> keeps_to_steps (Login s username password source l)"
  unfolding Login_def RecordLogin_def by (intro auth_rules Authenticate_steps auth_audit_steps)

lemma EstablishSession_steps: "steps_only s \<Longrightarrow> keeps_to_steps (EstablishSession s admin token data expiry)"
  unfolding EstablishSession_def make_session_def by (intro auth_rules) (auto intro: auth_transactions)

lemma AuthService_RevokeSession_steps: "steps_only s \<Longrightarrow> keeps_to_steps (AuthService_RevokeSession s admin token)"
  unfolding AuthService_RevokeSession_def by (intro auth_rules) (auto intro: auth_transactions)

lemma ResetPassword_steps: "steps_only s \<Longrightarrow> keeps_to_steps (ResetPassword s password)"
  unfolding ResetPassword_def by (intro auth_rules) (auto intro: auth_transactions)

end
