(* ===== verification/Login_Safety.thy ===== *)
theory Login_Safety
  imports Auth_Service
begin

text \<open>
  What the login promises: the throttle bounds the rejected passwords of any quarter of an hour, a
  logout is final, and a new password ends the sessions of the old one.
\<close>

section \<open>Windows of failures\<close>

text \<open>The failures of the last quarter of an hour do not depend on earlier prunings.\<close>

lemma dropWhile_weaker: "(\<And>x. p x \<Longrightarrow> q x) \<Longrightarrow> dropWhile q (dropWhile p xs) = dropWhile q xs"
  by (induction xs) auto

lemma prune_prune: "t \<le> t' \<Longrightarrow> prune (prune xs t) t' = prune xs t'"
  unfolding prune_def by (rule dropWhile_weaker) simp

lemma dropWhile_append_same:
  "dropWhile p xs = dropWhile p ys \<Longrightarrow> dropWhile p (xs @ zs) = dropWhile p (ys @ zs)"
  by (cases "\<exists>x \<in> set xs. \<not> p x"; cases "\<exists>y \<in> set ys. \<not> p y")
    (auto simp: dropWhile_append1 dropWhile_append2 dropWhile_eq_Nil_conv dest: arg_cong [of _ _ "\<lambda>zs. zs = []"])

text \<open>\<open>xs\<close> stands for the history \<open>h\<close> from the time \<open>m\<close> on.\<close>

definition stands_for :: "instant list \<Rightarrow> instant \<Rightarrow> instant list \<Rightarrow> bool" where
  "stands_for xs m h \<longleftrightarrow> (\<forall>t \<ge> m. prune xs t = prune h t)"

lemma stands_for_prune: "stands_for xs m h \<Longrightarrow> m \<le> t \<Longrightarrow> stands_for (prune xs t) t h"
  by (simp add: stands_for_def prune_prune)

lemma stands_for_later: "stands_for xs m h \<Longrightarrow> m \<le> t \<Longrightarrow> stands_for xs t h"
  by (simp add: stands_for_def)

lemma stands_for_add: "stands_for xs t h \<Longrightarrow> stands_for (xs @ [t]) t (h @ [t])"
  by (auto simp: stands_for_def prune_def intro: dropWhile_append_same)

definition in_window :: "instant \<Rightarrow> instant list \<Rightarrow> nat" where
  "in_window from h = length (filter (\<lambda>t. from \<le> t \<and> t \<le> from + 15 * Minute) h)"

lemma prune_sorted: "sorted h \<Longrightarrow> prune h now = filter (\<lambda>t. now - 15 * Minute \<le> t) h"
proof (induction h)
  case (Cons t h)
  show ?case
  proof (cases "t < now - 15 * Minute")
    case True
    then show ?thesis using Cons by (simp add: prune_def)
  next
    case False
    then have "\<forall>u \<in> set h. now - 15 * Minute \<le> u" using Cons.prems by auto
    then show ?thesis using False by (simp add: prune_def)
  qed
qed (simp add: prune_def)

lemma length_filter_mono: "(\<And>x. x \<in> set xs \<Longrightarrow> p x \<Longrightarrow> q x) \<Longrightarrow> length (filter p xs) \<le> length (filter q xs)"
  by (induction xs) auto

lemma window_add:
  assumes "sorted (h @ [now])" "length (prune h now) < k" "in_window from h \<le> k"
  shows "in_window from (h @ [now]) \<le> k"
proof (cases "from \<le> now \<and> now \<le> from + 15 * Minute")
  case True
  have "in_window from h \<le> length (filter (\<lambda>t. now - 15 * Minute \<le> t) h)"
    unfolding in_window_def by (rule length_filter_mono) (use True in auto)
  also have "\<dots> < k" using assms(1,2) prune_sorted [of h now] by (simp add: sorted_append)
  finally show ?thesis using True by (simp add: in_window_def)
qed (use assms(3) in \<open>auto simp: in_window_def\<close>)

section \<open>What an attempt does to the throttle\<close>

definition counted :: "err + AdministratorRecord \<Rightarrow> bool" where
  "counted r \<longleftrightarrow> (case r of Inl (RateLimitError retry) \<Rightarrow> True | Inl e \<Rightarrow> e = ErrInvalidCredentials | Inr a \<Rightarrow> False)"

lemma failure_errors: "fst (RecordLoginFailure s summary w) = Inl e \<Longrightarrow> \<not> counted (Inl e)"
  by (auto simp: RecordLoginFailure_def act_bind_def act_newID_def act_now_def act_store_def WithWriteTx_def
      record_failure_tx_def tx_bind_def tx_get_def AppendAudit_def sql_exec_def tx_exec_def counted_def ErrInvalidCredentials_def
      split: prod.splits sum.splits if_splits)

lemma compare_errors: "ComparePassword argon hash password = Inl e \<Longrightarrow> \<not> counted (Inl e)"
  by (auto simp: ComparePassword_def Let_def counted_def ErrInvalidCredentials_def
      split: option.splits prod.splits if_splits)

lemma login_failed_effect:
  assumes "login_failed s key now l w = ((r, l'), w')"
  shows "l' = (if counted r then snd (recordLoginLimit key now l) else l) \<and> isl r"
proof (cases "fst (RecordLoginFailure s ''login failed: invalid credentials'' w)")
  case (Inl e)
  with assms failure_errors [OF Inl] show ?thesis
    by (auto simp: login_failed_def act_bind_def act_ret_def split: prod.splits)
next
  case (Inr y)
  with assms show ?thesis
    by (auto simp: login_failed_def act_bind_def act_ret_def counted_def ErrInvalidCredentials_def
        split: prod.splits option.splits)
qed

lemma check_effect:
  assumes "check_credentials s name password key now l w = ((r, l'), w')"
  shows "l' = (if counted r then snd (recordLoginLimit key now l) else if isl r then l else clearFailures key now l)"
proof -
  obtain admin w1 where q: "act_query s Administrator w = (admin, w1)" by fastforce
  obtain hash matched where h: "login_hash (au_dummyHash s) name admin = (hash, matched)" by fastforce
  show ?thesis
  proof (cases "ComparePassword (au_argon s) hash password")
    case (Inl e)
    with assms q h compare_errors [OF Inl] show ?thesis
      by (auto simp: check_credentials_def act_bind_def act_ret_def)
  next
    case (Inr ok1)
    have "login_failed s key now l w1 = ((r, l'), w') \<or> (\<not> isl r \<and> \<not> counted r \<and> l' = clearFailures key now l)"
      using assms q h Inr
      by (auto simp: check_credentials_def act_bind_def act_ret_def counted_def split: option.splits if_splits)
    then show ?thesis using login_failed_effect by fastforce
  qed
qed

definition attempt_time :: "auth_service \<Rightarrow> 'n world \<Rightarrow> instant" where
  "attempt_time s w = en_now s (wd_tick w)"

definition attempt_key :: "auth_service \<Rightarrow> string \<Rightarrow> string \<Rightarrow> string" where
  "attempt_key s username source = login_key (NormalizeUsername (au_unicode s) username) source"

text \<open>An attempt that got past the throttle, whose password was compared and rejected.\<close>

definition rejected :: "auth_service \<Rightarrow> string \<Rightarrow> string \<Rightarrow> limiter \<Rightarrow> 'n world \<Rightarrow> err + AdministratorRecord \<Rightarrow> bool" where
  "rejected s username source l w r \<longleftrightarrow>
     fst (limited (attempt_key s username source) (attempt_time s w) l) = None \<and> counted r"

lemma Authenticate_effect:
  assumes "Authenticate s username password source l w = ((r, l'), w')"
  defines "key \<equiv> attempt_key s username source" and "now \<equiv> attempt_time s w"
  defines "l1 \<equiv> snd (limited key now l)"
  shows "l' = (if rejected s username source l w r then snd (recordLoginLimit key now l1)
     else if isl r then l1 else clearFailures key now l1)"
proof (cases "fst (limited key now l)")
  case (Some retry)
  then obtain l1' where lim: "limited key now l = (Some retry, l1')" by (cases "limited key now l") auto
  have "l' = l1 \<and> isl r"
    using assms(1) lim
    by (auto simp: Authenticate_def act_bind_def act_now_def act_ret_def l1_def key_def now_def attempt_key_def
        attempt_time_def Let_def split: prod.splits sum.splits)
  then show ?thesis using Some by (auto simp: rejected_def key_def now_def)
next
  case None
  then have lim: "limited key now l = (None, l1)" by (simp add: l1_def prod_eq_iff)
  have "check_credentials s (NormalizeUsername (au_unicode s) username) password key now l1 (w\<lparr>wd_tick := wd_tick w + 1\<rparr>) =
      ((r, l'), w')"
    using assms(1) lim
    by (simp add: Authenticate_def act_bind_def act_now_def key_def now_def attempt_key_def attempt_time_def Let_def)
  from check_effect [OF this] show ?thesis using None by (auto simp: rejected_def key_def now_def)
qed

section \<open>A history of attempts\<close>

record login_event =
  le_key :: string
  le_time :: "instant"
  le_rejected :: bool
  le_accepted :: bool

primrec logins :: "auth_service \<Rightarrow> (string \<times> 8 word list \<times> string) list \<Rightarrow> limiter \<Rightarrow> 'n world \<Rightarrow> login_event list" where
  "logins s [] l w = []"
| "logins s (a # as) l w = (case a of (username, password, source) \<Rightarrow>
     (case Authenticate s username password source l w of ((r, l'), w') \<Rightarrow>
        \<lparr>le_key = attempt_key s username source, le_time = attempt_time s w,
         le_rejected = rejected s username source l w r, le_accepted = (\<not> isl r)\<rparr> # logins s as l' w'))"

definition rejections :: "(string \<Rightarrow> bool) \<Rightarrow> login_event list \<Rightarrow> instant list" where
  "rejections p es = map le_time (filter (\<lambda>e. p (le_key e) \<and> le_rejected e) es)"

text \<open>The throttle keeps track of the failures of one key, and of all.\<close>

definition tracks :: "limiter \<Rightarrow> instant \<Rightarrow> string \<Rightarrow> instant list \<Rightarrow> instant list \<Rightarrow> bool" where
  "tracks l m k own every \<longleftrightarrow> stands_for (lm_bySource l k) m own \<and> stands_for (lm_global l) m every"

lemma tracks_limited:
  assumes "tracks l m k own every" "m \<le> now"
  shows "tracks (snd (limited key now l)) now k own every"
    and "fst (limited key now l) = None \<Longrightarrow> length (prune every now) < 20 \<and> (key = k \<longrightarrow> length (prune own now) < 5)"
proof -
  have prune: "prune (lm_bySource l k) now = prune own now" "prune (lm_global l) now = prune every now"
    using assms by (auto simp: tracks_def stands_for_def)
  show "tracks (snd (limited key now l)) now k own every"
    using assms by (auto simp: tracks_def limited_def Let_def intro: stands_for_prune stands_for_later)
  show "length (prune every now) < 20 \<and> (key = k \<longrightarrow> length (prune own now) < 5)" if "fst (limited key now l) = None"
    using that prune by (auto simp: limited_def Let_def split: if_splits)
qed

lemma tracks_recorded:
  assumes "tracks l now k own every"
  shows "tracks (snd (recordLoginLimit key now l)) now k (if key = k then own @ [now] else own) (every @ [now])"
  using assms
  by (auto simp: tracks_def recordLoginLimit_def Let_def intro!: stands_for_add intro: stands_for_prune)

lemma tracks_cleared:
  "tracks l now k own every \<Longrightarrow> key \<noteq> k \<Longrightarrow> tracks (clearFailures key now l) now k own every"
  by (auto simp: tracks_def clearFailures_def intro: stands_for_prune)

lemma throttle_bound:
  assumes "tracks l m k own every" "sorted own" "sorted every" "\<forall>t \<in> set own \<union> set every. t \<le> m"
    and "in_window from own \<le> 5" "in_window from every \<le> 20"
    and "sorted (m # map le_time (logins s as l w))" "\<forall>e \<in> set (logins s as l w). le_key e = k \<longrightarrow> \<not> le_accepted e"
  shows "in_window from (own @ rejections (\<lambda>i. i = k) (logins s as l w)) \<le> 5 \<and>
    in_window from (every @ rejections (\<lambda>i. True) (logins s as l w)) \<le> 20"
  using assms
proof (induction as arbitrary: l m own every w)
  case (Cons a as)
  obtain u p src where a: "a = (u, p, src)" by (cases a)
  obtain r l' w' where run: "Authenticate s u p src l w = ((r, l'), w')" by (metis prod.exhaust)
  let ?now = "attempt_time s w" and ?key = "attempt_key s u src"
  let ?hit = "rejected s u src l w r"
  have es: "logins s (a # as) l w = \<lparr>le_key = ?key, le_time = ?now, le_rejected = ?hit, le_accepted = (\<not> isl r)\<rparr> #
      logins s as l' w'" by (simp add: a run)
  have now: "m \<le> ?now" and later: "sorted (?now # map le_time (logins s as l' w'))"
    using Cons.prems(7) unfolding es by auto
  have safe: "?key = k \<longrightarrow> isl r" "\<forall>e \<in> set (logins s as l' w'). le_key e = k \<longrightarrow> \<not> le_accepted e"
    using Cons.prems(8) unfolding es by auto
  note tracked = tracks_limited [OF Cons.prems(1) now, of ?key]
  let ?own = "if ?hit \<and> ?key = k then own @ [?now] else own" and ?every = "if ?hit then every @ [?now] else every"
  have "tracks l' ?now k ?own ?every"
    using Authenticate_effect [OF run] tracked(1) tracks_recorded [OF tracked(1), of ?key] safe(1)
      tracks_cleared [OF tracked(1), of ?key] by (auto split: if_splits)
  moreover have sorted: "sorted ?own" "sorted ?every" "\<forall>t \<in> set ?own \<union> set ?every. t \<le> ?now"
  proof -
    have "\<forall>t \<in> set own \<union> set every. t \<le> ?now" using Cons.prems(4) now by force
    then show "sorted ?own" "sorted ?every" "\<forall>t \<in> set ?own \<union> set ?every. t \<le> ?now"
      using Cons.prems(2,3) by (auto simp: sorted_append)
  qed
  moreover have "in_window from ?own \<le> 5"
    using window_add [of own ?now 5] Cons.prems(5) sorted(1) tracked(2) by (auto simp: rejected_def)
  moreover have "in_window from ?every \<le> 20"
    using window_add [of every ?now 20] Cons.prems(6) sorted(2) tracked(2) by (auto simp: rejected_def)
  ultimately have "in_window from (?own @ rejections (\<lambda>i. i = k) (logins s as l' w')) \<le> 5 \<and>
      in_window from (?every @ rejections (\<lambda>i. True) (logins s as l' w')) \<le> 20"
    using Cons.IH later safe(2) by blast
  then show ?case unfolding es by (simp add: rejections_def split: if_splits)
qed (simp add: rejections_def)

section \<open>Sessions that end\<close>

definition administered_by :: "ID \<Rightarrow> db \<Rightarrow> bool" where
  "administered_by i d \<longleftrightarrow> map_option ad_ID (Administrator d) = Some i"

interpretation first_admin: table_invariant "administered_by i" for i
  by standard (auto simp: administered_by_def Administrator_def sql_update_def roll_cycle_def write_deltas_def
    add_totals_def add_cycle_def Let_def insert_user_rows_def insertDedicatedInbound_def insert_command_def tx_simps
    split: list.splits if_splits)

lemma lawful_final:
  assumes "steps_only s" "lasting P"
    and "\<And>d y d'. reachable d \<Longrightarrow> P d \<Longrightarrow> m d = Inr (y, d') \<Longrightarrow> store_step\<^sup>*\<^sup>* d d' \<and> Q (Inr y) d'"
    and "\<And>e d. Q (Inl e) d"
  shows "lawful P (act_store s (WithWriteTx m)) Q"
proof (rule lawfulI)
  fix w x w'
  assume w: "reachable (wd_db w)" "P (wd_db w)" and run: "act_store s (WithWriteTx m) w = (x, w')"
  let ?d = "en_interferes s (wd_tick w) (wd_db w)"
  have 1: "store_step\<^sup>*\<^sup>* (wd_db w) ?d" using assms(1) w(1) unfolding steps_only_def by blast
  then have d: "reachable ?d" "P ?d" using w assms(2) by (auto simp: lasting_def intro: reachable_steps)
  from run have m: "WithWriteTx m ?d = (x, wd_db w')" by (auto simp: act_store_def split: prod.splits)
  show "store_step\<^sup>*\<^sup>* (wd_db w) (wd_db w') \<and> Q x (wd_db w')"
  proof (cases "m ?d")
    case (Inl e)
    then show ?thesis using m 1 assms(4) by (auto simp: WithWriteTx_def)
  next
    case (Inr z)
    then obtain y d' where "m ?d = Inr (y, d')" "x = Inr y" "wd_db w' = d'"
      using m by (cases z) (auto simp: WithWriteTx_def)
    then show ?thesis using assms(3) [OF d] 1 by (auto intro: rtranclp_trans)
  qed
qed

lemma logout_revokes:
  assumes "steps_only s"
  shows "lawful (\<lambda>_. True) (AuthService_RevokeSession s admin token) (\<lambda>r d. r = Inr () \<longrightarrow> token_dead (ss_digest s token) d)"
proof -
  have revoking: "token_dead g d'" if "tx_all [AppendAudit ev, DeleteCtx g now] d = Inr (y, d')" for ev g now d y d'
    using that by (auto simp: tx_simps DeleteCtx_iff intro: revoked_dead)
  then show ?thesis
    unfolding AuthService_RevokeSession_def
    by (intro lawful_bind [OF lawful_tick(1)] lawful_bind [OF lawful_tick(2)] lawful_final assms)
      (blast intro: auth_transactions(4) revoking | simp)+
qed

text \<open>No session of an administrator is left.\<close>

definition sessions_ended :: "ID \<Rightarrow> db \<Rightarrow> bool" where
  "sessions_ended i d \<longleftrightarrow> (\<forall>r \<in> set (db_sessions d). sr_AdministratorID r = i \<longrightarrow> sr_RevokedAt r \<noteq> None)"

lemma reset_ends:
  assumes "reset_tx current hash aid now d = Inr (y, d')"
  shows "sessions_ended (ad_ID current) d'"
  using assms
  by (auto simp: reset_tx_def RevokeAllSessions_def AppendAudit_def insert_audit_def tx_simps sessions_ended_def in_sql_update)

lemma password_reset_ends:
  assumes "steps_only s"
  shows "lawful (\<lambda>_. True) (ResetPassword s password)
    (\<lambda>r d. r = Inr () \<longrightarrow> (\<exists>i. administered_by i d \<and> sessions_ended i d))"
proof -
  have start: "lawful (\<lambda>_. True) (act_query s Administrator)
      (\<lambda>x d. case x of None \<Rightarrow> True | Some a \<Rightarrow> administered_by (ad_ID a) d)"
    by (rule lawful_weaken [OF lawful_query [OF assms lasting_True]])
      (auto simp: administered_by_def split: option.split)
  have commit: "lawful (administered_by (ad_ID a)) (act_store s (WithWriteTx (reset_tx a hash aid now)))
      (\<lambda>r d. r = Inr () \<longrightarrow> (\<exists>i. administered_by i d \<and> sessions_ended i d))" for a hash aid now
  proof (rule lawful_final [OF assms first_admin.stays])
    fix d y d'
    assume d: "reachable d" "administered_by (ad_ID a) d" and run: "reset_tx a hash aid now d = Inr (y, d')"
    have steps: "store_step\<^sup>*\<^sup>* d d'" by (rule auth_transactions(5) [OF run])
    then have "administered_by (ad_ID a) d'"
      using first_admin.stays [of "ad_ID a"] d unfolding lasting_def by blast
    with steps reset_ends [OF run] show "store_step\<^sup>*\<^sup>* d d' \<and>
        (Inr y = (Inr () :: err + unit) \<longrightarrow> (\<exists>i. administered_by i d' \<and> sessions_ended i d'))" by blast
  qed simp
  show ?thesis
    unfolding ResetPassword_def
  proof (rule lawful_bind [OF start])
    fix x
    show "lawful (\<lambda>d. case x of None \<Rightarrow> True | Some a \<Rightarrow> administered_by (ad_ID a) d)
      (case x of None \<Rightarrow> act_ret (Inl (NotFoundError ''administrator''))
       | Some current \<Rightarrow> (case ValidatePassword (au_unicode s) (ad_Username current) password of
           Inl e \<Rightarrow> act_ret (Inl (as_field ''password'' e))
         | Inr _ \<Rightarrow> act_bind (act_hash s password) (\<lambda>hash. act_bind (act_newID s) (\<lambda>aid. act_bind (act_now s) (\<lambda>now.
             act_store s (WithWriteTx (reset_tx current hash aid now)))))))
      (\<lambda>r d. r = Inr () \<longrightarrow> (\<exists>i. administered_by i d \<and> sessions_ended i d))"
      by (auto intro!: lawful_ret lawful_bind [OF steady_hash] lawful_bind [OF lawful_tick(2)]
          lawful_bind [OF lawful_tick(1)] commit split: option.split sum.split)
  qed
qed

lemma dead_not_found:
  assumes "steps_only s" "reachable (wd_db w)" "token_dead (ss_digest s token) (wd_db w)"
  shows "fst (SessionStore_Find s token w) = Inr None"
proof -
  have "token_dead (ss_digest s token) (en_interferes s (wd_tick w + 1) (wd_db w))"
    using dead.stays [of "ss_digest s token"] assms unfolding steps_only_def lasting_def by blast
  then show ?thesis
    by (simp add: SessionStore_Find_def act_bind_def act_now_def act_query_def act_ret_def dead_not_live)
qed

lemma dead_never_found:
  assumes "steps_only s" "reachable d" "token_dead (ss_digest s token) d" "store_step\<^sup>*\<^sup>* d (wd_db v)"
  shows "fst (SessionStore_Find s token v) = Inr None"
proof (rule dead_not_found [OF assms(1)])
  show "reachable (wd_db v)" by (rule reachable_steps [OF assms(2,4)])
  show "token_dead (ss_digest s token) (wd_db v)"
    using dead.stays [of "ss_digest s token"] assms(2-4) unfolding lasting_def by blast
qed

section \<open>Properties\<close>


text \<open>Six attempts without a name, on a database the other goroutines leave empty.\<close>

definition demo_auth :: auth_service where
  "demo_auth = \<lparr>en_now = (\<lambda>n. int n * 20 * Second), en_newID = (\<lambda>n. ''L''), en_interferes = (\<lambda>n d. empty_db),
     ss_idle = 60 * Minute, ss_absolute = 600 * Minute, ss_digest = bytes_of_string,
     au_unicode = \<lparr>un_NFKC = (\<lambda>s. s), un_lower = (\<lambda>n. n), un_fold = (\<lambda>n. n)\<rparr>, au_argon = demo_argon,
     au_salt = (\<lambda>n. replicate 16 0), au_dummyHash = HashPassword demo_argon (replicate 16 7) [1]\<rparr>"

definition demo_world :: "db \<Rightarrow> unit world" where
  "demo_world d = \<lparr>wd_db = d, wd_node = (), wd_tick = 0, wd_failures = 0, wd_degraded = False, wd_wakes = 0, wd_revalidate = []\<rparr>"

lemma demo_name: "NormalizeUsername (au_unicode demo_auth) '''' = Inl (PlainError ''username must contain 1 to 64 characters'')"
  by (simp add: NormalizeUsername_def demo_auth_def TrimSpace_def trim_runes_def ToLower_def RuneCountInString_def)

lemma demo_compare: "ComparePassword (au_argon demo_auth) (au_dummyHash demo_auth) [2, 2] = Inr False"
proof -
  have "demo_argon [2, 2] (replicate 16 7) 3 65536 4 32 \<noteq> demo_argon [1] (replicate 16 7) 3 65536 4 32"
    by (simp add: demo_argon_def)
  then show ?thesis
    using compare_hash [of "replicate 16 7" demo_argon "[1]" "[2, 2]"]
    by (simp add: demo_auth_def argonSaltLength_def argonIterations_def argonMemory_def argonParallelism_def
        argonKeyLength_def length_demo_argon)
qed

lemma demo_record: "record_failure_tx i now summary empty_db = Inr ((), insert_audit
    (auth_event i now ActorSystem None ''00000000-0000-4000-8000-000000000000'' ''login'' AuditFailed summary) empty_db)"
proof -
  have "schema_ok (insert_audit ev empty_db)" for ev
    by (simp add: schema_ok_def tables_auth_ok_def tables_panel_ok_def tables_template_ok_def tables_user_ok_def
      tables_inbound_ok_def tables_cred_ok_def tables_quota_ok_def tables_traffic_ok_def tables_sync_ok_def
      tables_drift_ok_def empty_db_def insert_audit_def)
  moreover have "Administrator empty_db = None" by (simp add: Administrator_def empty_db_def)
  ultimately show ?thesis
    by (simp add: record_failure_tx_def AppendAudit_def sql_exec_def tx_exec_def tx_bind_def tx_get_def)
qed

text \<open>An attempt takes four ticks when it is throttled and five when the password is compared.\<close>

lemma demo_attempt:
  fixes w :: "unit world" and src :: string
  defines "now \<equiv> attempt_time demo_auth w" and "key \<equiv> attempt_key demo_auth '''' src"
  shows "\<exists>d. Authenticate demo_auth '''' [2, 2] src l w = (case limited key now l of
      (Some retry, l1) \<Rightarrow> ((Inl (RateLimitError retry), l1), w\<lparr>wd_db := d, wd_tick := wd_tick w + 4\<rparr>)
    | (None, l1) \<Rightarrow> (case recordLoginLimit key now l1 of (r, l2) \<Rightarrow>
        ((Inl (case r of None \<Rightarrow> ErrInvalidCredentials | Some retry \<Rightarrow> RateLimitError retry), l2),
          w\<lparr>wd_db := d, wd_tick := wd_tick w + 5\<rparr>)))"
proof -
  have none: "Administrator empty_db = None" by (simp add: Administrator_def empty_db_def)
  have envs: "en_interferes demo_auth n d = empty_db" for n d by (simp add: demo_auth_def)
  obtain hit l1 where lim: "limited key now l = (hit, l1)" by fastforce
  obtain again l2 where rec: "recordLoginLimit key now l1 = (again, l2)" by fastforce
  show ?thesis
    using lim rec
    by (auto simp: Authenticate_def check_credentials_def login_failed_def RecordLoginFailure_def act_bind_def act_ret_def
        act_now_def act_newID_def act_store_def act_query_def demo_name demo_compare login_hash_def none envs
        demo_record WithWriteTx_def now_def key_def attempt_time_def attempt_key_def Let_def
        eval_nat_numeral split: prod.splits option.splits intro!: exI)
qed

primrec demo_run :: "nat \<Rightarrow> string \<Rightarrow> limiter \<Rightarrow> nat \<Rightarrow> login_event list" where
  "demo_run 0 src l t = []"
| "demo_run (Suc n) src l t = (case limited (''invalid|'' @ src) (int t * 20 * Second) l of (retry, l1) \<Rightarrow>
     \<lparr>le_key = ''invalid|'' @ src, le_time = int t * 20 * Second, le_rejected = (retry = None), le_accepted = False\<rparr> #
     (if retry = None then demo_run n src (snd (recordLoginLimit (''invalid|'' @ src) (int t * 20 * Second) l1)) (t + 5)
      else demo_run n src l1 (t + 4)))"

lemma demo_key: "attempt_key demo_auth '''' src = ''invalid|'' @ src"
  by (simp add: attempt_key_def login_key_def demo_name)

lemma demo_time: "attempt_time demo_auth w = int (wd_tick w) * 20 * Second"
  by (simp add: attempt_time_def demo_auth_def)

lemma demo_logins:
  fixes w :: "unit world"
  shows "logins demo_auth (replicate n ('''', [2, 2], src)) l w = demo_run n src l (wd_tick w)"
proof (induction n arbitrary: l w)
  case (Suc n)
  obtain retry l1 where lim: "limited (''invalid|'' @ src) (int (wd_tick w) * 20 * Second) l = (retry, l1)" by fastforce
  obtain again l2 where rec: "recordLoginLimit (''invalid|'' @ src) (int (wd_tick w) * 20 * Second) l1 = (again, l2)" by fastforce
  from demo_attempt [of src l w] lim rec show ?case
    by (auto simp: demo_key demo_time Suc.IH rejected_def counted_def ErrInvalidCredentials_def split: option.splits)
qed simp

lemma demo_six: "logins demo_auth (replicate 6 ('''', [2, 2], ''10.0.0.1'')) no_failures (demo_world empty_db) =
    map (\<lambda>(t, hit). \<lparr>le_key = ''invalid|10.0.0.1'', le_time = t * 20 * Second, le_rejected = hit, le_accepted = False\<rparr>)
      [(0, True), (5, True), (10, True), (15, True), (20, True), (25, False)]"
  by (simp only: demo_logins)
    (simp add: demo_world_def eval_nat_numeral limited_def recordLoginLimit_def no_failures_def prune_def Let_def Minute_def Second_def)


text \<open>
  C11: a logout is final. After the authentication service revoked the session of a token, no lookup of
  that token ever finds a session again, whatever the panel's other goroutines and later operations do
  to the database: logins, session refreshes and commits included, at any clock.
\<close>

theorem logout_is_final:
  assumes "steps_only s" "reachable (wd_db w)"
    and "AuthService_RevokeSession s admin token w = (Inr (), w')"
    and "store_step\<^sup>*\<^sup>* (wd_db w') (wd_db v)"
  shows "fst (SessionStore_Find s token v) = Inr None"
proof -
  have "store_step\<^sup>*\<^sup>* (wd_db w) (wd_db w')" "token_dead (ss_digest s token) (wd_db w')"
    using lawfulD [OF logout_revokes [OF assms(1)] assms(3,2)] by auto
  then show ?thesis using dead_never_found [OF assms(1) reachable_steps [OF assms(2)] _ assms(4)] by blast
qed

text \<open>
  C12: resetting the password ends every session of the administrator. After ResetPassword succeeded, no
  token whose session was in the database at that moment under the administrator's identifier is found
  again, in any later database and at any clock.
\<close>

theorem password_reset_ends_sessions:
  assumes "steps_only s" "reachable (wd_db w)" "ResetPassword s password w = (Inr (), w')"
    and "Administrator (wd_db w') = Some a" "r \<in> set (db_sessions (wd_db w'))" "sr_AdministratorID r = ad_ID a"
    and "ss_digest s token = se_TokenDigest (sr_Session r)" "store_step\<^sup>*\<^sup>* (wd_db w') (wd_db v)"
  shows "fst (SessionStore_Find s token v) = Inr None"
proof -
  let ?g = "ss_digest s token"
  have ends: "store_step\<^sup>*\<^sup>* (wd_db w) (wd_db w')" "\<exists>i. administered_by i (wd_db w') \<and> sessions_ended i (wd_db w')"
    using lawfulD [OF password_reset_ends [OF assms(1)] assms(3,2)] by simp_all
  then have ended: "sessions_ended (ad_ID a) (wd_db w')" using assms(4) by (simp add: administered_by_def)
  have reach: "reachable (wd_db w')" by (rule reachable_steps [OF assms(2) ends(1)])
  then have "schema_ok (wd_db w')" using reachable_refines by blast
  then have uniq: "distinct (map (se_TokenDigest \<circ> sr_Session) (db_sessions (wd_db w')))"
    by (simp add: schema_ok_def tables_auth_ok_def)
  have "sr_RevokedAt r \<noteq> None" using ended assms(5,6) by (simp add: sessions_ended_def)
  moreover have "x = r" if "x \<in> set (db_sessions (wd_db w'))" "se_TokenDigest (sr_Session x) = ?g" for x
    by (rule distinct_map_eqD [OF uniq]) (use that assms(5,7) in simp_all)
  moreover have "?g \<in> set (map (se_TokenDigest \<circ> sr_Session) (db_sessions (wd_db w')))"
    unfolding assms(7) using assms(5) by (metis comp_apply image_eqI set_map)
  ultimately have "token_dead ?g (wd_db w')" unfolding token_dead_def rows_dead_def by metis
  then show ?thesis by (rule dead_never_found [OF assms(1) reach _ assms(8)])
qed

text \<open>The administrator of the scenario, logged in; nothing else runs.\<close>

definition demo_quiet :: auth_service where
  "demo_quiet = \<lparr>en_now = (\<lambda>n. int n * 20 * Second), en_newID = (\<lambda>n. ''L''), en_interferes = (\<lambda>n d. d),
     ss_idle = 60 * Minute, ss_absolute = 600 * Minute, ss_digest = (\<lambda>t. if t = ''tok'' then [1] else [2]),
     au_unicode = \<lparr>un_NFKC = (\<lambda>s. s), un_lower = (\<lambda>n. n), un_fold = (\<lambda>n. n)\<rparr>, au_argon = demo_argon,
     au_salt = (\<lambda>n. replicate 16 0), au_dummyHash = []\<rparr>"

lemma quiet_steps: "steps_only demo_quiet"
  by (simp add: steps_only_def demo_quiet_def)

definition demo_logged_in :: db where
  "demo_logged_in = tx_state (InsertSession (session_record demo_quiet ''tok'' [1] (600 * Minute) 0 ''S1'')) demo_setup"

lemma demo_logged_in_run: "tx_ok (InsertSession (session_record demo_quiet ''tok'' [1] (600 * Minute) 0 ''S1'')) demo_setup"
  by code_simp

lemma demo_logged_in_reachable: "reachable demo_logged_in"
proof -
  obtain y where "InsertSession (session_record demo_quiet ''tok'' [1] (600 * Minute) 0 ''S1'') demo_setup = Inr (y, demo_logged_in)"
    using tx_ok_run [OF demo_logged_in_run] unfolding demo_logged_in_def by blast
  then have "store_step demo_setup demo_logged_in" by (intro store_step.other other_write.session)
  then show ?thesis using demo_setup_reachable by (rule reachable_steps [OF _ r_into_rtranclp, rotated])
qed

definition demo_logout :: "(db, unit) tx" where
  "demo_logout = tx_all [AppendAudit (admin_event ''L'' (20 * Second) demo_admin ''logout'' AuditSucceeded
       ''administrator logout succeeded''), DeleteCtx [1] (40 * Second)]"

lemma demo_logout_run: "tx_ok demo_logout demo_logged_in"
  by code_simp

theorem logout_is_final_witness:
  "\<exists>w'. AuthService_RevokeSession demo_quiet demo_admin ''tok'' (demo_world demo_logged_in) = (Inr (), w') \<and>
     fst (SessionStore_Find demo_quiet ''tok'' w') = Inr None"
proof -
  let ?d = "tx_state demo_logout demo_logged_in"
  have "demo_logout demo_logged_in = Inr ((), ?d)" using tx_ok_run [OF demo_logout_run] by simp
  then have run: "AuthService_RevokeSession demo_quiet demo_admin ''tok'' (demo_world demo_logged_in) =
      (Inr (), (demo_world ?d)\<lparr>wd_tick := 4\<rparr>)"
    by (simp add: AuthService_RevokeSession_def act_bind_def act_newID_def act_now_def act_store_def WithWriteTx_def
        demo_quiet_def demo_world_def demo_logout_def)
  have reach: "reachable (wd_db (demo_world demo_logged_in))"
    using demo_logged_in_reachable by (simp add: demo_world_def)
  from logout_is_final [OF quiet_steps reach run rtranclp.rtrancl_refl] run show ?thesis by blast
qed

lemma demo_reset_run: "tx_ok (reset_tx demo_admin hash ''L'' (60 * Second)) demo_logged_in"
  by code_simp

definition demo_reset_facts :: "db \<Rightarrow> bool" where
  "demo_reset_facts d \<longleftrightarrow> map_option ad_ID (Administrator d) = Some ''admin'' \<and>
     map (\<lambda>r. (sr_AdministratorID r, se_TokenDigest (sr_Session r))) (db_sessions d) = [(''admin'', [1])]"

lemma demo_reset_after: "demo_reset_facts (tx_state (reset_tx demo_admin hash ''L'' (60 * Second)) demo_logged_in)"
  by code_simp

lemma demo_current: "Administrator demo_logged_in = Some demo_admin"
  by code_simp

lemma demo_valid: "ValidatePassword (au_unicode demo_quiet) ''admin'' [65, 65, 65, 65, 65, 65, 65, 65, 65, 65, 65, 65] = Inr ()"
  by (simp add: ValidatePassword_def NormalizeUsername_def demo_quiet_def TrimSpace_def trim_runes_def ToLower_def
      RuneCountInString_def runes_ascii IsSpace_def encode_rune_def char_at_def byte_def EqualFold_def string_of_bytes_def Let_def)

theorem password_reset_ends_sessions_witness:
  "\<exists>w'. ResetPassword demo_quiet [65, 65, 65, 65, 65, 65, 65, 65, 65, 65, 65, 65] (demo_world demo_logged_in) = (Inr (), w') \<and>
     fst (SessionStore_Find demo_quiet ''tok'' w') = Inr None"
proof -
  let ?p = "[65, 65, 65, 65, 65, 65, 65, 65, 65, 65, 65, 65] :: 8 word list"
  let ?hash = "HashPassword demo_argon (replicate 16 0) ?p"
  let ?d = "tx_state (reset_tx demo_admin ?hash ''L'' (60 * Second)) demo_logged_in"
  have "reset_tx demo_admin ?hash ''L'' (60 * Second) demo_logged_in = Inr ((), ?d)"
    using tx_ok_run [OF demo_reset_run] by simp
  then have run: "ResetPassword demo_quiet ?p (demo_world demo_logged_in) = (Inr (), (demo_world ?d)\<lparr>wd_tick := 5\<rparr>)"
    using demo_current demo_valid
    by (simp add: ResetPassword_def act_bind_def act_newID_def act_now_def act_store_def act_query_def act_hash_def
        WithWriteTx_def demo_world_def demo_admin_def demo_quiet_def del: replicate.simps)
  have reach: "reachable (wd_db (demo_world demo_logged_in))"
    using demo_logged_in_reachable by (simp add: demo_world_def)
  obtain a where a: "Administrator ?d = Some a" "ad_ID a = ''admin''"
    using demo_reset_after [of ?hash] unfolding demo_reset_facts_def by blast
  obtain r where r: "r \<in> set (db_sessions ?d)" "sr_AdministratorID r = ''admin''" "se_TokenDigest (sr_Session r) = [1]"
    using demo_reset_after [of ?hash] unfolding demo_reset_facts_def by (auto simp: map_eq_Cons_conv)
  have "fst (SessionStore_Find demo_quiet ''tok'' ((demo_world ?d)\<lparr>wd_tick := 5\<rparr>)) = Inr None"
    by (rule password_reset_ends_sessions [OF quiet_steps reach run, of a r])
      (use a r in \<open>simp_all add: demo_world_def demo_quiet_def\<close>)
  with run show ?thesis by blast
qed

end
