(* ===== verification/Panel.thy ===== *)
theory Panel
  imports Synchronizer Reconcile_Service Login_Safety
begin

text \<open>
  The panel as a whole: the synchronizer keeps to the steps of the store like the services and the
  other workers, and every run of the goroutines over one database is a path of these steps.
\<close>

section \<open>The synchronizer keeps to the steps of the store\<close>

lemma lawful_store_all:
  assumes "steps_only s" "lasting P" "\<And>d x d'. reachable d \<Longrightarrow> m d = (x, d') \<Longrightarrow> store_step\<^sup>*\<^sup>* d d'"
  shows "steady P (act_store s m)"
proof (rule lawfulI)
  fix w x w'
  assume w: "reachable (wd_db w)" "P (wd_db w)" and run: "act_store s m w = (x, w')"
  let ?d = "en_interferes s (wd_tick w) (wd_db w)"
  have 1: "store_step\<^sup>*\<^sup>* (wd_db w) ?d" using assms(1) w(1) unfolding steps_only_def by blast
  then have "reachable ?d" by (rule reachable_steps [OF w(1)])
  moreover have "m ?d = (x, wd_db w')" using run by (auto simp: act_store_def split: prod.splits)
  ultimately have "store_step\<^sup>*\<^sup>* ?d (wd_db w')" by (rule assms(3))
  with 1 have "store_step\<^sup>*\<^sup>* (wd_db w) (wd_db w')" by (rule rtranclp_trans)
  then show "store_step\<^sup>*\<^sup>* (wd_db w) (wd_db w') \<and> P (wd_db w')" using assms(2) w unfolding lasting_def by blast
qed

lemma LeaseDueSync_run: "LeaseDueSync owner now lease d = (x, d') \<Longrightarrow> store_step\<^sup>*\<^sup>* d d'"
  by (auto simp: LeaseDueSync_def WithWriteTx_def split: sum.splits prod.splits option.splits intro: store_step.lease)

lemma sync_writes:
  assumes "steps_only s"
  shows "keeps_to_steps (act_store s (LeaseDueSync owner now lease))"
    "keeps_to_steps (act_store s (WithWriteTx (LeaseDueDriftRemoval owner now lease)))"
    "keeps_to_steps (act_store s (WithWriteTx (RenewSyncLease i owner now lease)))"
    "keeps_to_steps (act_store s (WithWriteTx (ConfirmSync i owner revision version present now)))"
    "keeps_to_steps (act_store s (WithWriteTx (RescheduleSync i owner attempts nxt code summary clock)))"
    "keeps_to_steps (act_store s (WithWriteTx (FailSync i owner code summary now clock)))"
    "keeps_to_steps (act_store s (WithWriteTx (AppendAudit ev)))"
    "keeps_to_steps (act_store s (WithWriteTx (MarkInstanceHealthy epoch now)))"
    "keeps_to_steps (act_store s (WithWriteTx (MarkInstanceUnreachable code summary now)))"
    "keeps_to_steps (act_store s (WithWriteTx (SetTemplateCompatibility tid state summary now)))"
    "keeps_to_steps (act_store s (WithWriteTx (RenewDriftRemovalLease i owner now lease)))"
    "keeps_to_steps (act_store s (WithWriteTx (CompleteDriftRemoval i owner now ev)))"
    "keeps_to_steps (act_store s (WithWriteTx (RescheduleDriftRemoval i owner attempts nxt code summary)))"
    "keeps_to_steps (act_store s (WithWriteTx (FailDriftRemoval i owner code summary now ev)))"
  by (rule lawful_store_all [OF assms lasting_True LeaseDueSync_run], assumption)
    (rule lawful_write [OF assms lasting_True], (blast intro: store_step.intros other_write.intros))+

lemma failures_steady: "steady P (\<lambda>w. ((), w\<lparr>wd_failures := 0\<rparr>))"
  "steady P (\<lambda>w. (wd_failures w + 1, w\<lparr>wd_failures := wd_failures w + 1\<rparr>))"
  by (rule lawful_pure; simp)+

lemmas sync_rules = steady_rules steady_split sync_writes failures_steady

lemma audit_steps: "steps_only s \<Longrightarrow> keeps_to_steps (Synchronizer.audit s work action result summary now)"
  unfolding Synchronizer.audit_def by (intro sync_rules)

lemma confirm_steps: "steps_only s \<Longrightarrow> keeps_to_steps (confirm s work present version)"
  unfolding confirm_def recordSuccess_def by (intro sync_rules audit_steps)

lemma fail_steps: "steps_only s \<Longrightarrow> keeps_to_steps (Synchronizer.fail s work kind summary)"
  unfolding fail_def by (intro sync_rules audit_steps)

lemma reschedule_steps: "steps_only s \<Longrightarrow> keeps_to_steps (reschedule s work now kind summary)"
  unfolding reschedule_def by (intro sync_rules)

lemma retryLater_steps: "steps_only s \<Longrightarrow> keeps_to_steps (retryLater s work kind summary)"
  unfolding retryLater_def by (intro sync_rules reschedule_steps)

lemma retry_steps: "steps_only s \<Longrightarrow> keeps_to_steps (retry s work cause)"
  unfolding retry_def trackDrift_def by (intro sync_rules reschedule_steps fail_steps)

lemma fenced_steps: "steps_only s \<Longrightarrow> keeps_to_steps rest \<Longrightarrow> keeps_to_steps (fenced s work rest)"
  unfolding fenced_def fence_def by (intro sync_rules)

lemma looking_steps:
  "keeps_to_steps (inboundPresent s tag)" "keeps_to_steps (carriesClient s inbound sid)" "keeps_to_steps (observe s inbound sid)"
  "keeps_to_steps (remove_inbound s work)"
  unfolding inboundPresent_def carriesClient_def observe_def remove_inbound_def by (intro sync_rules)+

lemmas worker_rules = sync_rules fenced_steps looking_steps confirm_steps fail_steps retryLater_steps retry_steps

lemma create_steps: "steps_only s \<Longrightarrow> keeps_to_steps (createDedicatedInbound s work)"
  unfolding createDedicatedInbound_def create_failed_def confirm_present_def by (intro worker_rules)

lemma rotate_cleanup_steps: "steps_only s \<Longrightarrow> keeps_to_steps (rotate_cleanup s work)"
  unfolding rotate_cleanup_def rotationPending_def confirm_present_def by (intro worker_rules)

lemma rotate_add_steps: "steps_only s \<Longrightarrow> keeps_to_steps (rotate_add s work)"
  unfolding rotate_add_def rotationPending_def by (intro worker_rules rotate_cleanup_steps create_steps)

lemma rotate_remove_steps: "steps_only s \<Longrightarrow> keeps_to_steps (rotate_remove s work present)"
  unfolding rotate_remove_def by (intro worker_rules rotate_add_steps create_steps)

lemma rotate_steps: "steps_only s \<Longrightarrow> keeps_to_steps (rotateWithinInbound s work)"
  unfolding rotateWithinInbound_def rotate_safety_def by (intro worker_rules rotate_remove_steps create_steps)

lemma handle_steps: "steps_only s \<Longrightarrow> keeps_to_steps (handle s work)"
  unfolding handle_def handle_absent_def handle_port_change_def by (intro worker_rules rotate_steps create_steps)

lemma drift_steps: "steps_only s \<Longrightarrow> keeps_to_steps (handleDriftRemoval s removal)"
  unfolding handleDriftRemoval_def drift_execute_def drift_remove_def drift_observe_def drift_complete_def
    drift_not_converged_def drift_audit_def fence_drift_def Let_def
  by (intro worker_rules)

lemma drain_sync_steps: "steps_only s \<Longrightarrow> keeps_to_steps (drain_sync s fuel n)"
  by (induction fuel arbitrary: n) (simp_all, (intro worker_rules handle_steps; simp?)+)

lemma drain_drift_steps: "steps_only s \<Longrightarrow> keeps_to_steps (drain_drift s fuel n)"
  by (induction fuel arbitrary: n) (simp_all, (intro worker_rules drift_steps; simp?)+)

lemma Drain_steps: "steps_only s \<Longrightarrow> keeps_to_steps (Drain s fuel)"
  unfolding Drain_def by (intro worker_rules drain_sync_steps drain_drift_steps)

lemma RevokeSessions_steps: "steps_only s \<Longrightarrow> keeps_to_steps (RevokeSessions s i)"
  unfolding RevokeSessions_def by (intro auth_rules) (auto intro: store_step.other other_write.revoke_all)

section \<open>Runs of the panel\<close>

text \<open>
  One turn of one goroutine: a request to a service, a round of a worker, an access of the session
  store, the start of the program, or a change of the node by itself, such as a restart. The other
  goroutines act during the turn too (\<open>en_interferes\<close>), by steps of the store only.
\<close>

inductive panel_act :: "'n world \<Rightarrow> 'n world \<Rightarrow> bool" where
  start: "WithWriteTx (EnsureSingletons tz endpoint ver verifier nonce rnd now) (wd_db w) = (r, d) \<Longrightarrow>
    panel_act w (w\<lparr>wd_db := d\<rparr>)"
| node: "panel_act w (w\<lparr>wd_node := n\<rparr>)"
| create_user: "steps_only s \<Longrightarrow> UserService_CreateUser s c w = (r1, w') \<Longrightarrow> panel_act w w'"
| update_user: "steps_only s \<Longrightarrow> UserService_UpdateUser s c w = (r2, w') \<Longrightarrow> panel_act w w'"
| enable: "steps_only s \<Longrightarrow> SetAdminEnabled s c w = (r2, w') \<Longrightarrow> panel_act w w'"
| reset_traffic: "steps_only s \<Longrightarrow> ResetTraffic s c w = (r2, w') \<Longrightarrow> panel_act w w'"
| change_port: "steps_only s \<Longrightarrow> ChangePort s c w = (r2, w') \<Longrightarrow> panel_act w w'"
| rotate: "steps_only s \<Longrightarrow> UserService_RotateCredential s c w = (r2, w') \<Longrightarrow> panel_act w w'"
| delete_user: "steps_only s \<Longrightarrow> DeleteUser s c w = (r2, w') \<Longrightarrow> panel_act w w'"
| settings: "steps_only s \<Longrightarrow> SettingsService_Update s c w = (r2, w') \<Longrightarrow> panel_act w w'"
| connection: "steps_only s \<Longrightarrow> BuildConnectionInfo s i w = (r3, w') \<Longrightarrow> panel_act w w'"
| register: "steps_only s \<Longrightarrow> RegisterTemplate s c w = (r4, w') \<Longrightarrow> panel_act w w'"
| edit_template: "steps_only s \<Longrightarrow> TemplateService_UpdateTemplate s i c w = (r, w') \<Longrightarrow> panel_act w w'"
| revalidate: "steps_only s \<Longrightarrow> Revalidate s c w = (r2, w') \<Longrightarrow> panel_act w w'"
| validator: "steps_only s \<Longrightarrow> Validator_turn s ob w = (r5, w') \<Longrightarrow> panel_act w w'"
| sweep: "steps_only s \<Longrightarrow> SweepOnce s ob w = (r5, w') \<Longrightarrow> panel_act w w'"
| scheduler: "steps_only s \<Longrightarrow> Scheduler_turn s every w = (r6, w') \<Longrightarrow> panel_act w w'"
| collector: "steps_only s \<Longrightarrow> Collector_RunOnce s ob w = (r5, w') \<Longrightarrow> panel_act w w'"
| reconciler: "steps_only s \<Longrightarrow> Reconciler_RunOnce s ad ob w = (r5, w') \<Longrightarrow> panel_act w w'"
| synchronizer: "steps_only s \<Longrightarrow> Drain s fuel w = (r7, w') \<Longrightarrow> panel_act w w'"
| initialize: "steps_only s \<Longrightarrow> InitializeAdministrator s name password w = (r4, w') \<Longrightarrow> panel_act w w'"
| authenticate: "steps_only s \<Longrightarrow> Authenticate s name password source l w = (r8, w') \<Longrightarrow> panel_act w w'"
| failure: "steps_only s \<Longrightarrow> RecordLoginFailure (s :: auth_service) summary w = (r, w') \<Longrightarrow> panel_act w w'"
| establish: "steps_only s \<Longrightarrow> EstablishSession s admin token data expiry w = (r, w') \<Longrightarrow> panel_act w w'"
| logout: "steps_only s \<Longrightarrow> AuthService_RevokeSession s admin token w = (r, w') \<Longrightarrow> panel_act w w'"
| logout_failed: "steps_only s \<Longrightarrow> LogoutFailed s admin summary w = (r, w') \<Longrightarrow> panel_act w w'"
| revoke_sessions: "steps_only s \<Longrightarrow> RevokeSessions s i w = (r, w') \<Longrightarrow> panel_act w w'"
| reset_password: "steps_only s \<Longrightarrow> ResetPassword s password w = (r, w') \<Longrightarrow> panel_act w w'"
| session_find: "steps_only s \<Longrightarrow> SessionStore_Find (s :: session_store) token w = (r9, w') \<Longrightarrow> panel_act w w'"
| session_commit: "steps_only s \<Longrightarrow> SessionStore_Commit (s :: session_store) token data expiry w = (r, w') \<Longrightarrow> panel_act w w'"
| session_delete: "steps_only s \<Longrightarrow> SessionStore_Delete (s :: session_store) token w = (r, w') \<Longrightarrow> panel_act w w'"

lemma keeps_toD: "keeps_to_steps m \<Longrightarrow> m w = (r, w') \<Longrightarrow> reachable (wd_db w) \<Longrightarrow> store_step\<^sup>*\<^sup>* (wd_db w) (wd_db w')"
  unfolding lawful_def by blast

lemmas panel_steps = CreateUser_service UpdateUser_service SetAdminEnabled_service ResetTraffic_service ChangePort_service
  RotateCredential_service DeleteUser_service SettingsService_steps BuildConnectionInfo_steps RegisterTemplate_steps
  UpdateTemplate_steps Revalidate_steps Validator_turn_steps SweepOnce_steps Scheduler_turn_steps Collector_RunOnce_steps
  Reconciler_RunOnce_steps Drain_steps InitializeAdministrator_steps Authenticate_steps RecordLoginFailure_steps
  EstablishSession_steps AuthService_RevokeSession_steps RevokeSessions_steps ResetPassword_steps Find_steps Commit_steps
  Delete_steps

lemmas panel_runs = panel_steps [THEN keeps_toD, rotated]

lemma panel_act_steps:
  assumes "panel_act w w'" "reachable (wd_db w)"
  shows "store_step\<^sup>*\<^sup>* (wd_db w) (wd_db w')"
  using assms(1)
proof cases
  case (start tz endpoint ver verifier nonce rnd now r d)
  then show ?thesis by (auto simp: WithWriteTx_def split: sum.splits prod.splits intro: store_step.other other_write.singletons)
next
  case (logout_failed s admin summary r)
  then show ?thesis using keeps_toD [OF auth_audit_steps _ assms(2)] unfolding LogoutFailed_def by blast
qed (simp, (erule panel_runs; (assumption | rule assms(2)))+)

lemma panel_runs_steps:
  assumes "panel_act\<^sup>*\<^sup>* w w'" "reachable (wd_db w)"
  shows "store_step\<^sup>*\<^sup>* (wd_db w) (wd_db w')"
  using assms
proof (induction rule: rtranclp_induct)
  case (step v v')
  then show ?case using panel_act_steps reachable_steps by (blast intro: rtranclp_trans)
qed simp

section \<open>Properties\<close>

text \<open>
  C2: the panel refines the intent log. Whatever its goroutines do, in any order and with any
  interference between their accesses to the store, every run of whole requests and worker rounds, with
  any errors, restarts of the node and answers of Xray, leads along steps of the store; the schema holds
  at its end, and the queue with the desired revisions has moved along steps of the abstract intent log,
  whose invariant (one open intent, none beyond the desired revision) holds.
\<close>

theorem panel_refines_intent_log:
  assumes "panel_act\<^sup>*\<^sup>* w w'" "reachable (wd_db w)"
  shows "store_step\<^sup>*\<^sup>* (wd_db w) (wd_db w') \<and> schema_ok (wd_db w') \<and>
    log_step\<^sup>*\<^sup>* (sync_log (wd_db w)) (sync_log (wd_db w')) \<and> log_ok (sync_log (wd_db w'))"
proof -
  have steps: "store_step\<^sup>*\<^sup>* (wd_db w) (wd_db w')" by (rule panel_runs_steps [OF assms])
  moreover have "schema_ok (wd_db w)" using reachable_refines [OF assms(2)] by blast
  moreover have "reachable (wd_db w')" by (rule reachable_steps [OF assms(2) steps])
  ultimately show ?thesis using store_steps_log reachable_log_ok by blast
qed

theorem panel_refines_intent_log_witness:
  "schema_ok (snd (WithWriteTx (EnsureSingletons ''UTC'' ''127.0.0.1:10085'' ''v25'' [1] [2] (replicate 16 0) 0) empty_db)) \<and>
   log_step\<^sup>*\<^sup>* (sync_log empty_db) (sync_log demo_logged_in)"
proof -
  let ?boot = "WithWriteTx (EnsureSingletons ''UTC'' ''127.0.0.1:10085'' ''v25'' [1] [2] (replicate 16 0) 0)"
  have "panel_act (demo_world empty_db) ((demo_world empty_db)\<lparr>wd_db := snd (?boot empty_db)\<rparr>)"
    by (rule panel_act.start [where r = "fst (?boot empty_db)"]) (simp add: demo_world_def)
  moreover have empty: "reachable (wd_db (demo_world empty_db))" by (simp add: reachable_def demo_world_def)
  ultimately have "schema_ok (snd (?boot empty_db))"
    using panel_refines_intent_log [of "demo_world empty_db" "(demo_world empty_db)\<lparr>wd_db := snd (?boot empty_db)\<rparr>"]
    by (simp add: demo_world_def r_into_rtranclp)
  moreover have "log_step\<^sup>*\<^sup>* (sync_log empty_db) (sync_log demo_logged_in)"
    using store_steps_log [of empty_db demo_logged_in] demo_logged_in_reachable reachable_refines [of empty_db]
    by (simp add: reachable_def)
  ultimately show ?thesis by blast
qed

end
