(* ===== verification/Fake_Xray.thy ===== *)
theory Fake_Xray
  imports Xray_Adapter
begin

text \<open>
  The in-memory Xray of \<open>internal/adapter/xray/fake/fake.go\<close>: a second implementation of the
  adapter interface, with injected failures. Its maps are association lists, so a listing has
  insertion order where Go's is arbitrary. Counters and the log of
  calls are in Fake_Meter; hooks and delays are left out.
\<close>

record Failure =
  fl_Err :: err
  fl_Applied :: bool

record FakeInbound =
  fi_Tag :: string
  fi_ListenAddress :: string
  fi_Port :: int
  fi_Method :: string
  fi_ServerKey :: string

text \<open>\<open>Users\<close> holds, per tag, the clients of an inbound by their identity.\<close>

record fake =
  fk_Inbounds :: "(string \<times> FakeInbound) list"
  fk_Users :: "(string \<times> (string \<times> RemoteUser) list) list"
  fk_CreateFailures :: "Failure list"
  fk_RemoveFailures :: "Failure list"
  fk_AddFailures :: "Failure list"
  fk_RemoveUserFailures :: "Failure list"
  fk_Available :: bool
  fk_ExternalPorts :: "int list"

definition map_put :: "'k \<Rightarrow> 'v \<Rightarrow> ('k \<times> 'v) list \<Rightarrow> ('k \<times> 'v) list" where
  "map_put k v m = (if k \<in> set (map fst m)
     then map (\<lambda>(x, y). if x = k then (x, v) else (x, y)) m else m @ [(k, v)])"

definition map_delete :: "'k \<Rightarrow> ('k \<times> 'v) list \<Rightarrow> ('k \<times> 'v) list" where
  "map_delete k m = filter (\<lambda>p. fst p \<noteq> k) m"

definition users_on :: "fake \<Rightarrow> string \<Rightarrow> (string \<times> RemoteUser) list" where
  "users_on f tag = (case map_of (fk_Users f) tag of None \<Rightarrow> [] | Some us \<Rightarrow> us)"

definition unavailable :: "string \<Rightarrow> err" where
  "unavailable operation = AdapterError ''instance_unavailable'' operation True ''fake Xray unavailable''"

text \<open>The next injected failure of an operation, taken off its list.\<close>

fun take_failure :: "Failure list \<Rightarrow> Failure option \<times> Failure list" where
  "take_failure [] = (None, [])"
| "take_failure (x # xs) = (Some x, xs)"

definition applied :: "Failure option \<Rightarrow> bool" where
  "applied r = (case r of None \<Rightarrow> True | Some x \<Rightarrow> fl_Applied x)"

definition managed_user :: "string \<Rightarrow> int \<Rightarrow> RemoteUser" where
  "managed_user i version = \<lparr>ru_StatisticsID = i, ru_CredentialVersion = version, ru_Present = True,
     ru_Kind = ''managed''\<rparr>"

definition fake_ListInbounds :: "fake \<Rightarrow> (err + RemoteInbound list) \<times> fake" where
  "fake_ListInbounds f =
     (if \<not> fk_Available f then (Inl (unavailable ''list_inbounds''), f)
      else (Inr (map (\<lambda>(tag, i). \<lparr>re_InboundTag = tag, re_PanelManaged = IsPanelNamespace tag,
              re_UserCount = int (length (users_on f tag))\<rparr>) (fk_Inbounds f)), f))"

definition register :: "CreateInboundCommand \<Rightarrow> fake \<Rightarrow> fake" where
  "register c f = f\<lparr>
     fk_Inbounds := map_put (ci_InboundTag c) \<lparr>fi_Tag = ci_InboundTag c, fi_ListenAddress = ci_ListenAddress c,
        fi_Port = ci_Port c, fi_Method = ci_Method c, fi_ServerKey = ci_ServerKey c\<rparr> (fk_Inbounds f),
     fk_Users := map_put (ci_InboundTag c) [(ic_StatisticsID (ci_Client c),
        managed_user (ic_StatisticsID (ci_Client c)) (ic_CredentialVersion (ci_Client c)))] (fk_Users f)\<rparr>"

definition fake_CreateInbound :: "CreateInboundCommand \<Rightarrow> fake \<Rightarrow> (err + unit) \<times> fake" where
  "fake_CreateInbound c f =
     (if \<not> fk_Available f then (Inl (unavailable ''create_inbound''), f)
      else if ci_InboundTag c \<in> set (map fst (fk_Inbounds f))
      then (Inl (AdapterError ''inbound_already_exists'' ''create_inbound'' False ''inbound tag already exists''), f)
      else case take_failure (fk_CreateFailures f) of (failure, rest) \<Rightarrow>
        let external = ci_Port c \<in> set (fk_ExternalPorts f);
            f1 = f\<lparr>fk_CreateFailures := rest\<rparr>;
            f2 = (if applied failure \<or> external then register c f1 else f1)
        in if external
           then (Inl (AdapterError ''port_unavailable'' ''create_inbound'' False ''port is already in use on the node''), f2)
           else case failure of Some x \<Rightarrow> (Inl (fl_Err x), f2) | None \<Rightarrow> (Inr (), f2))"

definition fake_RemoveInbound :: "string \<Rightarrow> fake \<Rightarrow> (err + unit) \<times> fake" where
  "fake_RemoveInbound tag f =
     (if \<not> fk_Available f then (Inl (unavailable ''remove_inbound''), f)
      else if \<not> IsPanelNamespace tag
      then (Inl (AdapterError ''invalid_argument'' ''remove_inbound'' False
              ''refusing to remove an inbound outside the panel namespace''), f)
      else case take_failure (fk_RemoveFailures f) of (failure, rest) \<Rightarrow>
        let exists = tag \<in> set (map fst (fk_Inbounds f));
            f1 = f\<lparr>fk_RemoveFailures := rest\<rparr>;
            f2 = (if applied failure then f1\<lparr>fk_Inbounds := map_delete tag (fk_Inbounds f1),
                     fk_Users := map_delete tag (fk_Users f1)\<rparr> else f1)
        in case failure of Some x \<Rightarrow> (Inl (fl_Err x), f2)
           | None \<Rightarrow> if \<not> exists
               then (Inl (AdapterError ''inbound_not_found'' ''remove_inbound'' False ''inbound was not found''), f2)
               else (Inr (), f2))"

definition fake_ListUsers :: "RuntimeInbound \<Rightarrow> fake \<Rightarrow> (err + RemoteUser list) \<times> fake" where
  "fake_ListUsers inbound f =
     (if \<not> fk_Available f then (Inl (unavailable ''list_users''), f)
      else (Inr (map snd (users_on f (ri_InboundTag inbound))), f))"

definition fake_AddUser :: "AddUserCommand \<Rightarrow> fake \<Rightarrow> (err + unit) \<times> fake" where
  "fake_AddUser c f =
     (if \<not> fk_Available f then (Inl (unavailable ''add_user''), f)
      else case guardPanelInbound ''add_user'' (au_InboundTag c) of Inl e \<Rightarrow> (Inl e, f) | Inr _ \<Rightarrow>
      if au_InboundTag c \<notin> set (map fst (fk_Inbounds f))
      then (Inl (AdapterError ''inbound_not_found'' ''add_user'' False ''inbound was not found''), f)
      else case take_failure (fk_AddFailures f) of (failure, rest) \<Rightarrow>
        let f1 = f\<lparr>fk_AddFailures := rest\<rparr>;
            f2 = (if applied failure then f1\<lparr>fk_Users := map_put (au_InboundTag c)
                    (map_put (au_StatisticsID c) (managed_user (au_StatisticsID c) (au_CredentialVersion c))
                       (users_on f1 (au_InboundTag c))) (fk_Users f1)\<rparr> else f1)
        in case failure of Some x \<Rightarrow> (Inl (fl_Err x), f2) | None \<Rightarrow> (Inr (), f2))"

definition fake_survivors :: "RemoveUserCommand \<Rightarrow> (string \<times> RemoteUser) list \<Rightarrow> nat" where
  "fake_survivors c us = rows_affected (\<lambda>(i, u). i \<noteq> rm_StatisticsID c \<and> ru_Present u \<and>
     (i = rm_ExpectedStatisticsID c \<or> i = RotationSafetyID (rm_ExpectedStatisticsID c))) us"

definition fake_RemoveUser :: "RemoveUserCommand \<Rightarrow> fake \<Rightarrow> (err + unit) \<times> fake" where
  "fake_RemoveUser c f =
     (if \<not> fk_Available f then (Inl (unavailable ''remove_user''), f)
      else case guardPanelInbound ''remove_user'' (rm_InboundTag c) of Inl e \<Rightarrow> (Inl e, f) | Inr _ \<Rightarrow>
      if rm_ExpectedStatisticsID c = ''''
      then (Inl (AdapterError ''invalid_argument'' ''remove_user'' False
              ''remove_user requires the inbound's expected managed identity''), f)
      else case take_failure (fk_RemoveUserFailures f) of (failure, rest) \<Rightarrow>
        let f1 = f\<lparr>fk_RemoveUserFailures := rest\<rparr>;
            us = users_on f (rm_InboundTag c);
            inbound = rm_InboundTag c \<in> set (map fst (fk_Inbounds f));
            target = rm_StatisticsID c \<in> set (map fst us)
        in if inbound \<and> failure = None \<and> target \<and> fake_survivors c us = 0
           then (Inl (AdapterError ''last_managed_client'' ''remove_user'' False
                   ''refusing to remove the last managed client of an inbound''), f1)
           else if \<not> inbound \<and> failure = None
           then (Inl (AdapterError ''inbound_not_found'' ''remove_user'' False ''inbound was not found''), f1)
           else let f2 = (if applied failure then f1\<lparr>fk_Users := map_put (rm_InboundTag c)
                            (map_delete (rm_StatisticsID c) us) (fk_Users f1)\<rparr> else f1)
             in case failure of Some x \<Rightarrow> (Inl (fl_Err x), f2)
                | None \<Rightarrow> if \<not> target
                    then (Inl (AdapterError ''user_not_found'' ''remove_user'' False ''user not found''), f2)
                    else (Inr (), f2))"

definition fake_adapter :: "fake adapter" where
  "fake_adapter = \<lparr>ap_ListInbounds = fake_ListInbounds, ap_CreateInbound = fake_CreateInbound,
     ap_RemoveInbound = fake_RemoveInbound, ap_ListUsers = fake_ListUsers,
     ap_AddUser = fake_AddUser, ap_RemoveUser = fake_RemoveUser\<rparr>"

definition Restart :: "fake \<Rightarrow> fake" where
  "Restart f = f\<lparr>fk_Inbounds := [], fk_Users := []\<rparr>"

definition Listening :: "int \<Rightarrow> fake \<Rightarrow> bool" where
  "Listening port f \<longleftrightarrow> list_ex (\<lambda>(tag, i). fi_Port i = port) (fk_Inbounds f)"

end
