(* ===== verification/Sync_Safety.thy ===== *)
theory Sync_Safety
  imports Synchronizer Fake_Xray Scenario
begin

text \<open>
  The synchronizer confirms only what the node shows. The contract of Xray is a locale: what the answers
  of its calls say about the inbounds that listen. The in-memory Xray of the tests provides it.
\<close>

section \<open>The contract of the node\<close>

text \<open>
  \<open>sane\<close> is the node's own invariant. An error says something about the node only where the
  synchronizer relies on it: an inbound or a client that is not found, a client that already exists.
\<close>

locale node_contract =
  fixes ad :: "'n adapter" and listens :: "'n \<Rightarrow> string \<Rightarrow> bool" and sane :: "'n \<Rightarrow> bool"
  assumes list_inbounds: "sane n \<Longrightarrow> ap_ListInbounds ad n = (r, n') \<Longrightarrow> sane n' \<and> listens n' = listens n \<and>
      (\<forall>rs. r = Inr rs \<longrightarrow> (\<forall>tag. list_ex (\<lambda>x. re_InboundTag x = tag) rs \<longleftrightarrow> listens n' tag))"
    and list_users: "sane n \<Longrightarrow> ap_ListUsers ad inbound n = (r1, n') \<Longrightarrow> sane n' \<and> listens n' = listens n \<and>
      (\<forall>us. r1 = Inr us \<longrightarrow> list_ex ru_Present us \<longrightarrow> listens n' (ri_InboundTag inbound))"
    and create_inbound: "sane n \<Longrightarrow> ap_CreateInbound ad c n = (r2, n') \<Longrightarrow> sane n' \<and>
      (r2 = Inr () \<longrightarrow> listens n' (ci_InboundTag c))"
    and remove_inbound: "sane n \<Longrightarrow> ap_RemoveInbound ad tag n = (r3, n') \<Longrightarrow> sane n' \<and>
      (r3 = Inr () \<or> (\<exists>e. r3 = Inl e \<and> fst (describe e) = ''inbound_not_found'') \<longrightarrow> \<not> listens n' tag)"
    and add_user: "sane n \<Longrightarrow> ap_AddUser ad a n = (r4, n') \<Longrightarrow> sane n' \<and>
      (r4 = Inr () \<or> (\<exists>e. r4 = Inl e \<and> fst (describe e) = ''user_already_exists'') \<longrightarrow> listens n' (au_InboundTag a))"
    and remove_user: "sane n \<Longrightarrow> ap_RemoveUser ad m n = (r5, n') \<Longrightarrow> sane n' \<and> listens n' = listens n"

section \<open>The in-memory node keeps the contract\<close>

definition fake_listens :: "fake \<Rightarrow> string \<Rightarrow> bool" where
  "fake_listens f tag \<longleftrightarrow> tag \<in> set (map fst (fk_Inbounds f))"

text \<open>Only inbounds have clients, and injected failures do not lie about what is there.\<close>

definition honest :: "Failure \<Rightarrow> bool" where
  "honest x \<longleftrightarrow> fst (describe (fl_Err x)) \<notin> {''inbound_not_found'', ''user_already_exists''}"

definition fake_sane :: "fake \<Rightarrow> bool" where
  "fake_sane f \<longleftrightarrow> (\<forall>(tag, us) \<in> set (fk_Users f). us \<noteq> [] \<longrightarrow> fake_listens f tag) \<and>
     list_all honest (fk_RemoveFailures f) \<and> list_all honest (fk_AddFailures f)"

lemma map_put_keys: "set (map fst (map_put k v m)) = insert k (set (map fst m))"
  by (force simp: map_put_def)

lemma map_put_entry: "(x, y) \<in> set (map_put k v m) \<Longrightarrow> (x = k \<and> y = v) \<or> (x, y) \<in> set m"
  by (auto simp: map_put_def split: if_splits)

lemma map_delete_keys: "set (map fst (map_delete k m)) = set (map fst m) - {k}"
  by (auto simp: map_delete_def)

lemma users_on_listens: "fake_sane f \<Longrightarrow> users_on f tag \<noteq> [] \<Longrightarrow> fake_listens f tag"
  by (auto simp: users_on_def fake_sane_def split: option.splits dest: map_of_SomeD)

interpretation fake_node: node_contract fake_adapter fake_listens fake_sane
proof
  fix n n' :: fake and r and tag
  assume n: "fake_sane n"
  show "ap_ListInbounds fake_adapter n = (r, n') \<Longrightarrow> fake_sane n' \<and> fake_listens n' = fake_listens n \<and>
      (\<forall>rs. r = Inr rs \<longrightarrow> (\<forall>tag. list_ex (\<lambda>x. re_InboundTag x = tag) rs \<longleftrightarrow> fake_listens n' tag))"
    using n by (force simp: fake_adapter_def fake_ListInbounds_def fake_listens_def list_ex_iff split: if_splits)
next
  fix n n' :: fake and inbound r1
  assume n: "fake_sane n" and run: "ap_ListUsers fake_adapter inbound n = (r1, n')"
  have "n' = n" "\<forall>us. r1 = Inr us \<longrightarrow> us = map snd (users_on n (ri_InboundTag inbound))"
    using run by (auto simp: fake_adapter_def fake_ListUsers_def split: if_splits)
  then show "fake_sane n' \<and> fake_listens n' = fake_listens n \<and>
      (\<forall>us. r1 = Inr us \<longrightarrow> list_ex ru_Present us \<longrightarrow> fake_listens n' (ri_InboundTag inbound))"
    using n users_on_listens [OF n, of "ri_InboundTag inbound"] by (cases "users_on n (ri_InboundTag inbound)") auto
next
  fix n n' :: fake and c r2
  assume n: "fake_sane n" and run: "ap_CreateInbound fake_adapter c n = (r2, n')"
  have reg: "fake_sane (register c f)" "fake_listens (register c f) (ci_InboundTag c)" if "fake_sane f" for f
    using that unfolding fake_sane_def fake_listens_def register_def
    by (auto simp: map_put_keys dest!: map_put_entry simp del: set_map)
  have "fake_sane (n\<lparr>fk_CreateFailures := rest\<rparr>)" for rest using n by (simp add: fake_sane_def fake_listens_def)
  with run n reg show "fake_sane n' \<and> (r2 = Inr () \<longrightarrow> fake_listens n' (ci_InboundTag c))"
    by (auto simp: fake_adapter_def fake_CreateInbound_def Let_def applied_def split: if_splits prod.splits option.splits)
next
  fix n n' :: fake and tag r3
  assume n: "fake_sane n" and run: "ap_RemoveInbound fake_adapter tag n = (r3, n')"
  obtain failure rest where tf: "take_failure (fk_RemoveFailures n) = (failure, rest)" by fastforce
  then have h: "list_all honest rest" "\<forall>x. failure = Some x \<longrightarrow> honest x"
    using n by (cases "fk_RemoveFailures n"; auto simp: fake_sane_def)+
  let ?f = "n\<lparr>fk_RemoveFailures := rest\<rparr>"
  let ?g = "?f\<lparr>fk_Inbounds := map_delete tag (fk_Inbounds ?f), fk_Users := map_delete tag (fk_Users ?f)\<rparr>"
  have f: "fake_sane ?f" "fake_sane ?g" "\<not> fake_listens ?g tag"
    using n h(1) unfolding fake_sane_def fake_listens_def
    by (auto simp: map_delete_keys simp del: set_map) (auto simp: map_delete_def)
  with run n tf h(2) show "fake_sane n' \<and> (r3 = Inr () \<or>
      (\<exists>e. r3 = Inl e \<and> fst (describe e) = ''inbound_not_found'') \<longrightarrow> \<not> fake_listens n' tag)"
    by (auto simp: fake_adapter_def fake_RemoveInbound_def Let_def applied_def honest_def unavailable_def
        split: if_splits option.splits)
next
  fix n n' :: fake and a r4
  assume n: "fake_sane n" and run: "ap_AddUser fake_adapter a n = (r4, n')"
  let ?tag = "au_InboundTag a"
  obtain failure rest where tf: "take_failure (fk_AddFailures n) = (failure, rest)" by fastforce
  then have h: "list_all honest rest" "\<forall>x. failure = Some x \<longrightarrow> honest x"
    using n by (cases "fk_AddFailures n"; auto simp: fake_sane_def)+
  have f: "fake_sane (n\<lparr>fk_AddFailures := rest\<rparr>)" using n h(1) by (simp add: fake_sane_def fake_listens_def)
  have put: "fake_sane (n\<lparr>fk_AddFailures := rest, fk_Users := map_put ?tag us (fk_Users n)\<rparr>)" if "fake_listens n ?tag" for us
    using that f unfolding fake_sane_def fake_listens_def by (auto dest!: map_put_entry)
  show "fake_sane n' \<and> (r4 = Inr () \<or>
      (\<exists>e. r4 = Inl e \<and> fst (describe e) = ''user_already_exists'') \<longrightarrow> fake_listens n' ?tag)"
  proof (cases "fk_Available n \<and> guardPanelInbound ''add_user'' ?tag = Inr () \<and> fake_listens n ?tag")
    case True
    with run f put tf h(2) show ?thesis
      by (auto simp: fake_adapter_def fake_AddUser_def Let_def fake_listens_def split: if_splits option.splits)
  next
    case False
    with run n show ?thesis
      by (auto simp: fake_adapter_def fake_AddUser_def fake_listens_def unavailable_def guardPanelInbound_def
          split: if_splits sum.splits)
  qed
next
  fix n n' :: fake and m r5
  assume n: "fake_sane n" and run: "ap_RemoveUser fake_adapter m n = (r5, n')"
  let ?tag = "rm_InboundTag m"
  obtain failure rest where tf: "take_failure (fk_RemoveUserFailures n) = (failure, rest)" by fastforce
  have f: "fake_sane (n\<lparr>fk_RemoveUserFailures := rest\<rparr>)" using n by (simp add: fake_sane_def fake_listens_def)
  have put: "fake_sane (n\<lparr>fk_RemoveUserFailures := rest, fk_Users := map_put ?tag
      (map_delete (rm_StatisticsID m) (users_on n ?tag)) (fk_Users n)\<rparr>)"
  proof (cases "users_on n ?tag")
    case Nil
    then show ?thesis using n by (auto simp: fake_sane_def fake_listens_def map_delete_def dest!: map_put_entry)
  next
    case (Cons u us)
    then have "fake_listens n ?tag" using users_on_listens [OF n] by auto
    then show ?thesis using n by (auto simp: fake_sane_def fake_listens_def dest!: map_put_entry)
  qed
  have same: "fake_listens n' = fake_listens n \<and> n' \<in> {n, n\<lparr>fk_RemoveUserFailures := rest\<rparr>,
      n\<lparr>fk_RemoveUserFailures := rest, fk_Users := map_put ?tag (map_delete (rm_StatisticsID m) (users_on n ?tag)) (fk_Users n)\<rparr>}"
    using run tf by (auto simp: fake_adapter_def fake_RemoveUser_def Let_def fake_listens_def users_on_def fun_eq_iff
        split: if_splits option.splits sum.splits)
  then show "fake_sane n' \<and> fake_listens n' = fake_listens n" using n f put by auto
qed

section \<open>Assertions on the world\<close>

definition triple :: "('n world \<Rightarrow> bool) \<Rightarrow> ('n, 'a) act \<Rightarrow> ('a \<Rightarrow> 'n world \<Rightarrow> bool) \<Rightarrow> bool" where
  "triple A m B \<longleftrightarrow> (\<forall>w. A w \<longrightarrow> (case m w of (x, w') \<Rightarrow> B x w'))"

lemma triple_bind: "triple A m B \<Longrightarrow> (\<And>x. triple (B x) (k x) C) \<Longrightarrow> triple A (act_bind m k) C"
  by (fastforce simp: triple_def act_bind_def split: prod.splits)

lemma triple_ret: "(\<And>w. A w \<Longrightarrow> B x w) \<Longrightarrow> triple A (act_ret x) B"
  by (simp add: triple_def act_ret_def)

lemma triple_try:
  "triple A m B \<Longrightarrow> (\<And>x. triple (B (Inr x)) (k x) C) \<Longrightarrow> (\<And>e w. B (Inl e) w \<Longrightarrow> C (Inl e) w) \<Longrightarrow>
   triple A (act_try m k) C"
  unfolding act_try_def by (erule triple_bind) (auto split: sum.split intro: triple_ret)

lemma triple_weaken: "triple A m B \<Longrightarrow> (\<And>w. A' w \<Longrightarrow> A w) \<Longrightarrow> (\<And>x w. B x w \<Longrightarrow> B' x w) \<Longrightarrow> triple A' m B'"
  by (fastforce simp: triple_def split: prod.splits)

text \<open>The operation is confirmed; the other goroutines do not confirm it.\<close>

definition confirmed :: "ID \<Rightarrow> db \<Rightarrow> bool" where
  "confirmed i d \<longleftrightarrow> (\<exists>r \<in> set (db_ops d). op_ID r = i \<and> op_State r = SyncSucceeded)"

definition aloof :: "'e surroundings_scheme \<Rightarrow> ID \<Rightarrow> bool" where
  "aloof s i \<longleftrightarrow> (\<forall>t d. confirmed i (en_interferes s t d) \<longrightarrow> confirmed i d)"

definition silent :: "ID \<Rightarrow> (db, 'a) tx \<Rightarrow> bool" where
  "silent i m \<longleftrightarrow> (\<forall>d y d'. m d = Inr (y, d') \<longrightarrow> confirmed i d' \<longrightarrow> confirmed i d)"

lemma silent_same: "(\<And>d y d'. m d = Inr (y, d') \<Longrightarrow> db_ops d' = db_ops d) \<Longrightarrow> silent i m"
  unfolding silent_def confirmed_def by metis

lemma silent_update:
  assumes "\<And>r. op_ID (f r) = op_ID r" "\<And>r. op_State (f r) = SyncSucceeded \<Longrightarrow> op_State r = SyncSucceeded"
  shows "confirmed i (update_ops p f d) \<Longrightarrow> confirmed i d"
  using assms by (fastforce simp: confirmed_def update_ops_def in_sql_update)

lemma silent_writes:
  "silent i (AppendAudit ev)" "silent i (MarkInstanceHealthy epoch now)" "silent i (MarkInstanceUnreachable code summary now)"
  "silent i (SetTemplateCompatibility tid state summary now)"
  by (rule silent_same; auto simp: AppendAudit_def insert_audit_def MarkInstanceHealthy_def MarkInstanceUnreachable_def
      SetTemplateCompatibility_def update_instance_def set_instance_def tx_simps split: if_splits option.splits)+

lemma confirmed_allocs [simp]: "confirmed i (db_allocs_update f d) = confirmed i d"
  by (simp add: confirmed_def)

lemma silent_queue:
  "silent i (RenewSyncLease j owner now lease)"
  "silent i (RescheduleSync j owner attempts nxt code summary clock)"
  "silent i (FailSync j owner code summary now clock)"
  unfolding silent_def RenewSyncLease_def RescheduleSync_def FailSync_def finishLeased_def
  by (auto simp: tx_simps update_alloc_def supersede_op_def split: if_splits prod.splits
      dest!: silent_update [rotated 2])

text \<open>Actions that do not call the node.\<close>

definition off_node :: "('n, 'a) act \<Rightarrow> bool" where
  "off_node m \<longleftrightarrow> (\<forall>w. wd_node (snd (m w)) = wd_node w)"

lemma off_node_rules:
  "off_node (act_ret x)" "off_node (act_now s)" "off_node (act_newID s)" "off_node (act_store s m)"
  "off_node p \<Longrightarrow> (\<And>x. off_node (k x)) \<Longrightarrow> off_node (act_bind p k)"
  "off_node q \<Longrightarrow> (\<And>x. off_node (j x)) \<Longrightarrow> off_node (act_try q j)"
  "(b \<Longrightarrow> off_node u) \<Longrightarrow> (\<not> b \<Longrightarrow> off_node v) \<Longrightarrow> off_node (if b then u else v)"
  "off_node (\<lambda>w. ((), w\<lparr>wd_failures := 0\<rparr>))"
  by (auto simp: off_node_def act_ret_def act_now_def act_newID_def act_store_def act_bind_def act_try_def
      split: prod.splits sum.splits) (metis snd_conv)+

lemma confirm_off_node: "off_node (confirm s work present version)"
  unfolding confirm_def recordSuccess_def Synchronizer.audit_def by (intro off_node_rules)

context node_contract
begin

definition node_known :: "ID \<Rightarrow> ('n \<Rightarrow> bool) \<Rightarrow> 'n world \<Rightarrow> bool" where
  "node_known i N w \<longleftrightarrow> \<not> confirmed i (wd_db w) \<and> sane (wd_node w) \<and> N (wd_node w)"

text \<open>What is known of the node stays, or the action ends with the operation confirmed rightly, if at all.\<close>

definition node_keeps :: "ID \<Rightarrow> ('n \<Rightarrow> bool) \<Rightarrow> ('n, 'a) act \<Rightarrow> bool" where
  "node_keeps i N m \<longleftrightarrow> triple (node_known i N) m (\<lambda>_. node_known i N)"

definition node_ends :: "SyncWork \<Rightarrow> ('n \<Rightarrow> bool) \<Rightarrow> ('n, 'a) act \<Rightarrow> bool" where
  "node_ends work N m \<longleftrightarrow> triple (node_known (op_ID (sw_Operation work)) N) m (\<lambda>_ w.
     confirmed (op_ID (sw_Operation work)) (wd_db w) \<longrightarrow>
       (listens (wd_node w) (work_tag work) \<longleftrightarrow> op_DesiredPresence (sw_Operation work)))"

lemma keeps_rules:
  "node_keeps i N (act_ret x)" "node_keeps i N (act_now s)" "node_keeps i N (act_newID s)"
  "node_keeps i N p \<Longrightarrow> (\<And>x. node_keeps i N (k x)) \<Longrightarrow> node_keeps i N (act_bind p k)"
  "node_keeps i N q \<Longrightarrow> (\<And>x. node_keeps i N (j x)) \<Longrightarrow> node_keeps i N (act_try q j)"
  "(b \<Longrightarrow> node_keeps i N u) \<Longrightarrow> (\<not> b \<Longrightarrow> node_keeps i N v) \<Longrightarrow> node_keeps i N (if b then u else v)"
  "(\<And>y z. pr = (y, z) \<Longrightarrow> node_keeps i N (g y z)) \<Longrightarrow> node_keeps i N (case pr of (y, z) \<Rightarrow> g y z)"
  "node_keeps i N (\<lambda>w. (wd_failures w + 1, w\<lparr>wd_failures := wd_failures w + 1\<rparr>))"
  "aloof s i \<Longrightarrow> silent i m \<Longrightarrow> node_keeps i N (act_store s (WithWriteTx m))"
  unfolding node_keeps_def
  by (auto intro: triple_ret triple_bind triple_try)
    (auto simp: triple_def node_known_def act_now_def act_newID_def act_store_def WithWriteTx_def aloof_def silent_def
      split: prod.splits sum.splits, blast+)

lemma keeps_audit: "aloof s i \<Longrightarrow> node_keeps i N (Synchronizer.audit s work action result summary now)"
  unfolding Synchronizer.audit_def by (intro keeps_rules silent_writes)

lemma keeps_fail: "aloof s i \<Longrightarrow> node_keeps i N (Synchronizer.fail s work kind summary)"
  unfolding fail_def by (intro keeps_rules silent_queue keeps_audit)

lemma keeps_reschedule: "aloof s i \<Longrightarrow> node_keeps i N (reschedule s work now kind summary)"
  unfolding reschedule_def Let_def by (intro keeps_rules silent_queue)

lemma keeps_later: "aloof s i \<Longrightarrow> node_keeps i N (retryLater s work kind summary)"
  unfolding retryLater_def by (intro keeps_rules keeps_reschedule)

lemma keeps_pending: "aloof s i \<Longrightarrow> node_keeps i N (rotationPending s work e)"
  unfolding rotationPending_def by (intro keeps_later)

lemma keeps_retry: "aloof s i \<Longrightarrow> node_keeps i N (retry s work cause)"
  unfolding retry_def trackDrift_def by (intro keeps_rules silent_writes keeps_reschedule keeps_fail)

lemma ends_keeps: "node_keeps (op_ID (sw_Operation work)) N m \<Longrightarrow> node_ends work N m"
  unfolding node_keeps_def node_ends_def by (erule triple_weaken) (auto simp: node_known_def)

lemma ends_bind: "node_keeps (op_ID (sw_Operation work)) N p \<Longrightarrow> (\<And>x. node_ends work N (k x)) \<Longrightarrow> node_ends work N (act_bind p k)"
  unfolding node_keeps_def node_ends_def by (rule triple_bind)

lemma ends_fenced:
  assumes "aloof s (op_ID (sw_Operation work))" "node_ends work N rest"
  shows "node_ends work N (fenced s work rest)"
proof -
  have "node_keeps (op_ID (sw_Operation work)) N (fence s work)"
    unfolding fence_def by (intro keeps_rules silent_queue assms(1))
  moreover have "node_ends work N (if held then rest else act_ret (Inr ()))" for held
    using assms(2) ends_keeps [OF keeps_rules(1)] by auto
  ultimately show ?thesis unfolding fenced_def node_ends_def node_keeps_def
    by (rule triple_try) (auto simp: node_known_def)
qed

lemma ends_rpc:
  assumes "\<And>n r n'. sane n \<Longrightarrow> N n \<Longrightarrow> f n = (r, n') \<Longrightarrow> sane n' \<and> N' r n'" "\<And>r. node_ends work (N' r) (k r)"
  shows "node_ends work N (act_bind (act_rpc f) k)"
  unfolding node_ends_def
proof (rule triple_bind)
  show "triple (node_known (op_ID (sw_Operation work)) N) (act_rpc f) (\<lambda>r. node_known (op_ID (sw_Operation work)) (N' r))"
    using assms(1) by (fastforce simp: triple_def node_known_def act_rpc_def split: prod.splits)
qed (use assms(2) in \<open>simp add: node_ends_def\<close>)

lemma ends_confirm:
  assumes "\<And>n. sane n \<Longrightarrow> N n \<Longrightarrow> listens n (work_tag work) = present" "op_DesiredPresence (sw_Operation work) = present"
  shows "node_ends work N (confirm s work present version)"
  using confirm_off_node [of s work present version] assms
  by (auto simp: node_ends_def triple_def node_known_def off_node_def split: prod.splits) (metis snd_conv)+

lemma ends_split:
  "(b \<Longrightarrow> node_ends work N u) \<Longrightarrow> (\<not> b \<Longrightarrow> node_ends work N v) \<Longrightarrow> node_ends work N (if b then u else v)"
  "(\<And>y z. pr = (y, z) \<Longrightarrow> node_ends work N (g y z)) \<Longrightarrow> node_ends work N (case pr of (y, z) \<Rightarrow> g y z)"
  "(x = None \<Longrightarrow> node_ends work N o1) \<Longrightarrow> (\<And>y. x = Some y \<Longrightarrow> node_ends work N (o2 y)) \<Longrightarrow>
     node_ends work N (case x of None \<Rightarrow> o1 | Some y \<Rightarrow> o2 y)"
  by (auto split: option.split prod.split)

lemma ends_known: "node_ends work N m \<Longrightarrow> (\<And>n. sane n \<Longrightarrow> N' n \<Longrightarrow> N n) \<Longrightarrow> node_ends work N' m"
  unfolding node_ends_def by (erule triple_weaken) (auto simp: node_known_def)

end

context node_contract
begin

lemma ends_call:
  "triple (node_known (op_ID (sw_Operation work)) N) m (\<lambda>r. node_known (op_ID (sw_Operation work)) (N' r)) \<Longrightarrow>
   (\<And>r. node_ends work (N' r) (k r)) \<Longrightarrow> node_ends work N (act_bind m k)"
  unfolding node_ends_def by (rule triple_bind)

lemmas ends_rest = keeps_fail [THEN ends_keeps] keeps_later [THEN ends_keeps] keeps_retry [THEN ends_keeps]
  keeps_pending [THEN ends_keeps]

lemma ends_sum:
  "(\<And>e. node_ends work (N (Inl e)) (g e)) \<Longrightarrow> (\<And>y. node_ends work (N (Inr y)) (h y)) \<Longrightarrow>
   node_ends work (N r) (case r of Inl e \<Rightarrow> g e | Inr y \<Rightarrow> h y)"
  by (cases r) auto

lemma present_knows:
  assumes "sy_adapter s = ad"
  shows "triple (node_known i N) (inboundPresent s tag) (\<lambda>r. node_known i (\<lambda>n. \<forall>b. r = Inr b \<longrightarrow> listens n tag = b))"
  unfolding inboundPresent_def
proof (rule triple_try)
  show "triple (node_known i N) (act_rpc (ap_ListInbounds (sy_adapter s)))
      (\<lambda>r. node_known i (\<lambda>n. \<forall>rs. r = Inr rs \<longrightarrow> listens n tag = list_ex (\<lambda>x. re_InboundTag x = tag) rs))"
    unfolding assms using list_inbounds by (fastforce simp: triple_def node_known_def act_rpc_def split: prod.splits)
qed (auto intro!: triple_ret simp: node_known_def)

lemma carries_knows:
  assumes "sy_adapter s = ad"
  shows "triple (node_known i N) (carriesClient s inbound sid) (\<lambda>r. node_known i (\<lambda>n. r = Inr True \<longrightarrow> listens n (ri_InboundTag inbound)))"
  unfolding carriesClient_def
proof (rule triple_try)
  show "triple (node_known i N) (act_rpc (ap_ListUsers (sy_adapter s) inbound))
      (\<lambda>r. node_known i (\<lambda>n. \<forall>us. r = Inr us \<longrightarrow> list_ex ru_Present us \<longrightarrow> listens n (ri_InboundTag inbound)))"
    unfolding assms using list_users by (fastforce simp: triple_def node_known_def act_rpc_def split: prod.splits)
qed (fastforce intro!: triple_ret simp: node_known_def list_ex_iff)+

lemma runtime_tag [simp]: "ri_InboundTag (runtime_inbound work) = work_tag work"
  by (simp add: runtime_inbound_def work_tag_def)

lemma create_failed_ends:
  assumes "sy_adapter s = ad" "aloof s (op_ID (sw_Operation work))" "op_DesiredPresence (sw_Operation work)"
  shows "node_ends work N (create_failed s work e)"
proof -
  have removed: "node_ends work N (act_bind (remove_inbound s work) (\<lambda>_. retryLater s work kind summary))" for N kind summary
    unfolding remove_inbound_def assms(1)
    by (rule ends_rpc [where N' = "\<lambda>_ _. True"]) (use remove_inbound assms(2) in \<open>auto intro: ends_rest\<close>)
  show ?thesis
    unfolding create_failed_def confirm_present_def
    by (intro ends_split ends_fenced assms(2) ends_call [OF present_knows [OF assms(1)]]
        ends_call [OF carries_knows [OF assms(1)]] removed)
      (auto intro!: ends_confirm ends_rest assms)
qed

lemma create_ends:
  assumes "sy_adapter s = ad" "aloof s (op_ID (sw_Operation work))" "op_DesiredPresence (sw_Operation work)"
  shows "node_ends work N (createDedicatedInbound s work)"
proof -
  have "node_ends work N (act_bind (act_rpc (ap_CreateInbound (sy_adapter s) (create_command work serverKey userKey)))
      (\<lambda>r. case r of Inl e \<Rightarrow> create_failed s work e | Inr _ \<Rightarrow> confirm_present s work))" for serverKey userKey
  proof (rule ends_rpc [where N' = "\<lambda>r n. r = Inr () \<longrightarrow> listens n (work_tag work)"])
    show "sane n' \<and> (r = Inr () \<longrightarrow> listens n' (work_tag work))"
      if "sane n" "ap_CreateInbound (sy_adapter s) (create_command work serverKey userKey) n = (r, n')" for n r n'
      using create_inbound [of n "create_command work serverKey userKey" r n'] that
      by (simp add: assms(1) create_command_def work_tag_def)
  qed (auto intro!: ends_sum create_failed_ends ends_confirm assms simp: confirm_present_def)
  then show ?thesis
    unfolding createDedicatedInbound_def by (intro ends_split ends_fenced ends_rest assms)
qed

lemma cleanup_ends:
  assumes "sy_adapter s = ad" "aloof s (op_ID (sw_Operation work))" "op_DesiredPresence (sw_Operation work)"
  shows "node_ends work (\<lambda>n. listens n (work_tag work)) (rotate_cleanup s work)"
  unfolding rotate_cleanup_def
proof (intro ends_fenced assms(2) ends_rpc [where N' = "\<lambda>_ n. listens n (work_tag work)"])
  fix n r n'
  assume "sane n" "listens n (work_tag work)" "ap_RemoveUser (sy_adapter s)
      (remove_command work (RotationSafetyID (xi_StatisticsID (sw_Identity work)))) n = (r, n')"
  then show "sane n' \<and> listens n' (work_tag work)"
    using remove_user [of n "remove_command work (RotationSafetyID (xi_StatisticsID (sw_Identity work)))" r n']
    by (simp add: assms(1))
qed (intro ends_sum [where N = "\<lambda>_ n. listens n (work_tag work)"] ends_split;
    auto intro!: ends_confirm ends_rest assms simp: confirm_present_def)

lemma rotate_add_ends:
  assumes "sy_adapter s = ad" "aloof s (op_ID (sw_Operation work))" "op_DesiredPresence (sw_Operation work)"
  shows "node_ends work N (rotate_add s work)"
proof -
  let ?node_known = "\<lambda>r n. (r = Inr () \<or> (\<exists>e. r = Inl e \<and> fst (describe e) = ''user_already_exists'')) \<longrightarrow> listens n (work_tag work)"
  have cleanup: "node_ends work N' (rotate_cleanup s work)" if "\<And>n. N' n \<Longrightarrow> listens n (work_tag work)" for N'
    by (rule ends_known [OF cleanup_ends [OF assms] that])
  have called: "sane n' \<and> ?node_known r n'" if "sane n" "ap_AddUser (sy_adapter s) (add_command work sid key) n = (r, n')" for n r n' sid key
    using add_user [of n "add_command work sid key" r n'] that by (simp add: assms(1) add_command_def)
  show ?thesis
    unfolding rotate_add_def
    by (intro ends_split ends_fenced assms(2) ends_rpc [where N' = ?node_known] called ends_sum
        ends_call [OF carries_knows [OF assms(1)]])
      (auto intro!: cleanup ends_rest create_ends assms)
qed

text \<open>A call after which nothing is known.\<close>

lemma ends_blind:
  assumes "\<And>n r n'. sane n \<Longrightarrow> f n = (r, n') \<Longrightarrow> sane n'" "\<And>r. node_ends work (\<lambda>_. True) (k r)"
  shows "node_ends work N (act_bind (act_rpc f) k)"
  by (rule ends_rpc [where N' = "\<lambda>_ _. True"]) (use assms in auto)

lemma sane_calls:
  "sane n \<Longrightarrow> ap_RemoveUser ad m n = (r1, n') \<Longrightarrow> sane n'" "sane n \<Longrightarrow> ap_AddUser ad a n = (r2, n') \<Longrightarrow> sane n'"
  "sane n \<Longrightarrow> ap_ListUsers ad inbound n = (r3, n') \<Longrightarrow> sane n'" "sane n \<Longrightarrow> ap_RemoveInbound ad tag n = (r4, n') \<Longrightarrow> sane n'"
  using remove_user add_user list_users remove_inbound by blast+

lemma ends_cases:
  "(\<And>e. r = Inl e \<Longrightarrow> node_ends work N (g e)) \<Longrightarrow> (\<And>y. r = Inr y \<Longrightarrow> node_ends work N (h y)) \<Longrightarrow>
   node_ends work N (case r of Inl e \<Rightarrow> g e | Inr y \<Rightarrow> h y)"
  by (cases r) auto

lemma rotate_remove_ends:
  assumes "sy_adapter s = ad" "aloof s (op_ID (sw_Operation work))" "op_DesiredPresence (sw_Operation work)"
  shows "node_ends work N (rotate_remove s work present)"
  unfolding rotate_remove_def assms(1)
  by (intro ends_split ends_cases ends_fenced ends_blind ends_rest rotate_add_ends create_ends assms; erule sane_calls, assumption)

lemma rotate_safety_ends:
  assumes "sy_adapter s = ad" "aloof s (op_ID (sw_Operation work))" "op_DesiredPresence (sw_Operation work)"
  shows "node_ends work N (rotate_safety s work present safetyPresent)"
  unfolding rotate_safety_def assms(1)
  by (intro ends_split ends_cases ends_fenced ends_blind ends_call [OF carries_knows [OF assms(1)]]
      ends_rest rotate_remove_ends create_ends assms; erule sane_calls, assumption)

lemma rotate_ends:
  assumes "sy_adapter s = ad" "aloof s (op_ID (sw_Operation work))" "op_DesiredPresence (sw_Operation work)"
  shows "node_ends work N (rotateWithinInbound s work)"
  unfolding rotateWithinInbound_def assms(1)
  by (intro ends_split ends_cases ends_fenced ends_blind ends_rest rotate_safety_ends create_ends assms; erule sane_calls, assumption)

lemma port_change_ends:
  assumes "sy_adapter s = ad" "aloof s (op_ID (sw_Operation work))" "op_DesiredPresence (sw_Operation work)"
  shows "node_ends work N (handle_port_change s work)"
  unfolding handle_port_change_def remove_inbound_def assms(1)
  by (intro ends_split ends_cases ends_fenced ends_blind ends_rest create_ends assms; erule sane_calls, assumption)

lemma absent_ends:
  assumes "sy_adapter s = ad" "aloof s (op_ID (sw_Operation work))" "\<not> op_DesiredPresence (sw_Operation work)"
  shows "node_ends work N (handle_absent s work)"
proof -
  let ?node_known = "\<lambda>r n. (r = Inr () \<or> (\<exists>e. r = Inl e \<and> fst (describe e) = ''inbound_not_found'')) \<longrightarrow> \<not> listens n (work_tag work)"
  have called: "sane n' \<and> ?node_known r n'" if "sane n" "ap_RemoveInbound ad (work_tag work) n = (r, n')" for n r n'
    using remove_inbound [OF that] by blast
  show ?thesis
    unfolding handle_absent_def remove_inbound_def assms(1)
    by (intro ends_split ends_fenced assms(2) ends_rpc [where N' = ?node_known] called
        ends_sum ends_call [OF present_knows [OF assms(1)]])
      (auto intro!: ends_confirm ends_rest assms simp: assms(3))
qed

lemma handle_ends:
  assumes "sy_adapter s = ad" "aloof s (op_ID (sw_Operation work))"
  shows "node_ends work N (handle s work)"
  unfolding handle_def
  by (intro ends_bind [OF keeps_rules(2)] ends_split absent_ends rotate_ends port_change_ends create_ends assms; simp)

end

section \<open>Properties\<close>


text \<open>A new user's intent, leased by the worker, on an empty node.\<close>

definition demo_syncer :: "fake syncer" where
  "demo_syncer = \<lparr>en_now = (\<lambda>n. 0), en_newID = (\<lambda>n. replicate n CHR ''n''), en_interferes = (\<lambda>n d. d),
     sy_adapter = fake_adapter, sy_owner = ''w1'', sy_maxRetry = 30 * Second, sy_lease = 60 * Second, sy_random = None,
     sy_decrypt = (\<lambda>c n a. Some ''key''), sy_safetyKey = (\<lambda>m. Some ''safe'')\<rparr>"

definition demo_leased_op :: SynchronizationOperation where
  "demo_leased_op = (demo_op ''1'' 1 True SyncCreate)\<lparr>op_State := SyncLeased, op_LeaseOwner := Some ''w1'',
     op_LeaseExpiresAt := Some (60 * Second)\<rparr>"

definition demo_intent :: db where
  "demo_intent = empty_db\<lparr>db_instance := db_instance demo_panel, db_templates := [demo_template],
     db_identities := [uc_Identity (demo_create ''1'' 2000)], db_users := [uc_User (demo_create ''1'' 2000)],
     db_allocs := [demo_alloc ''1''], db_inbounds := [demo_inbound ''1'' 2000], db_creds := [demo_cred ''1'' 1],
     db_ops := [demo_leased_op]\<rparr>"

definition demo_work :: SyncWork where
  "demo_work = \<lparr>sw_Operation = demo_leased_op, sw_User = uc_User (demo_create ''1'' 2000), sw_Allocation = demo_alloc ''1'',
     sw_Identity = uc_Identity (demo_create ''1'' 2000), sw_Template = demo_template, sw_Inbound = demo_inbound ''1'' 2000,
     sw_Credential = demo_cred ''1'' 1\<rparr>"

definition demo_node_empty :: fake where
  "demo_node_empty = \<lparr>fk_Inbounds = [], fk_Users = [], fk_CreateFailures = [], fk_RemoveFailures = [], fk_AddFailures = [],
     fk_RemoveUserFailures = [], fk_Available = True, fk_ExternalPorts = []\<rparr>"

definition demo_before :: "fake world" where
  "demo_before = \<lparr>wd_db = demo_intent, wd_node = demo_node_empty, wd_tick = 0, wd_failures = 0, wd_degraded = False,
     wd_wakes = 0, wd_revalidate = []\<rparr>"

definition demo_renewed :: db where
  "demo_renewed = tx_state (RenewSyncLease ''O11'' ''w1'' 0 (60 * Second)) demo_intent"

lemma demo_renewed_run: "tx_value (RenewSyncLease ''O11'' ''w1'' 0 (60 * Second)) demo_intent = Some True"
  by code_simp

definition demo_done :: db where "demo_done = tx_state (ConfirmSync ''O11'' ''w1'' 1 1 True 0) demo_renewed"

lemma demo_done_run: "tx_value (ConfirmSync ''O11'' ''w1'' 1 1 True 0) demo_renewed = Some True"
  by code_simp

lemma demo_done_confirmed: "confirmed ''O11'' demo_done"
  by code_simp

lemma demo_unconfirmed: "\<not> confirmed ''O11'' demo_intent"
  by (simp add: confirmed_def demo_intent_def demo_leased_op_def)

text \<open>What follows a confirmation does not touch the queue.\<close>

definition off_queue :: "('n, 'a) act \<Rightarrow> bool" where
  "off_queue m \<longleftrightarrow> (\<forall>w. db_ops (wd_db (snd (m w))) = db_ops (wd_db w))"

lemma off_queue_rules:
  "off_queue (act_ret x)" "off_queue (act_now s)" "off_queue (act_newID s)"
  "off_queue p \<Longrightarrow> (\<And>x. off_queue (k x)) \<Longrightarrow> off_queue (act_bind p k)"
  "off_queue q \<Longrightarrow> (\<And>x. off_queue (j x)) \<Longrightarrow> off_queue (act_try q j)"
  "(b \<Longrightarrow> off_queue u) \<Longrightarrow> (\<not> b \<Longrightarrow> off_queue v) \<Longrightarrow> off_queue (if b then u else v)"
  "off_queue (\<lambda>w. ((), w\<lparr>wd_failures := 0\<rparr>))"
  by (auto simp: off_queue_def act_ret_def act_now_def act_newID_def act_bind_def act_try_def split: prod.splits sum.splits)
    (metis snd_conv)+

lemma demo_audit_off: "off_queue (Synchronizer.audit demo_syncer work action result summary now)"
  unfolding Synchronizer.audit_def
  by (intro off_queue_rules) (auto simp: off_queue_def act_store_def demo_syncer_def WithWriteTx_def AppendAudit_def
    insert_audit_def tx_simps split: prod.splits sum.splits)

lemma demo_health_off: "off_queue (recordSuccess demo_syncer now)"
  unfolding recordSuccess_def
  by (intro off_queue_rules) (auto simp: off_queue_def act_store_def demo_syncer_def WithWriteTx_def MarkInstanceHealthy_def
    update_instance_def set_instance_def tx_simps split: prod.splits sum.splits)

lemma demo_handled: "confirmed ''O11'' (wd_db (snd (handle demo_syncer demo_work demo_before)))"
proof -
  let ?rest = "act_bind (recordSuccess demo_syncer 0) (\<lambda>_. act_try (Synchronizer.audit demo_syncer demo_work ''sync_succeeded''
      AuditSucceeded ''Xray projection confirmed'' 0) (\<lambda>_. act_try (Synchronizer.audit demo_syncer demo_work ''inbound_created''
      AuditSucceeded (inbound_summary ''dedicated inbound created and listening'' demo_work) 0) (\<lambda>_. act_ret (Inr ()))))"

  have renewed: "RenewSyncLease ''O11'' ''w1'' 0 (60 * Second) demo_intent = Inr (True, demo_renewed)"
    using tx_value_run [OF demo_renewed_run] by (simp add: demo_renewed_def)
  have confirmed: "ConfirmSync ''O11'' ''w1'' 1 1 True 0 demo_renewed = Inr (True, demo_done)"
    using tx_value_run [OF demo_done_run] by (simp add: demo_done_def)
  have "fst (fake_CreateInbound (create_command demo_work ''key'' ''key'') demo_node_empty) = Inr ()"
    by (simp add: fake_CreateInbound_def demo_node_empty_def create_command_def Let_def)
  then obtain node1 where made: "fake_CreateInbound (create_command demo_work ''key'' ''key'') demo_node_empty = (Inr (), node1)"
    by (metis prod.collapse)
  let ?w = "demo_before\<lparr>wd_db := demo_done, wd_node := node1, wd_tick := 6\<rparr>"
  have syncer: "en_now demo_syncer n = 0" "en_interferes demo_syncer n d = d" "sy_owner demo_syncer = ''w1''"
    "sy_lease demo_syncer = 60 * Second" "ap_CreateInbound (sy_adapter demo_syncer) = fake_CreateInbound" for n d
    by (simp_all add: demo_syncer_def fake_adapter_def)
  have fields: "op_ID (sw_Operation demo_work) = ''O11''" "op_DesiredPresence (sw_Operation demo_work)"
    "op_Reason (sw_Operation demo_work) = SyncCreate" "op_DesiredRevision (sw_Operation demo_work) = 1"
    "cr_Version (sw_Credential demo_work) = 1" "server_key demo_syncer demo_work = Some ''key''" "user_key demo_syncer demo_work = Some ''key''"
    by (simp_all add: demo_work_def demo_leased_op_def demo_op_def demo_cred_def NewSynchronizationOperation_def int_digits_def
        nat_digits.simps server_key_def user_key_def demo_syncer_def)
  have "handle demo_syncer demo_work demo_before = ?rest ?w"
    using renewed confirmed made fields
    by (simp add: handle_def createDedicatedInbound_def fenced_def fence_def confirm_present_def confirm_def
        act_bind_def act_try_def act_now_def act_store_def act_rpc_def act_ret_def WithWriteTx_def demo_before_def syncer
        eval_nat_numeral)
  moreover have "off_queue ?rest" by (intro off_queue_rules demo_audit_off demo_health_off)
  then have "db_ops (wd_db (snd (?rest ?w))) = db_ops demo_done" by (simp add: off_queue_def)
  ultimately show ?thesis using demo_done_confirmed by (simp add: confirmed_def)
qed


end
