(* ===== verification/Command_Errors.thy ===== *)
theory Command_Errors
  imports Template_Service Panel_Services
begin

text \<open>
  A command that fails changes nothing: every service of the pages writes in one transaction, at its end.
\<close>

section \<open>Reading and failing\<close>

text \<open>What the other goroutines made of a database, at some of the moments they had.\<close>

definition only_others :: "'e surroundings_scheme \<Rightarrow> 'n world \<Rightarrow> 'n world \<Rightarrow> bool" where
  "only_others s w w' \<longleftrightarrow> (\<exists>ts. wd_db w' = fold (en_interferes s) ts (wd_db w)) \<and> wd_node w' = wd_node w \<and>
     wd_wakes w' = wd_wakes w \<and> wd_revalidate w' = wd_revalidate w"

definition reads :: "'e surroundings_scheme \<Rightarrow> ('n, 'a) act \<Rightarrow> bool" where
  "reads s m \<longleftrightarrow> (\<forall>w. only_others s w (snd (m w)))"

definition atomic :: "'e surroundings_scheme \<Rightarrow> ('n, err + 'a) act \<Rightarrow> bool" where
  "atomic s m \<longleftrightarrow> (\<forall>w. isl (fst (m w)) \<longrightarrow> only_others s w (snd (m w)))"

definition never_fails :: "('n, err + 'a) act \<Rightarrow> bool" where
  "never_fails m \<longleftrightarrow> (\<forall>w. \<not> isl (fst (m w)))"

lemma only_others_refl: "only_others s w w"
  unfolding only_others_def by (simp add: exI [of _ "[]"])

lemma only_others_trans: "only_others s w v \<Longrightarrow> only_others s v u \<Longrightarrow> only_others s w u"
  unfolding only_others_def by (metis comp_apply fold_append)

lemma only_others_tick: "only_others s w (v\<lparr>wd_tick := n\<rparr>) = only_others s w v"
  by (simp add: only_others_def)

lemma only_others_now: "only_others s w (w\<lparr>wd_db := en_interferes s t (wd_db w), wd_tick := n\<rparr>)"
  unfolding only_others_def by (simp add: exI [of _ "[t]"])

lemma only_others_query: "only_others s w (w\<lparr>wd_db := en_interferes s t (wd_db w)\<rparr>)"
  unfolding only_others_def by (simp add: exI [of _ "[t]"])

lemma reads_bind:
  assumes "reads s p" "\<And>x. reads s (k x)"
  shows "reads s (act_bind p k)"
  unfolding reads_def
proof
  fix w
  obtain x v where v: "p w = (x, v)" by fastforce
  have "only_others s w v" "only_others s v (snd (k x v))" using assms v unfolding reads_def by (metis snd_conv)+
  then show "only_others s w (snd (act_bind p k w))" using v by (auto simp: act_bind_def intro: only_others_trans)
qed

lemma reads_rules:
  "reads s (act_ret x)" "reads s (act_now r)" "reads s (act_newID r)" "reads s (act_query s q)"
  by (auto simp: reads_def act_ret_def act_now_def act_newID_def act_query_def only_others_refl only_others_tick only_others_query)

lemma atomic_bind:
  assumes "reads s p" "\<And>x. atomic s (k x)"
  shows "atomic s (act_bind p k)"
  unfolding atomic_def
proof (intro allI impI)
  fix w
  assume fails: "isl (fst (act_bind p k w))"
  obtain x v where v: "p w = (x, v)" by fastforce
  have "only_others s w v" using assms(1) v unfolding reads_def by (metis snd_conv)
  moreover have "only_others s v (snd (k x v))" using assms(2) fails v by (simp add: atomic_def act_bind_def)
  ultimately show "only_others s w (snd (act_bind p k w))" using v by (auto simp: act_bind_def intro: only_others_trans)
qed

lemma atomic_ret: "atomic s (act_ret x)"
  by (simp add: atomic_def act_ret_def only_others_refl)

lemma atomic_try: "reads s q \<Longrightarrow> (\<And>y. atomic s (j y)) \<Longrightarrow> atomic s (act_try q j)"
  unfolding act_try_def by (rule atomic_bind) (auto split: sum.split intro: atomic_ret)

lemma atomic_check: "(\<And>y. atomic s (h y)) \<Longrightarrow> atomic s (act_check r h)"
  by (cases r) (simp_all add: act_check_def atomic_ret)

lemma atomic_guard: "atomic s m \<Longrightarrow> atomic s (act_guard e b m)"
  by (simp add: act_guard_def atomic_ret)

lemma atomic_if: "(b \<Longrightarrow> atomic s m) \<Longrightarrow> (\<not> b \<Longrightarrow> atomic s n) \<Longrightarrow> atomic s (if b then m else n)"
  by simp

lemma atomic_commit:
  assumes "\<And>y. never_fails (k y)"
  shows "atomic s (act_try (act_store s (WithWriteTx m)) k)"
  unfolding atomic_def
proof (intro allI impI)
  fix w
  assume "isl (fst (act_try (act_store s (WithWriteTx m)) k w))"
  then show "only_others s w (snd (act_try (act_store s (WithWriteTx m)) k w))"
    using assms unfolding never_fails_def
    by (cases "m (en_interferes s (wd_tick w) (wd_db w))")
      (auto simp: act_try_def act_bind_def act_store_def WithWriteTx_def act_ret_def only_others_now split: prod.splits)
qed

lemma atomic_last: "atomic s (act_store s (WithWriteTx m))"
  unfolding atomic_def
proof (intro allI impI)
  fix w
  assume "isl (fst (act_store s (WithWriteTx m) w))"
  then show "only_others s w (snd (act_store s (WithWriteTx m) w))"
    by (cases "m (en_interferes s (wd_tick w) (wd_db w))")
      (auto simp: act_store_def WithWriteTx_def only_others_now split: prod.splits)
qed

lemma never_fails_rules:
  "never_fails (act_ret (Inr x))" "(\<And>y. never_fails (k y)) \<Longrightarrow> never_fails (act_bind p k)"
  "(\<And>a b. never_fails (g a b)) \<Longrightarrow> never_fails (case pr of (a, b) \<Rightarrow> g a b)"
  by (auto simp: never_fails_def act_ret_def act_bind_def split: prod.splits)

lemma reads_keys: "reads s (act_userKey r method)" "reads s (act_encrypt r plaintext aad)"
  by (simp_all add: reads_def act_userKey_def act_encrypt_def only_others_tick only_others_refl)

lemma reads_newIDs: "reads s (act_newIDs r n)"
  by (induction n) (simp_all add: reads_rules reads_bind)

lemma reads_try: "reads s q \<Longrightarrow> (\<And>y. reads s (j y)) \<Longrightarrow> reads s (act_try q j)"
  unfolding act_try_def by (rule reads_bind) (auto split: sum.split intro: reads_rules)

lemma reads_check: "(\<And>y. reads s (h y)) \<Longrightarrow> reads s (act_check r h)"
  by (cases r) (simp_all add: act_check_def reads_rules)

lemma atomic_replayed: "atomic s m \<Longrightarrow> atomic s (commandReplayed s request fingerprint m)"
  unfolding commandReplayed_def by (intro atomic_try atomic_if atomic_ret reads_rules)

lemmas command_rules = atomic_commit atomic_last atomic_bind atomic_ret atomic_try atomic_check atomic_guard atomic_if reads_rules reads_bind reads_keys reads_newIDs reads_try reads_check atomic_replayed
  never_fails_rules

section \<open>The commands\<close>

lemma make_user_reads: "reads s (make_user s c t port)"
  unfolding make_user_def by (intro command_rules)

lemma user_commands_atomic:
  "atomic s (UserService_CreateUser s c1)" "atomic s (UserService_UpdateUser s c2)" "atomic s (SetAdminEnabled s c3)"
  "atomic s (ResetTraffic s c4)" "atomic s (ChangePort s c5)" "atomic s (UserService_RotateCredential s c6)"
  "atomic s (DeleteUser s c6)"
proof -
  show update: "atomic s (UserService_UpdateUser s c2)" for c2
    unfolding UserService_UpdateUser_def Let_def by (intro command_rules)
  show "atomic s (UserService_CreateUser s c1)"
    unfolding UserService_CreateUser_def by (intro command_rules make_user_reads)
  show "atomic s (SetAdminEnabled s c3)" unfolding SetAdminEnabled_def by (intro command_rules update)
qed (unfold ResetTraffic_def ChangePort_def UserService_RotateCredential_def DeleteUser_def Let_def, (intro command_rules)+)

lemma panel_commands_atomic:
  "atomic s (SettingsService_Update s c1)" "atomic s (RegisterTemplate s c2)" "atomic s (TemplateService_UpdateTemplate s i c2)"
  "atomic s (Revalidate s c3)"
  unfolding SettingsService_Update_def RegisterTemplate_def TemplateService_UpdateTemplate_def Revalidate_def Let_def
  by (intro command_rules)+

text \<open>A command of the pages that ends with an error.\<close>

inductive command_fails :: "services \<Rightarrow> 'n world \<Rightarrow> err \<Rightarrow> 'n world \<Rightarrow> bool" where
  "UserService_CreateUser s c w = (Inl e, w') \<Longrightarrow> command_fails s w e w'"
| "UserService_UpdateUser s c w = (Inl e, w') \<Longrightarrow> command_fails s w e w'"
| "SetAdminEnabled s c w = (Inl e, w') \<Longrightarrow> command_fails s w e w'"
| "ResetTraffic s c w = (Inl e, w') \<Longrightarrow> command_fails s w e w'"
| "ChangePort s c w = (Inl e, w') \<Longrightarrow> command_fails s w e w'"
| "UserService_RotateCredential s c w = (Inl e, w') \<Longrightarrow> command_fails s w e w'"
| "DeleteUser s c w = (Inl e, w') \<Longrightarrow> command_fails s w e w'"
| "SettingsService_Update s c w = (Inl e, w') \<Longrightarrow> command_fails s w e w'"
| "RegisterTemplate s c w = (Inl e, w') \<Longrightarrow> command_fails s w e w'"
| "TemplateService_UpdateTemplate s i c w = (Inl e, w') \<Longrightarrow> command_fails s w e w'"
| "Revalidate s c w = (Inl e, w') \<Longrightarrow> command_fails s w e w'"

lemma atomicD: "atomic s m \<Longrightarrow> m w = (Inl e, w') \<Longrightarrow> only_others s w w'"
  unfolding atomic_def by (metis fst_conv isl_def snd_conv)

section \<open>Properties\<close>

text \<open>
  C20: a command that fails changes nothing. Whichever command of the pages on users, templates and
  settings returns an error, be it a refused field, a conflict, a missing row or a failed statement in
  the middle of the transaction: the database is what the other goroutines alone made of it, the node
  is not called, and neither the synchronizer nor the validator is woken.
\<close>

theorem failed_commands_change_nothing:
  assumes "command_fails s w e w'"
  shows "(\<exists>ts. wd_db w' = fold (en_interferes s) ts (wd_db w)) \<and> wd_node w' = wd_node w \<and>
    wd_wakes w' = wd_wakes w \<and> wd_revalidate w' = wd_revalidate w"
  using assms by cases (auto dest!: user_commands_atomic [THEN atomicD] panel_commands_atomic [THEN atomicD] simp: only_others_def)

text \<open>Deleting a user that does not exist.\<close>

definition demo_services :: services where
  "demo_services = \<lparr>en_now = (\<lambda>n. int n * Second), en_newID = (\<lambda>n. ''N''), en_interferes = (\<lambda>n d. d),
     sv_unicode = \<lparr>un_NFKC = (\<lambda>s. s), un_lower = (\<lambda>n. n), un_fold = (\<lambda>n. n)\<rparr>, sv_sha = (\<lambda>s. [1]),
     sv_random = (\<lambda>t n. replicate n 7), sv_encrypt = (\<lambda>t p a. ([1], [2])), sv_decrypt = (\<lambda>c n a. Some ''key''),
     sv_zones = (\<lambda>n. Some UTC), sv_fresh = (\<lambda>t n. ''F''), sv_notify = True\<rparr>"

definition demo_delete_input :: LifecycleInput where
  "demo_delete_input = \<lparr>li_ID = ''U1'', li_ExpectedRevision = 0, li_RequestID = ''00000000-0000-4000-8000-000000000000'',
     li_ActorID = ''admin'', li_Fingerprint = [5]\<rparr>"

lemma demo_request_valid: "Valid (li_RequestID demo_delete_input)"
  by (simp add: Valid_def demo_delete_input_def upt_conv_Cons lower_hex_def less_eq_char_def)

lemma try_query:
  "act_try (act_query s q) k w = (let d = en_interferes s (wd_tick w) (wd_db w); v = w\<lparr>wd_db := d, wd_tick := wd_tick w + 1\<rparr>
     in case q d of Inl e \<Rightarrow> (Inl e, v) | Inr x \<Rightarrow> k x v)"
  by (simp add: act_try_def act_bind_def act_query_def act_ret_def Let_def split: sum.split)

theorem failed_commands_change_nothing_witness:
  "\<exists>w'. DeleteUser demo_services demo_delete_input
      \<lparr>wd_db = empty_db, wd_node = (), wd_tick = 0, wd_failures = 0, wd_degraded = False, wd_wakes = 0, wd_revalidate = []\<rparr> =
    (Inl (NotFoundError ''user''), w') \<and> wd_wakes w' = 0 \<and> (\<exists>ts. wd_db w' = fold (en_interferes demo_services) ts empty_db)"
proof -
  let ?w = "\<lparr>wd_db = empty_db, wd_node = (), wd_tick = 0, wd_failures = 0, wd_degraded = False, wd_wakes = 0, wd_revalidate = []\<rparr>"
  have run: "DeleteUser demo_services demo_delete_input ?w = (Inl (NotFoundError ''user''), ?w\<lparr>wd_tick := 2\<rparr>)"
    unfolding DeleteUser_def Let_def act_guard_def commandReplayed_def if_P [OF demo_request_valid] try_query
    by (simp add: try_query command_replayed_def FindCommand_def User_def loadUser_def user_rows_def empty_db_def demo_services_def)
  have "\<exists>ts. wd_db (?w\<lparr>wd_tick := 2\<rparr>) = fold (en_interferes demo_services) ts (wd_db ?w)"
    using failed_commands_change_nothing [OF command_fails.intros(7) [OF run]] by blast
  then show ?thesis by (intro exI [of _ "?w\<lparr>wd_tick := 2\<rparr>"]) (simp add: run)
qed

end
