(* ===== verification/Queue_Progress.thy ===== *)
theory Queue_Progress
  imports Store_Promises
begin

text \<open>
  Progress of the synchronization queue: what is due is handed out, earliest first, until nothing due
  is left.
\<close>

section \<open>The earliest due operation\<close>

lemma earliest_None: "earliest key rows = None \<longleftrightarrow> rows = []"
  by (cases rows) (auto split: option.splits)

lemma earliest_Some:
  "earliest key rows = Some r \<Longrightarrow> r \<in> set rows \<and>
     (\<forall>x \<in> set rows. fst (key r) < fst (key x) \<or> fst (key r) = fst (key x) \<and> snd (key r) \<le> snd (key x))"
proof (induction rows arbitrary: r)
  case (Cons y rows)
  show ?case
  proof (cases "earliest key rows")
    case None
    with Cons show ?thesis by (simp add: earliest_None)
  next
    case (Some s)
    with Cons.IH [OF Some] Cons.prems show ?thesis by (force split: if_splits)
  qed
qed simp

text \<open>An operation the query of \<open>LeaseDueSync\<close> selects.\<close>

definition is_due :: "instant \<Rightarrow> db \<Rightarrow> SynchronizationOperation \<Rightarrow> bool" where
  "is_due now d r \<longleftrightarrow> sync_due now r \<and> template_projects d r"

lemma due_operation_Some:
  assumes "due_operation now d = Some r"
  shows "r \<in> set (db_ops d) \<and> is_due now d r \<and> (\<forall>x \<in> set (db_ops d). is_due now d x \<longrightarrow>
    op_NextAttemptAt r < op_NextAttemptAt x \<or> op_NextAttemptAt r = op_NextAttemptAt x \<and> op_CreatedAt r \<le> op_CreatedAt x)"
  using earliest_Some [OF assms [unfolded due_operation_def]] by (auto simp: is_due_def)

lemma due_operation_None: "due_operation now d = None \<longleftrightarrow> (\<forall>x \<in> set (db_ops d). \<not> is_due now d x)"
  by (auto simp: due_operation_def earliest_None filter_empty_conv is_due_def)

section \<open>One turn of a worker\<close>

abbreviation take_one :: "string \<Rightarrow> instant \<Rightarrow> duration \<Rightarrow> db \<Rightarrow> db" where
  "take_one owner now lease d \<equiv> snd (LeaseDueSync owner now lease d)"

lemma lease_op_simps [simp]:
  "op_ID (lease_op owner now lease r) = op_ID r" "op_AllocationID (lease_op owner now lease r) = op_AllocationID r"
  "op_DesiredRevision (lease_op owner now lease r) = op_DesiredRevision r"
  "op_IdempotencyKey (lease_op owner now lease r) = op_IdempotencyKey r"
  "op_AttemptCount (lease_op owner now lease r) = op_AttemptCount r"
  "op_State (lease_op owner now lease r) = SyncLeased"
  "op_LeaseExpiresAt (lease_op owner now lease r) = Some (stored (now + lease))"
  by (simp_all add: lease_op_def)

lemma row_frames:
  "template_row_ok (db_ops_update f d) = template_row_ok d" "identity_row_ok (db_ops_update f d) = identity_row_ok d"
  "alloc_row_ok (db_ops_update f d) = alloc_row_ok d" "alloc_ids (db_ops_update f d) = alloc_ids d"
  "inbound_row_ok (db_ops_update f d) = inbound_row_ok d" "cred_row_ok (db_ops_update f d) = cred_row_ok d"
  "policy_row_ok (db_ops_update f d) = policy_row_ok d" "cycle_row_ok (db_ops_update f d) = cycle_row_ok d"
  "cursor_row_ok (db_ops_update f d) = cursor_row_ok d" "event_row_ok (db_ops_update f d) = event_row_ok d"
  "drift_row_ok (db_ops_update f d) = drift_row_ok d" "op_row_ok (db_ops_update f d) = op_row_ok d"
  by (simp_all add: fun_eq_iff template_row_ok_def identity_row_ok_def alloc_row_ok_def alloc_ids_def inbound_row_ok_def
      cred_row_ok_def policy_row_ok_def cycle_row_ok_def cursor_row_ok_def event_row_ok_def drift_row_ok_def op_row_ok_def
      split: option.split)

lemma schema_ops: "schema_ok (db_ops_update f d) \<longleftrightarrow>
    tables_auth_ok d \<and> tables_panel_ok d \<and> tables_template_ok d \<and> tables_user_ok d \<and> tables_inbound_ok d \<and>
    tables_cred_ok d \<and> tables_quota_ok d \<and> tables_traffic_ok d \<and> tables_sync_ok (db_ops_update f d) \<and> tables_drift_ok d"
  by (simp add: schema_ok_def tables_auth_ok_def tables_panel_ok_def tables_template_ok_def tables_user_ok_def
      tables_inbound_ok_def tables_cred_ok_def tables_quota_ok_def tables_traffic_ok_def tables_drift_ok_def
      row_frames)

lemma schema_lease:
  assumes "schema_ok d"
  shows "schema_ok (update_ops p (lease_op owner now lease) d)"
proof -
  have same: "map k (sql_update p (lease_op owner now lease) rows) = map k rows"
    if "\<And>r. k (lease_op owner now lease r) = k r" for k :: "SynchronizationOperation \<Rightarrow> 'z" and rows
    using that by (simp add: map_sql_update)
  have "list_all (op_row_ok d) (sql_update p (lease_op owner now lease) rows) = list_all (op_row_ok d) rows" for rows
    by (induction rows) (auto simp: op_row_ok_def)
  then have "tables_sync_ok (update_ops p (lease_op owner now lease) d)"
    using assms same [of op_ID] same [of op_IdempotencyKey] same [of "\<lambda>r. (op_AllocationID r, op_DesiredRevision r)"]
    by (simp add: schema_ok_def update_ops_def tables_sync_ok_def row_frames)
  then show ?thesis using assms unfolding update_ops_def schema_ops by (simp add: schema_ok_def)
qed

lemma template_projects_update:
  "template_projects (update_ops p f d) = template_projects d"
  by (simp add: template_projects_def update_ops_def fun_eq_iff)

lemma is_due_update: "is_due now (update_ops p f d) r \<longleftrightarrow> is_due now d r"
  by (simp add: is_due_def template_projects_update)

lemma is_due_leased:
  assumes "stored now < stored (now + lease)"
  shows "\<not> is_due now d (lease_op owner now lease r)"
  using assms by (simp add: is_due_def sync_due_def)

text \<open>The turn takes exactly the row that was read.\<close>

lemma lease_due_takes:
  assumes "schema_ok d" "due_operation now d = Some r"
  shows "lease_due owner now lease d = Inr (Some r, update_ops (\<lambda>x. op_ID x = op_ID r) (lease_op owner now lease) d)"
proof -
  have r: "r \<in> set (db_ops d)" "sync_due now r" using due_operation_Some [OF assms(2)] by (auto simp: is_due_def)
  have same: "x = r" if "x \<in> set (db_ops d)" "op_ID x = op_ID r" for x
    using distinct_map_eqD [OF schema_op_ids [OF assms(1)] that(1) r(1) that(2)] .
  have cas: "lease_cas now r x \<longleftrightarrow> op_ID x = op_ID r" if "x \<in> set (db_ops d)" for x
    using same [OF that] r(2) by (auto simp: lease_cas_def sync_due_def)
  have "filter (lease_cas now r) (db_ops d) = filter (\<lambda>x. op_ID x = op_ID r) (db_ops d)"
    using cas by (auto intro: filter_cong)
  moreover have "rows_affected (\<lambda>x. op_ID x = op_ID r) (db_ops d) = 1"
    using rows_affected_le_1 [OF schema_op_ids [OF assms(1)], of "\<lambda>x. op_ID x = op_ID r" "op_ID r"] r(1)
      rows_affected_pos [of "\<lambda>x. op_ID x = op_ID r" "db_ops d"] by force
  ultimately have one: "rows_affected (lease_cas now r) (db_ops d) = 1" by (simp add: rows_affected_def)
  have "sql_update (lease_cas now r) (lease_op owner now lease) (db_ops d)
      = sql_update (\<lambda>x. op_ID x = op_ID r) (lease_op owner now lease) (db_ops d)"
    by (rule sql_update_cong) (simp add: cas)
  then have up: "update_ops (lease_cas now r) (lease_op owner now lease) d
      = update_ops (\<lambda>x. op_ID x = op_ID r) (lease_op owner now lease) d"
    by (cases d) (simp add: update_ops_def)
  have "lease_due owner now lease d = Inr (Some r, update_ops (lease_cas now r) (lease_op owner now lease) d)"
    using assms(2) one schema_lease [OF assms(1)] by (simp add: lease_due_def tx_simps)
  then show ?thesis by (simp add: up)
qed

lemma take_one_some:
  assumes "schema_ok d" "due_operation now d = Some r"
  shows "take_one owner now lease d = update_ops (\<lambda>x. op_ID x = op_ID r) (lease_op owner now lease) d"
  using lease_due_takes [OF assms, of owner lease] by (simp add: LeaseDueSync_def WithWriteTx_def split: sum.split)

lemma take_one_none: "due_operation now d = None \<Longrightarrow> LeaseDueSync owner now lease d = (Inr None, d)"
proof -
  assume "due_operation now d = None"
  then have "lease_due owner now lease d = Inr (None, d)" by (simp add: lease_due_def tx_simps)
  then show ?thesis by (simp add: LeaseDueSync_def WithWriteTx_def)
qed

section \<open>Nothing due is left behind\<close>

definition all_leased :: "string \<Rightarrow> instant \<Rightarrow> duration \<Rightarrow> db \<Rightarrow> db" where
  "all_leased owner now lease d = update_ops (is_due now d) (lease_op owner now lease) d"

lemma filter_shorter:
  assumes "distinct (map k rows)" "r \<in> set rows" "q r" "\<And>x. k (f x) = k x" "\<And>x. \<not> q (f x)"
  shows "Suc (length (filter q (sql_update (\<lambda>x. k x = k r) f rows))) = length (filter q rows)"
  using assms(1,2)
proof (induction rows)
  case (Cons y rows)
  show ?case
  proof (cases "y = r")
    case True
    then have "sql_update (\<lambda>x. k x = k r) f rows = rows"
      using Cons.prems(1) by (intro sql_update_none) (auto simp: image_iff)
    with True show ?thesis using assms(3,5) by simp
  next
    case False
    with Cons.prems have r: "r \<in> set rows" "k y \<noteq> k r" by force+
    with Cons show ?thesis by simp
  qed
qed simp

lemma take_all:
  assumes "stored now < stored (now + lease)" "schema_ok d" "length (filter (is_due now d) (db_ops d)) = n"
  shows "((\<lambda>d. take_one owner now lease d) ^^ n) d = all_leased owner now lease d \<and>
    due_operation now (all_leased owner now lease d) = None"
  using assms(2,3)
proof (induction n arbitrary: d)
  case 0
  then have none: "\<forall>x \<in> set (db_ops d). \<not> is_due now d x" by (simp add: filter_empty_conv)
  then have "all_leased owner now lease d = d"
    by (cases d) (simp add: all_leased_def update_ops_def sql_update_none)
  with none show ?case by (simp add: due_operation_None)
next
  case (Suc n)
  then obtain r where r: "due_operation now d = Some r"
    by (cases "due_operation now d") (auto simp: due_operation_None filter_empty_conv)
  let ?f = "lease_op owner now lease"
  let ?u = "update_ops (\<lambda>x. op_ID x = op_ID r) ?f d"
  have mem: "r \<in> set (db_ops d)" "is_due now d r" using due_operation_Some [OF r] by auto
  have ids: "distinct (map op_ID (db_ops d))" using schema_op_ids [OF Suc.prems(1)] .
  have due: "is_due now ?u = is_due now d" by (simp add: fun_eq_iff is_due_update)
  have "Suc (length (filter (is_due now ?u) (db_ops ?u))) = length (filter (is_due now d) (db_ops d))"
    using filter_shorter [OF ids mem(1), of "is_due now d" ?f, OF mem(2)] is_due_leased [OF assms(1)]
    by (simp add: due) (simp add: update_ops_def)
  with Suc.prems(2) have "length (filter (is_due now ?u) (db_ops ?u)) = n" by simp
  from Suc.IH [OF schema_lease [OF Suc.prems(1)] this]
  have IH: "((\<lambda>d. take_one owner now lease d) ^^ n) ?u = all_leased owner now lease ?u"
    "due_operation now (all_leased owner now lease ?u) = None" by auto
  have "sql_update (is_due now d) ?f (sql_update (\<lambda>x. op_ID x = op_ID r) ?f (db_ops d)) = sql_update (is_due now d) ?f (db_ops d)"
    unfolding sql_update_def map_map
    by (rule map_cong [OF refl]) (use mem(2) distinct_map_eqD [OF ids _ mem(1)] is_due_leased [OF assms(1)] in auto)
  then have "all_leased owner now lease ?u = all_leased owner now lease d"
    unfolding all_leased_def due by (cases d) (simp add: update_ops_def)
  moreover have "take_one owner now lease d = ?u" by (rule take_one_some [OF Suc.prems(1) r])
  ultimately show ?case using IH by (simp only: funpow_Suc_right comp_apply)
qed

text \<open>
  C10: no due operation is left behind. \<open>LeaseDueSync\<close>, called as many times as there are due
  operations of templates that are not incompatible, leases every one of them to the caller until
  the lease runs out and changes nothing else, after which it reports that there is nothing to do;
  and the first call takes an operation that is due earliest, whoever held it before.
\<close>

theorem due_work_is_leased:
  assumes "schema_ok d" "stored now < stored (now + lease)"
  shows "((\<lambda>d. snd (LeaseDueSync owner now lease d)) ^^ length (filter (is_due now d) (db_ops d))) d
      = update_ops (is_due now d) (lease_op owner now lease) d \<and>
    fst (LeaseDueSync owner now lease (update_ops (is_due now d) (lease_op owner now lease) d)) = Inr None \<and>
    (\<forall>r \<in> set (db_ops d). is_due now d r \<longrightarrow>
      (\<exists>x \<in> set (db_ops d). op_NextAttemptAt x \<le> op_NextAttemptAt r \<and>
        op_of (snd (LeaseDueSync owner now lease d)) (op_ID x) = Some (lease_op owner now lease x)))"
proof (intro conjI ballI impI)
  note all = take_all [OF assms(2,1) refl, of owner, unfolded all_leased_def]
  from all show "((\<lambda>d. snd (LeaseDueSync owner now lease d)) ^^ length (filter (is_due now d) (db_ops d))) d
      = update_ops (is_due now d) (lease_op owner now lease) d" ..
  from all show "fst (LeaseDueSync owner now lease (update_ops (is_due now d) (lease_op owner now lease) d)) = Inr None"
    by (simp add: take_one_none)
  fix r
  assume r: "r \<in> set (db_ops d)" "is_due now d r"
  then obtain x where x: "due_operation now d = Some x"
    by (cases "due_operation now d") (auto simp: due_operation_None)
  with due_operation_Some [OF x] r show "\<exists>x \<in> set (db_ops d). op_NextAttemptAt x \<le> op_NextAttemptAt r \<and>
      op_of (snd (LeaseDueSync owner now lease d)) (op_ID x) = Some (lease_op owner now lease x)"
    using schema_op_of [OF assms(1), of x]
    by (intro bexI [of _ x]) (auto simp: take_one_some [OF assms(1) x] op_of_update)
qed

theorem due_work_is_leased_witness:
  "snd (LeaseDueSync ''w1'' 0 (60 * Second) demo_one) =
     update_ops (is_due 0 demo_one) (lease_op ''w1'' 0 (60 * Second)) demo_one \<and>
   length (filter (is_due 0 demo_one) (db_ops demo_one)) = 1"
proof -
  have "schema_ok demo_one" using demo_one_facts by (simp add: demo_facts_def)
  moreover have "length (filter (is_due 0 demo_one) (db_ops demo_one)) = 1" by code_simp
  moreover have "stored 0 < stored (0 + 60 * Second)" by code_simp
  ultimately show ?thesis using due_work_is_leased [of demo_one 0 "60 * Second" "''w1''"] by simp
qed

end
