(* ===== verification/Web_Forms.thy ===== *)
theory Web_Forms
  imports Command_Errors Auth_Service "HOL-Library.List_Lexorder"
begin

text \<open>
  Forms of the web layer: \<open>internal/web/handlers/forms.go\<close>, the error classification of
  \<open>common.go\<close>, and the quota and port fields of \<open>users.go\<close>. A request is what \<open>net/http\<close> and
  \<open>mime\<close> make of it: the media type of its body, the fields of the posted form.
\<close>

section \<open>Numbers in fields\<close>

definition plain_digits :: "string \<Rightarrow> bool" where
  "plain_digits s \<longleftrightarrow> s \<noteq> [] \<and> list_all (\<lambda>c. CHR ''0'' \<le> c \<and> c \<le> CHR ''9'') s"

text \<open>
  \<open>strconv.ParseInt(s, 10, 64)\<close> and \<open>strconv.Atoi(s)\<close> on a 64-bit machine: the value and whether it is
  free of error. A syntax error gives 0, a range error the nearest value.
\<close>

definition ParseInt :: "string \<Rightarrow> int \<times> bool" where
  "ParseInt s =
     (let negative = (HasPrefix s ''-''); digits = (if negative \<or> HasPrefix s ''+'' then tl s else s);
          n = int (decimal digits)
      in if \<not> plain_digits digits then (0, False)
         else if negative then (if n > 2 ^ 63 then (- (2 ^ 63), False) else (- n, True))
         else (if n \<ge> 2 ^ 63 then (2 ^ 63 - 1, False) else (n, True)))"

lemma digit_char:
  assumes "n < 10"
  shows "of_char (''0123456789'' ! n) = n + (48::nat)" "CHR ''0'' \<le> ''0123456789'' ! n" "''0123456789'' ! n \<le> CHR ''9''"
    "byte (''0123456789'' ! n) < 128" "\<not> IsSpace (byte (''0123456789'' ! n))"
    "''0123456789'' ! n \<noteq> CHR ''-''" "''0123456789'' ! n \<noteq> CHR ''+''"
proof -
  have "n \<in> {0,1,2,3,4,5,6,7,8,9}" using assms by auto
  then show "of_char (''0123456789'' ! n) = n + (48::nat)" "CHR ''0'' \<le> ''0123456789'' ! n" "''0123456789'' ! n \<le> CHR ''9''"
    "byte (''0123456789'' ! n) < 128" "\<not> IsSpace (byte (''0123456789'' ! n))"
    "''0123456789'' ! n \<noteq> CHR ''-''" "''0123456789'' ! n \<noteq> CHR ''+''"
    by (elim insertE; simp add: less_eq_char_def byte_def IsSpace_def)+
qed

lemma decimal_append: "decimal (s @ [c]) = 10 * decimal s + (of_char c - 48)"
  by (simp add: decimal_def)

lemma nat_digits_facts:
  "decimal (nat_digits n) = n \<and> plain_digits (nat_digits n) \<and>
   list_all (\<lambda>c. byte c < 128 \<and> \<not> IsSpace (byte c)) (nat_digits n) \<and> hd (nat_digits n) \<notin> {CHR ''-'', CHR ''+''}"
proof (induction n rule: nat_digits.induct)
  case (1 n)
  show ?case
  proof (cases "n < 10")
    case True
    then show ?thesis using digit_char [OF True]
      by (simp add: nat_digits.simps [of n] decimal_def plain_digits_def)
  next
    case False
    have m: "n mod 10 < 10" by simp
    from 1 False have IH: "decimal (nat_digits (n div 10)) = n div 10" "plain_digits (nat_digits (n div 10))"
      "list_all (\<lambda>c. byte c < 128 \<and> \<not> IsSpace (byte c)) (nat_digits (n div 10))"
      "hd (nat_digits (n div 10)) \<notin> {CHR ''-'', CHR ''+''}" by auto
    have eq: "nat_digits n = nat_digits (n div 10) @ [''0123456789'' ! (n mod 10)]"
      using False by (simp add: nat_digits.simps [of n])
    show ?thesis using IH digit_char [OF m] unfolding eq decimal_append by (auto simp: plain_digits_def)
  qed
qed

lemma nat_digits_prefix: "\<not> HasPrefix (nat_digits n) ''-''" "\<not> HasPrefix (nat_digits n) ''+''"
  using nat_digits_facts [of n] by (cases "nat_digits n"; simp add: HasPrefix_def)+

text \<open>\<open>strconv.FormatInt\<close> is undone.\<close>

lemma ParseInt_int_digits: "int64_range i \<Longrightarrow> ParseInt (int_digits i) = (i, True)"
  using nat_digits_facts [of "nat i"] nat_digits_facts [of "nat (- i)"] nat_digits_prefix [of "nat i"]
  by (auto simp: ParseInt_def int_digits_def int64_range_def Let_def HasPrefix_def)

lemma dropWhile_none: "list_all (\<lambda>x. \<not> p x) xs \<Longrightarrow> dropWhile p xs = xs"
  by (cases xs) simp_all

lemma trim_runes_plain: "list_all (\<lambda>p. \<not> IsSpace (fst p)) rs \<Longrightarrow> trim_runes rs = rs"
  by (simp add: trim_runes_def dropWhile_none list_all_iff)

lemma TrimSpace_plain:
  assumes "list_all (\<lambda>c. byte c < 128 \<and> \<not> IsSpace (byte c)) s"
  shows "TrimSpace s = s"
proof -
  have "runes s = map (\<lambda>c. (byte c, [c])) s" using assms by (intro runes_ascii) (simp add: list_all_iff)
  moreover have "trim_runes \<dots> = \<dots>" using assms by (intro trim_runes_plain) (simp add: list_all_iff)
  ultimately have "TrimSpace s = concat (map (\<lambda>c. [c]) s)" by (simp add: TrimSpace_def comp_def)
  then show ?thesis by simp
qed

lemma TrimSpace_int_digits [simp]: "TrimSpace (int_digits i) = int_digits i"
proof (rule TrimSpace_plain)
  have "byte CHR ''-'' = 45" by (simp add: byte_def)
  then show "list_all (\<lambda>c. byte c < 128 \<and> \<not> IsSpace (byte c)) (int_digits i)"
    using nat_digits_facts by (simp add: int_digits_def IsSpace_def)
qed

lemma int_digits_nonempty [simp]: "int_digits i \<noteq> []"
  using nat_digits_facts [of "nat i"] by (simp add: int_digits_def plain_digits_def)

section \<open>Posted forms\<close>

text \<open>
  \<open>url.Values\<close>: every key once, with its values in the order they were sent. A Go map of strings is
  an association list with distinct keys, read with the empty string as default.
\<close>

type_synonym url_values = "(string \<times> string list) list"
type_synonym fields = "(string \<times> string) list"

definition values_Get :: "url_values \<Rightarrow> string \<Rightarrow> string" where
  "values_Get f k = (case map_of f k of Some (v # _) \<Rightarrow> v | _ \<Rightarrow> '''')"

definition field :: "fields \<Rightarrow> string \<Rightarrow> string" where
  "field vs k = (case map_of vs k of None \<Rightarrow> '''' | Some v \<Rightarrow> v)"

lemma field_simps [simp]:
  "field ((k, v) # vs) k' = (if k' = k then v else field vs k')" "field [] k' = ''''"
  by (simp_all add: field_def)

text \<open>\<open>url.QueryEscape\<close> and \<open>url.Values.Encode\<close>, which sorts by key.\<close>

definition query_plain :: "char \<Rightarrow> bool" where
  "query_plain c \<longleftrightarrow> (CHR ''a'' \<le> c \<and> c \<le> CHR ''z'') \<or> (CHR ''A'' \<le> c \<and> c \<le> CHR ''Z'') \<or>
     (CHR ''0'' \<le> c \<and> c \<le> CHR ''9'') \<or> c \<in> set ''-_.~''"

definition escape_char :: "char \<Rightarrow> string" where
  "escape_char c = (if query_plain c then [c] else if c = CHR '' '' then ''+''
     else [CHR ''%'', upper_hex (byte c div 16), upper_hex (byte c)])"

definition QueryEscape :: "string \<Rightarrow> string" where
  "QueryEscape s = concat (map escape_char s)"

definition encoded_pairs :: "url_values \<Rightarrow> string list" where
  "encoded_pairs f = concat (map (\<lambda>(k, vs). map (\<lambda>v. QueryEscape k @ ''='' @ QueryEscape v) vs) (sort_key fst f))"

definition values_Encode :: "url_values \<Rightarrow> string" where
  "values_Encode f = Join (encoded_pairs f) ''&''"

record form_request =
  fr_MediaType :: "string option"
  fr_PostForm :: "url_values option"

record CommandForm =
  cf_RequestID :: ID
  cf_Version :: "int option"
  cf_Values :: fields
  cf_Fingerprint :: "8 word list"

definition RequestFingerprint :: "(string \<Rightarrow> 8 word list) \<Rightarrow> string \<Rightarrow> string \<Rightarrow> string \<Rightarrow> string \<Rightarrow> 8 word list" where
  "RequestFingerprint sha256 sessionID action target payload =
     sha256 (Join [sessionID, action, target, payload] [CHR 0x00])"

text \<open>Keys the handlers never see: the protocol's own, passwords and keys.\<close>

definition hidden_key :: "unicode \<Rightarrow> string \<Rightarrow> bool" where
  "hidden_key u key \<longleftrightarrow> HasPrefix key ''_'' \<or> Contains (ToLower u key) ''password'' \<or> Contains (ToLower u key) ''key''"

definition visible_values :: "unicode \<Rightarrow> url_values \<Rightarrow> fields" where
  "visible_values u f = map (\<lambda>(k, _). (k, values_Get f k)) (filter (\<lambda>(k, _). \<not> hidden_key u k) f)"

text \<open>The payload without the token that changes with every page.\<close>

definition canonical_form :: "url_values \<Rightarrow> url_values" where
  "canonical_form f = filter (\<lambda>(k, _). k \<noteq> ''_csrf'') f"

definition form_version :: "url_values \<Rightarrow> err + int option" where
  "form_version f = (let raw = values_Get f ''_version'' in
     if raw = '''' then Inr None
     else case ParseInt raw of (n, ok) \<Rightarrow>
       if \<not> ok \<or> n < 0 then Inl (PlainError ''invalid resource version'') else Inr (Some n))"

definition ParseCommandForm ::
  "services \<Rightarrow> form_request \<Rightarrow> string \<Rightarrow> string \<Rightarrow> string \<Rightarrow> err + CommandForm" where
  "ParseCommandForm s r sessionID action target =
     (if fr_MediaType r \<noteq> Some ''application/x-www-form-urlencoded''
      then Inl (PlainError ''unsupported form content type'')
      else case fr_PostForm r of
        None \<Rightarrow> Inl (PlainError ''malformed form'')
      | Some f \<Rightarrow>
        (let i = values_Get f ''_request_id'' in
         if \<not> Valid i then Inl (PlainError ''invalid request identifier'')
         else case form_version f of
           Inl e \<Rightarrow> Inl e
         | Inr version \<Rightarrow> Inr \<lparr>cf_RequestID = i, cf_Version = version, cf_Values = visible_values (sv_unicode s) f,
             cf_Fingerprint = RequestFingerprint (sv_sha s) sessionID action target
               (values_Encode (canonical_form f))\<rparr>))"

section \<open>The quota field\<close>

definition quota_error :: "string \<Rightarrow> err" where
  "quota_error message = ValidationError ''quota'' message"

definition unit_size :: "string \<Rightarrow> int option" where
  "unit_size u = (if u = ''MiB'' then Some (2 ^ 20) else if u = ''GiB'' then Some (2 ^ 30)
     else if u = ''TiB'' then Some (2 ^ 40) else None)"

definition parseQuota :: "fields \<Rightarrow> err + int option" where
  "parseQuota vs =
     (if field vs ''unlimited'' = ''on'' \<or> field vs ''unlimited'' = ''1'' then Inr None
      else let raw = TrimSpace (field vs ''quota_value'') in
        if raw = '''' then Inl (quota_error ''quota is required unless unlimited is selected'')
        else case ParseInt raw of (amount, ok) \<Rightarrow>
          if \<not> ok \<or> amount \<le> 0 then Inl (quota_error ''quota must be a positive integer'')
          else case unit_size (field vs ''quota_unit'') of
            None \<Rightarrow> Inl (quota_error ''quota unit is invalid'')
          | Some multiplier \<Rightarrow>
            if amount > 2 ^ 62 div multiplier then Inl (quota_error ''quota exceeds the supported maximum'')
            else Inr (Some (wrap64 (amount * multiplier))))"

text \<open>
  The values an edit form starts with: the largest unit that divides the limit, or MiB rounded up. A
  stored limit is positive, so division is that of Go.
\<close>

fun whole_unit :: "(string \<times> int) list \<Rightarrow> int \<Rightarrow> (string \<times> int) option" where
  "whole_unit [] limit = None"
| "whole_unit ((name, bytes) # us) limit =
     (if limit mod bytes = 0 then Some (name, limit div bytes) else whole_unit us limit)"

definition editValues :: "UserRecord \<Rightarrow> fields" where
  "editValues r =
     (let start = [(''display_name'', mu_DisplayName (ur_User r)), (''reset_day'', int_digits (qp_ResetDay (ur_Policy r)))];
          enabled = (if al_AdminEnabled (ur_Allocation r) then [(''admin_enabled'', ''on'')] else [])
      in case qp_LimitBytes (ur_Policy r) of
           None \<Rightarrow> start @ enabled @ [(''unlimited'', ''on''), (''quota_unit'', ''GiB'')]
         | Some limit \<Rightarrow>
           (case whole_unit [(''TiB'', 2 ^ 40), (''GiB'', 2 ^ 30), (''MiB'', 2 ^ 20)] limit of
              Some (name, n) \<Rightarrow> start @ enabled @ [(''quota_value'', int_digits n), (''quota_unit'', name)]
            | None \<Rightarrow> start @ enabled @
                [(''quota_value'', int_digits (wrap64 (limit + 2 ^ 20 - 1) div 2 ^ 20)), (''quota_unit'', ''MiB'')]))"


lemma small_range: "0 < x \<Longrightarrow> x \<le> 2 ^ 62 \<Longrightarrow> int64_range x"
  by (simp add: int64_range_def)

lemma parse_amount:
  assumes "field vs ''unlimited'' = ''''" "field vs ''quota_value'' = int_digits n" "field vs ''quota_unit'' = u"
    and "unit_size u = Some m" "0 < n" "0 < m" "n * m \<le> 2 ^ 62"
  shows "parseQuota vs = Inr (Some (n * m))"
proof -
  have "n \<le> n * m" using assms(5,6) by simp
  then have n: "int64_range n" using small_range [OF assms(5)] assms(7) by linarith
  have "n \<le> 2 ^ 62 div m" using zdiv_mono1 [OF assms(7,6)] assms(6) by simp
  moreover have "int64_range (n * m)" using small_range [OF mult_pos_pos [OF assms(5,6)] assms(7)] .
  ultimately show ?thesis using assms by (simp add: parseQuota_def ParseInt_int_digits [OF n])
qed

lemma unit_dvd: "limit mod 2 ^ k = 0 \<Longrightarrow> 20 \<le> k \<Longrightarrow> 2 ^ 20 dvd (limit :: int)"
  using dvd_trans [OF le_imp_power_dvd [of 20 k "2 :: int"], of limit] by (simp add: dvd_eq_mod_eq_0)

text \<open>Rounding up to a whole number of MiB.\<close>

definition to_MiB :: "int \<Rightarrow> int" where
  "to_MiB b = (b + 2 ^ 20 - 1) div 2 ^ 20 * 2 ^ 20"

lemma to_MiB_bounds:
  "b \<le> to_MiB b" "to_MiB b < b + 2 ^ 20" "2 ^ 20 dvd to_MiB b" "2 ^ 20 dvd b \<Longrightarrow> to_MiB b = b"
  "b \<le> 2 ^ 62 \<Longrightarrow> to_MiB b \<le> 2 ^ 62"
proof -
  define q r where "q = (b + 1048575) div 1048576" and "r = (b + 1048575) mod 1048576"
  have qr: "b + 1048575 = 1048576 * q + r" unfolding q_def r_def by (rule mult_div_mod_eq [symmetric])
  have r: "0 \<le> r" "r < 1048576" by (simp_all add: r_def)
  have to: "to_MiB b = 1048576 * q" by (simp add: to_MiB_def q_def)
  show "b \<le> to_MiB b" "to_MiB b < b + 2 ^ 20" unfolding to using qr r by simp_all
  show "2 ^ 20 dvd to_MiB b" unfolding to by simp
  show "to_MiB b = b" if "2 ^ 20 dvd b"
  proof -
    from that obtain k where k: "b = 1048576 * k" by (auto elim: dvdE)
    have "q = k" unfolding q_def k by simp
    then show ?thesis unfolding to using k by simp
  qed
  show "to_MiB b \<le> 2 ^ 62" if "b \<le> 2 ^ 62"
  proof -
    have "1048576 * q < 1048576 * 4398046511105" using qr r that by simp
    then have "q \<le> 4398046511104" by linarith
    then show ?thesis by (simp add: to)
  qed
qed

lemma parse_quota_iff:
  "parseQuota vs = Inr (Some b) \<longleftrightarrow> field vs ''unlimited'' \<noteq> ''on'' \<and> field vs ''unlimited'' \<noteq> ''1'' \<and>
     (\<exists>n m. ParseInt (TrimSpace (field vs ''quota_value'')) = (n, True) \<and> TrimSpace (field vs ''quota_value'') \<noteq> '''' \<and>
        unit_size (field vs ''quota_unit'') = Some m \<and> 0 < n \<and> n * m \<le> 2 ^ 62 \<and> b = n * m)"
  (is "?l \<longleftrightarrow> ?r")
proof
  assume ?l
  then obtain n m where *: "field vs ''unlimited'' \<noteq> ''on''" "field vs ''unlimited'' \<noteq> ''1''"
    "TrimSpace (field vs ''quota_value'') \<noteq> ''''"
    "ParseInt (TrimSpace (field vs ''quota_value'')) = (n, True)" "unit_size (field vs ''quota_unit'') = Some m"
    "0 < n" "n \<le> 2 ^ 62 div m" "b = wrap64 (n * m)"
    by (auto simp: parseQuota_def Let_def not_less split: if_splits prod.splits option.splits)
  have m: "0 < m" using *(5) by (auto simp: unit_size_def split: if_splits)
  have "n * m \<le> 2 ^ 62 div m * m" using *(7) m by (simp add: mult_right_mono)
  then have "n * m \<le> 2 ^ 62" using pos_mod_sign [OF m, of "2 ^ 62"] div_mult_mod_eq [of "2 ^ 62" m] by linarith
  moreover have "int64_range (n * m)" using small_range [OF mult_pos_pos [OF *(6) m] calculation] .
  ultimately show ?r using * by auto
next
  assume ?r
  then obtain n m where *: "field vs ''unlimited'' \<noteq> ''on''" "field vs ''unlimited'' \<noteq> ''1''"
    "TrimSpace (field vs ''quota_value'') \<noteq> ''''"
    "ParseInt (TrimSpace (field vs ''quota_value'')) = (n, True)" "unit_size (field vs ''quota_unit'') = Some m"
    "0 < n" "n * m \<le> 2 ^ 62" "b = n * m" by auto
  have m: "0 < m" using *(5) by (auto simp: unit_size_def split: if_splits)
  have "n \<le> 2 ^ 62 div m" using zdiv_mono1 [OF *(7) m] m by simp
  moreover have "int64_range (n * m)" using small_range [OF mult_pos_pos [OF *(6) m] *(7)] .
  ultimately show ?l using * by (simp add: parseQuota_def)
qed

section \<open>Properties of the quota field\<close>

lemma edit_fields:
  "field (editValues r) ''unlimited'' = (if qp_LimitBytes (ur_Policy r) = None then ''on'' else '''')"
  by (auto simp: editValues_def Let_def split: option.split)

lemma to_MiB_div: "0 < b \<Longrightarrow> b \<le> 2 ^ 62 \<Longrightarrow> wrap64 (b + 2 ^ 20 - 1) div 2 ^ 20 * 2 ^ 20 = to_MiB b"
  by (simp add: to_MiB_def int64_range_def)

lemma edit_limit:
  assumes "qp_LimitBytes (ur_Policy r) = Some limit" "0 < limit" "limit \<le> 2 ^ 62"
  shows "\<exists>u n m. field (editValues r) ''quota_value'' = int_digits n \<and> field (editValues r) ''quota_unit'' = u \<and>
    unit_size u = Some m \<and> n * m = to_MiB limit"
proof -
  consider (T) "limit mod 2 ^ 40 = 0" | (G) "limit mod 2 ^ 40 \<noteq> 0" "limit mod 2 ^ 30 = 0"
    | (M) "limit mod 2 ^ 40 \<noteq> 0" "limit mod 2 ^ 30 \<noteq> 0" "limit mod 2 ^ 20 = 0"
    | (up) "limit mod 2 ^ 40 \<noteq> 0" "limit mod 2 ^ 30 \<noteq> 0" "limit mod 2 ^ 20 \<noteq> 0" by blast
  then show ?thesis
  proof cases
    case T
    then have "2 ^ 20 dvd limit" by (intro unit_dvd) auto
    then show ?thesis using T assms(1) to_MiB_bounds(4) [of limit]
      by (intro exI [of _ "''TiB''"] exI [of _ "limit div 2 ^ 40"] exI [of _ "2 ^ 40"])
        (auto simp: editValues_def unit_size_def Let_def)
  next
    case G
    then have "2 ^ 20 dvd limit" by (intro unit_dvd) auto
    then show ?thesis using G assms(1) to_MiB_bounds(4) [of limit]
      by (intro exI [of _ "''GiB''"] exI [of _ "limit div 2 ^ 30"] exI [of _ "2 ^ 30"])
        (auto simp: editValues_def unit_size_def Let_def)
  next
    case M
    then have "2 ^ 20 dvd limit" by (simp add: dvd_eq_mod_eq_0)
    then show ?thesis using M assms(1) to_MiB_bounds(4) [of limit]
      by (intro exI [of _ "''MiB''"] exI [of _ "limit div 2 ^ 20"] exI [of _ "2 ^ 20"])
        (auto simp: editValues_def unit_size_def Let_def)
  next
    case up
    then show ?thesis using assms(1) to_MiB_div [OF assms(2,3)]
      by (intro exI [of _ "''MiB''"] exI [of _ "wrap64 (limit + 2 ^ 20 - 1) div 2 ^ 20"] exI [of _ "2 ^ 20"])
        (simp add: editValues_def unit_size_def)
  qed
qed

text \<open>
  C29: the quota of an edit form survives an unchanged submission. Reading back the fields with which
  the form starts gives no limit for an unlimited user, and for every limit the schema allows the
  limit rounded up to a whole number of MiB: the limit itself when it is one, which every limit
  entered through the forms is, never less, and never above \<open>2^62\<close>.
\<close>

theorem quota_form_round_trip:
  assumes "\<And>l. qp_LimitBytes (ur_Policy r) = Some l \<Longrightarrow> 0 < l \<and> l \<le> 2 ^ 62"
  shows "parseQuota (editValues r) = Inr (map_option to_MiB (qp_LimitBytes (ur_Policy r))) \<and>
    (\<forall>l vs. parseQuota vs = Inr (Some l) \<longrightarrow> 0 < l \<and> l \<le> 2 ^ 62 \<and> to_MiB l = l)"
proof (intro conjI allI impI)
  show "parseQuota (editValues r) = Inr (map_option to_MiB (qp_LimitBytes (ur_Policy r)))"
  proof (cases "qp_LimitBytes (ur_Policy r)")
    case None
    then show ?thesis using edit_fields [of r] by (simp add: parseQuota_def)
  next
    case (Some limit)
    then have l: "0 < limit" "limit \<le> 2 ^ 62" using assms by auto
    obtain u n m where e: "field (editValues r) ''quota_value'' = int_digits n" "field (editValues r) ''quota_unit'' = u"
      "unit_size u = Some m" "n * m = to_MiB limit" using edit_limit [OF Some l] by blast
    have m: "0 < m" using e(3) by (auto simp: unit_size_def split: if_splits)
    have "0 < n * m" "n * m \<le> 2 ^ 62" using to_MiB_bounds(1,5) [of limit] l e(4) by auto
    then have "0 < n" using m by (simp add: zero_less_mult_iff)
    with e m \<open>n * m \<le> 2 ^ 62\<close> show ?thesis
      using parse_amount [of "editValues r" n u m] edit_fields [of r] Some by simp
  qed
next
  fix l vs
  assume "parseQuota vs = Inr (Some l)"
  then obtain n m where "unit_size (field vs ''quota_unit'') = Some m" "0 < n" "n * m \<le> 2 ^ 62" "l = n * m"
    unfolding parse_quota_iff by blast
  then show "0 < l" "l \<le> 2 ^ 62" "to_MiB l = l"
    by (auto simp: unit_size_def intro!: to_MiB_bounds(4) split: if_splits)
qed


text \<open>The record of the demonstration user, whose limit is 1000 bytes: the form rounds it up to 1 MiB.\<close>

definition demo_record :: UserRecord where
  "demo_record = (let c = demo_create ''1'' 2000 in
     \<lparr>ur_User = uc_User c, ur_Identity = uc_Identity c, ur_Inbound = uc_Inbound c, ur_Allocation = uc_Allocation c,
      ur_Credential = uc_Credential c, ur_Template = demo_template, ur_Policy = uc_Policy c, ur_Cycle = uc_Cycle c\<rparr>)"

theorem quota_form_round_trip_witness:
  "parseQuota (editValues demo_record) = Inr (Some 1048576) \<and> qp_LimitBytes (ur_Policy demo_record) = Some 1000"
proof -
  have limit: "qp_LimitBytes (ur_Policy demo_record) = Some 1000" by (simp add: demo_record_def demo_create_def)
  then show ?thesis using quota_form_round_trip [of demo_record] by (simp add: to_MiB_def)
qed

section \<open>Properties of the fingerprint\<close>

lemma upper_hex_iff: "upper_hex m = upper_hex n \<longleftrightarrow> m mod 16 = n mod 16"
proof -
  have "distinct ''0123456789ABCDEF''" by simp
  then show ?thesis unfolding upper_hex_def by (subst nth_eq_iff_index_eq) simp_all
qed

lemma byte_less: "byte c < 256"
  using of_char_mod_256 [of c, where ?'a = nat] mod_less_divisor [of 256 "byte c"] by (simp add: byte_def)

lemma byte_inj: "byte c = byte d \<Longrightarrow> c = d"
  by (simp add: byte_def)

lemma escape_bytes:
  assumes "upper_hex (byte c div 16) = upper_hex (byte d div 16)" "upper_hex (byte c) = upper_hex (byte d)"
  shows "c = d"
proof (rule byte_inj)
  have "byte c div 16 = byte d div 16" using assms(1) byte_less [of c] byte_less [of d] by (simp add: upper_hex_iff)
  moreover have "byte c mod 16 = byte d mod 16" using assms(2) by (simp add: upper_hex_iff)
  ultimately show "byte c = byte d" by (metis div_mult_mod_eq)
qed

lemma not_plain: "\<not> query_plain CHR ''+''" "\<not> query_plain CHR ''%''" "\<not> query_plain CHR ''&''"
  "\<not> query_plain CHR ''=''" "\<not> query_plain CHR 0x00"
  by (simp_all add: query_plain_def less_eq_char_def)

text \<open>The code is free of prefixes, and has no separator in it.\<close>

lemma escape_char_inj: "escape_char c @ s = escape_char d @ t \<Longrightarrow> c = d \<and> s = t"
  by (auto simp: escape_char_def not_plain dest: escape_bytes split: if_splits)

lemma upper_hex_plain: "query_plain (upper_hex n)"
proof -
  have "list_all query_plain ''0123456789ABCDEF''" by (simp add: query_plain_def less_eq_char_def)
  then show ?thesis unfolding upper_hex_def list_all_length by simp
qed

lemma escape_char_set: "x \<in> set (escape_char c) \<Longrightarrow> query_plain x \<or> x = CHR ''+'' \<or> x = CHR ''%''"
  by (auto simp: escape_char_def upper_hex_plain split: if_splits)

lemma escaped_free: "CHR ''&'' \<notin> set (QueryEscape s)" "CHR ''='' \<notin> set (QueryEscape s)" "CHR 0x00 \<notin> set (QueryEscape s)"
  using escape_char_set not_plain by (fastforce simp: QueryEscape_def)+

lemma escape_char_nonempty: "escape_char c \<noteq> []"
  by (simp add: escape_char_def)

lemma QueryEscape_inj: "QueryEscape s = QueryEscape t \<Longrightarrow> s = t"
proof (induction s arbitrary: t)
  case Nil
  then show ?case by (cases t) (auto simp: QueryEscape_def escape_char_nonempty)
next
  case (Cons c s)
  then obtain d t' where t: "t = d # t'" by (cases t) (auto simp: QueryEscape_def escape_char_nonempty)
  with Cons show ?case using escape_char_inj [of c "QueryEscape s" d "QueryEscape t'"] by (auto simp: QueryEscape_def)
qed

text \<open>Joined parts can be told apart again, unless a part has the separator.\<close>

lemma Join_Cons: "xs \<noteq> [] \<Longrightarrow> Join (x # xs) sep = x @ sep @ Join xs sep"
  by (cases xs) simp_all

lemma split_Join:
  assumes "xs \<noteq> []" "\<forall>x \<in> set xs. c \<notin> set x"
  shows "split_on c [] (Join xs [c]) = xs"
  using assms
proof (induction xs)
  case (Cons x xs)
  then show ?case using split_on_plain [of c x "[]"] split_on_append [of c x "[]" "Join xs [c]"]
    by (cases "xs = []") (simp_all add: Join_Cons)
qed simp

lemma Join_inj:
  assumes "Join xs [c] = Join ys [c]" "xs \<noteq> []" "ys \<noteq> []" "\<forall>x \<in> set xs \<union> set ys. c \<notin> set x"
  shows "xs = ys"
  by (metis assms split_Join Un_iff)

section \<open>What the encoding keeps\<close>

definition values_of :: "url_values \<Rightarrow> string \<Rightarrow> string list" where
  "values_of f k = (case map_of f k of None \<Rightarrow> [] | Some vs \<Rightarrow> vs)"

definition sent_pairs :: "url_values \<Rightarrow> (string \<times> string) list" where
  "sent_pairs f = concat (map (\<lambda>(k, vs). map (Pair k) vs) (sort_key fst f))"

definition encode_pair :: "string \<times> string \<Rightarrow> string" where
  "encode_pair p = QueryEscape (fst p) @ ''='' @ QueryEscape (snd p)"

lemma encoded_pairs_map: "encoded_pairs f = map encode_pair (sent_pairs f)"
proof -
  have "concat (map (\<lambda>(k, vs). map (\<lambda>v. QueryEscape k @ ''='' @ QueryEscape v) vs) g)
      = map encode_pair (concat (map (\<lambda>(k, vs). map (Pair k) vs) g))" for g :: url_values
    by (induction g) (auto simp: encode_pair_def)
  then show ?thesis by (simp add: encoded_pairs_def sent_pairs_def)
qed

lemma encode_pair_inj: "encode_pair p = encode_pair q \<Longrightarrow> p = q"
proof -
  assume "encode_pair p = encode_pair q"
  then have "split_on CHR ''='' [] (encode_pair p) = split_on CHR ''='' [] (encode_pair q)" by simp
  then have "[QueryEscape (fst p), QueryEscape (snd p)] = [QueryEscape (fst q), QueryEscape (snd q)]"
    using split_on_append [of "CHR ''=''" _ "[]"] split_on_plain [of "CHR ''=''" _ "[]"]
    by (simp add: encode_pair_def escaped_free)
  then show "p = q" using QueryEscape_inj by (auto intro: prod_eqI)
qed

lemma encode_pair_free: "CHR ''&'' \<notin> set (encode_pair p)" "CHR 0x00 \<notin> set (encode_pair p)" "encode_pair p \<noteq> []"
  using escaped_free by (auto simp: encode_pair_def)

lemma Join_empty: "Join xs sep = [] \<Longrightarrow> xs = [] \<or> [] \<in> set xs"
  by (cases xs; cases "tl xs") auto

lemma encoded_pairs_parts: "x \<in> set (encoded_pairs h) \<Longrightarrow> CHR ''&'' \<notin> set x \<and> x \<noteq> []"
  unfolding encoded_pairs_map set_map by (elim imageE) (simp add: encode_pair_free)

lemma encoded_pairs_inj:
  assumes "Join (encoded_pairs f) [CHR ''&''] = Join (encoded_pairs g) [CHR ''&'']"
  shows "encoded_pairs f = encoded_pairs g"
proof (cases "encoded_pairs f = [] \<or> encoded_pairs g = []")
  case True
  then have "Join (encoded_pairs f) [CHR ''&''] = []" "Join (encoded_pairs g) [CHR ''&''] = []"
    using assms by (elim disjE; simp)+
  then have "encoded_pairs f = []" "encoded_pairs g = []"
    using Join_empty encoded_pairs_parts by blast+
  then show ?thesis by simp
next
  case False
  then show ?thesis using Join_inj [OF assms] encoded_pairs_parts by blast
qed

lemma values_Encode_pairs:
  assumes "values_Encode f = values_Encode g"
  shows "sent_pairs f = sent_pairs g"
proof -
  have "map encode_pair (sent_pairs f) = map encode_pair (sent_pairs g)"
    using encoded_pairs_inj [of f g] assms unfolding values_Encode_def encoded_pairs_map by blast
  then show ?thesis by (simp only: inj_map_eq_map [OF injI [OF encode_pair_inj]])
qed

lemma values_of_pairs:
  assumes "distinct (map fst f)"
  shows "values_of f k = map snd (filter (\<lambda>p. fst p = k) (sent_pairs f))"
proof -
  have pairs: "map snd (filter (\<lambda>p. fst p = k) (concat (map (\<lambda>(k, vs). map (Pair k) vs) g))) = values_of g k"
    if "distinct (map fst g)" for g :: url_values
    using that
  proof (induction g)
    case (Cons x g)
    obtain j vs where x: "x = (j, vs)" by fastforce
    have own: "map snd (filter (\<lambda>p. fst p = k) (map (Pair j) vs)) = (if j = k then vs else [])"
      by (induction vs) auto
    have "map_of g j = None" using Cons.prems x by (simp add: map_of_eq_None_iff)
    then have "j = k \<Longrightarrow> values_of g k = []" by (auto simp: values_of_def)
    with Cons own x show ?case by (cases "j = k") (simp_all add: values_of_def)
  qed (simp add: values_of_def)
  have sorted: "distinct (map fst (sort_key fst f))" "set (sort_key fst f) = set f"
    using assms by (auto simp: distinct_map)
  have "map_of (sort_key fst f) = map_of f"
    using map_of_inject_set [of "sort_key fst f" f] sorted assms by simp
  then show ?thesis using pairs [OF sorted(1)] by (simp add: sent_pairs_def values_of_def)
qed

lemma values_Get_of: "values_Get f k = (case values_of f k of [] \<Rightarrow> '''' | v # _ \<Rightarrow> v)"
  by (auto simp: values_Get_def values_of_def split: option.split list.split)

lemma map_of_canonical: "map_of (canonical_form f) k = (if k = ''_csrf'' then None else map_of f k)"
  unfolding canonical_form_def by (induction f) auto

lemma field_visible:
  "field (visible_values u f) k = (if hidden_key u k then '''' else values_Get f k)"
proof -
  have "map_of (map (\<lambda>(k, _). (k, values_Get g k)) (filter (\<lambda>(k, _). \<not> hidden_key u k) h)) k
      = (if hidden_key u k \<or> map_of h k = None then None else Some (values_Get g k))" for g and h :: url_values
    by (induction h) auto
  then have "map_of (visible_values u f) k = (if hidden_key u k \<or> map_of f k = None then None else Some (values_Get f k))"
    by (simp add: visible_values_def)
  moreover have "map_of f k = None \<Longrightarrow> values_Get f k = []" by (simp add: values_Get_def)
  ultimately show ?thesis by (simp add: field_def)
qed

lemma ParseCommandForm_Inr:
  "ParseCommandForm s r sessionID action target = Inr c \<longleftrightarrow>
     (\<exists>f version. fr_MediaType r = Some ''application/x-www-form-urlencoded'' \<and> fr_PostForm r = Some f \<and>
        Valid (values_Get f ''_request_id'') \<and> form_version f = Inr version \<and>
        c = \<lparr>cf_RequestID = values_Get f ''_request_id'', cf_Version = version, cf_Values = visible_values (sv_unicode s) f,
             cf_Fingerprint = RequestFingerprint (sv_sha s) sessionID action target (values_Encode (canonical_form f))\<rparr>)"
  by (auto simp: ParseCommandForm_def Let_def split: option.splits sum.splits)

lemma encode_free: "CHR 0x00 \<notin> set (values_Encode f)"
proof -
  have "CHR 0x00 \<notin> set (Join xs ''&'')" if "\<forall>x \<in> set xs. CHR 0x00 \<notin> set x" for xs
    using that by (induction xs "''&''" rule: Join.induct) auto
  then show ?thesis by (simp add: values_Encode_def encoded_pairs_map encode_pair_free)
qed

definition plain_text :: "string \<Rightarrow> bool" where
  "plain_text s \<longleftrightarrow> CHR 0x00 \<notin> set s"

text \<open>
  C30: a fingerprint identifies a submission. When two accepted forms have the same fingerprint, either
  SHA-256 has collided or they were sent in the same session, for the same action and target, with
  the same values of every field but the CSRF token, so they carry the same request identifier, the
  same version and the same command. Replaying a command identifier with other input is thus told
  apart from a resubmission by the fingerprint alone.
\<close>

theorem form_fingerprint_separates:
  assumes "ParseCommandForm s r1 id1 action1 target1 = Inr c1" "ParseCommandForm s r2 id2 action2 target2 = Inr c2"
    and "fr_PostForm r1 = Some f1" "fr_PostForm r2 = Some f2" "distinct (map fst f1)" "distinct (map fst f2)"
    and "list_all plain_text [id1, action1, target1, id2, action2, target2]"
    and "cf_Fingerprint c1 = cf_Fingerprint c2"
  shows "(\<exists>x y. x \<noteq> y \<and> sv_sha s x = sv_sha s y) \<or>
    id1 = id2 \<and> action1 = action2 \<and> target1 = target2 \<and>
    (\<forall>k. k \<noteq> ''_csrf'' \<longrightarrow> values_of f1 k = values_of f2 k) \<and>
    cf_RequestID c1 = cf_RequestID c2 \<and> cf_Version c1 = cf_Version c2 \<and>
    (\<forall>k. field (cf_Values c1) k = field (cf_Values c2) k)"
proof (cases "\<exists>x y. x \<noteq> y \<and> sv_sha s x = sv_sha s y")
  case False
  note c1 = assms(1) [unfolded ParseCommandForm_Inr assms(3) option.inject]
    and c2 = assms(2) [unfolded ParseCommandForm_Inr assms(4) option.inject]
  let ?e1 = "values_Encode (canonical_form f1)" and ?e2 = "values_Encode (canonical_form f2)"
  have "RequestFingerprint (sv_sha s) id1 action1 target1 ?e1 = RequestFingerprint (sv_sha s) id2 action2 target2 ?e2"
    using c1 c2 assms(8) by auto
  then have "Join [id1, action1, target1, ?e1] [CHR 0x00] = Join [id2, action2, target2, ?e2] [CHR 0x00]"
    using False unfolding RequestFingerprint_def by blast
  then have parts: "[id1, action1, target1, ?e1] = [id2, action2, target2, ?e2]"
    by (rule Join_inj) (use assms(7) encode_free in \<open>auto simp: plain_text_def\<close>)
  have d: "distinct (map fst (canonical_form f))" if "distinct (map fst f)" for f
    using that by (simp add: canonical_form_def distinct_map_filter)
  have same: "values_of f1 k = values_of f2 k" if "k \<noteq> ''_csrf''" for k
  proof -
    have "values_of (canonical_form f1) k = values_of (canonical_form f2) k"
      using values_Encode_pairs [of "canonical_form f1" "canonical_form f2"] parts d [OF assms(5)] d [OF assms(6)]
      by (simp add: values_of_pairs)
    then show ?thesis using that by (simp add: values_of_def map_of_canonical)
  qed
  have get: "values_Get f1 k = values_Get f2 k" if "k \<noteq> ''_csrf''" for k
    using same [OF that] by (simp add: values_Get_of)
  have "hidden_key (sv_unicode s) ''_csrf''" by (simp add: hidden_key_def HasPrefix_def)
  then have "field (visible_values (sv_unicode s) f1) k = field (visible_values (sv_unicode s) f2) k" for k
    using get by (cases "k = ''_csrf''") (simp_all add: field_visible)
  moreover have "form_version f1 = form_version f2" using get [of "''_version''"] by (simp add: form_version_def)
  ultimately show ?thesis using c1 c2 parts same get [of "''_request_id''"] by auto
qed simp

definition demo_form :: "string \<Rightarrow> form_request" where
  "demo_form token = \<lparr>fr_MediaType = Some ''application/x-www-form-urlencoded'',
     fr_PostForm = Some [(''_csrf'', [token]), (''_request_id'', [li_RequestID demo_delete_input])]\<rparr>"

definition demo_hashing :: services where
  "demo_hashing = demo_services\<lparr>sv_sha := bytes_of_string\<rparr>"

lemma demo_form_parses:
  "ParseCommandForm demo_hashing (demo_form token) ''s'' ''user_create'' '''' = Inr
     \<lparr>cf_RequestID = li_RequestID demo_delete_input, cf_Version = None, cf_Values = [],
      cf_Fingerprint = RequestFingerprint bytes_of_string ''s'' ''user_create'' ''''
        (values_Encode [(''_request_id'', [li_RequestID demo_delete_input])])\<rparr>"
  unfolding ParseCommandForm_Inr demo_form_def
  by (simp add: values_Get_def demo_request_valid form_version_def visible_values_def hidden_key_def HasPrefix_def
      canonical_form_def demo_hashing_def)

text \<open>The page is loaded twice and sent twice.\<close>

theorem form_fingerprint_separates_witness:
  "\<exists>c1 c2. ParseCommandForm demo_hashing (demo_form ''a'') ''s'' ''user_create'' '''' = Inr c1 \<and>
     ParseCommandForm demo_hashing (demo_form ''b'') ''s'' ''user_create'' '''' = Inr c2 \<and>
     cf_RequestID c1 = cf_RequestID c2 \<and> cf_Fingerprint c1 = cf_Fingerprint c2"
proof -
  have inj: "x = y" if "bytes_of_string x = bytes_of_string y" for x y
    using arg_cong [OF that, of string_of_bytes] by simp
  from form_fingerprint_separates [OF demo_form_parses [of "''a''"] demo_form_parses [of "''b''"]]
  show ?thesis using demo_form_parses inj
    by (fastforce simp: demo_form_def plain_text_def demo_hashing_def)
qed

end
