(* ===== verification/Web_Pages.thy ===== *)
theory Web_Pages
  imports Web_Forms Store_Queries
begin

text \<open>
  What the handlers share (\<open>internal/web/handlers/common.go\<close> and \<open>errors.go\<close>): the session of a
  request, the classification of errors, pages and responses. The session manager is a package of its
  own and a parameter here; the fixed Chinese sentences of the panel are written as short English
  names, and a page holds the records its template renders.
\<close>

section \<open>The session of a request\<close>

text \<open>
  The operations of \<open>scs.SessionManager\<close> on the session data of a request. \<open>sc_Commit\<close> is the token, the
  encoded data and the expiry that a commit hands to the session store.
\<close>

datatype session_status = Unmodified | Modified | Destroyed

record 'm session_manager =
  sc_GetString :: "'m \<Rightarrow> string \<Rightarrow> string"
  sc_GetInt64 :: "'m \<Rightarrow> string \<Rightarrow> int"
  sc_Exists :: "'m \<Rightarrow> string \<Rightarrow> bool"
  sc_Remove :: "'m \<Rightarrow> string \<Rightarrow> 'm"
  sc_PutString :: "'m \<Rightarrow> string \<Rightarrow> string \<Rightarrow> 'm"
  sc_PutInt64 :: "'m \<Rightarrow> string \<Rightarrow> int \<Rightarrow> 'm"
  sc_Token :: "'m \<Rightarrow> string"
  sc_Status :: "'m \<Rightarrow> session_status"
  sc_RenewToken :: "nat \<Rightarrow> 'm \<Rightarrow> 'm"
  sc_Destroy :: "'m \<Rightarrow> 'm"
  sc_Commit :: "'m \<Rightarrow> string \<times> 8 word list \<times> instant"
  sc_Decode :: "string \<Rightarrow> 8 word list option \<Rightarrow> 'm option"

definition SessionAdministratorID :: string where "SessionAdministratorID = ''administrator_id''"
definition SessionPasswordVersion :: string where "SessionPasswordVersion = ''password_version''"
definition sessionFlashKind :: string where "sessionFlashKind = ''flash_kind''"
definition sessionFlashMessage :: string where "sessionFlashMessage = ''flash_message''"

definition PopString :: "'m session_manager \<Rightarrow> string \<Rightarrow> 'm \<Rightarrow> string \<times> 'm" where
  "PopString sc key m = (sc_GetString sc m key, if sc_Exists sc m key then sc_Remove sc m key else m)"

section \<open>Errors as the administrator sees them\<close>

record PageFailure =
  fl_Status :: int
  fl_Field :: string
  fl_Message :: string

definition translated_fields :: "string list" where
  "translated_fields = [''display_name'', ''name'', ''public_host'', ''listen_address'', ''port_pool_start'',
     ''port_pool_end'', ''port'', ''method'', ''network'', ''reset_day'', ''limit_bytes'', ''quota'', ''template_id'',
     ''_request_id'', ''_version'']"

definition fieldMessage :: "string \<Rightarrow> string \<Rightarrow> string" where
  "fieldMessage name fallback = (if name \<in> set translated_fields then ''field '' @ name else fallback)"

definition translated_conflicts :: "string list" where
  "translated_conflicts = [''port is already assigned to another user'',
     ''port pool is exhausted; widen the range on the inbound template'',
     ''inbound template changed since the page was loaded'', ''user name already exists'',
     ''inbound template already exists'', ''request identifier was reused with different input'',
     ''inbound template changed or still has managed users'', ''inbound template is not compatible'',
     ''inbound template must be revalidated against the running node'',
     ''connection information is unavailable for deleted users'',
     ''template still has users, unconfirmed removals or pending synchronization; method and listen address cannot change until they are confirmed absent'']"

definition conflictMessage :: "string \<Rightarrow> string" where
  "conflictMessage message = (if message \<in> set translated_conflicts then ''conflict '' @ message
     else ''not allowed in the current state: '' @ message)"

definition Classify :: "err \<Rightarrow> PageFailure" where
  "Classify e = (case e of
     ValidationError name message \<Rightarrow> \<lparr>fl_Status = 422, fl_Field = name, fl_Message = fieldMessage name message\<rparr>
   | ConflictError message \<Rightarrow> \<lparr>fl_Status = 409, fl_Field = '''', fl_Message = conflictMessage message\<rparr>
   | InvalidStateError message \<Rightarrow> \<lparr>fl_Status = 409, fl_Field = '''', fl_Message = conflictMessage message\<rparr>
   | NotFoundError _ \<Rightarrow> \<lparr>fl_Status = 404, fl_Field = '''', fl_Message = ''the resource does not exist''\<rparr>
   | _ \<Rightarrow> \<lparr>fl_Status = 500, fl_Field = '''', fl_Message = ''the request cannot be completed''\<rparr>)"

section \<open>Pages and responses\<close>

text \<open>What a page shows besides the frame: the records its template renders.\<close>

datatype page_data =
    NoData
  | UserFormData "(InboundTemplate \<times> PoolUsage option) list"
  | UserListData "UserRecord list" string string bool
  | UserTableData "UserRecord list" string string bool bool "instant option"
  | UserDetailData UserRecord bool bool "UserDetail option" "DashboardSummary option"
  | UserEditData UserRecord
  | UserData UserRecord
  | ConnectionData UserRecord "ConnectionInfo option"
  | TemplateListData "InboundTemplate list"
  | TemplateFormData bool "InboundTemplate option"
  | TemplateDetailData InboundTemplate "PoolUsage option" "bool option"
  | AuditData "AuditEvent list" "UserRecord list" AuditFilter string
  | DashboardData DashboardSummary
  | SettingsData string int

record page =
  pg_Section :: string
  pg_RequestID :: ID
  pg_Flash :: "(string \<times> string) option"
  pg_ErrorSummary :: string
  pg_FieldErrors :: fields
  pg_Values :: fields
  pg_Data :: page_data
  pg_Timezone :: string
  pg_Version :: int
  pg_Capacity :: string

text \<open>
  A redirect with status 303, a rendered template with its status, the login page with status 429 and
  a \<open>Retry-After\<close> header, or \<open>http.Error\<close>.
\<close>

datatype response =
    SeeOther string
  | Rendered int string page
  | RetryLater int page
  | Plain int string

definition blank_page :: page where
  "blank_page = \<lparr>pg_Section = '''', pg_RequestID = '''', pg_Flash = None, pg_ErrorSummary = '''', pg_FieldErrors = [],
     pg_Values = [], pg_Data = NoData, pg_Timezone = '''', pg_Version = 0, pg_Capacity = ''''\<rparr>"

text \<open>\<open>Renderer.Error\<close>.\<close>

definition error_response :: "int \<Rightarrow> string \<Rightarrow> ID \<Rightarrow> response" where
  "error_response status message safeID =
     Rendered status ''error.html'' (blank_page\<lparr>pg_ErrorSummary := message, pg_Values := [(''error_id'', safeID)]\<rparr>)"

definition missing_resource :: response where
  "missing_resource = error_response 404 ''the resource does not exist'' ''''"

definition bad_form :: response where
  "bad_form = error_response 400 ''malformed form'' ''''"

definition bad_form_or_version :: response where
  "bad_form_or_version = error_response 400 ''malformed form or missing version'' ''''"

section \<open>The base of the handlers\<close>

text \<open>
  The services behind the handlers, the intervals of the dashboard, and the session manager. All
  services work on the same store.
\<close>

record 'm web =
  wb_services :: services
  wb_interval :: duration
  wb_reconcile :: duration
  wb_sessions :: "'m session_manager"

definition wb_dashboards :: "'m web \<Rightarrow> dashboards" where
  "wb_dashboards c = \<lparr>en_now = en_now (wb_services c), en_newID = en_newID (wb_services c),
     en_interferes = en_interferes (wb_services c), ds_interval = wb_interval c, ds_reconcile = wb_reconcile c,
     ds_unicode = sv_unicode (wb_services c)\<rparr>"

text \<open>A request: its path, the identifier in it, the query, the posted form.\<close>

record web_request =
  wr_Path :: string
  wr_PathID :: string
  wr_Query :: url_values
  wr_Form :: form_request
  wr_HX :: bool

text \<open>A handler acts on the world and on the session, and answers.\<close>

type_synonym ('n, 'm) handler = "'m \<Rightarrow> ('n, response \<times> 'm) act"

definition answer :: "response \<Rightarrow> ('n, 'm) handler" where
  "answer r m = act_ret (r, m)"

definition pageSection :: "string \<Rightarrow> string" where
  "pageSection path = (if path = ''/'' then ''dashboard'' else if HasPrefix path ''/users'' then ''users''
     else if HasPrefix path ''/templates'' then ''templates'' else if HasPrefix path ''/audit'' then ''audit''
     else if HasPrefix path ''/settings'' then ''settings'' else '''')"

text \<open>\<open>Location(r).String()\<close>: the name of the panel's time zone, UTC when it cannot be read or loaded.\<close>

definition zone_name :: "(string \<Rightarrow> Location option) \<Rightarrow> db \<Rightarrow> string" where
  "zone_name zones d = (case fst (WithWriteTx PanelSettings d) of
     Inl e \<Rightarrow> ''UTC''
   | Inr p \<Rightarrow> if zones (ps_QuotaTimezone p) = None \<or> ps_QuotaTimezone p = '''' then ''UTC'' else ps_QuotaTimezone p)"

definition NewPage :: "'m web \<Rightarrow> web_request \<Rightarrow> 'm \<Rightarrow> ('n, page \<times> 'm) act" where
  "NewPage c r m =
     act_bind (act_newID (wb_services c)) (\<lambda>i.
     act_bind (act_query (wb_services c) (zone_name (sv_zones (wb_services c)))) (\<lambda>tz.
     (case PopString (wb_sessions c) sessionFlashMessage m of (message, m1) \<Rightarrow>
      case PopString (wb_sessions c) sessionFlashKind m1 of (kind, m2) \<Rightarrow>
        act_ret (blank_page\<lparr>pg_Section := pageSection (wr_Path r), pg_RequestID := i, pg_Timezone := tz,
          pg_Flash := (if message = '''' then None else Some (if kind = '''' then ''success'' else kind, message))\<rparr>, m2))))"

definition add_flash :: "'m web \<Rightarrow> string \<Rightarrow> string \<Rightarrow> 'm \<Rightarrow> 'm" where
  "add_flash c kind message m =
     sc_PutString (wb_sessions c) (sc_PutString (wb_sessions c) m sessionFlashKind kind) sessionFlashMessage message"

definition Actor :: "'m web \<Rightarrow> 'm \<Rightarrow> ID" where
  "Actor c m = sc_GetString (wb_sessions c) m SessionAdministratorID"

definition SessionToken :: "'m web \<Rightarrow> 'm \<Rightarrow> string" where
  "SessionToken c m = sc_Token (wb_sessions c) m"

definition Fail :: "'m web \<Rightarrow> err \<Rightarrow> ('n, 'm) handler" where
  "Fail c e m = (let f = Classify e in
     if fl_Status f = 500
     then act_bind (act_newID (wb_services c)) (\<lambda>i. act_ret (error_response 500 (fl_Message f) i, m))
     else act_ret (error_response (fl_Status f) (fl_Message f) '''', m))"

text \<open>A page on the data of a query, or its error.\<close>

definition act_or_fail :: "'m web \<Rightarrow> ('n, err + 'a) act \<Rightarrow> 'm \<Rightarrow> ('a \<Rightarrow> ('n, response \<times> 'm) act) \<Rightarrow> ('n, response \<times> 'm) act" where
  "act_or_fail c q m k = act_bind q (\<lambda>x. case x of Inl e \<Rightarrow> Fail c e m | Inr y \<Rightarrow> k y)"

definition with_page :: "'m web \<Rightarrow> web_request \<Rightarrow> 'm \<Rightarrow> (page \<Rightarrow> 'm \<Rightarrow> ('n, response \<times> 'm) act) \<Rightarrow> ('n, response \<times> 'm) act" where
  "with_page c r m k = act_bind (NewPage c r m) (\<lambda>(page, m'). k page m')"

text \<open>\<open>pathID\<close>, and a form that must carry a version.\<close>

definition with_id :: "web_request \<Rightarrow> 'm \<Rightarrow> (ID \<Rightarrow> ('n, response \<times> 'm) act) \<Rightarrow> ('n, response \<times> 'm) act" where
  "with_id r m k = (if Valid (wr_PathID r) then k (wr_PathID r) else act_ret (missing_resource, m))"

definition with_form :: "'m web \<Rightarrow> web_request \<Rightarrow> string \<Rightarrow> string \<Rightarrow> 'm \<Rightarrow> (CommandForm \<Rightarrow> ('n, response \<times> 'm) act) \<Rightarrow>
    ('n, response \<times> 'm) act" where
  "with_form c r action target m k =
     (case ParseCommandForm (wb_services c) (wr_Form r) (SessionToken c m) action target of
        Inl e \<Rightarrow> act_ret (bad_form, m) | Inr form \<Rightarrow> k form)"

definition with_versioned_form :: "'m web \<Rightarrow> web_request \<Rightarrow> string \<Rightarrow> string \<Rightarrow> 'm \<Rightarrow>
    (CommandForm \<Rightarrow> int \<Rightarrow> ('n, response \<times> 'm) act) \<Rightarrow> ('n, response \<times> 'm) act" where
  "with_versioned_form c r action target m k =
     (case ParseCommandForm (wb_services c) (wr_Form r) (SessionToken c m) action target of
        Inl e \<Rightarrow> act_ret (bad_form_or_version, m)
      | Inr form \<Rightarrow> (case cf_Version form of None \<Rightarrow> act_ret (bad_form_or_version, m) | Some v \<Rightarrow> k form v))"

text \<open>The errors a form shows again instead of an error page.\<close>

definition shown_in_form :: "PageFailure \<Rightarrow> bool" where
  "shown_in_form f \<longleftrightarrow> fl_Status f \<noteq> 404 \<and> fl_Status f \<noteq> 500"

definition with_errors :: "PageFailure \<Rightarrow> fields \<Rightarrow> page \<Rightarrow> page" where
  "with_errors f vs p = p\<lparr>pg_Values := vs, pg_ErrorSummary := fl_Message f,
     pg_FieldErrors := (if fl_Field f = '''' then [] else [(fl_Field f, fl_Message f)])\<rparr>"

primrec act_map :: "('a \<Rightarrow> ('n, 'b) act) \<Rightarrow> 'a list \<Rightarrow> ('n, 'b list) act" where
  "act_map f [] = act_ret []"
| "act_map f (x # xs) = act_bind (f x) (\<lambda>y. act_bind (act_map f xs) (\<lambda>ys. act_ret (y # ys)))"

end
