(* ===== verification/Web_Users.thy ===== *)
theory Web_Users
  imports Web_Pages
begin

text \<open>
  The pages on users: \<open>internal/web/handlers/users.go\<close>, handler by handler.
\<close>

section \<open>Lists and forms\<close>

definition valid_status :: "string \<Rightarrow> bool" where
  "valid_status status \<longleftrightarrow> status \<in> set ['''', ''active'', ''disabled'', ''quota_exceeded'', ''pending'', ''deleted'']"

definition list_users :: "'m web \<Rightarrow> UserFilter \<Rightarrow> ('n, UserRecord list) act" where
  "list_users c f = act_query (wb_services c) (UserService_List (sv_unicode (wb_services c)) f)"

definition read_user :: "'m web \<Rightarrow> ID \<Rightarrow> ('n, err + UserRecord) act" where
  "read_user c i = act_query (wb_services c) (User i)"

definition activeCapacity :: nat where "activeCapacity = 20"

definition capacityNotice :: "'m web \<Rightarrow> ('n, string) act" where
  "capacityNotice c = act_bind (list_users c \<lparr>uf_Query = '''', uf_Status = '''', uf_IncludeDeleted = False\<rparr>) (\<lambda>rows.
     act_ret (if length rows \<le> activeCapacity then '''' else ''over capacity''))"

text \<open>The filter of the list, from the query; the list page trims the search text.\<close>

definition list_filter :: "(string \<Rightarrow> string) \<Rightarrow> web_request \<Rightarrow> UserFilter" where
  "list_filter trim r =
     \<lparr>uf_Query = trim (values_Get (wr_Query r) ''q''),
      uf_Status = (if valid_status (values_Get (wr_Query r) ''status'') then values_Get (wr_Query r) ''status'' else ''''),
      uf_IncludeDeleted = (values_Get (wr_Query r) ''deleted'' = ''1'')\<rparr>"

definition UserHandler_List :: "'m web \<Rightarrow> web_request \<Rightarrow> ('n, 'm) handler" where
  "UserHandler_List c r m = (let f = list_filter TrimSpace r in
     act_bind (list_users c f) (\<lambda>rows.
     with_page c r m (\<lambda>page m1. act_bind (capacityNotice c) (\<lambda>notice.
     act_ret (Rendered 200 ''users_list.html'' (page\<lparr>pg_Capacity := notice,
       pg_Data := UserListData rows (uf_Query f) (uf_Status f) (uf_IncludeDeleted f)\<rparr>), m1)))))"

text \<open>The compatible templates with the use of their port pools, where it can be read.\<close>

definition formData :: "'m web \<Rightarrow> ('n, (InboundTemplate \<times> PoolUsage option) list) act" where
  "formData c = act_bind (act_query (wb_services c) (Templates True)) (act_map (\<lambda>t.
     act_bind (act_query (wb_services c) (PortPoolUsage (tm_ID t))) (\<lambda>u.
     act_ret (t, case u of Inl e \<Rightarrow> None | Inr x \<Rightarrow> Some x))))"

definition UserHandler_NewForm :: "'m web \<Rightarrow> web_request \<Rightarrow> ('n, 'm) handler" where
  "UserHandler_NewForm c r m = with_page c r m (\<lambda>page m1.
     act_bind (formData c) (\<lambda>ts. act_bind (capacityNotice c) (\<lambda>notice.
     act_ret (Rendered 200 ''user_form.html'' (page\<lparr>pg_Values := [(''reset_day'', ''1''), (''quota_unit'', ''GiB'')],
       pg_Capacity := notice, pg_Data := UserFormData ts\<rparr>), m1))))"

definition renderUserForm :: "'m web \<Rightarrow> web_request \<Rightarrow> fields \<Rightarrow> err \<Rightarrow> ('n, 'm) handler" where
  "renderUserForm c r vs cause m = (let f = Classify cause in
     if \<not> shown_in_form f then Fail c cause m
     else with_page c r m (\<lambda>page m1.
       act_bind (formData c) (\<lambda>ts. act_bind (capacityNotice c) (\<lambda>notice.
       act_ret (Rendered (fl_Status f) ''user_form.html''
         ((with_errors f vs page)\<lparr>pg_Capacity := notice, pg_Data := UserFormData ts\<rparr>), m1)))))"

section \<open>Creating\<close>

definition not_a_number :: err where
  "not_a_number = ValidationError ''port'' ''port must be a number''"

text \<open>An empty port field asks for any port.\<close>

definition form_port :: "fields \<Rightarrow> err + int option" where
  "form_port vs = (let raw = TrimSpace (field vs ''port'') in
     if raw = '''' then Inr None
     else case ParseInt raw of (n, ok) \<Rightarrow> if ok then Inr (Some n) else Inl not_a_number)"

definition create_input :: "CommandForm \<Rightarrow> ID \<Rightarrow> err + CreateUserInput" where
  "create_input form actor = (let vs = cf_Values form in
     if \<not> Valid (field vs ''template_id'') then Inl (ValidationError ''template_id'' ''inbound template is required'')
     else case form_port vs of Inl e \<Rightarrow> Inl e
     | Inr port \<Rightarrow> (case parseQuota vs of Inl e \<Rightarrow> Inl e
       | Inr limit \<Rightarrow> Inr \<lparr>cu_DisplayName = field vs ''display_name'', cu_TemplateID = field vs ''template_id'',
           cu_Port = port, cu_LimitBytes = limit, cu_ResetDay = fst (ParseInt (TrimSpace (field vs ''reset_day''))),
           cu_RequestID = cf_RequestID form, cu_ActorID = actor, cu_Fingerprint = cf_Fingerprint form\<rparr>))"

definition UserHandler_Create :: "'m web \<Rightarrow> web_request \<Rightarrow> ('n, 'm) handler" where
  "UserHandler_Create c r m = with_form c r ''user_create'' '''' m (\<lambda>form.
     case create_input form (Actor c m) of
       Inl e \<Rightarrow> renderUserForm c r (cf_Values form) e m
     | Inr input \<Rightarrow> act_bind (UserService_CreateUser (wb_services c) input) (\<lambda>x. case x of
         Inl e \<Rightarrow> renderUserForm c r (cf_Values form) e m
       | Inr (i, replay) \<Rightarrow> act_ret (SeeOther (''/users/'' @ i), add_flash c ''success'' ''user created'' m)))"

section \<open>Details and connection\<close>

definition credential_confirmed :: "UserRecord \<Rightarrow> bool" where
  "credential_confirmed u \<longleftrightarrow> cr_State (ur_Credential u) = CredentialActive \<and>
     al_DesiredCredentialVersion (ur_Allocation u) = cr_Version (ur_Credential u)"

definition detailData :: "'m web \<Rightarrow> UserRecord \<Rightarrow> ('n, page_data) act" where
  "detailData c u = (let live = (mu_Lifecycle (ur_User u) \<noteq> LifecycleDeleted) in
     act_bind (DashboardService_UserDetail (wb_dashboards c) u) (\<lambda>detail.
     act_bind (Summary (wb_dashboards c)) (\<lambda>summary.
     act_ret (UserDetailData u (credential_confirmed u \<and> live) (\<not> credential_confirmed u \<and> live) (Some detail)
       (case summary of Inl e \<Rightarrow> None | Inr x \<Rightarrow> Some x)))))"

definition UserHandler_Detail :: "'m web \<Rightarrow> web_request \<Rightarrow> ('n, 'm) handler" where
  "UserHandler_Detail c r m = with_id r m (\<lambda>i. act_or_fail c (read_user c i) m (\<lambda>u.
     with_page c r m (\<lambda>page m1. act_bind (detailData c u) (\<lambda>d.
     act_ret (Rendered 200 ''user_detail.html'' (page\<lparr>pg_Version := mu_Revision (ur_User u), pg_Data := d\<rparr>), m1)))))"

definition UserHandler_Connection :: "'m web \<Rightarrow> web_request \<Rightarrow> ('n, 'm) handler" where
  "UserHandler_Connection c r m = with_id r m (\<lambda>i. act_or_fail c (read_user c i) m (\<lambda>u.
     with_page c r m (\<lambda>page m1. act_bind (BuildConnectionInfo (wb_services c) i) (\<lambda>info. case info of
       Inr k \<Rightarrow> act_ret (Rendered 200 ''user_connection.html'' (page\<lparr>pg_Data := ConnectionData u (Some k)\<rparr>), m1)
     | Inl e \<Rightarrow> if e = ErrConnectionPending
         then act_ret (Rendered 200 ''user_connection.html'' (page\<lparr>pg_Data := ConnectionData u None\<rparr>), m1)
         else Fail c e m1))))"

section \<open>Editing\<close>

definition deleted_user :: response where
  "deleted_user = error_response 409 ''deleted users cannot be changed'' ''''"

definition UserHandler_EditForm :: "'m web \<Rightarrow> web_request \<Rightarrow> ('n, 'm) handler" where
  "UserHandler_EditForm c r m = with_id r m (\<lambda>i. act_or_fail c (read_user c i) m (\<lambda>u.
     if mu_Lifecycle (ur_User u) = LifecycleDeleted then act_ret (deleted_user, m)
     else with_page c r m (\<lambda>page m1.
       act_ret (Rendered 200 ''user_edit.html'' (page\<lparr>pg_Version := mu_Revision (ur_User u),
         pg_Values := editValues u, pg_Data := UserEditData u\<rparr>), m1))))"

definition renderEditForm :: "'m web \<Rightarrow> web_request \<Rightarrow> ID \<Rightarrow> fields \<Rightarrow> err \<Rightarrow> ('n, 'm) handler" where
  "renderEditForm c r i vs cause m = (let f = Classify cause in
     if \<not> shown_in_form f then Fail c cause m
     else act_or_fail c (read_user c i) m (\<lambda>u. with_page c r m (\<lambda>page m1.
       act_ret (Rendered (fl_Status f) ''user_edit.html'' ((with_errors f vs page)\<lparr>
         pg_Version := mu_Revision (ur_User u), pg_Data := UserEditData u\<rparr>), m1))))"

definition UserHandler_Update :: "'m web \<Rightarrow> web_request \<Rightarrow> ('n, 'm) handler" where
  "UserHandler_Update c r m = with_id r m (\<lambda>i. with_versioned_form c r ''user_update'' i m (\<lambda>form v.
     (let vs = cf_Values form in case parseQuota vs of
        Inl e \<Rightarrow> renderEditForm c r i vs e m
      | Inr limit \<Rightarrow> act_bind (UserService_UpdateUser (wb_services c)
          \<lparr>ui_ID = i, ui_DisplayName = field vs ''display_name'', ui_LimitBytes = limit,
           ui_ResetDay = fst (ParseInt (TrimSpace (field vs ''reset_day''))),
           ui_AdminEnabled = (field vs ''admin_enabled'' = ''on''), ui_ExpectedRevision = v,
           ui_RequestID = cf_RequestID form, ui_ActorID = Actor c m, ui_Fingerprint = cf_Fingerprint form\<rparr>) (\<lambda>x. case x of
            Inl e \<Rightarrow> renderEditForm c r i vs e m
          | Inr replay \<Rightarrow> act_ret (SeeOther (''/users/'' @ i), add_flash c ''success'' ''user updated'' m)))))"

text \<open>A conflict shows the detail page in its current state; any other error an error page.\<close>

definition conflictOrFail :: "'m web \<Rightarrow> web_request \<Rightarrow> ID \<Rightarrow> err \<Rightarrow> ('n, 'm) handler" where
  "conflictOrFail c r i cause m = (let f = Classify cause in
     if fl_Status f \<noteq> 409 then Fail c cause m
     else act_or_fail c (read_user c i) m (\<lambda>u. with_page c r m (\<lambda>page m1. act_bind (detailData c u) (\<lambda>d.
       act_ret (Rendered 409 ''user_detail.html'' (page\<lparr>pg_ErrorSummary := fl_Message f,
         pg_Version := mu_Revision (ur_User u), pg_Data := d\<rparr>), m1)))))"

definition setEnabled :: "'m web \<Rightarrow> web_request \<Rightarrow> bool \<Rightarrow> ('n, 'm) handler" where
  "setEnabled c r enabled m = with_id r m (\<lambda>i.
     with_versioned_form c r (if enabled then ''user_enable'' else ''user_disable'') i m (\<lambda>form v.
     act_bind (SetAdminEnabled (wb_services c) \<lparr>sn_UserID = i, sn_Enabled = enabled, sn_ExpectedRevision = v,
         sn_RequestID = cf_RequestID form, sn_ActorID = Actor c m, sn_Fingerprint = cf_Fingerprint form\<rparr>) (\<lambda>x. case x of
       Inl e \<Rightarrow> conflictOrFail c r i e m
     | Inr replay \<Rightarrow> act_ret (SeeOther (''/users/'' @ i),
         add_flash c ''success'' (if enabled then ''user enabled'' else ''user disabled'') m))))"

section \<open>Traffic, port, credential and deletion\<close>

definition UserHandler_ResetForm :: "'m web \<Rightarrow> web_request \<Rightarrow> ('n, 'm) handler" where
  "UserHandler_ResetForm c r m = with_id r m (\<lambda>i. act_or_fail c (read_user c i) m (\<lambda>u.
     with_page c r m (\<lambda>page m1. act_ret (Rendered 200 ''user_reset_traffic.html'' (page\<lparr>pg_Data := UserData u\<rparr>), m1))))"

definition UserHandler_Reset :: "'m web \<Rightarrow> web_request \<Rightarrow> ('n, 'm) handler" where
  "UserHandler_Reset c r m = with_id r m (\<lambda>i. with_form c r ''user_reset_traffic'' i m (\<lambda>form.
     act_bind (ResetTraffic (wb_services c) \<lparr>rt_ID = i, rt_RequestID = cf_RequestID form, rt_ActorID = Actor c m,
         rt_Fingerprint = cf_Fingerprint form\<rparr>) (\<lambda>x. case x of
       Inl e \<Rightarrow> Fail c e m
     | Inr replay \<Rightarrow> act_ret (SeeOther (''/users/'' @ i), add_flash c ''success'' ''traffic reset'' m))))"

text \<open>The confirmation pages of rotation, port change and deletion, by their templates.\<close>

definition confirmationPage :: "'m web \<Rightarrow> web_request \<Rightarrow> string \<Rightarrow> ('n, 'm) handler" where
  "confirmationPage c r template m = with_id r m (\<lambda>i. act_or_fail c (read_user c i) m (\<lambda>u.
     if mu_Lifecycle (ur_User u) = LifecycleDeleted then act_ret (deleted_user, m)
     else with_page c r m (\<lambda>page m1.
       act_ret (Rendered 200 template (page\<lparr>pg_Version := mu_Revision (ur_User u), pg_Data := UserData u\<rparr>), m1))))"

definition renderPortForm :: "'m web \<Rightarrow> web_request \<Rightarrow> ID \<Rightarrow> fields \<Rightarrow> err \<Rightarrow> ('n, 'm) handler" where
  "renderPortForm c r i vs cause m = act_or_fail c (read_user c i) m (\<lambda>u. let f = Classify cause in
     if \<not> shown_in_form f then Fail c cause m
     else with_page c r m (\<lambda>page m1.
       act_ret (Rendered (fl_Status f) ''user_port.html'' ((with_errors f vs page)\<lparr>
         pg_Version := mu_Revision (ur_User u), pg_Data := UserData u\<rparr>), m1)))"

definition is_validation :: "err \<Rightarrow> bool" where
  "is_validation e \<longleftrightarrow> (case e of ValidationError _ _ \<Rightarrow> True | _ \<Rightarrow> False)"

definition UserHandler_ChangePort :: "'m web \<Rightarrow> web_request \<Rightarrow> ('n, 'm) handler" where
  "UserHandler_ChangePort c r m = with_id r m (\<lambda>i. with_versioned_form c r ''user_port'' i m (\<lambda>form v.
     (let vs = cf_Values form in case ParseInt (TrimSpace (field vs ''port'')) of (port, ok) \<Rightarrow>
        if \<not> ok then renderPortForm c r i vs not_a_number m
        else act_bind (ChangePort (wb_services c) \<lparr>cp_UserID = i, cp_NewPort = port, cp_ExpectedRevision = v,
            cp_RequestID = cf_RequestID form, cp_ActorID = Actor c m, cp_Fingerprint = cf_Fingerprint form\<rparr>) (\<lambda>x. case x of
          Inl e \<Rightarrow> if is_validation e then renderPortForm c r i vs e m else conflictOrFail c r i e m
        | Inr replay \<Rightarrow> act_ret (SeeOther (''/users/'' @ i), add_flash c ''success'' ''port change started'' m)))))"

definition lifecycle_input :: "'m web \<Rightarrow> 'm \<Rightarrow> ID \<Rightarrow> CommandForm \<Rightarrow> int \<Rightarrow> LifecycleInput" where
  "lifecycle_input c m i form v = \<lparr>li_ID = i, li_ExpectedRevision = v, li_RequestID = cf_RequestID form,
     li_ActorID = Actor c m, li_Fingerprint = cf_Fingerprint form\<rparr>"

definition UserHandler_Rotate :: "'m web \<Rightarrow> web_request \<Rightarrow> ('n, 'm) handler" where
  "UserHandler_Rotate c r m = with_id r m (\<lambda>i. with_versioned_form c r ''user_rotate'' i m (\<lambda>form v.
     act_bind (UserService_RotateCredential (wb_services c) (lifecycle_input c m i form v)) (\<lambda>x. case x of
       Inl e \<Rightarrow> conflictOrFail c r i e m
     | Inr replay \<Rightarrow> act_ret (SeeOther (''/users/'' @ i), add_flash c ''success'' ''rotation started'' m))))"

definition UserHandler_Delete :: "'m web \<Rightarrow> web_request \<Rightarrow> ('n, 'm) handler" where
  "UserHandler_Delete c r m = with_id r m (\<lambda>i. with_versioned_form c r ''user_delete'' i m (\<lambda>form v.
     act_bind (DeleteUser (wb_services c) (lifecycle_input c m i form v)) (\<lambda>x. case x of
       Inl e \<Rightarrow> conflictOrFail c r i e m
     | Inr replay \<Rightarrow> act_ret (SeeOther ''/users'', add_flash c ''success'' ''user deleted'' m))))"

end
