(* ===== verification/Web_Panel.thy ===== *)
theory Web_Panel
  imports Web_Users Template_Service
begin

text \<open>
  The pages on templates, settings, the audit list and the dashboard: \<open>internal/web/handlers/\<close>
  \<open>templates.go\<close>, \<open>settings.go\<close>, \<open>audit.go\<close> and \<open>dashboard.go\<close>.
\<close>

section \<open>Templates\<close>

definition TemplateHandler_List :: "'m web \<Rightarrow> web_request \<Rightarrow> ('n, 'm) handler" where
  "TemplateHandler_List c r m = act_bind (act_query (wb_services c) (Templates False)) (\<lambda>ts.
     with_page c r m (\<lambda>page m1. act_ret (Rendered 200 ''templates_list.html'' (page\<lparr>pg_Data := TemplateListData ts\<rparr>), m1)))"

definition TemplateHandler_NewForm :: "'m web \<Rightarrow> web_request \<Rightarrow> ('n, 'm) handler" where
  "TemplateHandler_NewForm c r m = with_page c r m (\<lambda>page m1.
     act_ret (Rendered 200 ''template_form.html'' (page\<lparr>
       pg_Values := [(''method'', ''2022-blake3-aes-256-gcm''), (''network'', ''tcp_udp'')],
       pg_Data := TemplateFormData False None\<rparr>), m1))"

definition templateInput :: "CommandForm \<Rightarrow> ID \<Rightarrow> Revision \<Rightarrow> TemplateInput" where
  "templateInput form actor revision = (let vs = cf_Values form in
     \<lparr>ti_Name = field vs ''name'', ti_PublicHost = TrimSpace (field vs ''public_host''),
      ti_ListenAddress = TrimSpace (field vs ''listen_address''),
      ti_PortPoolStart = fst (ParseInt (TrimSpace (field vs ''port_pool_start''))),
      ti_PortPoolEnd = fst (ParseInt (TrimSpace (field vs ''port_pool_end''))),
      ti_Method = field vs ''method'', ti_Network = field vs ''network'', ti_RequestID = cf_RequestID form,
      ti_ExpectedRevision = revision, ti_ActorID = actor, ti_Fingerprint = cf_Fingerprint form\<rparr>)"

definition template_values :: "string \<Rightarrow> string \<Rightarrow> string \<Rightarrow> PortPool \<Rightarrow> string \<Rightarrow> string \<Rightarrow> fields" where
  "template_values name host listen pool method network =
     [(''name'', name), (''public_host'', host), (''listen_address'', listen),
      (''port_pool_start'', int_digits (pp_Start pool)), (''port_pool_end'', int_digits (pp_End pool)),
      (''method'', method), (''network'', network)]"

definition templateValues :: "InboundTemplate \<Rightarrow> fields" where
  "templateValues t = template_values (tm_Name t) (tm_PublicHost t) (tm_ListenAddress t) (tm_Pool t) (tm_Method t)
     (network_string (tm_Network t))"

text \<open>The values of the zero template.\<close>

definition empty_template_values :: fields where
  "empty_template_values = template_values '''' '''' '''' \<lparr>pp_Start = 0, pp_End = 0\<rparr> '''' ''''"

text \<open>The form again; an edited template, when it can be read, in its current state and version.\<close>

definition renderTemplateForm :: "'m web \<Rightarrow> web_request \<Rightarrow> ID option \<Rightarrow> fields \<Rightarrow> err \<Rightarrow> ('n, 'm) handler" where
  "renderTemplateForm c r edited vs cause m = (let f = Classify cause in
     if \<not> shown_in_form f then Fail c cause m
     else with_page c r m (\<lambda>page m1. case edited of
       None \<Rightarrow> act_ret (Rendered (fl_Status f) ''template_form.html''
         ((with_errors f vs page)\<lparr>pg_Data := TemplateFormData False None\<rparr>), m1)
     | Some i \<Rightarrow> act_bind (act_query (wb_services c) (Template i)) (\<lambda>x. case x of
         Inl e \<Rightarrow> act_ret (Rendered (fl_Status f) ''template_form.html''
           ((with_errors f vs page)\<lparr>pg_Data := TemplateFormData True None\<rparr>), m1)
       | Inr t \<Rightarrow> act_ret (Rendered (fl_Status f) ''template_form.html''
           ((with_errors f vs page)\<lparr>pg_Version := tm_Revision t, pg_Data := TemplateFormData True (Some t)\<rparr>), m1))))"

definition TemplateHandler_Create :: "'m web \<Rightarrow> web_request \<Rightarrow> ('n, 'm) handler" where
  "TemplateHandler_Create c r m = with_form c r ''template_register'' '''' m (\<lambda>form.
     act_bind (RegisterTemplate (wb_services c) (templateInput form (Actor c m) 0)) (\<lambda>x. case x of
       Inl e \<Rightarrow> renderTemplateForm c r None (cf_Values form) e m
     | Inr i \<Rightarrow> act_ret (SeeOther (''/templates/'' @ i), add_flash c ''success'' ''template saved'' m)))"

definition TemplateHandler_Detail :: "'m web \<Rightarrow> web_request \<Rightarrow> ('n, 'm) handler" where
  "TemplateHandler_Detail c r m = with_id r m (\<lambda>i. act_or_fail c (act_query (wb_services c) (Template i)) m (\<lambda>t.
     with_page c r m (\<lambda>page m1.
       act_bind (act_query (wb_services c) (PortPoolUsage i)) (\<lambda>usage.
       act_bind (StatsSuspect (wb_services c) i) (\<lambda>suspect.
       act_ret (Rendered 200 ''template_detail.html'' (page\<lparr>pg_Version := tm_Revision t, pg_Data := TemplateDetailData t
         (case usage of Inl e \<Rightarrow> None | Inr u \<Rightarrow> Some u) (Some suspect)\<rparr>), m1))))))"

definition TemplateHandler_EditForm :: "'m web \<Rightarrow> web_request \<Rightarrow> ('n, 'm) handler" where
  "TemplateHandler_EditForm c r m = with_id r m (\<lambda>i. act_or_fail c (act_query (wb_services c) (Template i)) m (\<lambda>t.
     with_page c r m (\<lambda>page m1. act_ret (Rendered 200 ''template_form.html'' (page\<lparr>pg_Version := tm_Revision t,
       pg_Values := templateValues t, pg_Data := TemplateFormData True (Some t)\<rparr>), m1))))"

definition TemplateHandler_Update :: "'m web \<Rightarrow> web_request \<Rightarrow> ('n, 'm) handler" where
  "TemplateHandler_Update c r m = with_id r m (\<lambda>i. with_versioned_form c r ''template_update'' i m (\<lambda>form v.
     act_bind (TemplateService_UpdateTemplate (wb_services c) i (templateInput form (Actor c m) v)) (\<lambda>x. case x of
       Inl e \<Rightarrow> renderTemplateForm c r (Some i) (cf_Values form) e m
     | Inr u \<Rightarrow> act_ret (SeeOther (''/templates/'' @ i), add_flash c ''success'' ''template updated'' m))))"

definition TemplateHandler_Revalidate :: "'m web \<Rightarrow> web_request \<Rightarrow> ('n, 'm) handler" where
  "TemplateHandler_Revalidate c r m = with_id r m (\<lambda>i. with_versioned_form c r ''template_revalidate'' i m (\<lambda>form v.
     act_bind (Revalidate (wb_services c) \<lparr>ri_ID = i, ri_ExpectedRevision = v, ri_RequestID = cf_RequestID form,
         ri_ActorID = Actor c m, ri_Fingerprint = cf_Fingerprint form\<rparr>) (\<lambda>x. case x of
       Inl e \<Rightarrow> renderTemplateForm c r (Some i) empty_template_values e m
     | Inr replay \<Rightarrow> act_ret (SeeOther (''/templates/'' @ i), add_flash c ''success'' ''validation queued'' m))))"

section \<open>Settings\<close>

definition read_settings :: "'m web \<Rightarrow> ('n, err + PanelSettingsRecord) act" where
  "read_settings c = act_query (wb_services c) (\<lambda>d. fst (WithWriteTx PanelSettings d))"

definition settings_page :: "PanelSettingsRecord \<Rightarrow> page \<Rightarrow> page" where
  "settings_page p page = page\<lparr>pg_Version := ps_Revision p, pg_Data := SettingsData (ps_QuotaTimezone p) (ps_Revision p)\<rparr>"

definition SettingsHandler_Show :: "'m web \<Rightarrow> web_request \<Rightarrow> ('n, 'm) handler" where
  "SettingsHandler_Show c r m = act_or_fail c (read_settings c) m (\<lambda>p. with_page c r m (\<lambda>page m1.
     act_ret (Rendered 200 ''settings.html'' ((settings_page p page)\<lparr>
       pg_Values := [(''quota_timezone'', ps_QuotaTimezone p)]\<rparr>), m1)))"

definition settings_errors :: "PageFailure \<Rightarrow> fields \<Rightarrow> page \<Rightarrow> page" where
  "settings_errors f vs page = page\<lparr>pg_Values := vs, pg_ErrorSummary := fl_Message f,
     pg_FieldErrors := (if fl_Field f = '''' then []
       else [(fl_Field f, fieldMessage (fl_Field f) ''the timezone must be an IANA name'')])\<rparr>"

definition SettingsHandler_Update :: "'m web \<Rightarrow> web_request \<Rightarrow> ('n, 'm) handler" where
  "SettingsHandler_Update c r m = with_versioned_form c r ''settings_update'' ''settings'' m (\<lambda>form v.
     act_bind (SettingsService_Update (wb_services c) \<lparr>us_QuotaTimezone = field (cf_Values form) ''quota_timezone'',
         us_ExpectedRevision = v, us_RequestID = cf_RequestID form, us_ActorID = Actor c m,
         us_Fingerprint = cf_Fingerprint form\<rparr>) (\<lambda>x. case x of
       Inr replay \<Rightarrow> act_ret (SeeOther ''/settings'', add_flash c ''success'' ''timezone updated'' m)
     | Inl e \<Rightarrow> (let f = Classify e in
         if fl_Status f = 500 then Fail c e m
         else act_or_fail c (read_settings c) m (\<lambda>p. with_page c r m (\<lambda>page m1.
           act_ret (Rendered (fl_Status f) ''settings.html''
             (settings_page p (settings_errors f (cf_Values form) page)), m1))))))"

section \<open>The audit list\<close>

text \<open>The actions an audit event can be filtered by (\<open>views/audit.go\<close>), and the string of a result.\<close>

definition audit_actions :: "string list" where
  "audit_actions = [''login'', ''logout'', ''administrator_initialized'', ''password_reset'', ''user_created'', ''user_updated'',
     ''user_enabled'', ''user_disabled'', ''credential_rotated'', ''user_deleted'', ''quota_exceeded'', ''traffic_reset'',
     ''cycle_restored'', ''sync_succeeded'', ''sync_failed'', ''port_changed'', ''port_assigned'', ''port_released'',
     ''inbound_created'', ''inbound_removed'', ''template_registered'', ''template_updated'', ''template_validated'',
     ''settings_updated'', ''reconcile_removed_unknown'']"

definition ValidAuditAction :: "string \<Rightarrow> bool" where
  "ValidAuditAction a \<longleftrightarrow> a \<in> set audit_actions \<or> a = ''''"

definition result_string :: "AuditResult \<Rightarrow> string" where
  "result_string x = (case x of AuditAccepted \<Rightarrow> ''accepted'' | AuditSucceeded \<Rightarrow> ''succeeded''
     | AuditFailed \<Rightarrow> ''failed'' | AuditSuperseded \<Rightarrow> ''superseded'')"

definition parse_result :: "string \<Rightarrow> AuditResult option" where
  "parse_result s = List.find (\<lambda>x. result_string x = s) [AuditAccepted, AuditSucceeded, AuditFailed, AuditSuperseded]"

text \<open>\<open>time.UnixMilli\<close>, and \<open>Time.UnixMilli\<close> of an instant of the store, which has whole milliseconds.\<close>

definition parseAuditCursor :: "string \<Rightarrow> AuditCursor option" where
  "parseAuditCursor raw =
     (if CHR '':'' \<notin> set raw then None
      else case ParseInt (takeWhile (\<lambda>x. x \<noteq> CHR '':'') raw) of (ms, ok) \<Rightarrow>
        let i = tl (dropWhile (\<lambda>x. x \<noteq> CHR '':'') raw) in
        if \<not> ok \<or> \<not> Valid i then None else Some \<lparr>ac_OccurredAt = ms * Millisecond, ac_ID = i\<rparr>)"

definition cursor_text :: "AuditCursor \<Rightarrow> string" where
  "cursor_text cur = int_digits (ac_OccurredAt cur div Millisecond) @ '':'' @ ac_ID cur"

definition auditPageSize :: int where "auditPageSize = 50"

definition audit_filter :: "web_request \<Rightarrow> AuditFilter" where
  "audit_filter r =
     \<lparr>af_TargetID = (if Valid (values_Get (wr_Query r) ''user'') then values_Get (wr_Query r) ''user'' else ''''),
      af_Action = (if ValidAuditAction (values_Get (wr_Query r) ''action'') then values_Get (wr_Query r) ''action'' else ''''),
      af_Result = parse_result (values_Get (wr_Query r) ''result''),
      af_Before = parseAuditCursor (values_Get (wr_Query r) ''cursor''), af_Limit = auditPageSize\<rparr>"

text \<open>The address of the next page carries the filter and the cursor.\<close>

definition next_page_values :: "AuditFilter \<Rightarrow> AuditCursor \<Rightarrow> url_values" where
  "next_page_values f cur =
     (if af_TargetID f = '''' then [] else [(''user'', [af_TargetID f])]) @
     (if af_Action f = '''' then [] else [(''action'', [af_Action f])]) @
     (case af_Result f of None \<Rightarrow> [] | Some x \<Rightarrow> [(''result'', [result_string x])]) @
     [(''cursor'', [cursor_text cur])]"

definition next_page :: "AuditFilter \<Rightarrow> AuditCursor option \<Rightarrow> string" where
  "next_page f rest = (case rest of None \<Rightarrow> '''' | Some cur \<Rightarrow> ''/audit?'' @ values_Encode (next_page_values f cur))"

definition AuditHandler_List :: "'m web \<Rightarrow> web_request \<Rightarrow> ('n, 'm) handler" where
  "AuditHandler_List c r m = (let f = audit_filter r in
     act_bind (act_query (wb_services c) (AuditEvents f)) (\<lambda>(found, rest).
     act_bind (list_users c \<lparr>uf_Query = '''', uf_Status = '''', uf_IncludeDeleted = True\<rparr>) (\<lambda>users.
     with_page c r m (\<lambda>page m1.
       act_ret (Rendered 200 ''audit.html'' (page\<lparr>pg_Data := AuditData found users f (next_page f rest)\<rparr>), m1)))))"

section \<open>The dashboard and its fragments\<close>

definition DashboardHandler_Show :: "'m web \<Rightarrow> web_request \<Rightarrow> ('n, 'm) handler" where
  "DashboardHandler_Show c r m = act_or_fail c (Summary (wb_dashboards c)) m (\<lambda>summary. with_page c r m (\<lambda>page m1.
     act_ret (Rendered 200 ''dashboard.html'' (page\<lparr>pg_Data := DashboardData summary\<rparr>), m1)))"

text \<open>Fragments have no frame, so neither a request identifier nor a flash message.\<close>

definition fragment_page :: "'m web \<Rightarrow> page_data \<Rightarrow> ('n, page) act" where
  "fragment_page c d = act_bind (act_query (wb_services c) (zone_name (sv_zones (wb_services c)))) (\<lambda>tz.
     act_ret (blank_page\<lparr>pg_Timezone := tz, pg_Data := d\<rparr>))"

definition fragment_unavailable :: "string \<Rightarrow> response" where
  "fragment_unavailable message = Rendered 503 ''fragment_unavailable.html'' (blank_page\<lparr>pg_ErrorSummary := message\<rparr>)"

definition FragmentHandler_Summary :: "'m web \<Rightarrow> web_request \<Rightarrow> ('n, 'm) handler" where
  "FragmentHandler_Summary c r m = act_bind (Summary (wb_dashboards c)) (\<lambda>x. case x of
     Inl e \<Rightarrow> act_ret (fragment_unavailable ''data unavailable'', m)
   | Inr summary \<Rightarrow> act_bind (fragment_page c (DashboardData summary)) (\<lambda>page.
       act_ret (Rendered 200 ''dashboard_summary.html'' page, m)))"

definition FragmentHandler_UsersTable :: "'m web \<Rightarrow> web_request \<Rightarrow> ('n, 'm) handler" where
  "FragmentHandler_UsersTable c r m = (let f = list_filter (\<lambda>s. s) r in
     act_bind (list_users c f) (\<lambda>rows. act_bind (Summary (wb_dashboards c)) (\<lambda>summary.
     act_bind (fragment_page c (UserTableData rows (uf_Query f) (uf_Status f) (uf_IncludeDeleted f)
       (case summary of Inl e \<Rightarrow> True | Inr s \<Rightarrow> sm_Stale s)
       (case summary of Inl e \<Rightarrow> None | Inr s \<Rightarrow> sm_LastCollectionAt s))) (\<lambda>page.
     act_ret (Rendered 200 ''users_table.html'' page, m)))))"

end
