(* ===== verification/Web_Server.thy ===== *)
theory Web_Server
  imports Web_Panel Auth_Service
begin

text \<open>
  The HTTP server around the handlers: login and logout (\<open>internal/web/handlers/auth.go\<close>), the
  middleware (\<open>internal/web/middleware/\<close>) and the routes (\<open>internal/web/routes.go\<close>). A request is what
  \<open>net/http\<close> reads: method, segments of the path, cookie and headers. The token check of
  \<open>gorilla/csrf\<close>, the parser of origins and the embedded assets are parameters.
\<close>

section \<open>Requests, cookies and the server\<close>

record http_request = web_request +
  hr_Method :: string
  hr_Segments :: "string list"
  hr_Source :: string
  hr_Cookie :: "string option"
  hr_Host :: string
  hr_Origin :: string
  hr_FetchSite :: string

datatype cookie = NoCookie | SessionCookie string "instant" | ExpiredCookie

text \<open>\<open>sessionCommitState\<close>, with the cookie a login writes itself.\<close>

record commit_state =
  ct_committed :: bool
  ct_abandoned :: bool
  ct_cookie :: cookie

definition untouched :: commit_state where
  "untouched = \<lparr>ct_committed = False, ct_abandoned = False, ct_cookie = NoCookie\<rparr>"

record 'm server =
  sr_web :: "'m web"
  sr_auth :: auth_service
  sr_static :: "string list \<Rightarrow> response"
  sr_ready :: bool
  sr_secure :: bool
  sr_csrf :: "http_request \<Rightarrow> bool"
  sr_originHost :: "string \<Rightarrow> string option"

definition act_tick :: "('n, nat) act" where
  "act_tick = (\<lambda>w. (wd_tick w, w\<lparr>wd_tick := wd_tick w + 1\<rparr>))"

abbreviation sessions_of :: "'m server \<Rightarrow> 'm session_manager" where
  "sessions_of s \<equiv> wb_sessions (sr_web s)"

section \<open>Login and logout\<close>

text \<open>The end of a request that may have changed the session: the answer, the session, the disposition.\<close>

type_synonym 'm outcome = "response \<times> 'm \<times> commit_state"

definition login_page :: "ID \<Rightarrow> string \<Rightarrow> fields \<Rightarrow> page" where
  "login_page i summary vs = blank_page\<lparr>pg_RequestID := i, pg_ErrorSummary := summary, pg_Values := vs\<rparr>"

definition AuthHandler_LoginPage :: "'m server \<Rightarrow> 'm \<Rightarrow> ('n, 'm outcome) act" where
  "AuthHandler_LoginPage s m =
     (if sc_GetString (sessions_of s) m SessionAdministratorID \<noteq> '''' then act_ret (SeeOther ''/'', m, untouched)
      else act_bind (act_newID (wb_services (sr_web s))) (\<lambda>i.
        act_ret (Rendered 200 ''login.html'' (login_page i '''' []), m, untouched)))"

definition login_unavailable :: "'m server \<Rightarrow> 'm \<Rightarrow> commit_state \<Rightarrow> ('n, 'm outcome) act" where
  "login_unavailable s m ct = act_bind (act_newID (wb_services (sr_web s))) (\<lambda>i.
     act_ret (error_response 500 ''login cannot be completed'' i, m, ct))"

text \<open>A refused login: throttled, wrong credentials, or an internal error.\<close>

definition login_refused :: "'m server \<Rightarrow> string \<Rightarrow> err \<Rightarrow> 'm \<Rightarrow> ('n, 'm outcome) act" where
  "login_refused s username e m = (case e of
     RateLimitError pause \<Rightarrow> act_bind (act_newID (wb_services (sr_web s))) (\<lambda>i.
       act_ret (RetryLater (max 1 (pause div Second)) (login_page i ''too many attempts'' [(''username'', username)]), m, untouched))
   | _ \<Rightarrow> if e = ErrInvalidCredentials
       then act_bind (act_newID (wb_services (sr_web s))) (\<lambda>i.
         act_ret (Rendered 401 ''login.html'' (login_page i ''wrong username or password'' [(''username'', username)]), m, untouched))
       else login_unavailable s m untouched)"

definition loginNotEstablished :: "'m server \<Rightarrow> 'm \<Rightarrow> ('n, 'm outcome) act" where
  "loginNotEstablished s m = act_bind (RecordLoginFailure (sr_auth s) ''login failed: session could not be established'') (\<lambda>_.
     login_unavailable s m (untouched\<lparr>ct_abandoned := True\<rparr>))"

text \<open>
  After authentication: the old token is deleted, a new one made, the session filled, and session row
  and audit event are committed together; the cookie is written only then.
\<close>

definition login_accepted :: "'m server \<Rightarrow> AdministratorRecord \<Rightarrow> 'm \<Rightarrow> ('n, 'm outcome) act" where
  "login_accepted s admin m = (let sc = sessions_of s; a = sr_auth s in
     act_bind (SessionStore_Delete a (sc_Token sc m)) (\<lambda>x. case x of
       Inl e \<Rightarrow> loginNotEstablished s m
     | Inr _ \<Rightarrow> act_bind act_tick (\<lambda>fresh.
        (let m1 = sc_PutInt64 sc (sc_PutString sc (sc_RenewToken sc fresh m) SessionAdministratorID (ad_ID admin))
               SessionPasswordVersion (ad_PasswordVersion admin)
         in case sc_Commit sc m1 of (token, data, expiry) \<Rightarrow>
         act_bind (EstablishSession a admin token data expiry) (\<lambda>y. case y of
           Inl e \<Rightarrow> act_bind (SessionStore_Delete a (sc_Token sc m1)) (\<lambda>z.
             loginNotEstablished s (case z of Inl _ \<Rightarrow> m1 | Inr _ \<Rightarrow> sc_Destroy sc m1))
         | Inr _ \<Rightarrow> act_ret (SeeOther ''/'', m1,
             \<lparr>ct_committed = True, ct_abandoned = False, ct_cookie = SessionCookie token expiry\<rparr>))))))"

definition AuthHandler_Login :: "'m server \<Rightarrow> http_request \<Rightarrow> limiter \<Rightarrow> 'm \<Rightarrow> ('n, 'm outcome \<times> limiter) act" where
  "AuthHandler_Login s r l m = (case fr_PostForm (wr_Form r) of
     None \<Rightarrow> act_ret ((error_response 400 ''malformed form'' '''', m, untouched), l)
   | Some f \<Rightarrow> (let username = values_Get f ''username''; password = bytes_of_string (values_Get f ''password'') in
       act_bind (Authenticate (sr_auth s) username password (hr_Source r) l) (\<lambda>(x, l1).
       act_bind (case x of Inl e \<Rightarrow> login_refused s username e m | Inr admin \<Rightarrow> login_accepted s admin m) (\<lambda>out.
       act_ret (out, l1)))))"

text \<open>The administrator a session names; a logout needs only the identifier.\<close>

definition session_admin :: "'m server \<Rightarrow> 'm \<Rightarrow> AdministratorRecord" where
  "session_admin s m = \<lparr>ad_ID = sc_GetString (sessions_of s) m SessionAdministratorID, ad_Username = '''', ad_PasswordHash = '''',
     ad_PasswordVersion = sc_GetInt64 (sessions_of s) m SessionPasswordVersion, ad_CreatedAt = zero_time, ad_UpdatedAt = zero_time\<rparr>"

definition AuthHandler_Logout :: "'m server \<Rightarrow> ('n, 'm) handler" where
  "AuthHandler_Logout s m = act_bind (AuthService_RevokeSession (sr_auth s) (session_admin s m) (sc_Token (sessions_of s) m)) (\<lambda>x.
     case x of
       Inl e \<Rightarrow> act_bind (LogoutFailed (sr_auth s) (session_admin s m) ''logout failed: session could not be revoked'') (\<lambda>_.
         act_bind (act_newID (wb_services (sr_web s))) (\<lambda>i.
         act_ret (error_response 500 ''logout cannot be completed'' i, m)))
     | Inr _ \<Rightarrow> act_ret (SeeOther ''/login'', sc_Destroy (sessions_of s) m))"

section \<open>Authentication and session middleware\<close>

definition denied :: "http_request \<Rightarrow> response" where
  "denied r = (if HasPrefix (wr_Path r) ''/fragments/'' \<or> wr_HX r then Plain 403 ''the session has expired''
     else SeeOther ''/login'')"

definition RequireAuth :: "'m server \<Rightarrow> http_request \<Rightarrow> ('n, 'm) handler \<Rightarrow> ('n, 'm) handler" where
  "RequireAuth s r k m =
     (let i = sc_GetString (sessions_of s) m SessionAdministratorID;
          version = sc_GetInt64 (sessions_of s) m SessionPasswordVersion
      in if Valid i \<and> version > 0
         then act_bind (SessionValid (sr_auth s) i version) (\<lambda>ok. if ok then k m else act_ret (denied r, m))
         else act_ret (denied r, m))"

text \<open>\<open>sessionWriter.finish\<close>, once before the first write of the answer: the cookie to set.\<close>

definition finish_session :: "'m server \<Rightarrow> 'm outcome \<Rightarrow> ('n, response \<times> cookie) act" where
  "finish_session s out = (case out of (resp, m, ct) \<Rightarrow>
     if ct_abandoned ct then act_ret (resp, ExpiredCookie)
     else case sc_Status (sessions_of s) m of
       Unmodified \<Rightarrow> act_ret (resp, ct_cookie ct)
     | Destroyed \<Rightarrow> act_ret (resp, ExpiredCookie)
     | Modified \<Rightarrow> if ct_committed ct then act_ret (resp, ct_cookie ct)
         else (case sc_Commit (sessions_of s) m of (token, data, expiry) \<Rightarrow>
           act_bind (SessionStore_Commit (sr_auth s) token data expiry) (\<lambda>x. case x of
             Inl e \<Rightarrow> act_ret (resp, NoCookie) | Inr _ \<Rightarrow> act_ret (resp, SessionCookie token expiry))))"

text \<open>\<open>SessionManager.Load\<close>: a token the store does not know starts a new session.\<close>

definition load_session :: "'m server \<Rightarrow> string \<Rightarrow> ('n, err + 'm) act" where
  "load_session s token =
     (let decode = (\<lambda>data. case sc_Decode (sessions_of s) token data of
            None \<Rightarrow> Inl (PlainError ''session data'') | Some m \<Rightarrow> Inr m)
      in if token = '''' then act_ret (decode None)
         else act_try (SessionStore_Find (sr_auth s) token) (\<lambda>found. act_ret (decode found)))"

definition LoadAndSave :: "'m server \<Rightarrow> http_request \<Rightarrow> limiter \<Rightarrow> ('m \<Rightarrow> ('n, 'm outcome \<times> limiter) act) \<Rightarrow>
    ('n, (response \<times> cookie) \<times> limiter) act" where
  "LoadAndSave s r l k =
     act_bind (load_session s (case hr_Cookie r of None \<Rightarrow> '''' | Some t \<Rightarrow> t)) (\<lambda>x. case x of
       Inl e \<Rightarrow> act_ret ((Plain 500 ''the request cannot be completed'', NoCookie), l)
     | Inr m \<Rightarrow> act_bind (k m) (\<lambda>(out, l1). act_bind (finish_session s out) (\<lambda>a. act_ret (a, l1))))"

section \<open>Requests from other sites\<close>

text \<open>\<open>http.CrossOriginProtection.Check\<close>, without exempt patterns or trusted origins.\<close>

definition cross_origin_ok :: "'m server \<Rightarrow> http_request \<Rightarrow> bool" where
  "cross_origin_ok s r \<longleftrightarrow> hr_Method r \<in> set [''GET'', ''HEAD'', ''OPTIONS''] \<or>
     hr_FetchSite r = ''same-origin'' \<or> hr_FetchSite r = ''none'' \<or>
     (hr_FetchSite r = '''' \<and> (hr_Origin r = '''' \<or> sr_originHost s (hr_Origin r) = Some (hr_Host r)))"

definition normalizeSameOriginNullOrigin :: "bool \<Rightarrow> http_request \<Rightarrow> http_request" where
  "normalizeSameOriginNullOrigin secure r =
     (if hr_Origin r = ''null'' \<and> hr_FetchSite r = ''same-origin''
      then r\<lparr>hr_Origin := (if secure then ''https'' else ''http'') @ ''://'' @ hr_Host r\<rparr> else r)"

definition CSRF :: "'m server \<Rightarrow> http_request \<Rightarrow> limiter \<Rightarrow> (http_request \<Rightarrow> 'm \<Rightarrow> ('n, 'm outcome \<times> limiter) act) \<Rightarrow> 'm \<Rightarrow>
    ('n, 'm outcome \<times> limiter) act" where
  "CSRF s r l k m =
     (if \<not> cross_origin_ok s r then act_ret ((Plain 403 ''cross-site request refused'', m, untouched), l)
      else let r1 = normalizeSameOriginNullOrigin (sr_secure s) r in
        if \<not> sr_csrf s r1 then act_ret ((Plain 403 ''request integrity check failed'', m, untouched), l)
        else k r1 m)"

definition quoted :: "string \<Rightarrow> string" where
  "quoted s = CHR 0x27 # s @ [CHR 0x27]"

definition SecurityHeaders :: "string \<Rightarrow> (string \<times> string) list" where
  "SecurityHeaders path = [(''Referrer-Policy'', ''same-origin''), (''X-Content-Type-Options'', ''nosniff''),
     (''Content-Security-Policy'', ''default-src '' @ quoted ''self'' @ ''; object-src '' @ quoted ''none'' @
       ''; base-uri '' @ quoted ''none'' @ ''; frame-ancestors '' @ quoted ''none'' @ ''; form-action '' @ quoted ''self'')] @
     (if path \<noteq> ''/healthz'' \<and> path \<noteq> ''/readyz'' then [(''Cache-Control'', ''no-store'')] else [])"

section \<open>Routes\<close>

text \<open>
  The patterns of the protected mux, on the segments of the path; a literal segment is preferred to a
  variable one.
\<close>

definition get_route :: "'m web \<Rightarrow> web_request \<Rightarrow> string list \<Rightarrow> ('n, 'm) handler option" where
  "get_route c r segments = (case segments of
     [] \<Rightarrow> Some (DashboardHandler_Show c r)
   | [x] \<Rightarrow> if x = ''templates'' then Some (TemplateHandler_List c r)
       else if x = ''users'' then Some (UserHandler_List c r)
       else if x = ''audit'' then Some (AuditHandler_List c r)
       else if x = ''settings'' then Some (SettingsHandler_Show c r) else None
   | [x, y] \<Rightarrow>
       if x = ''fragments'' then
         (if y = ''dashboard-summary'' then Some (FragmentHandler_Summary c r)
          else if y = ''users-table'' then Some (FragmentHandler_UsersTable c r) else None)
       else if x = ''templates'' then
         (if y = ''new'' then Some (TemplateHandler_NewForm c r) else Some (TemplateHandler_Detail c (r\<lparr>wr_PathID := y\<rparr>)))
       else if x = ''users'' then
         (if y = ''new'' then Some (UserHandler_NewForm c r) else Some (UserHandler_Detail c (r\<lparr>wr_PathID := y\<rparr>)))
       else None
   | [x, y, z] \<Rightarrow> (let q = r\<lparr>wr_PathID := y\<rparr> in
       if x = ''templates'' then (if z = ''edit'' then Some (TemplateHandler_EditForm c q) else None)
       else if x = ''users'' then
         (if z = ''connection'' then Some (UserHandler_Connection c q)
          else if z = ''edit'' then Some (UserHandler_EditForm c q)
          else if z = ''reset-traffic'' then Some (UserHandler_ResetForm c q)
          else if z = ''rotate'' then Some (confirmationPage c q ''user_rotate.html'')
          else if z = ''port'' then Some (confirmationPage c q ''user_port.html'')
          else if z = ''delete'' then Some (confirmationPage c q ''user_delete.html'') else None)
       else None)
   | _ \<Rightarrow> None)"

definition post_route :: "'m server \<Rightarrow> web_request \<Rightarrow> string list \<Rightarrow> ('n, 'm) handler option" where
  "post_route s r segments = (let c = sr_web s in case segments of
     [x] \<Rightarrow> if x = ''logout'' then Some (AuthHandler_Logout s)
       else if x = ''templates'' then Some (TemplateHandler_Create c r)
       else if x = ''users'' then Some (UserHandler_Create c r)
       else if x = ''settings'' then Some (SettingsHandler_Update c r) else None
   | [x, y] \<Rightarrow> (let q = r\<lparr>wr_PathID := y\<rparr> in
       if x = ''templates'' then Some (TemplateHandler_Update c q)
       else if x = ''users'' then Some (UserHandler_Update c q) else None)
   | [x, y, z] \<Rightarrow> (let q = r\<lparr>wr_PathID := y\<rparr> in
       if x = ''templates'' then (if z = ''revalidate'' then Some (TemplateHandler_Revalidate c q) else None)
       else if x = ''users'' then
         (if z = ''reset-traffic'' then Some (UserHandler_Reset c q)
          else if z = ''enable'' then Some (setEnabled c q True)
          else if z = ''disable'' then Some (setEnabled c q False)
          else if z = ''rotate'' then Some (UserHandler_Rotate c q)
          else if z = ''port'' then Some (UserHandler_ChangePort c q)
          else if z = ''delete'' then Some (UserHandler_Delete c q) else None)
       else None)
   | _ \<Rightarrow> None)"

text \<open>A path that another method would serve is answered with 405.\<close>

definition not_routed :: "bool \<Rightarrow> response" where
  "not_routed other = (if other then Plain 405 ''Method Not Allowed'' else Plain 404 ''404 page not found'')"

definition protected_handler :: "'m server \<Rightarrow> http_request \<Rightarrow> ('n, 'm) handler" where
  "protected_handler s r =
     (let q = web_request.truncate r; get = get_route (sr_web s) q (hr_Segments r); post = post_route s q (hr_Segments r)
      in if hr_Method r = ''GET'' \<or> hr_Method r = ''HEAD''
         then (case get of None \<Rightarrow> answer (not_routed (post \<noteq> None)) | Some h \<Rightarrow> h)
         else if hr_Method r = ''POST''
         then (case post of None \<Rightarrow> answer (not_routed (get \<noteq> None)) | Some h \<Rightarrow> h)
         else answer (not_routed (get \<noteq> None \<or> post \<noteq> None)))"

text \<open>What the public mux serves itself; everything else needs a session.\<close>

definition public_path :: "http_request \<Rightarrow> bool" where
  "public_path r \<longleftrightarrow> (hr_Method r \<in> set [''GET'', ''HEAD''] \<and>
       (hr_Segments r \<in> set [[''healthz''], [''readyz''], [''login'']] \<or> take 1 (hr_Segments r) = [''static''])) \<or>
     (hr_Method r = ''POST'' \<and> hr_Segments r = [''login''])"

definition public_handler :: "'m server \<Rightarrow> http_request \<Rightarrow> limiter \<Rightarrow> 'm \<Rightarrow> ('n, 'm outcome \<times> limiter) act" where
  "public_handler s r l m =
     (if \<not> public_path r
      then act_bind (RequireAuth s r (protected_handler s r) m) (\<lambda>(a, m1). act_ret ((a, m1, untouched), l))
      else if hr_Segments r = [''login'']
      then (if hr_Method r = ''POST'' then AuthHandler_Login s r l m
            else act_bind (AuthHandler_LoginPage s m) (\<lambda>out. act_ret (out, l)))
      else if hr_Segments r = [''healthz''] then act_ret ((Plain 200 ''ok'', m, untouched), l)
      else if hr_Segments r = [''readyz'']
      then act_ret ((if sr_ready s then Plain 200 ''ready'' else Plain 503 ''not ready'', m, untouched), l)
      else act_ret ((sr_static s (hr_Segments r), m, untouched), l))"

definition serve :: "'m server \<Rightarrow> http_request \<Rightarrow> limiter \<Rightarrow> ('n, (response \<times> cookie) \<times> limiter) act" where
  "serve s r l = LoadAndSave s r l (CSRF s r l (\<lambda>r1. public_handler s r1 l))"

end
