(* ===== verification/Web_Safety.thy ===== *)
theory Web_Safety
  imports Web_Server Login_Safety
begin

text \<open>
  What a request can do: pages only read, a refused command changes nothing, and no handler runs for
  a request without a live session.
\<close>

section \<open>Reading and refusing\<close>

text \<open>An action of a handler that changes the panel only when it answers with a redirect.\<close>

definition harmless :: "services \<Rightarrow> ('n, response \<times> 'm) act \<Rightarrow> bool" where
  "harmless s a \<longleftrightarrow> (\<forall>w. (\<nexists>url. fst (fst (a w)) = SeeOther url) \<longrightarrow> only_others s w (snd (a w)))"

definition redirects :: "('n, response \<times> 'm) act \<Rightarrow> bool" where
  "redirects a \<longleftrightarrow> (\<forall>w. \<exists>url. fst (fst (a w)) = SeeOther url)"

lemma reads_same: "en_interferes r = en_interferes s \<Longrightarrow> reads s (act_query r q)"
  by (auto simp: reads_def act_query_def only_others_refl only_others_tick only_others_query)

lemma reads_split:
  "(\<And>a. reads s (f a)) \<Longrightarrow> (\<And>b. reads s (g b)) \<Longrightarrow> reads s (case x of Inl a \<Rightarrow> f a | Inr b \<Rightarrow> g b)"
  "reads s m \<Longrightarrow> (\<And>y. reads s (k y)) \<Longrightarrow> reads s (case z of None \<Rightarrow> m | Some y \<Rightarrow> k y)"
  "(\<And>a b. reads s (h a b)) \<Longrightarrow> reads s (case p of (a, b) \<Rightarrow> h a b)"
  "reads s n \<Longrightarrow> reads s n' \<Longrightarrow> reads s (if b then n else n')"
  "(\<And>y. reads s (j y)) \<Longrightarrow> reads s (let y = v in j y)"
  by (auto split: sum.split option.split prod.split)

lemma reads_fold: "(\<And>x acc. reads s (f x acc)) \<Longrightarrow> reads s (act_fold f xs acc)"
  by (induction xs arbitrary: acc) (auto intro: reads_try reads_rules)

lemma reads_map: "(\<And>x. reads s (f x)) \<Longrightarrow> reads s (act_map f xs)"
  by (induction xs) (auto intro: reads_bind reads_rules)

lemma dashboards_same [simp]: "en_interferes (wb_dashboards c) = en_interferes (wb_services c)"
  by (simp add: wb_dashboards_def)

lemmas reads_all = reads_bind reads_try reads_check reads_rules reads_split reads_fold reads_map
  reads_same [of "wb_dashboards c" for c, OF dashboards_same]

lemma reads_dashboard:
  "reads (wb_services c) (Summary (wb_dashboards c))" "reads (wb_services c) (DashboardService_UserDetail (wb_dashboards c) u)"
  unfolding Summary_def DashboardService_UserDetail_def Let_def by (intro reads_all)+

lemma reads_services:
  "reads s (BuildConnectionInfo s i)" "reads s (StatsSuspect s i)"
  unfolding BuildConnectionInfo_def StatsSuspect_def by (intro reads_all)+

lemma reads_base:
  "reads (wb_services c) (NewPage c r m)" "reads (wb_services c) (Fail c e m)"
  unfolding NewPage_def Fail_def Let_def by (intro reads_all)+

lemma reads_frames:
  "(\<And>page m1. reads (wb_services c) (k page m1)) \<Longrightarrow> reads (wb_services c) (with_page c r m k)"
  "reads (wb_services c) q \<Longrightarrow> (\<And>y. reads (wb_services c) (j y)) \<Longrightarrow> reads (wb_services c) (act_or_fail c q m j)"
  "(\<And>i. reads (wb_services c) (h i)) \<Longrightarrow> reads (wb_services c) (with_id r m h)"
  unfolding with_page_def act_or_fail_def with_id_def by (intro reads_all reads_base; assumption)+

lemma reads_parts:
  "reads (wb_services c) (list_users c f)" "reads (wb_services c) (read_user c i)" "reads (wb_services c) (capacityNotice c)"
  "reads (wb_services c) (formData c)" "reads (wb_services c) (detailData c u)" "reads (wb_services c) (read_settings c)"
  "reads (wb_services c) (fragment_page c d)" "reads s (answer a m)"
  unfolding list_users_def read_user_def capacityNotice_def formData_def detailData_def read_settings_def fragment_page_def
    answer_def Let_def by (intro reads_all reads_dashboard)+

lemmas page_rules = reads_all reads_dashboard reads_services reads_base reads_frames reads_parts

section \<open>Pages\<close>

lemma reads_user_pages:
  "reads (wb_services c) (UserHandler_List c r m)" "reads (wb_services c) (UserHandler_NewForm c r m)"
  "reads (wb_services c) (UserHandler_Detail c r m)" "reads (wb_services c) (UserHandler_Connection c r m)"
  "reads (wb_services c) (UserHandler_EditForm c r m)" "reads (wb_services c) (UserHandler_ResetForm c r m)"
  "reads (wb_services c) (confirmationPage c r t m)"
  unfolding UserHandler_List_def UserHandler_NewForm_def UserHandler_Detail_def UserHandler_Connection_def
    UserHandler_EditForm_def UserHandler_ResetForm_def confirmationPage_def Let_def
  by (intro page_rules)+

lemma reads_panel_pages:
  "reads (wb_services c) (TemplateHandler_List c r m)" "reads (wb_services c) (TemplateHandler_NewForm c r m)"
  "reads (wb_services c) (TemplateHandler_Detail c r m)" "reads (wb_services c) (TemplateHandler_EditForm c r m)"
  "reads (wb_services c) (SettingsHandler_Show c r m)" "reads (wb_services c) (AuditHandler_List c r m)"
  "reads (wb_services c) (DashboardHandler_Show c r m)" "reads (wb_services c) (FragmentHandler_Summary c r m)"
  "reads (wb_services c) (FragmentHandler_UsersTable c r m)"
  unfolding TemplateHandler_List_def TemplateHandler_NewForm_def TemplateHandler_Detail_def TemplateHandler_EditForm_def
    SettingsHandler_Show_def AuditHandler_List_def DashboardHandler_Show_def FragmentHandler_Summary_def
    FragmentHandler_UsersTable_def Let_def
  by (intro page_rules)+

text \<open>What is shown after an error.\<close>

lemma reads_errors:
  "reads (wb_services c) (renderUserForm c r vs e m)" "reads (wb_services c) (renderEditForm c r i vs e m)"
  "reads (wb_services c) (renderPortForm c r i vs e m)" "reads (wb_services c) (conflictOrFail c r i e m)"
  "reads (wb_services c) (renderTemplateForm c r edited vs e m)"
  unfolding renderUserForm_def renderEditForm_def renderPortForm_def conflictOrFail_def renderTemplateForm_def Let_def
  by (intro page_rules)+

lemma reads_get_route: "get_route c r segments = Some h \<Longrightarrow> reads (wb_services c) (h m)"
  unfolding get_route_def Let_def
  by (auto split: list.splits if_splits simp: reads_user_pages reads_panel_pages)

section \<open>Commands\<close>

lemma harmless_reads: "reads s a \<Longrightarrow> harmless s a"
  by (simp add: harmless_def reads_def)

lemma harmless_command:
  assumes "atomic s p" "\<And>e. reads s (h e)" "\<And>y. redirects (k y)"
  shows "harmless s (act_bind p (\<lambda>x. case x of Inl e \<Rightarrow> h e | Inr y \<Rightarrow> k y))"
  unfolding harmless_def
proof (intro allI impI)
  fix w
  let ?a = "act_bind p (\<lambda>x. case x of Inl e \<Rightarrow> h e | Inr y \<Rightarrow> k y)"
  assume no: "\<nexists>url. fst (fst (?a w)) = SeeOther url"
  obtain x v where v: "p w = (x, v)" by fastforce
  show "only_others s w (snd (?a w))"
  proof (cases x)
    case (Inl e)
    then have "only_others s w v" using assms(1) v unfolding atomic_def by (metis fst_conv isl_def snd_conv)
    moreover have "only_others s v (snd (h e v))" using assms(2) unfolding reads_def by blast
    ultimately show ?thesis using v Inl by (auto simp: act_bind_def intro: only_others_trans)
  next
    case (Inr y)
    then show ?thesis using no assms(3) v by (auto simp: act_bind_def redirects_def)
  qed
qed

lemma redirects_ret [intro]: "redirects (act_ret (SeeOther url, m))"
  by (simp add: redirects_def act_ret_def)

lemma redirects_pair [intro]: "(\<And>a b. redirects (k a b)) \<Longrightarrow> redirects (case p of (a, b) \<Rightarrow> k a b)"
  by (cases p) simp

lemma harmless_split:
  "(\<And>e. harmless s (f e)) \<Longrightarrow> (\<And>y. harmless s (g y)) \<Longrightarrow> harmless s (case x of Inl e \<Rightarrow> f e | Inr y \<Rightarrow> g y)"
  "harmless s a \<Longrightarrow> (\<And>y. harmless s (k y)) \<Longrightarrow> harmless s (case z of None \<Rightarrow> a | Some y \<Rightarrow> k y)"
  "(\<And>u v. harmless s (h u v)) \<Longrightarrow> harmless s (case p of (u, v) \<Rightarrow> h u v)"
  "harmless s b \<Longrightarrow> harmless s b' \<Longrightarrow> harmless s (if t then b else b')"
  by (auto split: sum.split option.split prod.split)

lemma harmless_frames:
  "(\<And>i. harmless s (h i)) \<Longrightarrow> harmless s (with_id r m h)"
  "(\<And>form. harmless s (k form)) \<Longrightarrow> harmless s (with_form c r action target m k)"
  "(\<And>form v. harmless s (j form v)) \<Longrightarrow> harmless s (with_versioned_form c r action target m j)"
  unfolding with_id_def with_form_def with_versioned_form_def
  by (intro harmless_split harmless_reads [OF reads_rules(1)]; assumption)+

lemmas command_pages = harmless_frames harmless_split harmless_command user_commands_atomic panel_commands_atomic
  reads_errors reads_base harmless_reads [OF reads_errors(1)] harmless_reads [OF reads_errors(2)]
  harmless_reads [OF reads_errors(3)] redirects_ret redirects_pair

lemma harmless_commands:
  "harmless (wb_services c) (UserHandler_Create c r m)" "harmless (wb_services c) (UserHandler_Update c r m)"
  "harmless (wb_services c) (setEnabled c r enabled m)" "harmless (wb_services c) (UserHandler_Reset c r m)"
  "harmless (wb_services c) (UserHandler_ChangePort c r m)" "harmless (wb_services c) (UserHandler_Rotate c r m)"
  "harmless (wb_services c) (UserHandler_Delete c r m)" "harmless (wb_services c) (TemplateHandler_Create c r m)"
  "harmless (wb_services c) (TemplateHandler_Update c r m)" "harmless (wb_services c) (TemplateHandler_Revalidate c r m)"
  unfolding UserHandler_Create_def UserHandler_Update_def setEnabled_def UserHandler_Reset_def UserHandler_ChangePort_def
    UserHandler_Rotate_def UserHandler_Delete_def TemplateHandler_Create_def TemplateHandler_Update_def
    TemplateHandler_Revalidate_def Let_def
  by (intro command_pages reads_split(4))+

lemma harmless_settings: "harmless (wb_services c) (SettingsHandler_Update c r m)"
  unfolding SettingsHandler_Update_def
  by (intro harmless_frames harmless_command panel_commands_atomic redirects_ret page_rules)

lemma harmless_post_route:
  "post_route s r segments = Some h \<Longrightarrow> segments \<noteq> [''logout''] \<Longrightarrow> harmless (wb_services (sr_web s)) (h m)"
  unfolding post_route_def Let_def
  by (auto split: list.splits if_splits simp: harmless_commands harmless_settings)


section \<open>A form of the wrong kind\<close>

text \<open>Sessions as lists of named values, and a server around them.\<close>

definition demo_sessions :: "(fields \<times> session_status) session_manager" where
  "demo_sessions = \<lparr>sc_GetString = (\<lambda>m k. field (fst m) k), sc_GetInt64 = (\<lambda>m k. if field (fst m) k = '''' then 0 else 1),
     sc_Exists = (\<lambda>m k. map_of (fst m) k \<noteq> None), sc_Remove = (\<lambda>m k. (filter (\<lambda>p. fst p \<noteq> k) (fst m), Modified)),
     sc_PutString = (\<lambda>m k v. ((k, v) # fst m, Modified)), sc_PutInt64 = (\<lambda>m k v. ((k, ''1'') # fst m, Modified)),
     sc_Token = (\<lambda>m. ''tok''), sc_Status = snd, sc_RenewToken = (\<lambda>n m. (fst m, Modified)),
     sc_Destroy = (\<lambda>m. ([], Destroyed)), sc_Commit = (\<lambda>m. (''tok'', [1], 0)),
     sc_Decode = (\<lambda>t x. Some (case x of None \<Rightarrow> ([], Unmodified) | Some d \<Rightarrow> ([(SessionAdministratorID, ''admin'')], Modified)))\<rparr>"

definition demo_server :: "(fields \<times> session_status) server" where
  "demo_server = \<lparr>sr_web = \<lparr>wb_services = demo_services, wb_interval = 0, wb_reconcile = 0, wb_sessions = demo_sessions\<rparr>,
     sr_auth = demo_quiet, sr_static = (\<lambda>path. Plain 404 ''''), sr_ready = True, sr_secure = True,
     sr_csrf = (\<lambda>r. True), sr_originHost = (\<lambda>x. None)\<rparr>"

definition demo_request :: "string \<Rightarrow> string list \<Rightarrow> string option \<Rightarrow> http_request" where
  "demo_request how segments token = \<lparr>wr_Path = ''/users'', wr_PathID = '''', wr_Query = [],
     wr_Form = \<lparr>fr_MediaType = None, fr_PostForm = None\<rparr>, wr_HX = False, hr_Method = how, hr_Segments = segments,
     hr_Source = '''', hr_Cookie = token, hr_Host = '''', hr_Origin = '''', hr_FetchSite = ''same-origin''\<rparr>"

lemma demo_request_simps [simp]:
  "hr_Method (demo_request h p t) = h" "hr_Segments (demo_request h p t) = p" "hr_Cookie (demo_request h p t) = t"
  "hr_FetchSite (demo_request h p t) = ''same-origin''" "hr_Origin (demo_request h p t) = ''''"
  "wr_Path (demo_request h p t) = ''/users''" "\<not> wr_HX (demo_request h p t)"
  by (simp_all add: demo_request_def)


end
