(* ===== verification/Web_Access.thy ===== *)
theory Web_Access
  imports Web_Safety
begin

text \<open>
  Who reaches a handler: the middleware of \<open>internal/web/middleware/\<close> around every path that is not
  public, and what a login that fails leaves behind.
\<close>

section \<open>Actions on the store alone\<close>

text \<open>The node, the synchronizer and the validator see nothing of the action.\<close>

definition same_node :: "'n world \<Rightarrow> 'n world \<Rightarrow> bool" where
  "same_node w v \<longleftrightarrow> wd_node v = wd_node w \<and> wd_wakes v = wd_wakes w \<and> wd_revalidate v = wd_revalidate w"

definition store_only :: "('n, 'a) act \<Rightarrow> bool" where
  "store_only m \<longleftrightarrow> (\<forall>w. same_node w (snd (m w)))"

lemma same_node_refl [simp]: "same_node w w"
  by (simp add: same_node_def)

lemma same_node_trans: "same_node w v \<Longrightarrow> same_node v u \<Longrightarrow> same_node w u"
  by (simp add: same_node_def)

lemma store_only_basic:
  "store_only (act_ret x)" "store_only (act_now s)" "store_only (act_newID s)" "store_only (act_query s q)"
  "store_only (act_store s p)" "store_only act_tick"
  by (simp_all add: store_only_def same_node_def act_ret_def act_now_def act_newID_def act_query_def act_store_def act_tick_def
      split: prod.split)

lemma store_only_bind: "store_only m \<Longrightarrow> (\<And>x. store_only (k x)) \<Longrightarrow> store_only (act_bind m k)"
  unfolding store_only_def act_bind_def by (auto split: prod.split intro: same_node_trans)

lemma store_only_try: "store_only m \<Longrightarrow> (\<And>x. store_only (k x)) \<Longrightarrow> store_only (act_try m k)"
  unfolding act_try_def by (intro store_only_bind) (auto split: sum.split intro: store_only_basic)

lemma store_only_split:
  "(\<And>a. store_only (f a)) \<Longrightarrow> (\<And>b. store_only (g b)) \<Longrightarrow> store_only (case x of Inl a \<Rightarrow> f a | Inr b \<Rightarrow> g b)"
  "store_only m \<Longrightarrow> (\<And>y. store_only (k y)) \<Longrightarrow> store_only (case z of None \<Rightarrow> m | Some y \<Rightarrow> k y)"
  "(\<And>a b. store_only (h a b)) \<Longrightarrow> store_only (case p of (a, b) \<Rightarrow> h a b)"
  by (auto split: sum.split option.split prod.split)

lemmas store_only_rules = store_only_bind store_only_try store_only_split store_only_basic

lemma sessions_store_only:
  "store_only (SessionStore_Find s t)" "store_only (SessionStore_Commit s t x i)" "store_only (SessionValid a u v)"
  unfolding SessionStore_Find_def SessionStore_Commit_def make_session_def SessionValid_def
  by (intro store_only_rules)+

section \<open>Refusals\<close>

definition refusals :: "http_request \<Rightarrow> response list" where
  "refusals r = [denied r, Plain 403 ''cross-site request refused'', Plain 403 ''request integrity check failed'',
     Plain 500 ''the request cannot be completed'']"

text \<open>\<open>RequireAuth\<close>: the administrator and the version of the password a session names are the current ones.\<close>

definition owner_valid :: "'m server \<Rightarrow> 'm \<Rightarrow> 'n world \<Rightarrow> bool" where
  "owner_valid s m w \<longleftrightarrow>
     (let i = sc_GetString (sessions_of s) m SessionAdministratorID; version = sc_GetInt64 (sessions_of s) m SessionPasswordVersion
      in Valid i \<and> version > 0 \<and> fst (SessionValid (sr_auth s) i version w))"

text \<open>
  A request may go on when the store knows the session of its cookie, and that session names the
  administrator and the version of the password the store has then.
\<close>

definition admitted :: "'m server \<Rightarrow> http_request \<Rightarrow> 'n world \<Rightarrow> bool" where
  "admitted s r w \<longleftrightarrow> (case hr_Cookie r of None \<Rightarrow> False | Some t \<Rightarrow> t \<noteq> '''' \<and>
     (case SessionStore_Find (sr_auth s) t w of
        (Inr (Some data), v) \<Rightarrow> (case sc_Decode (sessions_of s) t (Some data) of
          None \<Rightarrow> False
        | Some m \<Rightarrow> owner_valid s m v)
      | _ \<Rightarrow> False))"

text \<open>The store knows no session of the request.\<close>

definition no_session :: "'m server \<Rightarrow> http_request \<Rightarrow> 'n world \<Rightarrow> bool" where
  "no_session s r w \<longleftrightarrow> (case hr_Cookie r of None \<Rightarrow> True | Some t \<Rightarrow> t = '''' \<or>
     fst (SessionStore_Find (sr_auth s) t w) = Inr None)"

lemma denied_same [simp]: "denied (normalizeSameOriginNullOrigin b r) = denied r"
  by (simp add: denied_def normalizeSameOriginNullOrigin_def)

lemma public_same [simp]: "public_path (normalizeSameOriginNullOrigin b r) = public_path r"
  by (simp add: public_path_def normalizeSameOriginNullOrigin_def)

text \<open>Behind the check of a session that is not the administrator's.\<close>

lemma not_valid_denied:
  assumes "\<not> owner_valid s m w"
  shows "\<exists>w'. RequireAuth s r k m w = ((denied r, m), w') \<and> only_others (sr_auth s) w w' \<and> same_node w w'"
  using assms
  by (auto simp: owner_valid_def RequireAuth_def act_bind_def act_ret_def SessionValid_def act_query_def only_others_refl only_others_tick
      only_others_query same_node_def Let_def)

lemma refused_inside:
  assumes "\<not> public_path r"
    and "\<not> owner_valid s m w"
  shows "\<exists>resp w'. CSRF s r l (\<lambda>r1. public_handler s r1 l) m w = (((resp, m, untouched), l), w') \<and> resp \<in> set (refusals r) \<and>
    only_others (sr_auth s) w w' \<and> same_node w w'"
proof -
  let ?r = "normalizeSameOriginNullOrigin (sr_secure s) r"
  obtain w' where "RequireAuth s ?r (protected_handler s ?r) m w = ((denied ?r, m), w')"
      "only_others (sr_auth s) w w'" "same_node w w'"
    using not_valid_denied [OF assms(2)] by metis
  then show ?thesis
    using assms(1) by (auto simp: CSRF_def refusals_def act_ret_def act_bind_def public_handler_def Let_def only_others_refl)
qed

lemma nobody_invalid: "sc_GetString (sessions_of s) m SessionAdministratorID = '''' \<Longrightarrow> \<not> owner_valid s m w"
  by (simp add: owner_valid_def Valid_def)

lemma store_only_node: "store_only a \<Longrightarrow> a w = (x, v) \<Longrightarrow> same_node w v"
  unfolding store_only_def by (metis snd_conv)

text \<open>The session is refreshed at the end of a refused request, if it was changed at all.\<close>

lemma finish_store_only: "store_only (finish_session s (resp, m, untouched))"
  unfolding finish_session_def
  by (auto simp: untouched_def split: session_status.split prod.split
      intro!: store_only_rules sessions_store_only)

lemma finish_answer: "fst (fst (finish_session s (resp, m, untouched) w)) = resp"
  by (auto simp: finish_session_def untouched_def act_ret_def act_bind_def split: session_status.split prod.split sum.split)

lemma finish_unmodified:
  "sc_Status (sessions_of s) m = Unmodified \<Longrightarrow> finish_session s (resp, m, untouched) w = ((resp, NoCookie), w)"
  by (simp add: finish_session_def untouched_def act_ret_def)

lemma refused_after_load:
  assumes load: "load_session s (case hr_Cookie r of None \<Rightarrow> '''' | Some t \<Rightarrow> t) w = (Inr m, v)"
    and "\<not> public_path r" "\<not> owner_valid s m v"
  shows "\<exists>resp c w'. serve s r l w = (((resp, c), l), w') \<and> resp \<in> set (refusals r) \<and> same_node v w' \<and>
    (sc_Status (sessions_of s) m = Unmodified \<longrightarrow> c = NoCookie \<and> only_others (sr_auth s) v w')"
proof -
  obtain resp u where run: "CSRF s r l (\<lambda>r1. public_handler s r1 l) m v = (((resp, m, untouched), l), u)"
      and r: "resp \<in> set (refusals r)" "only_others (sr_auth s) v u" "same_node v u"
    using refused_inside [OF assms(2,3)] by metis
  obtain c w' where fin: "finish_session s (resp, m, untouched) u = ((resp, c), w')"
    using finish_answer [of s resp m u] by (metis prod.collapse)
  have "serve s r l w = (((resp, c), l), w')"
    by (simp add: serve_def LoadAndSave_def act_bind_def load run fin act_ret_def)
  moreover have "same_node v w'" using r(3) store_only_node [OF finish_store_only fin] by (rule same_node_trans)
  moreover have "sc_Status (sessions_of s) m = Unmodified \<longrightarrow> c = NoCookie \<and> only_others (sr_auth s) v w'"
    using fin finish_unmodified [of s m resp u] r(2) by auto
  ultimately show ?thesis using r(1) by blast
qed

section \<open>No handler without a session\<close>

text \<open>What loading a session can come to.\<close>

lemma load_cases:
  assumes "\<not> admitted s r w"
  obtains (failed) e v where "load_session s (case hr_Cookie r of None \<Rightarrow> '''' | Some t \<Rightarrow> t) w = (Inl e, v)" "same_node w v"
      "no_session s r w \<Longrightarrow> only_others (sr_auth s) w v"
  | (fresh) t m v where "load_session s (case hr_Cookie r of None \<Rightarrow> '''' | Some t \<Rightarrow> t) w = (Inr m, v)"
      "sc_Decode (sessions_of s) t None = Some m" "same_node w v" "only_others (sr_auth s) w v"
  | (stale) m v where "load_session s (case hr_Cookie r of None \<Rightarrow> '''' | Some t \<Rightarrow> t) w = (Inr m, v)"
      "\<not> owner_valid s m v" "same_node w v" "\<not> no_session s r w"
proof -
  let ?t = "case hr_Cookie r of None \<Rightarrow> '''' | Some t \<Rightarrow> t"
  obtain x v where found: "SessionStore_Find (sr_auth s) ?t w = (x, v)" by fastforce
  have node: "same_node w v" using store_only_node [OF sessions_store_only(1) found] .
  have others: "x = Inr None \<Longrightarrow> only_others (sr_auth s) w v"
    using found by (auto simp: SessionStore_Find_def act_bind_def act_now_def act_query_def act_try_def act_ret_def
        only_others_tick only_others_now only_others_query split: option.splits sum.splits prod.splits)
  show thesis
  proof (cases "?t = ''''")
    case True
    then have "load_session s ?t w = (case sc_Decode (sessions_of s) '''' None of
        None \<Rightarrow> Inl (PlainError ''session data'') | Some m \<Rightarrow> Inr m, w)"
      by (simp add: load_session_def act_ret_def)
    then show thesis using failed [of _ w] fresh [of _ w] by (cases "sc_Decode (sessions_of s) '''' None")
        (auto simp: only_others_refl)
  next
    case False
    then have cookie: "hr_Cookie r = Some ?t" by (cases "hr_Cookie r") auto
    have run: "load_session s ?t w = (case x of Inl e \<Rightarrow> Inl e | Inr y \<Rightarrow>
        (case sc_Decode (sessions_of s) ?t y of None \<Rightarrow> Inl (PlainError ''session data'') | Some m \<Rightarrow> Inr m), v)"
      using False found by (simp add: load_session_def act_try_def act_bind_def act_ret_def split: sum.split)
    have unknown: "no_session s r w \<longleftrightarrow> x = Inr None"
      using False cookie found by (auto simp: no_session_def split: option.splits)
    show thesis
    proof (cases x)
      case (Inl e)
      then show thesis using failed run node unknown by simp
    next
      case (Inr y)
      show thesis
      proof (cases "sc_Decode (sessions_of s) ?t y")
        case None
        then show thesis using failed run node unknown others Inr by simp
      next
        case (Some m)
        then show thesis
          using fresh [of m v ?t] stale [of m v] run node unknown others Inr False cookie found assms
          by (cases y) (auto simp: admitted_def split: option.splits)
      qed
    qed
  qed
qed

text \<open>
  C6: without a session no handler runs. A request for a path that is not public, made without a
  session the store knows or with one that no longer names the administrator and the current version
  of the password, is redirected to the login or refused with status 403 (500 when the store or the
  data of the session fail). The throttle, the node, the synchronizer and the validator are left
  alone, and when the store knows no session of the request, so is the database, and no cookie is
  set.
\<close>

theorem unauthenticated_requests_reach_no_handler:
  assumes "\<not> public_path r" "\<not> admitted s r w"
    and "\<forall>t m. sc_Decode (sessions_of s) t None = Some m \<longrightarrow>
      sc_GetString (sessions_of s) m SessionAdministratorID = '''' \<and> sc_Status (sessions_of s) m = Unmodified"
  shows "\<exists>resp c w'. serve s r l w = (((resp, c), l), w') \<and> resp \<in> set (refusals r) \<and>
    wd_node w' = wd_node w \<and> wd_wakes w' = wd_wakes w \<and> wd_revalidate w' = wd_revalidate w \<and>
    (no_session s r w \<longrightarrow> c = NoCookie \<and> (\<exists>ts. wd_db w' = fold (en_interferes (sr_auth s)) ts (wd_db w)))"
proof -
  have "\<exists>resp c w'. serve s r l w = (((resp, c), l), w') \<and> resp \<in> set (refusals r) \<and> same_node w w' \<and>
    (no_session s r w \<longrightarrow> c = NoCookie \<and> only_others (sr_auth s) w w')"
  proof (rule load_cases [OF assms(2)])
    fix e v
    assume "load_session s (case hr_Cookie r of None \<Rightarrow> '''' | Some t \<Rightarrow> t) w = (Inl e, v)" "same_node w v"
      "no_session s r w \<Longrightarrow> only_others (sr_auth s) w v"
    then show ?thesis by (auto simp: serve_def LoadAndSave_def act_bind_def act_ret_def refusals_def)
  next
    fix t m v
    assume fresh: "load_session s (case hr_Cookie r of None \<Rightarrow> '''' | Some t \<Rightarrow> t) w = (Inr m, v)"
      "sc_Decode (sessions_of s) t None = Some m" "same_node w v" "only_others (sr_auth s) w v"
    then have "sc_GetString (sessions_of s) m SessionAdministratorID = ''''" "sc_Status (sessions_of s) m = Unmodified"
      using assms(3) by blast+
    then obtain resp c w' where "serve s r l w = (((resp, c), l), w')" "resp \<in> set (refusals r)" "same_node v w'"
        "c = NoCookie" "only_others (sr_auth s) v w'"
      using refused_after_load [OF fresh(1) assms(1) nobody_invalid] by blast
    then show ?thesis using same_node_trans [OF fresh(3)] only_others_trans [OF fresh(4)] by blast
  next
    fix m v
    assume stale: "load_session s (case hr_Cookie r of None \<Rightarrow> '''' | Some t \<Rightarrow> t) w = (Inr m, v)" "\<not> owner_valid s m v"
      "same_node w v" "\<not> no_session s r w"
    then obtain resp c w' where "serve s r l w = (((resp, c), l), w')" "resp \<in> set (refusals r)" "same_node v w'"
      using refused_after_load [OF stale(1) assms(1)] by blast
    then show ?thesis using same_node_trans [OF stale(3)] stale(4) by blast
  qed
  then obtain resp c w' where run: "serve s r l w = (((resp, c), l), w')" "resp \<in> set (refusals r)"
    and same: "same_node w w'" "no_session s r w \<Longrightarrow> c = NoCookie \<and> only_others (sr_auth s) w w'" by blast
  show ?thesis
    by (rule exI [of _ resp], rule exI [of _ c], rule exI [of _ w'])
      (use run same in \<open>auto simp: same_node_def only_others_def\<close>)
qed

text \<open>A list of users is asked for with the cookie of a session that is gone.\<close>

theorem unauthenticated_requests_reach_no_handler_witness:
  "\<exists>resp w'. serve demo_server (demo_request ''GET'' [''users''] (Some ''tok'')) no_failures (demo_world empty_db) =
      (((resp, NoCookie), no_failures), w') \<and>
    resp \<in> set (refusals (demo_request ''GET'' [''users''] (Some ''tok''))) \<and> wd_db w' = empty_db"
proof -
  let ?r = "demo_request ''GET'' [''users''] (Some ''tok'')" and ?w = "demo_world empty_db"
  have find: "SessionStore_Find (sr_auth demo_server) ''tok'' ?w = (Inr None, ?w\<lparr>wd_tick := 2\<rparr>)"
    by (simp add: SessionStore_Find_def act_bind_def act_now_def act_query_def act_ret_def live_session_def demo_server_def
        demo_quiet_def demo_world_def empty_db_def)
  have none: "no_session demo_server ?r ?w" "\<not> admitted demo_server ?r ?w" by (simp_all add: no_session_def admitted_def find)
  have law: "\<forall>t m. sc_Decode (sessions_of demo_server) t None = Some m \<longrightarrow>
      sc_GetString (sessions_of demo_server) m SessionAdministratorID = '''' \<and> sc_Status (sessions_of demo_server) m = Unmodified"
    by (simp add: demo_server_def demo_sessions_def)
  have path: "\<not> public_path ?r" by (simp add: public_path_def)
  obtain resp c w' where run: "serve demo_server ?r no_failures ?w = (((resp, c), no_failures), w')" "resp \<in> set (refusals ?r)"
      and "c = NoCookie" "\<exists>ts. wd_db w' = fold (en_interferes (sr_auth demo_server)) ts (wd_db ?w)"
    using unauthenticated_requests_reach_no_handler [OF path none(2) law, of no_failures] none(1) by blast
  moreover have "fold (en_interferes (sr_auth demo_server)) ts d = d" for ts d
    by (induction ts) (simp_all add: demo_server_def demo_quiet_def)
  ultimately show ?thesis by (intro exI [of _ resp] exI [of _ w']) (simp add: demo_world_def)
qed

end
