(* ===== verification/Redaction.thy ===== *)
theory Redaction
  imports Names
begin

text \<open>
  Redaction of the log: \<open>internal/logging/redact.go\<close> and the handler of \<open>logging.go\<close>. Texts are sequences
  of bytes; an attribute is a string, a group, or a value of another kind.
\<close>

section \<open>Sensitive keys\<close>

text \<open>Case folding of \<open>(?i)\<close>: ASCII, the Kelvin sign and the long s.\<close>

definition re_fold :: "nat \<Rightarrow> nat" where
  "re_fold c = (if 65 \<le> c \<and> c \<le> 90 then c + 32 else if c = 0x212A then 107 else if c = 0x17F then 115 else c)"

definition sensitive_words :: "string list" where
  "sensitive_words = [''password'', ''passwd'', ''secret'', ''key'', ''token'', ''authorization'', ''cookie'', ''csrf'']"

definition occurs :: "nat list \<Rightarrow> nat list \<Rightarrow> bool" where
  "occurs w xs \<longleftrightarrow> list_ex (\<lambda>i. take (length w) (drop i xs) = w) [0..<Suc (length xs)]"

definition IsSensitiveKey :: "string \<Rightarrow> bool" where
  "IsSensitiveKey key \<longleftrightarrow> list_ex (\<lambda>w. occurs (map byte w) (map (re_fold \<circ> fst) (runes key))) sensitive_words"

section \<open>Connection addresses in texts\<close>

text \<open>What ends an address: white space and quotation marks.\<close>

definition uri_stop :: "char \<Rightarrow> bool" where
  "uri_stop c \<longleftrightarrow> c \<in> set [CHR 0x09, CHR 0x0A, CHR 0x0C, CHR 0x0D, CHR '' '', CHR 0x22, CHR 0x27]"

definition uri_here :: "string \<Rightarrow> bool" where
  "uri_here s \<longleftrightarrow> take 5 s = ''ss://'' \<and> (case drop 5 s of [] \<Rightarrow> False | c # _ \<Rightarrow> \<not> uri_stop c)"

lemma uri_here_Cons: "uri_here (c # t) \<longleftrightarrow> c = CHR ''s'' \<and> take 4 t = ''s://'' \<and> (case drop 4 t of [] \<Rightarrow> False | x # _ \<Rightarrow> \<not> uri_stop x)"
  by (simp add: uri_here_def numeral_eq_Suc)

lemma uri_here_Nil [simp]: "\<not> uri_here []"
  by (simp add: uri_here_def)

lemma letter_s_goes_on [simp]: "\<not> uri_stop CHR ''s''"
  by (simp add: uri_stop_def)

text \<open>\<open>ReplaceAllString\<close> from left to right, each match as long as possible.\<close>

function RedactText :: "string \<Rightarrow> string" where
  "RedactText s =
     (if uri_here s then ''[REDACTED_URI]'' @ RedactText (dropWhile (\<lambda>c. \<not> uri_stop c) s)
      else case s of [] \<Rightarrow> [] | c # t \<Rightarrow> c # RedactText t)"
  by auto

termination
proof (relation "measure length")
  fix s :: string
  assume "uri_here s"
  then obtain t where "s = CHR ''s'' # t" by (cases s) (auto simp: uri_here_Cons)
  then show "(dropWhile (\<lambda>c. \<not> uri_stop c) s, s) \<in> measure length"
    using length_dropWhile_le [of "\<lambda>c. \<not> uri_stop c" t] by (simp add: le_imp_less_Suc)
qed auto

declare RedactText.simps [simp del]

text \<open>\<open>RedactValue\<close> on texts, values that print themselves, and others.\<close>

datatype any_value = AnyText string | AnyStringer string | AnyOther

definition RedactValue :: "string \<Rightarrow> any_value \<Rightarrow> any_value" where
  "RedactValue key value = (if IsSensitiveKey key then AnyText ''[REDACTED]''
     else case value of AnyText s \<Rightarrow> AnyText (RedactText s) | AnyStringer s \<Rightarrow> AnyText (RedactText s) | AnyOther \<Rightarrow> AnyOther)"

section \<open>Records\<close>

datatype log_value = StringValue string | GroupValue "(string \<times> log_value) list" | OtherValue

fun redactAttr :: "string \<Rightarrow> log_value \<Rightarrow> log_value" where
  "redactAttr key (StringValue s) = StringValue (if IsSensitiveKey key then ''[REDACTED]'' else RedactText s)"
| "redactAttr key (GroupValue attrs) =
     (if IsSensitiveKey key then StringValue ''[REDACTED]'' else GroupValue (map (\<lambda>(k, v). (k, redactAttr k v)) attrs))"
| "redactAttr key OtherValue = (if IsSensitiveKey key then StringValue ''[REDACTED]'' else OtherValue)"

text \<open>\<open>Handle\<close>: what reaches the JSON handler; \<open>WithAttrs\<close> redacts attributes the same way.\<close>

definition redact_attrs :: "(string \<times> log_value) list \<Rightarrow> (string \<times> log_value) list" where
  "redact_attrs = map (\<lambda>(k, v). (k, redactAttr k v))"

definition Handle :: "string \<times> (string \<times> log_value) list \<Rightarrow> string \<times> (string \<times> log_value) list" where
  "Handle = (\<lambda>(message, attrs). (RedactText message, redact_attrs attrs))"

section \<open>Nothing gets through\<close>

fun has_uri :: "string \<Rightarrow> bool" where
  "has_uri [] = False"
| "has_uri (c # t) = (uri_here (c # t) \<or> has_uri t)"

declare has_uri.simps(2) [simp del]

text \<open>The start of a redacted text is that of the text, up to a replacement.\<close>

lemma redacted_start:
  assumes "RedactText t = a # r" "a \<noteq> CHR ''[''"
  shows "\<exists>t'. t = a # t' \<and> r = RedactText t'"
  using assms by (subst (asm) RedactText.simps) (auto split: if_splits list.splits)

lemma redacted_goes_on:
  assumes "RedactText t = x # r" "\<not> uri_stop x"
  shows "\<exists>y t'. t = y # t' \<and> \<not> uri_stop y"
  using assms by (subst (asm) RedactText.simps) (cases t; auto simp: uri_here_Cons split: if_splits)

lemma redacted_here:
  assumes "uri_here (c # RedactText t)"
  shows "uri_here (c # t)"
proof -
  have c: "c = CHR ''s''" and start: "take 4 (RedactText t) = ''s://''"
    and rest: "case drop 4 (RedactText t) of [] \<Rightarrow> False | x # _ \<Rightarrow> \<not> uri_stop x"
    using assms by (simp_all add: uri_here_Cons)
  obtain x r where full: "RedactText t = CHR ''s'' # CHR '':'' # CHR ''/'' # CHR ''/'' # x # r" and x: "\<not> uri_stop x"
  proof -
    obtain x r where d: "drop 4 (RedactText t) = x # r" and "\<not> uri_stop x" using rest by (auto split: list.splits)
    moreover have "RedactText t = take 4 (RedactText t) @ drop 4 (RedactText t)" by simp
    ultimately show thesis using that start by simp
  qed
  obtain t1 where 1: "t = CHR ''s'' # t1" "RedactText t1 = CHR '':'' # CHR ''/'' # CHR ''/'' # x # r"
    using redacted_start [OF full] by auto
  obtain t2 where 2: "t1 = CHR '':'' # t2" "RedactText t2 = CHR ''/'' # CHR ''/'' # x # r" using redacted_start [OF 1(2)] by auto
  obtain t3 where 3: "t2 = CHR ''/'' # t3" "RedactText t3 = CHR ''/'' # x # r" using redacted_start [OF 2(2)] by auto
  obtain t4 where 4: "t3 = CHR ''/'' # t4" "RedactText t4 = x # r" using redacted_start [OF 3(2)] by auto
  obtain y t' where "t4 = y # t'" "\<not> uri_stop y" using redacted_goes_on [OF 4(2) x] by blast
  then show ?thesis using c 1(1) 2(1) 3(1) 4(1) by (simp add: uri_here_Cons)
qed

lemma not_s [simp]: "c \<noteq> CHR ''s'' \<Longrightarrow> has_uri (c # t) = has_uri t"
  by (simp add: has_uri.simps(2) uri_here_Cons)

lemma replacement_clean: "has_uri (''[REDACTED_URI]'' @ s) = has_uri s" "\<not> has_uri ''[REDACTED]''"
  by simp_all

lemma RedactText_clean: "\<not> has_uri (RedactText s)"
proof (induction s rule: RedactText.induct)
  case (1 s)
  show ?case
  proof (cases "uri_here s")
    case True
    then show ?thesis using 1(1) replacement_clean by (subst RedactText.simps) simp
  next
    case False
    then show ?thesis using 1(2) redacted_here by (subst RedactText.simps) (auto simp: has_uri.simps(2) split: list.split)
  qed
qed

lemma RedactText_same: "\<not> has_uri s \<Longrightarrow> RedactText s = s"
  by (induction s) (simp_all add: has_uri.simps(2) RedactText.simps [of "[]"] RedactText.simps [of "_ # _"])

text \<open>The texts of an attribute, with the keys they stand under.\<close>

fun texts :: "string \<Rightarrow> log_value \<Rightarrow> (string \<times> string) list" where
  "texts key (StringValue s) = [(key, s)]"
| "texts key (GroupValue attrs) = concat (map (\<lambda>(k, v). texts k v) attrs)"
| "texts key OtherValue = []"

lemma redacted_texts:
  "(k, s) \<in> set (texts key (redactAttr key v)) \<Longrightarrow> \<not> has_uri s \<and> (IsSensitiveKey k \<longrightarrow> s = ''[REDACTED]'')"
proof (induction key v rule: redactAttr.induct)
  case (1 key s)
  then show ?case using RedactText_clean replacement_clean(2) by (auto split: if_splits)
next
  case (2 key attrs)
  then show ?case using replacement_clean(2) by (auto split: if_splits)
next
  case (3 key)
  then show ?case using replacement_clean(2) by (auto split: if_splits)
qed

lemma RedactText_idem: "RedactText (RedactText s) = RedactText s"
  by (rule RedactText_same [OF RedactText_clean])

lemma redactAttr_idem: "redactAttr key (redactAttr key v) = redactAttr key v"
  by (induction key v rule: redactAttr.induct) (auto simp: RedactText_idem)

text \<open>
  C32: what is logged names no connection address and no secret. In the record that reaches the JSON
  handler, neither the message nor any text of an attribute, however deep in groups, contains
  \<open>ss://\<close> followed by anything but white space or a quotation mark, and a text under a key that
  matches the pattern of secrets is the fixed replacement. A message without an address is logged
  as it is, and redacting twice changes nothing more.
\<close>

theorem log_records_are_redacted:
  assumes "Handle (message, attrs) = (message', attrs')"
  shows "\<not> has_uri message' \<and> (\<not> has_uri message \<longrightarrow> message' = message) \<and>
    (\<forall>k s. (k, s) \<in> set (texts '''' (GroupValue attrs')) \<longrightarrow> \<not> has_uri s \<and> (IsSensitiveKey k \<longrightarrow> s = ''[REDACTED]'')) \<and>
    Handle (message', attrs') = (message', attrs')"
proof -
  have "message' = RedactText message" "attrs' = redact_attrs attrs" using assms by (simp_all add: Handle_def)
  moreover have "\<not> has_uri s \<and> (IsSensitiveKey k \<longrightarrow> s = ''[REDACTED]'')"
    if "(k, s) \<in> set (texts '''' (GroupValue (redact_attrs attrs)))" for k s
    using that redacted_texts by (auto simp: redact_attrs_def)
  moreover have "redact_attrs (redact_attrs attrs) = redact_attrs attrs"
    by (auto simp: redact_attrs_def redactAttr_idem)
  ultimately show ?thesis by (auto simp: Handle_def RedactText_clean RedactText_same RedactText_idem)
qed

text \<open>A connection address in the message, and a key among the attributes.\<close>

theorem log_records_are_redacted_witness:
  "let logged = Handle (''via ss://k@h:1 ok'', [(''user_KEY'', StringValue ''c2VjcmV0''), (''result'', StringValue ''ok'')])
   in logged = (''via [REDACTED_URI] ok'', [(''user_KEY'', StringValue ''[REDACTED]''), (''result'', StringValue ''ok'')]) \<and>
     \<not> has_uri (fst logged)"
proof -
  have cut: "RedactText ''via ss://k@h:1 ok'' = ''via [REDACTED_URI] ok''" "RedactText ''ok'' = ''ok''"
    by (simp_all add: RedactText.simps uri_here_def uri_stop_def numeral_eq_Suc)
  have "runes ''user_KEY'' = map (\<lambda>c. (byte c, [c])) ''user_KEY''" "runes ''result'' = map (\<lambda>c. (byte c, [c])) ''result''"
    by (rule runes_ascii, simp add: byte_def)+
  then have "IsSensitiveKey ''user_KEY''" "\<not> IsSensitiveKey ''result''"
    by (simp_all add: IsSensitiveKey_def occurs_def sensitive_words_def byte_def re_fold_def upt_rec)
  then have run: "Handle (''via ss://k@h:1 ok'', [(''user_KEY'', StringValue ''c2VjcmV0''), (''result'', StringValue ''ok'')]) =
      (''via [REDACTED_URI] ok'', [(''user_KEY'', StringValue ''[REDACTED]''), (''result'', StringValue ''ok'')])"
    by (simp add: Handle_def redact_attrs_def cut)
  show ?thesis using log_records_are_redacted [OF run] by (simp add: run)
qed

end
