(* ===== verification/Config_Model.thy ===== *)
theory Config_Model
  imports Names
begin

unbundle bit_operations_syntax

text \<open>
  The configuration file: \<open>internal/config/config.go\<close>, from the decoded JSON on. What the panel asks of
  its surroundings while it validates is a record of functions: the parser of URLs, the time zone
  database, the status of the directory of the database, and the probe of its file system.
\<close>

section \<open>Records\<close>

record ServerConfig =
  cv_Listen :: string
  cv_PublicURL :: string
  cv_InsecureDevelopment :: bool
  cv_ReadHeaderTimeout :: duration
  cv_RequestTimeout :: duration
  cv_ShutdownTimeout :: duration

record StorageConfig =
  cg_DatabasePath :: string
  cg_BusyTimeout :: duration

record SecurityConfig =
  cy_RootKeyFile :: string
  cy_SessionIdleTimeout :: duration
  cy_SessionAbsoluteTimeout :: duration

record XrayConfig =
  cx_APIEndpoint :: string
  cx_SupportedVersion :: string
  cx_RPCTimeout :: duration

record WorkersConfig =
  cw_TrafficInterval :: duration
  cw_ReconcileInterval :: duration
  cw_MaxRetryInterval :: duration

record Config =
  co_Server :: ServerConfig
  co_Storage :: StorageConfig
  co_Security :: SecurityConfig
  co_Xray :: XrayConfig
  co_Workers :: WorkersConfig
  co_QuotaTimezone :: string
  co_LogLevel :: string
  co_Warnings :: "string list"

definition SupportedXrayVersion :: string where "SupportedXrayVersion = ''v26.3.27''"

definition Default :: Config where
  "Default = \<lparr>
     co_Server = \<lparr>cv_Listen = ''127.0.0.1:8080'', cv_PublicURL = '''', cv_InsecureDevelopment = False,
       cv_ReadHeaderTimeout = 5 * Second, cv_RequestTimeout = 15 * Second, cv_ShutdownTimeout = 15 * Second\<rparr>,
     co_Storage = \<lparr>cg_DatabasePath = '''', cg_BusyTimeout = 5 * Second\<rparr>,
     co_Security = \<lparr>cy_RootKeyFile = '''', cy_SessionIdleTimeout = 30 * 60 * Second,
       cy_SessionAbsoluteTimeout = 12 * 60 * 60 * Second\<rparr>,
     co_Xray = \<lparr>cx_APIEndpoint = ''127.0.0.1:10085'', cx_SupportedVersion = SupportedXrayVersion, cx_RPCTimeout = 5 * Second\<rparr>,
     co_Workers = \<lparr>cw_TrafficInterval = 5 * Second, cw_ReconcileInterval = 15 * Second, cw_MaxRetryInterval = 30 * Second\<rparr>,
     co_QuotaTimezone = ''UTC'', co_LogLevel = ''info'', co_Warnings = []\<rparr>"

section \<open>Socket addresses\<close>

text \<open>\<open>net.SplitHostPort\<close>: the port follows the last colon; a host with colons stands in brackets.\<close>

definition SplitHostPort :: "string \<Rightarrow> (string \<times> string) option" where
  "SplitHostPort s =
     (let port = rev (takeWhile (\<lambda>c. c \<noteq> CHR '':'') (rev s)); front = take (length s - length port - 1) s;
          inner = takeWhile (\<lambda>c. c \<noteq> CHR '']'') (tl s)
      in if CHR '':'' \<notin> set s then None
         else if HasPrefix s ''[''
         then (if front \<noteq> ''['' @ inner @ '']'' \<or> CHR ''['' \<in> set (tl s) \<or> CHR '']'' \<in> set port then None
               else Some (inner, port))
         else if CHR '':'' \<in> set front \<or> CHR ''['' \<in> set s \<or> CHR '']'' \<in> set s then None else Some (front, port))"

definition socketHost :: "string \<Rightarrow> err + string" where
  "socketHost value = (case SplitHostPort value of
     Some (host, port) \<Rightarrow> if host = '''' \<or> port = '''' then Inl (PlainError ''must be one host:port socket address'') else Inr host
   | None \<Rightarrow> Inl (PlainError ''must be one host:port socket address''))"

text \<open>The 16-bit units of an accepted IPv6 literal.\<close>

definition hex_digit :: "char \<Rightarrow> nat" where
  "hex_digit c = (if CHR ''0'' \<le> c \<and> c \<le> CHR ''9'' then of_char c - 48 else of_char (asciiLower c) - 87)"

fun ipv6_words :: "string list \<Rightarrow> nat list" where
  "ipv6_words [] = []"
| "ipv6_words (g # gs) =
     (if CHR ''.'' \<in> set g
      then (case map decimal (split_on CHR ''.'' [] g) of [a, b, c, d] \<Rightarrow> [256 * a + b, 256 * c + d] | _ \<Rightarrow> []) @ ipv6_words gs
      else foldl (\<lambda>n c. 16 * n + hex_digit c) 0 g # ipv6_words gs)"

definition ipv6_value :: "string \<Rightarrow> nat list" where
  "ipv6_value s = (case cut_ellipsis [] s of
     None \<Rightarrow> ipv6_words (groups s)
   | Some (l, r) \<Rightarrow> (let ls = ipv6_words (groups l); rs = ipv6_words (groups r) in
       ls @ replicate (8 - length ls - length rs) 0 @ rs))"

text \<open>\<open>IP.IsLoopback\<close>: 127/8, also in its IPv4-mapped form, and \<open>::1\<close>.\<close>

definition ip_loopback :: "string \<Rightarrow> bool" where
  "ip_loopback s \<longleftrightarrow> (if ipv4 s then decimal (hd (split_on CHR ''.'' [] s)) = 127
     else ParseIP s \<and> (ipv6_value s = [0, 0, 0, 0, 0, 0, 0, 1] \<or>
       (take 6 (ipv6_value s) = [0, 0, 0, 0, 0, 65535] \<and> ipv6_value s ! 6 div 256 = 127)))"

record parsed_url =
  pu_Scheme :: string
  pu_Host :: string
  pu_User :: bool
  pu_RawQuery :: string
  pu_Fragment :: string

record config_env =
  ce_unicode :: unicode
  ce_URL :: "string \<Rightarrow> parsed_url option"
  ce_zone :: "string \<Rightarrow> bool"
  ce_parent :: "string \<Rightarrow> (bool \<times> 9 word) option"
  ce_local :: "string \<Rightarrow> err + unit"

definition isLoopbackHost :: "'u unicode_scheme \<Rightarrow> string \<Rightarrow> bool" where
  "isLoopbackHost u host \<longleftrightarrow> EqualFold u host ''localhost'' \<or> ip_loopback host"

section \<open>Validation\<close>

definition duration_list :: "Config \<Rightarrow> (string \<times> duration) list" where
  "duration_list c =
     [(''server.read_header_timeout'', cv_ReadHeaderTimeout (co_Server c)),
      (''server.request_timeout'', cv_RequestTimeout (co_Server c)),
      (''server.shutdown_timeout'', cv_ShutdownTimeout (co_Server c)),
      (''storage.busy_timeout'', cg_BusyTimeout (co_Storage c)),
      (''security.session_idle_timeout'', cy_SessionIdleTimeout (co_Security c)),
      (''security.session_absolute_timeout'', cy_SessionAbsoluteTimeout (co_Security c)),
      (''xray.rpc_timeout'', cx_RPCTimeout (co_Xray c)),
      (''workers.traffic_interval'', cw_TrafficInterval (co_Workers c)),
      (''workers.reconcile_interval'', cw_ReconcileInterval (co_Workers c)),
      (''workers.max_retry_interval'', cw_MaxRetryInterval (co_Workers c))]"

definition positiveDurations :: "Config \<Rightarrow> err option" where
  "positiveDurations c = (case List.find (\<lambda>(name, value). value \<le> 0) (duration_list c) of
     Some (name, _) \<Rightarrow> Some (PlainError (name @ '' must be positive''))
   | None \<Rightarrow> if cy_SessionAbsoluteTimeout (co_Security c) < cy_SessionIdleTimeout (co_Security c)
       then Some (PlainError ''session absolute timeout must not be shorter than idle timeout'') else None)"

definition public_url_ok :: "config_env \<Rightarrow> string \<Rightarrow> parsed_url option" where
  "public_url_ok env raw = (case ce_URL env raw of None \<Rightarrow> None
   | Some u \<Rightarrow> if pu_Scheme u = '''' \<or> pu_Host u = '''' \<or> pu_User u \<or> pu_RawQuery u \<noteq> '''' \<or> pu_Fragment u \<noteq> ''''
       then None else Some u)"

text \<open>The checks on intervals, versions and storage, which come last.\<close>

definition validate_storage :: "config_env \<Rightarrow> Config \<Rightarrow> err option" where
  "validate_storage env c =
     (if cg_DatabasePath (co_Storage c) = '''' then Some (PlainError ''storage.database_path is required'')
      else if cy_RootKeyFile (co_Security c) = '''' then Some (PlainError ''security.root_key_file is required'')
      else case ce_parent env (cg_DatabasePath (co_Storage c)) of
        None \<Rightarrow> Some (PlainError ''storage.database_path parent directory must exist'')
      | Some (directory, mode) \<Rightarrow>
        if \<not> directory then Some (PlainError ''storage.database_path parent directory must exist'')
        else if mode AND 0x12 \<noteq> 0 then Some (PlainError ''storage database directory must not be group or world writable'')
        else case ce_local env (cg_DatabasePath (co_Storage c)) of Inl e \<Rightarrow> Some e | Inr _ \<Rightarrow> None)"

definition validate_workers :: "config_env \<Rightarrow> Config \<Rightarrow> err option" where
  "validate_workers env c = (case positiveDurations c of Some e \<Rightarrow> Some e
   | None \<Rightarrow>
     if cw_TrafficInterval (co_Workers c) > 60 * Second then Some (PlainError ''workers.traffic_interval must not exceed 60s'')
     else if cw_ReconcileInterval (co_Workers c) > 30 * Second then Some (PlainError ''workers.reconcile_interval must not exceed 30s'')
     else if cx_SupportedVersion (co_Xray c) \<noteq> SupportedXrayVersion
     then Some (PlainError (''xray.supported_version must be '' @ SupportedXrayVersion))
     else if \<not> ce_zone env (co_QuotaTimezone c) then Some (PlainError ''initial.quota_timezone must be a valid IANA timezone'')
     else validate_storage env c)"

definition config_warnings :: "Config \<Rightarrow> string list" where
  "config_warnings c =
     (if cv_InsecureDevelopment (co_Server c) then [''insecure development mode disables the Secure cookie requirement''] else []) @
     (if cw_TrafficInterval (co_Workers c) > 5 * Second then [''traffic interval exceeds 5s; quota overshoot risk is increased''] else [])"

text \<open>An accepted configuration keeps all it was given, and gets its warnings.\<close>

definition Validate :: "config_env \<Rightarrow> Config \<Rightarrow> err + Config" where
  "Validate env c = (case socketHost (cv_Listen (co_Server c)) of
     Inl e \<Rightarrow> Inl (PlainError ''server.listen: must be one host:port socket address'')
   | Inr listenHost \<Rightarrow> (case socketHost (cx_APIEndpoint (co_Xray c)) of
     Inl e \<Rightarrow> Inl (PlainError ''xray.api_endpoint: must be one host:port socket address'')
   | Inr xrayHost \<Rightarrow>
     if \<not> isLoopbackHost (ce_unicode env) xrayHost then Inl (PlainError ''xray.api_endpoint must use a loopback address'')
     else case public_url_ok env (cv_PublicURL (co_Server c)) of
       None \<Rightarrow> Inl (PlainError ''server.public_url must be an absolute URL without user information, query, or fragment'')
     | Some u \<Rightarrow>
       if cv_InsecureDevelopment (co_Server c) \<and>
         (\<not> isLoopbackHost (ce_unicode env) listenHost \<or> \<not> isLoopbackHost (ce_unicode env) xrayHost)
       then Inl (PlainError ''insecure_development requires loopback server and Xray endpoints'')
       else if \<not> cv_InsecureDevelopment (co_Server c) \<and> \<not> EqualFold (ce_unicode env) (pu_Scheme u) ''https''
       then Inl (PlainError ''server.public_url must use HTTPS in production'')
       else case validate_workers env c of Some e \<Rightarrow> Inl e
       | None \<Rightarrow> Inr (c\<lparr>co_Warnings := config_warnings c\<rparr>)))"

text \<open>\<open>Load\<close>, from the decoded file: the fields it names replace those of \<open>Default\<close>.\<close>

definition Load :: "config_env \<Rightarrow> err + (Config \<Rightarrow> Config) \<Rightarrow> err + Config" where
  "Load env file = (case file of Inl e \<Rightarrow> Inl e | Inr settings \<Rightarrow> Validate env (settings Default))"

section \<open>What an accepted configuration promises\<close>

lemma Validate_accepted:
  "Validate env c0 = Inr c \<longleftrightarrow>
     (\<exists>lh xh u. socketHost (cv_Listen (co_Server c0)) = Inr lh \<and> socketHost (cx_APIEndpoint (co_Xray c0)) = Inr xh \<and>
       isLoopbackHost (ce_unicode env) xh \<and> public_url_ok env (cv_PublicURL (co_Server c0)) = Some u \<and>
       (if cv_InsecureDevelopment (co_Server c0) then isLoopbackHost (ce_unicode env) lh
        else EqualFold (ce_unicode env) (pu_Scheme u) ''https'') \<and>
       validate_workers env c0 = None \<and> c = c0\<lparr>co_Warnings := config_warnings c0\<rparr>)"
  by (auto simp: Validate_def split: sum.splits option.splits if_splits)

lemma find_nonpositive: "List.find (\<lambda>(name, d). d \<le> (0::int)) xs = None \<longleftrightarrow> list_all (\<lambda>(name, d). 0 < d) xs"
  by (auto simp: find_None_iff list_all_iff not_le)

lemma positiveDurations_None:
  "positiveDurations c = None \<longleftrightarrow> list_all (\<lambda>(name, d). 0 < d) (duration_list c) \<and>
     cy_SessionIdleTimeout (co_Security c) \<le> cy_SessionAbsoluteTimeout (co_Security c)"
  unfolding find_nonpositive [symmetric] positiveDurations_def
  by (cases "List.find (\<lambda>(name, d). d \<le> 0) (duration_list c)") auto

lemma socketHost_Inr: "socketHost s = Inr host \<Longrightarrow> \<exists>port. SplitHostPort s = Some (host, port) \<and> host \<noteq> '''' \<and> port \<noteq> ''''"
  by (auto simp: socketHost_def split: option.splits if_splits)

lemma not_writable: "(mode :: 9 word) AND 0x12 = 0 \<Longrightarrow> \<not> bit mode 1 \<and> \<not> bit mode 4"
proof -
  assume "mode AND 0x12 = 0"
  then have "\<not> bit (mode AND 0x12) n" for n by simp
  from this [of 1] this [of 4] show ?thesis by (simp add: bit_and_iff)
qed

lemma warnings_ignored [simp]:
  "duration_list (c\<lparr>co_Warnings := ws\<rparr>) = duration_list c" "config_warnings (c\<lparr>co_Warnings := ws\<rparr>) = config_warnings c"
  "validate_storage env (c\<lparr>co_Warnings := ws\<rparr>) = validate_storage env c"
  by (simp_all add: duration_list_def config_warnings_def validate_storage_def split: option.split)

lemma positiveDurations_unchanged [simp]: "positiveDurations (c\<lparr>co_Warnings := ws\<rparr>) = positiveDurations c"
  by (simp add: positiveDurations_def split: option.split)

lemma validate_workers_unchanged [simp]: "validate_workers env (c\<lparr>co_Warnings := ws\<rparr>) = validate_workers env c"
  by (simp add: validate_workers_def split: option.split)

lemma workers_accepted:
  assumes "validate_workers env c = None"
  shows "positiveDurations c = None" "cw_TrafficInterval (co_Workers c) \<le> 60 * Second"
    "cw_ReconcileInterval (co_Workers c) \<le> 30 * Second" "validate_storage env c = None"
    "cx_SupportedVersion (co_Xray c) = SupportedXrayVersion" "ce_zone env (co_QuotaTimezone c)"
  using assms by (auto simp: validate_workers_def split: option.splits if_splits)

lemma storage_accepted:
  assumes "validate_storage env c = None"
  shows "\<exists>mode. ce_parent env (cg_DatabasePath (co_Storage c)) = Some (True, mode) \<and> mode AND 0x12 = 0"
    "cg_DatabasePath (co_Storage c) \<noteq> ''''" "cy_RootKeyFile (co_Security c) \<noteq> ''''"
  using assms by (auto simp: validate_storage_def split: option.splits if_splits prod.splits)

text \<open>
  C31: an accepted configuration is well formed. It is the given one with its warnings, and accepted
  again as it is. The API of the node is on a loopback address; the panel either serves over HTTPS or
  is a development panel that listens on a loopback address. All timeouts and intervals are positive,
  the workers' intervals within 60 and 30 seconds, and the idle timeout of sessions within the
  absolute one. The directory of the database exists and neither group nor others can write to it.
\<close>

theorem accepted_configuration_well_formed:
  assumes "Load env (Inr settings) = Inr c"
  shows "Validate env c = Inr c \<and> c = (settings Default)\<lparr>co_Warnings := config_warnings c\<rparr> \<and>
    (\<exists>host port. SplitHostPort (cx_APIEndpoint (co_Xray c)) = Some (host, port) \<and> isLoopbackHost (ce_unicode env) host) \<and>
    (if cv_InsecureDevelopment (co_Server c)
     then \<exists>host port. SplitHostPort (cv_Listen (co_Server c)) = Some (host, port) \<and> isLoopbackHost (ce_unicode env) host
     else \<exists>u. ce_URL env (cv_PublicURL (co_Server c)) = Some u \<and> EqualFold (ce_unicode env) (pu_Scheme u) ''https'') \<and>
    list_all (\<lambda>(name, d). 0 < d) (duration_list c) \<and>
    cw_TrafficInterval (co_Workers c) \<le> 60 * Second \<and> cw_ReconcileInterval (co_Workers c) \<le> 30 * Second \<and>
    cy_SessionIdleTimeout (co_Security c) \<le> cy_SessionAbsoluteTimeout (co_Security c) \<and>
    (\<exists>mode. ce_parent env (cg_DatabasePath (co_Storage c)) = Some (True, mode) \<and> \<not> bit mode 1 \<and> \<not> bit mode 4)"
proof -
  let ?c0 = "settings Default"
  obtain lh xh u where parts: "socketHost (cv_Listen (co_Server ?c0)) = Inr lh" "socketHost (cx_APIEndpoint (co_Xray ?c0)) = Inr xh"
      "isLoopbackHost (ce_unicode env) xh" "public_url_ok env (cv_PublicURL (co_Server ?c0)) = Some u"
      "if cv_InsecureDevelopment (co_Server ?c0) then isLoopbackHost (ce_unicode env) lh
       else EqualFold (ce_unicode env) (pu_Scheme u) ''https''"
    and rest: "validate_workers env ?c0 = None" and c: "c = ?c0\<lparr>co_Warnings := config_warnings ?c0\<rparr>"
    using assms by (simp add: Load_def Validate_accepted) blast
  have again: "Validate env c = Inr c" unfolding Validate_accepted using parts rest by (simp add: c)
  have url: "ce_URL env (cv_PublicURL (co_Server ?c0)) = Some u"
    using parts(4) by (auto simp: public_url_ok_def split: option.splits if_splits)
  have durations: "list_all (\<lambda>(name, d). 0 < d) (duration_list ?c0)"
      "cy_SessionIdleTimeout (co_Security ?c0) \<le> cy_SessionAbsoluteTimeout (co_Security ?c0)"
    using workers_accepted(1) [OF rest] unfolding positiveDurations_None by blast+
  have dir: "\<exists>mode. ce_parent env (cg_DatabasePath (co_Storage ?c0)) = Some (True, mode) \<and> \<not> bit mode 1 \<and> \<not> bit mode 4"
    using storage_accepted(1) [OF workers_accepted(4) [OF rest]] not_writable by blast
  show ?thesis
    using again url durations dir parts(3,5) socketHost_Inr [OF parts(1)] socketHost_Inr [OF parts(2)] workers_accepted(2,3) [OF rest]
    by (auto simp: c)
qed

text \<open>The defaults, with an address and two files: accepted without a warning.\<close>

definition demo_env :: config_env where
  "demo_env = \<lparr>ce_unicode = \<lparr>un_NFKC = (\<lambda>s. s), un_lower = (\<lambda>n. n), un_fold = (\<lambda>n. n)\<rparr>,
     ce_URL = (\<lambda>s. Some \<lparr>pu_Scheme = ''https'', pu_Host = ''panel'', pu_User = False, pu_RawQuery = '''', pu_Fragment = ''''\<rparr>),
     ce_zone = (\<lambda>z. True), ce_parent = (\<lambda>p. Some (True, 0x1C0)), ce_local = (\<lambda>p. Inr ())\<rparr>"

definition demo_settings :: "Config \<Rightarrow> Config" where
  "demo_settings c = c\<lparr>co_Storage := (co_Storage c)\<lparr>cg_DatabasePath := ''db''\<rparr>, co_Security := (co_Security c)\<lparr>cy_RootKeyFile := ''key''\<rparr>\<rparr>"

lemma demo_load: "Load demo_env (Inr demo_settings) = Inr (demo_settings Default)"
proof -
  have host: "socketHost ''127.0.0.1:8080'' = Inr ''127.0.0.1''" "socketHost ''127.0.0.1:10085'' = Inr ''127.0.0.1''"
    by (simp_all add: socketHost_def SplitHostPort_def HasPrefix_def Let_def)
  have loop: "isLoopbackHost u ''127.0.0.1''" for u :: unicode
    by (simp add: isLoopbackHost_def ip_loopback_def ipv4_def ipv4_octet_def decimal_def Let_def less_eq_char_def)
  show ?thesis
    unfolding Load_def Validate_accepted sum.case
    by (simp add: demo_env_def demo_settings_def Default_def host loop public_url_ok_def EqualFold_def validate_workers_def
        positiveDurations_def duration_list_def Second_def validate_storage_def config_warnings_def)
qed

theorem accepted_configuration_well_formed_witness:
  "\<exists>c. Load demo_env (Inr demo_settings) = Inr c \<and> co_Warnings c = [] \<and> Validate demo_env c = Inr c"
  using accepted_configuration_well_formed [OF demo_load] demo_load
  by (intro exI [of _ "demo_settings Default"]) (simp add: demo_settings_def Default_def)

end
