(* ===== verification/Startup.thy ===== *)
theory Startup
  imports Auth_Service Config_Model Synchronizer
begin

unbundle bit_operations_syntax

text \<open>
  Starting the panel and the commands of the local administrator: the key ring
  (\<open>internal/security/secrets.go\<close>) and \<open>cmd/xpanel/main.go\<close> up to the wiring of the server. HKDF and
  XChaCha20-Poly1305 are parameters, as are the files and the terminal.
\<close>

section \<open>The key ring\<close>

record Keyring =
  kr_fieldKey :: "8 word list"
  kr_csrfKey :: "8 word list"

text \<open>\<open>derive\<close> (HKDF with SHA-256), and \<open>Seal\<close> and \<open>Open\<close> of the AEAD: key, nonce, text, associated data.\<close>

record crypto =
  kc_derive :: "8 word list \<Rightarrow> string \<Rightarrow> nat \<Rightarrow> 8 word list"
  kc_seal :: "8 word list \<Rightarrow> 8 word list \<Rightarrow> string \<Rightarrow> string \<Rightarrow> 8 word list"
  kc_open :: "8 word list \<Rightarrow> 8 word list \<Rightarrow> 8 word list \<Rightarrow> string \<Rightarrow> string option"

definition verifierPlaintext :: string where "verifierPlaintext = ''xpanel-root-key-verifier''"

text \<open>\<open>StdEncoding\<close>, with padding: what \<open>base64_length\<close> accepts, decoded.\<close>

definition base64_decode_std :: "string \<Rightarrow> 8 word list option" where
  "base64_decode_std s = (case base64_length s of None \<Rightarrow> None
   | Some n \<Rightarrow> base64_decode (filter (\<lambda>c. c \<noteq> CHR ''='') s))"

text \<open>The status of the key file (whether it is regular, its permissions), and its text if it can be read.\<close>

definition LoadRootKey :: "(bool \<times> 9 word) option \<Rightarrow> string option \<Rightarrow> err + 8 word list" where
  "LoadRootKey stat content = (case stat of
     None \<Rightarrow> Inl (PlainError ''root key file is unavailable'')
   | Some (regular, mode) \<Rightarrow>
     if \<not> regular \<or> mode AND 0x3F \<noteq> 0
     then Inl (PlainError ''root key file must be regular and accessible only by its owner'')
     else case content of
       None \<Rightarrow> Inl (PlainError ''read root key file'')
     | Some encoded \<Rightarrow>
       if length encoded < 2 \<or> encoded ! (length encoded - 1) \<noteq> CHR 0x0A \<or> encoded ! (length encoded - 2) = CHR 0x0A
       then Inl (PlainError ''root key file must contain one Base64 line ending in a newline'')
       else case base64_decode_std (take (length encoded - 1) encoded) of
         None \<Rightarrow> Inl (PlainError ''root key must decode to exactly 32 bytes'')
       | Some raw \<Rightarrow> if length raw \<noteq> 32 then Inl (PlainError ''root key must decode to exactly 32 bytes'') else Inr raw)"

definition NewKeyring :: "crypto \<Rightarrow> 8 word list \<Rightarrow> err + Keyring" where
  "NewKeyring kc root =
     (if length root \<noteq> 32 then Inl (PlainError ''root key must be 32 bytes'')
      else Inr \<lparr>kr_fieldKey = kc_derive kc root ''xpanel-field-aead-v1'' 32, kr_csrfKey = kc_derive kc root ''xpanel-csrf-v1'' 32\<rparr>)"

definition Encrypt :: "crypto \<Rightarrow> Keyring \<Rightarrow> 8 word list \<Rightarrow> string \<Rightarrow> string \<Rightarrow> 8 word list \<times> 8 word list" where
  "Encrypt kc k nonce plaintext aad = (kc_seal kc (kr_fieldKey k) nonce plaintext aad, nonce)"

definition Decrypt :: "crypto \<Rightarrow> Keyring \<Rightarrow> 8 word list \<Rightarrow> 8 word list \<Rightarrow> string \<Rightarrow> err + string" where
  "Decrypt kc k ciphertext nonce aad = (case kc_open kc (kr_fieldKey k) nonce ciphertext aad of
     None \<Rightarrow> Inl (PlainError ''secret authentication failed'') | Some plaintext \<Rightarrow> Inr plaintext)"

definition verifier_aad :: string where
  "verifier_aad = SecretAAD ''panel_settings'' ''1'' ''key_verifier'' 1"

definition NewVerifier :: "crypto \<Rightarrow> Keyring \<Rightarrow> 8 word list \<Rightarrow> 8 word list \<times> 8 word list" where
  "NewVerifier kc k nonce = Encrypt kc k nonce verifierPlaintext verifier_aad"

definition Verify :: "crypto \<Rightarrow> Keyring \<Rightarrow> 8 word list \<Rightarrow> 8 word list \<Rightarrow> bool" where
  "Verify kc k ciphertext nonce \<longleftrightarrow> Decrypt kc k ciphertext nonce verifier_aad = Inr verifierPlaintext"

section \<open>Bootstrap\<close>

text \<open>What a start of the program finds: files, randomness, and whether the database opens and migrates.\<close>

record startup = surroundings +
  st_config :: config_env
  st_file :: "err + (Config \<Rightarrow> Config)"
  st_keyStat :: "(bool \<times> 9 word) option"
  st_keyText :: "string option"
  st_crypto :: crypto
  st_random :: "nat \<Rightarrow> 8 word list"
  st_open :: "string \<Rightarrow> duration \<Rightarrow> err + unit"

definition key_mismatch :: err where
  "key_mismatch = PlainError ''root key verifier: root_key_mismatch''"

definition VerifyKey :: "'e surroundings_scheme \<Rightarrow> (8 word list \<Rightarrow> 8 word list \<Rightarrow> bool) \<Rightarrow> ('n, err + unit) act" where
  "VerifyKey s verify = act_bind (act_query s (\<lambda>d. fst (WithWriteTx PanelSettings d))) (\<lambda>x. case x of
     Inl e \<Rightarrow> act_ret (Inl e)
   | Inr p \<Rightarrow> if verify (ps_KeyVerifier p) (ps_KeyVerifierNonce p) then act_ret (Inr ()) else act_ret (Inl key_mismatch))"

definition act_random :: "'e startup_scheme \<Rightarrow> ('n, 8 word list) act" where
  "act_random s = (\<lambda>w. (st_random s (wd_tick w), w\<lparr>wd_tick := wd_tick w + 1\<rparr>))"

text \<open>The two single rows of the database, and the check of the key against the verifier it holds.\<close>

definition prepare_database :: "'e startup_scheme \<Rightarrow> Config \<Rightarrow> Keyring \<Rightarrow> ('n, err + Config \<times> Keyring) act" where
  "prepare_database s cfg keyring =
     act_bind (act_random s) (\<lambda>nonce. act_bind (act_now s) (\<lambda>now. act_bind (act_random s) (\<lambda>rnd.
     (case NewVerifier (st_crypto s) keyring nonce of (verifier, nonce') \<Rightarrow>
     act_try (act_store s (WithWriteTx (EnsureSingletons (co_QuotaTimezone cfg) (cx_APIEndpoint (co_Xray cfg))
       (cx_SupportedVersion (co_Xray cfg)) verifier nonce' rnd now))) (\<lambda>_.
     act_try (VerifyKey s (Verify (st_crypto s) keyring)) (\<lambda>_.
     act_ret (Inr (cfg, keyring))))))))"

text \<open>\<open>bootstrap\<close>: configuration, key ring, database.\<close>

definition bootstrap :: "'e startup_scheme \<Rightarrow> ('n, err + Config \<times> Keyring) act" where
  "bootstrap s =
     act_check (Load (st_config s) (st_file s)) (\<lambda>cfg.
     act_check (LoadRootKey (st_keyStat s) (st_keyText s)) (\<lambda>root.
     act_check (NewKeyring (st_crypto s) root) (\<lambda>keyring.
     act_check (st_open s (cg_DatabasePath (co_Storage cfg)) (cg_BusyTimeout (co_Storage cfg))) (\<lambda>_.
     prepare_database s cfg keyring))))"

section \<open>The command line\<close>

text \<open>\<open>strconv.ParseBool\<close>.\<close>

definition ParseBool :: "string \<Rightarrow> bool option" where
  "ParseBool s = (if s \<in> set [''1'', ''t'', ''T'', ''TRUE'', ''true'', ''True''] then Some True
     else if s \<in> set [''0'', ''f'', ''F'', ''FALSE'', ''false'', ''False''] then Some False else None)"

record cli_flags =
  fl_config :: string
  fl_passwordStdin :: bool
  fl_username :: string

definition no_flags :: cli_flags where
  "no_flags = \<lparr>fl_config = '''', fl_passwordStdin = False, fl_username = ''''\<rparr>"

text \<open>A flag with its value, if it has one after an equals sign that is not its first character.\<close>

definition cut_value :: "string \<Rightarrow> string \<times> string option" where
  "cut_value name = (let front = takeWhile (\<lambda>c. c \<noteq> CHR ''='') (tl name); rest = drop (length front + 1) name in
     (take 1 name @ front, case rest of [] \<Rightarrow> None | _ # v \<Rightarrow> Some v))"

text \<open>\<open>FlagSet.Parse\<close> for the three flags; \<open>None\<close> is any of its errors.\<close>

function parse_flags :: "string list \<Rightarrow> cli_flags \<Rightarrow> cli_flags option" where
  "parse_flags args fl = (case args of
     [] \<Rightarrow> Some fl
   | a # rest \<Rightarrow>
     if length a < 2 \<or> hd a \<noteq> CHR ''-'' \<or> a = ''--'' then Some fl
     else let name = (if a ! 1 = CHR ''-'' then drop 2 a else drop 1 a) in
       if hd name = CHR ''-'' \<or> hd name = CHR ''='' then None
       else case cut_value name of (key, value) \<Rightarrow>
         if key = ''password-stdin''
         then (case value of None \<Rightarrow> parse_flags rest (fl\<lparr>fl_passwordStdin := True\<rparr>)
           | Some v \<Rightarrow> (case ParseBool v of None \<Rightarrow> None | Some b \<Rightarrow> parse_flags rest (fl\<lparr>fl_passwordStdin := b\<rparr>)))
         else if key \<noteq> ''config'' \<and> key \<noteq> ''username'' then None
         else case (value, rest) of
             (Some v, _) \<Rightarrow> parse_flags rest (if key = ''config'' then fl\<lparr>fl_config := v\<rparr> else fl\<lparr>fl_username := v\<rparr>)
           | (None, v # rest') \<Rightarrow> parse_flags rest' (if key = ''config'' then fl\<lparr>fl_config := v\<rparr> else fl\<lparr>fl_username := v\<rparr>)
           | (None, []) \<Rightarrow> None)"
  by auto

termination by (relation "measure (\<lambda>(args, fl). length args)") auto

declare parse_flags.simps [simp del]

definition configFlag :: "string list \<Rightarrow> cli_flags option" where
  "configFlag args = (case parse_flags args no_flags of
     None \<Rightarrow> None | Some fl \<Rightarrow> if fl_config fl = '''' then None else Some fl)"

text \<open>
  Standard input: its text if it can be read, and the answers at a terminal (the line of the name, the
  password and its repetition), if it is one.
\<close>

record stdin =
  si_text :: "string option"
  si_line :: "string option"
  si_password :: "(string \<times> string) option"

definition trim_newline :: "string \<Rightarrow> string" where
  "trim_newline s = (let t = (if HasSuffix s [CHR 0x0A] then butlast s else s) in
     if HasSuffix t [CHR 0x0D] then butlast t else t)"

definition readPassword :: "stdin \<Rightarrow> bool \<Rightarrow> string option" where
  "readPassword i fromStdin =
     (if fromStdin
      then (case si_text i of None \<Rightarrow> None
        | Some s \<Rightarrow> let value = trim_newline (take 258 s) in
            if value = '''' \<or> CHR 0x0D \<in> set value \<or> CHR 0x0A \<in> set value then None else Some value)
      else (case si_password i of None \<Rightarrow> None
        | Some (first, second) \<Rightarrow> if first \<noteq> second then None else Some first))"

text \<open>The name of the administrator: from the flag, or asked for; \<open>None\<close> when the flags do not fit.\<close>

definition admin_username :: "string \<Rightarrow> cli_flags \<Rightarrow> stdin \<Rightarrow> string option" where
  "admin_username command fl i =
     (if command = ''reset-password'' then (if fl_username fl \<noteq> '''' then None else Some '''')
      else if fl_username fl \<noteq> '''' then Some (fl_username fl)
      else if fl_passwordStdin fl then None
      else map_option TrimSpace (si_line i))"

text \<open>
  The exit code of \<open>xpanel admin\<close>: 2 for a wrong command line or input, 3 when the panel cannot be
  opened, 4 when the service refuses.
\<close>

definition runAdmin :: "'e startup_scheme \<Rightarrow> auth_service \<Rightarrow> string \<Rightarrow> string list \<Rightarrow> stdin \<Rightarrow> ('n, int) act" where
  "runAdmin s a command args i = (case configFlag args of
     None \<Rightarrow> act_ret 2
   | Some fl \<Rightarrow>
     if command \<noteq> ''init'' \<and> command \<noteq> ''reset-password'' then act_ret 2
     else case admin_username command fl i of
       None \<Rightarrow> act_ret 2
     | Some username \<Rightarrow> (case readPassword i (fl_passwordStdin fl) of
         None \<Rightarrow> act_ret 2
       | Some password \<Rightarrow> act_bind (bootstrap s) (\<lambda>x. case x of
           Inl e \<Rightarrow> act_ret 3
         | Inr _ \<Rightarrow>
           if command = ''init''
           then act_bind (InitializeAdministrator a username (bytes_of_string password)) (\<lambda>y.
             act_ret (case y of Inl e \<Rightarrow> 4 | Inr _ \<Rightarrow> 0))
           else act_bind (ResetPassword a (bytes_of_string password)) (\<lambda>y. act_ret (case y of Inl e \<Rightarrow> 4 | Inr _ \<Rightarrow> 0)))))"

datatype log_level = LevelDebug | LevelInfo | LevelWarn | LevelError

definition parseLogLevel :: "'u unicode_scheme \<Rightarrow> string \<Rightarrow> log_level" where
  "parseLogLevel u value = (let v = ToLower u value in
     if v = ''debug'' then LevelDebug else if v = ''warn'' then LevelWarn else if v = ''error'' then LevelError else LevelInfo)"

text \<open>\<open>run\<close>: \<open>serve\<close> is given as an action of its own.\<close>

definition run_program :: "'e startup_scheme \<Rightarrow> auth_service \<Rightarrow> (string list \<Rightarrow> ('n, int) act) \<Rightarrow> string list \<Rightarrow> stdin \<Rightarrow> ('n, int) act" where
  "run_program s a serve args i = (case args of
     [] \<Rightarrow> act_ret 2
   | command # rest \<Rightarrow>
     if command = ''serve'' then serve rest
     else if command = ''admin'' then (case rest of [] \<Rightarrow> act_ret 2 | sub # args' \<Rightarrow> runAdmin s a sub args' i)
     else act_ret 2)"

end
