(* ===== verification/Root_Key.thy ===== *)
theory Root_Key
  imports Startup Login_Safety
begin

text \<open>
  The root key of a database: the first start seals a verifier under a key derived from it, no step of
  the store changes the verifier, and later starts succeed with that key only.
\<close>

section \<open>The verifier stays\<close>

definition pinned :: "8 word list \<Rightarrow> 8 word list \<Rightarrow> db \<Rightarrow> bool" where
  "pinned v n d \<longleftrightarrow> (case db_settings d of None \<Rightarrow> False | Some p \<Rightarrow> ps_KeyVerifier p = v \<and> ps_KeyVerifierNonce p = n)"

interpretation pin: table_invariant "pinned v n" for v n
proof
  fix f1 :: "PanelSettingsRecord option \<Rightarrow> PanelSettingsRecord option" and s :: db
  assume keeps: "\<And>x. \<exists>y. f1 (Some x) = Some y \<and> ps_KeyVerifier y = ps_KeyVerifier x \<and> ps_KeyVerifierNonce y = ps_KeyVerifierNonce x"
    and "pinned v n s"
  then obtain p where p: "db_settings s = Some p" "ps_KeyVerifier p = v" "ps_KeyVerifierNonce p = n"
    by (auto simp: pinned_def split: option.splits)
  then show "pinned v n (db_settings_update f1 s)" using keeps [of p] by (auto simp: pinned_def)
qed (auto simp: pinned_def roll_cycle_def write_deltas_def add_totals_def add_cycle_def Let_def insert_command_def
    insert_user_rows_def insertDedicatedInbound_def tx_simps split: if_splits option.splits)

lemma pinned_lasts: "reachable d \<Longrightarrow> pinned v n d \<Longrightarrow> store_step\<^sup>*\<^sup>* d d' \<Longrightarrow> pinned v n d'"
  using pin.stays unfolding lasting_def by blast

section \<open>Starting with a key\<close>

lemma PanelSettings_run: "fst (WithWriteTx PanelSettings d) = (case db_settings d of None \<Rightarrow> Inl NoRows | Some p \<Rightarrow> Inr p)"
  by (simp add: WithWriteTx_def PanelSettings_def tx_scan_def split: option.split)

lemma VerifyKey_run:
  "VerifyKey s verify w = (let d = en_interferes s (wd_tick w) (wd_db w) in
     (case db_settings d of None \<Rightarrow> Inl NoRows
      | Some p \<Rightarrow> if verify (ps_KeyVerifier p) (ps_KeyVerifierNonce p) then Inr () else Inl key_mismatch,
      w\<lparr>wd_db := d, wd_tick := wd_tick w + 1\<rparr>))"
  by (simp add: VerifyKey_def act_bind_def act_query_def PanelSettings_run act_ret_def Let_def split: option.split)

text \<open>What a start that succeeds has checked, and what it made of an empty table of settings.\<close>

lemma prepare_Inr:
  assumes "prepare_database s cfg keyring w = (Inr r, w')"
  obtains nonce now rnd d where
    "EnsureSingletons (co_QuotaTimezone cfg) (cx_APIEndpoint (co_Xray cfg)) (cx_SupportedVersion (co_Xray cfg))
      (kc_seal (st_crypto s) (kr_fieldKey keyring) nonce verifierPlaintext verifier_aad) nonce rnd now
      (en_interferes s (wd_tick w + 3) (wd_db w)) = Inr ((), d)"
    "wd_db w' = en_interferes s (wd_tick w + 4) d"
    "\<exists>p. db_settings (wd_db w') = Some p \<and> Verify (st_crypto s) keyring (ps_KeyVerifier p) (ps_KeyVerifierNonce p)"
    "r = (cfg, keyring)"
  using assms
  by (auto simp: prepare_database_def act_bind_def act_random_def act_now_def act_store_def act_try_def act_ret_def VerifyKey_run
      NewVerifier_def Encrypt_def Let_def eval_nat_numeral WithWriteTx_Inr split: sum.splits prod.splits option.splits if_splits)

lemma bootstrap_Inr:
  "bootstrap s w = (Inr (cfg, k), w') \<Longrightarrow> prepare_database s cfg k w = (Inr (cfg, k), w')"
  by (auto simp: bootstrap_def act_check_def act_ret_def split: sum.splits elim: prepare_Inr)

text \<open>The first start of a database.\<close>

lemma first_start_pins:
  assumes "EnsureSingletons tz endpoint version verifier nonce rnd now d = Inr ((), d')" "db_settings d = None"
  shows "pinned verifier nonce d'"
  using assms by (auto simp: EnsureSingletons_def pinned_def update_instance_def tx_simps split: option.splits)

text \<open>A key ring opens a sealed verifier exactly when it has the key that sealed it.\<close>

lemma Verify_sealed:
  assumes "\<And>k n p a. kc_open cr k n (kc_seal cr k n p a) a = Some p"
    and "\<And>k k' n p a. k \<noteq> k' \<Longrightarrow> kc_open cr k' n (kc_seal cr k n p a) a = None"
  shows "Verify cr r (kc_seal cr key nonce verifierPlaintext verifier_aad) nonce \<longleftrightarrow> kr_fieldKey r = key"
  using assms(1) assms(2) [of key "kr_fieldKey r"] by (cases "kr_fieldKey r = key") (auto simp: Verify_def Decrypt_def)

text \<open>A later start that succeeds has opened the verifier that was pinned before it.\<close>

lemma restart_verifies:
  assumes "bootstrap s w = (Inr (c, k), w')" "steps_only s" "reachable (wd_db w)" "pinned v n (wd_db w)"
  shows "Verify (st_crypto s) k v n"
proof -
  obtain v' n' i nw e where step: "EnsureSingletons (co_QuotaTimezone c) (cx_APIEndpoint (co_Xray c)) (cx_SupportedVersion (co_Xray c))
      v' n' i nw (en_interferes s (wd_tick w + 3) (wd_db w)) = Inr ((), e)"
    and w': "wd_db w' = en_interferes s (wd_tick w + 4) e"
    and ok: "\<exists>p. db_settings (wd_db w') = Some p \<and> Verify (st_crypto s) k (ps_KeyVerifier p) (ps_KeyVerifierNonce p)"
    by (rule prepare_Inr [OF bootstrap_Inr [OF assms(1)]])
  let ?d = "en_interferes s (wd_tick w + 3) (wd_db w)"
  have near: "store_step\<^sup>*\<^sup>* (wd_db w) ?d" using assms(2,3) by (simp add: steps_only_def)
  have "store_step ?d e" by (rule store_step.other, rule other_write.singletons, rule step)
  then have e: "store_step\<^sup>*\<^sup>* (wd_db w) e" using near by simp
  then have "reachable e" by (rule reachable_steps [OF assms(3)])
  then have "store_step\<^sup>*\<^sup>* (wd_db w) (wd_db w')" using e assms(2) unfolding w' steps_only_def by (meson rtranclp_trans)
  then have "pinned v n (wd_db w')" by (rule pinned_lasts [OF assms(3,4)])
  then show ?thesis using ok by (auto simp: pinned_def simp del: not_None_eq)
qed


section \<open>Two starts with two keys\<close>

text \<open>A cipher that writes the key before the text, so that no other key opens it.\<close>

fun mark_key :: "8 word list \<Rightarrow> 8 word list" where
  "mark_key [] = [0]"
| "mark_key (b # k) = 1 # b # mark_key k"

lemma mark_key_prefix: "take (length (mark_key k')) (mark_key k @ x) = mark_key k' \<Longrightarrow> k = k'"
proof (induction k arbitrary: k')
  case Nil
  then show ?case by (cases k') auto
next
  case (Cons b k)
  then show ?case by (cases k') auto
qed

definition demo_crypto :: crypto where
  "demo_crypto = \<lparr>kc_derive = (\<lambda>root label n. root), kc_seal = (\<lambda>k n p a. mark_key k @ bytes_of_string p),
     kc_open = (\<lambda>k n c a. if take (length (mark_key k)) c = mark_key k
       then Some (string_of_bytes (drop (length (mark_key k)) c)) else None)\<rparr>"

lemma demo_crypto_laws:
  "kc_open demo_crypto k n (kc_seal demo_crypto k n p a) a = Some p"
  "k \<noteq> k' \<Longrightarrow> kc_open demo_crypto k' n (kc_seal demo_crypto k n p a) a = None"
proof -
  show "kc_open demo_crypto k n (kc_seal demo_crypto k n p a) a = Some p" by (simp add: demo_crypto_def)
  show "kc_open demo_crypto k' n (kc_seal demo_crypto k n p a) a = None" if "k \<noteq> k'"
    using that mark_key_prefix [of k' k "bytes_of_string p"] by (auto simp: demo_crypto_def simp del: take_append)
qed

definition demo_start :: startup where
  "demo_start = \<lparr>en_now = (\<lambda>n. 0), en_newID = (\<lambda>n. ''N''), en_interferes = (\<lambda>n d. d), st_config = demo_env,
     st_file = Inr demo_settings, st_keyStat = Some (True, 0x180), st_keyText = Some (replicate 43 CHR ''A'' @ [CHR ''='', CHR 0x0A]),
     st_crypto = demo_crypto, st_random = (\<lambda>n. replicate 16 0), st_open = (\<lambda>path busy. Inr ())\<rparr>"

abbreviation demo_root :: "8 word list" where
  "demo_root \<equiv> replicate 32 0"

definition demo_verifier :: "8 word list" where
  "demo_verifier = kc_seal demo_crypto demo_root (replicate 16 0) verifierPlaintext verifier_aad"

lemma demo_base64: "base64_decode_std (replicate 43 CHR ''A'' @ [CHR ''='']) = Some demo_root"
  by code_simp

lemma demo_key_file: "LoadRootKey (st_keyStat demo_start) (st_keyText demo_start) = Inr demo_root"
proof -
  have "(replicate 43 CHR ''A'' @ [CHR ''='', CHR 0x0A]) ! 43 = CHR ''=''" by (simp add: nth_append)
  then show ?thesis using demo_base64 by (simp add: LoadRootKey_def demo_start_def nth_append del: replicate.simps)
qed

lemma demo_ensured: "tx_ok (EnsureSingletons ''UTC'' ''127.0.0.1:10085'' SupportedXrayVersion v n i 0) empty_db"
  by code_simp

lemma demo_first:
  "\<exists>c w1. bootstrap demo_start (demo_world empty_db) = (Inr (c, \<lparr>kr_fieldKey = demo_root, kr_csrfKey = demo_root\<rparr>), w1) \<and>
    pinned demo_verifier (replicate 16 0) (wd_db w1)"
proof -
  let ?k = "\<lparr>kr_fieldKey = demo_root, kr_csrfKey = demo_root\<rparr>" and ?n = "replicate 16 0 :: 8 word list"
  obtain c where c: "Load demo_env (Inr demo_settings) = Inr c" "co_QuotaTimezone c = ''UTC''"
      "cx_APIEndpoint (co_Xray c) = ''127.0.0.1:10085''" "cx_SupportedVersion (co_Xray c) = SupportedXrayVersion"
    using demo_load by (auto simp: demo_settings_def Default_def)
  let ?e = "EnsureSingletons ''UTC'' ''127.0.0.1:10085'' SupportedXrayVersion demo_verifier ?n ?n 0"
  obtain d where d: "?e empty_db = Inr ((), d)" using tx_ok_run [OF demo_ensured] by force
  then have p: "pinned demo_verifier ?n d" using first_start_pins by (simp add: empty_db_def)
  have "Verify demo_crypto ?k demo_verifier ?n"
    using demo_crypto_laws(1) by (simp add: Verify_def Decrypt_def demo_verifier_def)
  then have "prepare_database demo_start c ?k (demo_world empty_db) = (Inr (c, ?k), (demo_world d)\<lparr>wd_tick := 5\<rparr>)"
    using d p c(2-4)
    by (auto simp: prepare_database_def act_bind_def act_random_def act_now_def act_store_def act_try_def act_ret_def VerifyKey_run
        NewVerifier_def Encrypt_def Let_def demo_start_def demo_world_def WithWriteTx_def demo_verifier_def [symmetric] pinned_def
        split: option.splits simp del: replicate.simps)
  then have "bootstrap demo_start (demo_world empty_db) = (Inr (c, ?k), (demo_world d)\<lparr>wd_tick := 5\<rparr>)"
    using c(1) demo_key_file
    by (simp add: bootstrap_def act_check_def NewKeyring_def demo_start_def demo_crypto_def del: replicate.simps)
  then show ?thesis using p by (simp add: demo_world_def)
qed


end
