(* ===== verification/Rollover.thy ===== *)
theory Rollover
  imports Store_Invariants Scenario
begin

text \<open>
  The settlement of due quota cycles (\<open>RolloverCycle\<close>) catches up with the clock after finitely many
  boundaries: what the loop appends to the table of cycles.
\<close>

section \<open>Cycles one after the other\<close>

text \<open>Bounds of cycles that start where the one before ends, the first at \<open>e\<close>, none in the future.\<close>

fun chained :: "ID \<Rightarrow> instant \<Rightarrow> instant \<Rightarrow> (ID \<times> instant \<times> instant) list \<Rightarrow> bool" where
  "chained a now e [] \<longleftrightarrow> True"
| "chained a now e ((i, s, t) # r) \<longleftrightarrow> i = a \<and> e \<le> now \<and> s = stored e \<and> s < t \<and> stored t = t \<and> chained a now t r"

definition cycle_bounds :: "db \<Rightarrow> (ID \<times> instant \<times> instant) list" where
  "cycle_bounds d = map (\<lambda>c. (qc_AllocationID c, qc_StartsAt c, qc_EndsAt c)) (db_cycles d)"

lemma stored_step:
  assumes "stored e < t" "stored t = t"
  shows "stored e + Millisecond \<le> t"
proof -
  have "e div Millisecond < t div Millisecond"
    using assms by (auto simp: stored_def fromMillis_def millis_def Millisecond_def)
  then have "(e div Millisecond + 1) * Millisecond \<le> t div Millisecond * Millisecond"
    by (intro mult_right_mono) (simp_all add: Millisecond_def)
  moreover have "t div Millisecond * Millisecond = t" using assms(2) by (simp add: stored_def fromMillis_def millis_def)
  ultimately show ?thesis by (simp add: stored_def fromMillis_def millis_def algebra_simps)
qed

lemma chained_length:
  "chained a now e es \<Longrightarrow> es \<noteq> [] \<Longrightarrow> Millisecond * (int (length es) - 1) \<le> now - stored e"
proof (induction es arbitrary: e)
  case (Cons x r)
  obtain i s t where x: "x = (i, s, t)" by (cases x)
  with Cons.prems have t: "stored e + Millisecond \<le> t" "stored t = t" and now: "e \<le> now" and rest: "chained a now t r"
    using stored_step by auto
  show ?case
  proof (cases r)
    case Nil
    have "stored e \<le> e" by (simp add: stored_def fromMillis_def millis_def Millisecond_def)
    then show ?thesis using now Nil by simp
  next
    case (Cons z zs)
    then have "Millisecond * (int (length r) - 1) \<le> now - t" using Cons.IH [OF rest] t(2) by simp
    then show ?thesis using t(1) by (simp add: algebra_simps)
  qed
qed simp

lemma stored_stored [simp]: "stored (stored t) = stored t"
  by (simp add: stored_def fromMillis_def millis_def Millisecond_def)

lemma roll_cycle_bounds:
  assumes "roll_cycle c (new_cycle i a (qc_EndsAt c) stop tz rd now) now d = Inr ((), u)"
  shows "cycle_bounds u = cycle_bounds d @ [(a, stored (qc_EndsAt c), stored stop)]"
  using assms by (auto simp: roll_cycle_def tx_simps cycle_bounds_def sql_update_def new_cycle_def)

lemma roll_cycle_next:
  assumes "roll_cycle c (new_cycle i a (qc_EndsAt c) stop tz rd now) now d = Inr ((), u)"
  shows "open_cycle a u = Some (new_cycle i a (qc_EndsAt c) stop tz rd now)" "stored (qc_EndsAt c) < stored stop"
proof -
  let ?n = "new_cycle i a (qc_EndsAt c) stop tz rd now"
  show "open_cycle a u = Some ?n" using roll_cycle_open [OF assms] by (simp add: new_cycle_def)
  have "schema_ok u" "?n \<in> set (db_cycles u)" using assms by (auto simp: roll_cycle_def tx_simps simp del: tx_all.simps)
  then have "cycle_row_ok u ?n" by (auto simp: schema_ok_def tables_quota_ok_def list_all_iff)
  then show "stored (qc_EndsAt c) < stored stop" by (simp add: cycle_row_ok_def new_cycle_def)
qed

text \<open>The end of the last cycle of a chain that starts after \<open>e\<close>.\<close>

definition chain_end :: "instant \<Rightarrow> (ID \<times> instant \<times> instant) list \<Rightarrow> instant" where
  "chain_end e es = (if es = [] then e else snd (snd (last es)))"

lemma settle_loop_chain:
  assumes "settle_loop zones fresh a now n rolled d = Inr (y, t)"
  shows "\<exists>c es c'. open_cycle a d = Some c \<and> cycle_bounds t = cycle_bounds d @ es \<and> chained a now (qc_EndsAt c) es \<and>
    y = (n + length es, rolled + int (length es)) \<and> open_cycle a t = Some c' \<and> qc_EndsAt c' = chain_end (qc_EndsAt c) es \<and>
    now < qc_EndsAt c'"
  using assms
proof (induction rule: settle_loop_run)
  case (stop n rolled d c)
  then show ?case by (intro exI [of _ c] exI [of _ "[]"]) (simp add: chain_end_def)
next
  case (roll n rolled d c p s stop u y t)
  let ?n = "new_cycle (fresh n) a (qc_EndsAt c) stop (ps_QuotaTimezone s) (qp_ResetDay p) now"
  note u = roll_cycle_next [OF roll.hyps(6)] roll_cycle_bounds [OF roll.hyps(6)]
  obtain es c' where es: "cycle_bounds t = cycle_bounds u @ es" "chained a now (stored stop) es"
      "y = (n + 1 + length es, rolled + 1 + int (length es))" "open_cycle a t = Some c'"
      "qc_EndsAt c' = chain_end (stored stop) es" "now < qc_EndsAt c'"
    using roll.IH u(1) by (auto simp: new_cycle_def)
  show ?case
    by (intro exI [of _ c] exI [of _ "(a, stored (qc_EndsAt c), stored stop) # es"] exI [of _ c'])
      (use es u roll.hyps(1,2) in \<open>auto simp: chain_end_def\<close>)
qed

section \<open>The whole settlement\<close>

text \<open>After the loop the cycles stay as they are.\<close>

abbreviation same_cycles :: "QuotaCycleRecord list \<Rightarrow> (db, 'a) tx \<Rightarrow> bool" where
  "same_cycles rows m \<equiv> tx_keeps (\<lambda>s. db_cycles s = rows) m"

lemma same_cycles_exec: "(\<And>s. db_cycles (f s) = db_cycles s) \<Longrightarrow> same_cycles rows (sql_exec f)"
  by (rule sql_exec_keeps) simp

lemma same_cycles_after:
  "same_cycles rows (readFacts a)" "same_cycles rows (applyDecision a facts decision enabled template now)"
  "same_cycles rows (AppendAudit ev)"
  unfolding readFacts_def applyDecision_def supersedeOlder_def insertOperation_def AppendAudit_def insert_audit_def
    setInboundDesired_def Let_def
  by (auto simp: update_ops_def update_alloc_def split: bool.split option.split intro!: tx_keeps_rules same_cycles_exec)

lemma settleCycles_cycles:
  assumes "settleCycles zones fresh a now template audit n d = Inr ((m, rolled, restored), t)"
  shows "\<exists>n1 u. settle_loop zones fresh a now n 0 d = Inr ((n1, rolled), u) \<and> db_cycles t = db_cycles u"
proof -
  obtain n1 k u where loop: "settle_loop zones fresh a now n 0 d = Inr ((n1, k), u)"
    and rest: "(if k = 0 then tx_ret (n1, 0, False)
       else tx_bind (readFacts a) (\<lambda>facts.
         let decision = DecideTransition (fa_Facts facts) (af_AdminEnabled (fa_Facts facts)) False;
             (n2, t) = settle_template fresh n1 now template
         in tx_bind (applyDecision a facts decision (af_AdminEnabled (fa_Facts facts)) (Some t) now) (\<lambda>restored.
           if \<not> restored then tx_ret (n2, k, restored)
           else case audit of
             Some e \<Rightarrow> tx_seq (AppendAudit (e\<lparr>ae_OperationID := Some (op_ID t)\<rparr>)) (tx_ret (n2, k, restored))
           | None \<Rightarrow> tx_bind (tx_scan NoRows (\<lambda>d. map_option al_UserID (alloc_of d a))) (\<lambda>userID.
               tx_seq (AppendAudit ((restored_audit (fresh n2) userID now)\<lparr>ae_OperationID := Some (op_ID t)\<rparr>))
                 (tx_ret (n2 + 1, k, restored)))))) u = Inr ((m, rolled, restored), t)" (is "?rest u = _")
    using assms unfolding settleCycles_def tx_bind_iff by auto
  have "same_cycles (db_cycles u) ?rest"
    by (intro tx_keeps_rules same_cycles_after)
  then have "db_cycles t = db_cycles u" using rest unfolding tx_keeps_def by blast
  moreover have "k = rolled" using rest
    by (cases "settle_template fresh n1 now template"; cases audit) (auto simp: tx_simps Let_def split: if_splits)
  ultimately show ?thesis using loop by blast
qed

text \<open>
  C15: the settlement of an allocation ends, and has then caught up with the clock. The cycles it
  appends start one after the other from the end of the cycle that was open, none of them in the
  future; the open cycle ends after now; their number is the number of boundaries reported, and it is
  bounded by the milliseconds since that end (cycles have whole milliseconds and positive length). All
  cycles there were before keep their bounds.
\<close>

theorem rollover_catches_up:
  assumes "RolloverCycle zones fresh r d = Inr ((rolled, restored), t)"
  shows "\<exists>c es c'. open_cycle (ro_AllocationID r) d = Some c \<and> open_cycle (ro_AllocationID r) t = Some c' \<and>
    cycle_bounds t = cycle_bounds d @ es \<and> chained (ro_AllocationID r) (ro_Now r) (qc_EndsAt c) es \<and>
    qc_EndsAt c' = chain_end (qc_EndsAt c) es \<and> ro_Now r < qc_EndsAt c' \<and> rolled = int (length es) \<and>
    (rolled > 0 \<longrightarrow> Millisecond * (rolled - 1) \<le> ro_Now r - stored (qc_EndsAt c))"
proof -
  obtain m where "settleCycles zones fresh (ro_AllocationID r) (ro_Now r) (Some (ro_OperationTemplate r)) (ro_Audit r) 0 d =
      Inr ((m, rolled, restored), t)"
    using assms by (auto simp: RolloverCycle_def tx_simps split: prod.splits)
  then obtain n1 u where loop: "settle_loop zones fresh (ro_AllocationID r) (ro_Now r) 0 0 d = Inr ((n1, rolled), u)"
      and u: "db_cycles t = db_cycles u"
    using settleCycles_cycles by blast
  have same: "cycle_bounds t = cycle_bounds u" "open_cycle (ro_AllocationID r) t = open_cycle (ro_AllocationID r) u"
    by (simp_all add: cycle_bounds_def open_cycle_def u)
  obtain c es c' where run: "open_cycle (ro_AllocationID r) d = Some c" "open_cycle (ro_AllocationID r) t = Some c'"
      "cycle_bounds t = cycle_bounds d @ es" "chained (ro_AllocationID r) (ro_Now r) (qc_EndsAt c) es"
      "qc_EndsAt c' = chain_end (qc_EndsAt c) es" "ro_Now r < qc_EndsAt c'" "rolled = int (length es)"
    using settle_loop_chain [OF loop] unfolding same by auto
  have "rolled > 0 \<longrightarrow> Millisecond * (rolled - 1) \<le> ro_Now r - stored (qc_EndsAt c)"
    using chained_length [OF run(4)] run(7) by auto
  with run show ?thesis by blast
qed

text \<open>A user whose January is settled in the middle of March.\<close>

definition demo_rollover :: CycleRollover where
  "demo_rollover = \<lparr>ro_AllocationID = ''A1'', ro_OperationTemplate = demo_op ''1'' 5 True SyncQuotaRestore, ro_Audit = None,
     ro_Now = 75 * 86400 * Second\<rparr>"

lemma demo_rollover_run:
  "tx_value (RolloverCycle (\<lambda>z. Some UTC) (\<lambda>n. CHR ''N'' # int_digits (int n)) demo_rollover) demo_one = Some (2, False)"
  by code_simp

theorem rollover_catches_up_witness:
  "\<exists>t es c'. RolloverCycle (\<lambda>z. Some UTC) (\<lambda>n. CHR ''N'' # int_digits (int n)) demo_rollover demo_one = Inr ((2, False), t) \<and>
     length es = 2 \<and> cycle_bounds t = cycle_bounds demo_one @ es \<and> open_cycle ''A1'' t = Some c' \<and> ro_Now demo_rollover < qc_EndsAt c'"
proof -
  obtain t where run: "RolloverCycle (\<lambda>z. Some UTC) (\<lambda>n. CHR ''N'' # int_digits (int n)) demo_rollover demo_one = Inr ((2, False), t)"
    using tx_value_run [OF demo_rollover_run] by blast
  have "ro_AllocationID demo_rollover = ''A1''" by (simp add: demo_rollover_def)
  then show ?thesis using rollover_catches_up [OF run] run by (metis of_nat_eq_iff of_nat_numeral)
qed

end
