(* ===== verification/Audit_Pages.thy ===== *)
theory Audit_Pages
  imports Web_Panel Scenario
begin

text \<open>
  Leafing through the audit list: the pages of \<open>AuditEvents\<close> (\<open>store_audit.go\<close>) joined by the cursor in
  the address of the next page (\<open>handlers/audit.go\<close>).
\<close>

section \<open>The cursor in an address\<close>

lemma int_digits_no_colon: "CHR '':'' \<notin> set (int_digits i)"
proof -
  have "list_all (\<lambda>c. c \<noteq> CHR '':'') (nat_digits n)" for n
  proof -
    have "list_all (\<lambda>c. CHR ''0'' \<le> c \<and> c \<le> CHR ''9'') (nat_digits n)" using nat_digits_facts [of n] by (simp add: plain_digits_def)
    then show ?thesis by (auto simp: list_all_iff less_eq_char_def)
  qed
  then show ?thesis by (auto simp: int_digits_def list_all_iff)
qed

lemma takeWhile_all: "x \<notin> set xs \<Longrightarrow> takeWhile (\<lambda>y. y \<noteq> x) (xs @ x # ys) = xs" "x \<notin> set xs \<Longrightarrow> dropWhile (\<lambda>y. y \<noteq> x) (xs @ x # ys) = x # ys"
  by (induction xs) auto

text \<open>What can be in an address: an identifier of the panel, whole milliseconds within \<open>int64\<close>.\<close>

definition addressable :: "AuditEvent \<Rightarrow> bool" where
  "addressable e \<longleftrightarrow> Valid (ae_ID e) \<and> stored (ae_OccurredAt e) = ae_OccurredAt e \<and>
     int64_range (ae_OccurredAt e div Millisecond)"

lemma cursor_round_trip:
  assumes "addressable e"
  shows "parseAuditCursor (cursor_text \<lparr>ac_OccurredAt = ae_OccurredAt e, ac_ID = ae_ID e\<rparr>) =
    Some \<lparr>ac_OccurredAt = ae_OccurredAt e, ac_ID = ae_ID e\<rparr>"
  using assms int_digits_no_colon
  by (simp add: parseAuditCursor_def cursor_text_def takeWhile_all ParseInt_int_digits addressable_def
      stored_def fromMillis_def millis_def)

section \<open>The order of the list\<close>

definition before :: "AuditEvent \<Rightarrow> AuditEvent \<Rightarrow> bool" where
  "before x y \<longleftrightarrow> ae_OccurredAt x < ae_OccurredAt y \<or> ae_OccurredAt x = ae_OccurredAt y \<and> ae_ID x < ae_ID y"

lemma sorted_by_classes:
  assumes "sorted (map f zs)" "\<And>v. sorted_wrt q (filter (\<lambda>z. f z = v) zs)"
  shows "sorted_wrt (\<lambda>x y. f x < f y \<or> f x = f y \<and> q x y) zs"
  using assms
proof (induction zs)
  case (Cons z zs)
  have "sorted_wrt q (filter (\<lambda>y. f y = v) zs)" for v using Cons.prems(2) [of v] by (auto split: if_splits)
  moreover have "f z < f y \<or> f z = f y \<and> q z y" if "y \<in> set zs" for y
    using Cons.prems(1) Cons.prems(2) [of "f z"] that by (cases "f z = f y") auto
  ultimately show ?case using Cons by simp
qed simp

lemma sorted_strictly:
  assumes "sorted (map f zs)" "distinct (map f zs)"
  shows "sorted_wrt (\<lambda>x y. f x < f y) zs"
  using assms by (induction zs) (fastforce simp: order.strict_iff_order)+

lemma newest_first_sorted:
  assumes "distinct (map ae_ID es)"
  shows "sorted_wrt (\<lambda>x y. before y x) (newest_first es)"
proof -
  let ?a = "sort_key ae_ID es"
  have "distinct (map ae_ID ?a)" using assms by (metis distinct_map distinct_sort set_sort)
  then have "sorted_wrt (\<lambda>x y. ae_ID x < ae_ID y) ?a" by (intro sorted_strictly) simp_all
  then have "sorted_wrt (\<lambda>x y. ae_ID x < ae_ID y) (filter (\<lambda>z. ae_OccurredAt z = v) (sort_key ae_OccurredAt ?a))" for v
    unfolding sort_key_stable by (rule sorted_wrt_filter)
  then have "sorted_wrt before (sort_key ae_OccurredAt ?a)"
    unfolding before_def by (intro sorted_by_classes) simp_all
  then show ?thesis by (simp add: newest_first_def sorted_wrt_rev)
qed

lemma newest_first_filter: "newest_first (filter p es) = filter p (newest_first es)"
  by (simp add: newest_first_def filter_sort [symmetric] rev_filter)

text \<open>What comes after the \<open>n\<close>-th event.\<close>

lemma filter_before:
  assumes "sorted_wrt (\<lambda>x y. before y x) xs" "n < length xs"
  shows "filter (\<lambda>x. before x (xs ! n)) xs = drop (Suc n) xs"
  using assms
proof (induction xs arbitrary: n)
  case (Cons x xs)
  have strict: "\<not> before y y" "before y z \<Longrightarrow> \<not> before z y" for y z by (auto simp: before_def)
  show ?case
  proof (cases n)
    case 0
    then show ?thesis using Cons.prems strict by (auto simp: filter_id_conv)
  next
    case (Suc m)
    then have "before (xs ! m) x" using Cons.prems by simp
    then show ?thesis using Cons Suc strict by simp
  qed
qed simp

section \<open>Page after page\<close>

text \<open>The events shown when the address of the next page is followed, at most \<open>fuel\<close> pages.\<close>

primrec browse :: "nat \<Rightarrow> AuditFilter \<Rightarrow> db \<Rightarrow> AuditEvent list" where
  "browse 0 f d = []"
| "browse (Suc fuel) f d = (case AuditEvents f d of
     (es, None) \<Rightarrow> es
   | (es, Some cur) \<Rightarrow> es @ browse fuel (f\<lparr>af_Before := parseAuditCursor (cursor_text cur)\<rparr>) d)"

definition selected :: "AuditFilter \<Rightarrow> db \<Rightarrow> AuditEvent list" where
  "selected f d = newest_first (filter (audit_matches f) (db_audits d))"

lemma set_selected: "set (selected f d) = {e \<in> set (db_audits d). audit_matches f e}"
  by (auto simp: selected_def newest_first_def)

lemma selected_sorted:
  assumes "distinct (map ae_ID (db_audits d))"
  shows "sorted_wrt (\<lambda>x y. before y x) (selected f d)"
  unfolding selected_def by (rule newest_first_sorted) (use assms in \<open>simp add: distinct_map_filter\<close>)

lemma audit_limit_pos: "0 < audit_limit f"
  by (auto simp: audit_limit_def)

lemma matches_before:
  assumes "addressable x"
  shows "audit_matches (f\<lparr>af_Before := Some \<lparr>ac_OccurredAt = ae_OccurredAt x, ac_ID = ae_ID x\<rparr>\<rparr>) e \<longleftrightarrow>
    audit_matches (f\<lparr>af_Before := None\<rparr>) e \<and> before e x"
  using assms by (auto simp: audit_matches_def before_def addressable_def)

lemma matches_none: "audit_matches f e \<Longrightarrow> audit_matches (f\<lparr>af_Before := None\<rparr>) e"
  by (auto simp: audit_matches_def)

lemma matches_earlier:
  "audit_matches f x \<Longrightarrow> before e x \<Longrightarrow> audit_matches (f\<lparr>af_Before := None\<rparr>) e \<Longrightarrow> audit_matches f e"
  by (auto simp: audit_matches_def before_def split: option.splits)

text \<open>Behind the cursor of a page are exactly the events after it.\<close>

lemma next_selected:
  assumes "distinct (map ae_ID (db_audits d))" "\<forall>e \<in> set (db_audits d). addressable e" "n < length (selected f d)"
  defines "x \<equiv> selected f d ! n"
  shows "selected (f\<lparr>af_Before := parseAuditCursor (cursor_text \<lparr>ac_OccurredAt = ae_OccurredAt x, ac_ID = ae_ID x\<rparr>)\<rparr>) d =
    drop (Suc n) (selected f d)"
proof -
  have x: "x \<in> set (selected f d)" unfolding x_def using assms(3) by simp
  then have ok: "addressable x" and m: "audit_matches f x" using assms(2) by (simp_all add: set_selected)
  have "filter (audit_matches (f\<lparr>af_Before := Some \<lparr>ac_OccurredAt = ae_OccurredAt x, ac_ID = ae_ID x\<rparr>\<rparr>)) (db_audits d) =
      filter (\<lambda>e. before e x) (filter (audit_matches f) (db_audits d))"
    using matches_none matches_earlier [OF m] by (auto simp: matches_before [OF ok] intro!: filter_cong)
  then have "selected (f\<lparr>af_Before := Some \<lparr>ac_OccurredAt = ae_OccurredAt x, ac_ID = ae_ID x\<rparr>\<rparr>) d =
      filter (\<lambda>e. before e x) (selected f d)"
    by (simp add: selected_def newest_first_filter)
  also have "\<dots> = drop (Suc n) (selected f d)"
    unfolding x_def by (rule filter_before [OF selected_sorted [OF assms(1)] assms(3)])
  finally show ?thesis by (simp add: cursor_round_trip [OF ok])
qed

lemma browse_selected:
  assumes "distinct (map ae_ID (db_audits d))" "\<forall>e \<in> set (db_audits d). addressable e" "length (selected f d) < fuel"
  shows "browse fuel f d = selected f d"
  using assms(3)
proof (induction fuel arbitrary: f)
  case (Suc fuel)
  let ?s = "selected f d" and ?n = "audit_limit f"
  show ?case
  proof (cases "length ?s > ?n")
    case False
    then show ?thesis by (simp add: AuditEvents_def selected_def [symmetric] Let_def)
  next
    case True
    let ?x = "?s ! (?n - 1)"
    let ?g = "f\<lparr>af_Before := parseAuditCursor (cursor_text \<lparr>ac_OccurredAt = ae_OccurredAt ?x, ac_ID = ae_ID ?x\<rparr>)\<rparr>"
    have rest: "selected ?g d = drop ?n ?s"
      using next_selected [OF assms(1,2), of "?n - 1" f] True audit_limit_pos [of f] by simp
    have "AuditEvents f d = (take ?n ?s, Some \<lparr>ac_OccurredAt = ae_OccurredAt ?x, ac_ID = ae_ID ?x\<rparr>)"
      using True audit_limit_pos [of f] by (simp add: AuditEvents_def selected_def [symmetric] Let_def min_def nth_take)
    then have "browse (Suc fuel) f d = take ?n ?s @ browse fuel ?g d" by simp
    moreover have "length (selected ?g d) < fuel"
      unfolding rest using Suc.prems True audit_limit_pos [of f] by simp
    then have "browse fuel ?g d = selected ?g d" by (rule Suc.IH)
    ultimately show ?thesis unfolding rest by simp
  qed
qed simp

text \<open>
  C28: leafing through the audit list shows every matching event exactly once, newest first. From the
  filter of any page on, following the addresses of the next pages, whose cursor is written as text
  and parsed again, shows the matching events of the table in descending order of time and
  identifier, without a gap or a repetition, whatever the size of the pages; this also holds for
  events of the same millisecond.
\<close>

theorem audit_pages_list_everything_once:
  assumes "schema_ok d" "\<forall>e \<in> set (db_audits d). addressable e" "length (db_audits d) < fuel"
  shows "set (browse fuel f d) = {e \<in> set (db_audits d). audit_matches f e} \<and> distinct (browse fuel f d) \<and>
    sorted_wrt (\<lambda>x y. ae_OccurredAt y < ae_OccurredAt x \<or> ae_OccurredAt y = ae_OccurredAt x \<and> ae_ID y < ae_ID x) (browse fuel f d)"
proof -
  have ids: "distinct (map ae_ID (db_audits d))" using assms(1) by (simp add: schema_ok_def tables_panel_ok_def)
  have "length (selected f d) \<le> length (db_audits d)" by (simp add: selected_def newest_first_def)
  then have eq: "browse fuel f d = selected f d" using browse_selected [OF ids assms(2)] assms(3) by simp
  have "distinct (selected f d)"
    using ids by (simp add: selected_def newest_first_def distinct_map)
  with selected_sorted [OF ids, of f] show ?thesis unfolding eq by (simp add: set_selected before_def)
qed

text \<open>Three events, two of them of the same moment, on pages of one.\<close>

definition demo_event :: "char \<Rightarrow> instant \<Rightarrow> AuditEvent" where
  "demo_event c t = (demo_audit (''00000000-0000-4000-8000-00000000000'' @ [c]))\<lparr>ae_OccurredAt := t\<rparr>"

definition demo_audits :: db where
  "demo_audits = empty_db\<lparr>db_audits := [demo_event CHR ''1'' 0, demo_event CHR ''3'' 0, demo_event CHR ''2'' Millisecond]\<rparr>"

definition one_per_page :: AuditFilter where
  "one_per_page = \<lparr>af_TargetID = '''', af_Action = '''', af_Result = None, af_Before = None, af_Limit = 1\<rparr>"

lemma demo_audits_ok: "schema_ok demo_audits"
  by code_simp

lemma demo_addressable: "\<forall>e \<in> set (db_audits demo_audits). addressable e"
  by code_simp

theorem audit_pages_list_everything_once_witness:
  "set (browse 4 one_per_page demo_audits) = set (db_audits demo_audits) \<and> distinct (browse 4 one_per_page demo_audits)"
proof -
  have fuel: "length (db_audits demo_audits) < 4" by (simp add: demo_audits_def)
  have "{e \<in> set (db_audits demo_audits). audit_matches one_per_page e} = set (db_audits demo_audits)"
    by (auto simp: one_per_page_def audit_matches_def)
  then show ?thesis using audit_pages_list_everything_once [OF demo_audits_ok demo_addressable fuel, of one_per_page] by simp
qed

end
