(* ===== verification/Views.thy ===== *)
theory Views
  imports Web_Panel Traffic_Service
begin

text \<open>
  What the pages show: the presentation models of \<open>internal/web/views\<close> and the functions that fill
  them. Numbers of bytes and times are written out as the code prints them; the fixed Chinese labels
  are short English names. A default of a \<open>switch\<close> over the constants of a type has no value to reach
  it and is left out.
\<close>

section \<open>Numbers of bytes\<close>

text \<open>
  \<open>float64\<close> of a non-negative integer: 53 bits, rounded to the nearest, a tie to the even one. Division
  and multiplication by powers of two do not round, so \<open>roundHalfUp(float64(value) / 2^k)\<close> is a
  computation on multiples of \<open>1 / 2^k\<close> (without the fused multiplication some processors have).
\<close>

fun bit_size :: "nat \<Rightarrow> nat" where
  "bit_size n = (if n = 0 then 0 else Suc (bit_size (n div 2)))"

declare bit_size.simps [simp del]

definition float53 :: "nat \<Rightarrow> nat" where
  "float53 n = (if n < 2 ^ 53 then n
     else let u = 2 ^ (bit_size n - 53); q = n div u; r = n mod u in
       u * (if 2 * r < u \<or> 2 * r = u \<and> even q then q else q + 1))"

text \<open>The hundredths of a unit of \<open>2^k\<close> bytes that \<open>%.2f\<close> prints.\<close>

definition hundredths :: "nat \<Rightarrow> nat \<Rightarrow> nat" where
  "hundredths k n = float53 (float53 (100 * float53 n) + 2 ^ (k - 1)) div 2 ^ k"

definition two_places :: "nat \<Rightarrow> string" where
  "two_places n = nat_digits (n div 100) @ ''.'' @ pad_digits 2 (int (n mod 100))"

definition FormatBytes :: "int \<Rightarrow> string" where
  "FormatBytes value = (let n = nat value in
     if n \<ge> 2 ^ 40 then two_places (hundredths 40 n) @ '' TiB''
     else if n \<ge> 2 ^ 30 then two_places (hundredths 30 n) @ '' GiB''
     else if n \<ge> 2 ^ 20 then two_places (hundredths 20 n) @ '' MiB''
     else if n \<ge> 2 ^ 10 then nat_digits ((n + 512) div 1024) @ '' KiB''
     else nat_digits n @ '' B'')"

lemma float53_small: "n < 2 ^ 53 \<Longrightarrow> float53 n = n"
  by (simp add: float53_def)

text \<open>Below 64 TiB the two decimals are the exact quotient, rounded half up.\<close>

lemma hundredths_exact:
  assumes "n < 2 ^ 46" "1 \<le> k" "k \<le> 40"
  shows "hundredths k n = (100 * n + 2 ^ (k - 1)) div 2 ^ k"
proof -
  have "(2::nat) ^ (k - 1) \<le> 2 ^ 39" using assms(3) by (intro power_increasing) auto
  then have "100 * n + 2 ^ (k - 1) < 2 ^ 53" using assms(1) by simp
  then show ?thesis using assms(1) by (simp add: hundredths_def float53_small)
qed

lemma hundredths_close:
  assumes "n < 2 ^ 46" "1 \<le> k" "k \<le> 40"
  shows "2 ^ k * hundredths k n \<le> 100 * n + 2 ^ (k - 1)" "100 * n < 2 ^ k * hundredths k n + 2 ^ (k - 1)"
proof -
  let ?x = "100 * n + 2 ^ (k - 1)" and ?h = "hundredths k n"
  have h: "?h = ?x div 2 ^ k" by (rule hundredths_exact [OF assms])
  have half: "(2::nat) ^ k = 2 * 2 ^ (k - 1)" using assms(2) by (simp flip: power_Suc)
  have "?x = 2 ^ k * ?h + ?x mod 2 ^ k" "?x mod 2 ^ k < 2 ^ k" unfolding h by simp_all
  then show "2 ^ k * ?h \<le> ?x" "100 * n < 2 ^ k * ?h + 2 ^ (k - 1)" using half by linarith+
qed

section \<open>Times\<close>

text \<open>
  \<open>views.Location\<close>: an unknown zone is UTC, and so is the empty name for \<open>time.LoadLocation\<close>.
  \<open>FormatTime\<close> prints nothing for the zero time.
\<close>

definition view_location :: "(string \<Rightarrow> Location option) \<Rightarrow> string \<Rightarrow> Location" where
  "view_location zones name = (if name = '''' then UTC else case zones name of None \<Rightarrow> UTC | Some l \<Rightarrow> l)"

definition clock_text :: "int \<Rightarrow> string" where
  "clock_text sec = pad_digits 2 (sec div 3600) @ '':'' @ pad_digits 2 (sec div 60 mod 60) @ '':'' @ pad_digits 2 (sec mod 60)"

definition FormatTime :: "Location \<Rightarrow> instant option \<Rightarrow> string" where
  "FormatTime l value = (case value of None \<Rightarrow> '''' | Some t \<Rightarrow>
     if t = zero_time then ''''
     else date_text (local_day l t) @ '' '' @ clock_text ((unix t + offset_at l (unix t)) mod 86400))"

definition FormatTimeValue :: "Location \<Rightarrow> instant \<Rightarrow> string" where
  "FormatTimeValue l t = FormatTime l (Some t)"

section \<open>Labels\<close>

fun StateLabel :: "DisplayState \<Rightarrow> string" where
  "StateLabel DisplayDeleted = ''deleted''"
| "StateLabel DisplayDisabling = ''disabled by hand (removal not synchronized)''"
| "StateLabel DisplayDisabled = ''disabled by hand''"
| "StateLabel DisplayQuotaDisabling = ''quota exceeded (removal not synchronized)''"
| "StateLabel DisplayQuotaExceeded = ''quota exceeded''"
| "StateLabel DisplayEnabling = ''being enabled (not synchronized)''"
| "StateLabel DisplayActive = ''enabled''"

fun CompatibilityLabel :: "CompatibilityState \<Rightarrow> string" where
  "CompatibilityLabel CompatibilityCompatible = ''compatible''"
| "CompatibilityLabel CompatibilityIncompatible = ''incompatible''"
| "CompatibilityLabel CompatibilityUnreachable = ''unreachable''"
| "CompatibilityLabel CompatibilityUnverified = ''to be verified''"

definition compatibilityReasons :: "(string \<times> string) list" where
  "compatibilityReasons =
     [(''unsupported Shadowsocks 2022 method'', ''method not supported by the node''),
      (''node does not satisfy the Shadowsocks 2022 multi-user contract'', ''no multi-user support''),
      (''node created the probe inbound but could not remove it'', ''inbounds cannot be removed''),
      (''template validation failed'', ''validation failed'')]"

definition probePrefix :: string where
  "probePrefix = ''node could not create a probe inbound: ''"

definition CompatibilityReasonSentence :: "string \<Rightarrow> string" where
  "CompatibilityReasonSentence reason = (if reason = '''' then ''''
     else case map_of compatibilityReasons reason of Some translated \<Rightarrow> translated
     | None \<Rightarrow> if HasPrefix reason probePrefix
         then ''the node cannot create a probe inbound: '' @ drop (length probePrefix) reason
         else reason)"

definition HealthLabel :: "string \<Rightarrow> string" where
  "HealthLabel state = (if state \<in> {''healthy'', ''unreachable'', ''incompatible''} then state else ''unknown'')"

definition ErrorSentence :: "string \<Rightarrow> string" where
  "ErrorSentence kind = (if kind = '''' then ''''
     else if kind \<in> {''instance_unavailable'', ''deadline_exceeded''} then ''the node is unreachable for now''
     else if kind \<in> {''incompatible_profile'', ''unsupported_protocol'', ''profile_not_found'', ''version_mismatch''}
     then ''the inbound template does not fit the node''
     else if kind \<in> {''user_already_exists'', ''user_not_found''} then ''the node and the panel differ; being repaired''
     else ''the node refused the operation'')"

definition EventSentence :: "string \<Rightarrow> string" where
  "EventSentence eventType =
     (if eventType = EventNodeRestart then ''the node was restarted''
      else if eventType = EventCounterDecrease then ''a counter fell; new baseline''
      else if eventType = EventMissing then ''no counter returned for now''
      else if eventType = EventReappeared then ''counting again''
      else if eventType = EventBoundaryGap then ''a long gap; counted in the later cycle''
      else if eventType = EventOverflow then ''the counter cannot be represented''
      else if eventType = EventBaseline then ''first baseline''
      else eventType)"

fun ReasonLabel :: "SyncReason \<Rightarrow> string" where
  "ReasonLabel SyncCreate = ''creation''"
| "ReasonLabel SyncEnable = ''enabling''"
| "ReasonLabel SyncDisable = ''disabling''"
| "ReasonLabel SyncQuotaBlock = ''quota block''"
| "ReasonLabel SyncQuotaRestore = ''quota restored''"
| "ReasonLabel SyncRotate = ''credential rotation''"
| "ReasonLabel SyncDelete = ''deletion''"
| "ReasonLabel SyncPortChange = ''port change''"
| "ReasonLabel SyncReconcile = ''repair''"

fun SyncStateLabel :: "SyncState \<Rightarrow> string" where
  "SyncStateLabel SyncPending = ''to be run''"
| "SyncStateLabel SyncLeased = ''running''"
| "SyncStateLabel SyncRetryWait = ''waiting for a retry''"
| "SyncStateLabel SyncSucceeded = ''confirmed''"
| "SyncStateLabel SyncSuperseded = ''superseded by a newer intent''"
| "SyncStateLabel SyncPermanentFailed = ''failed for good''"

definition AuditActionLabel :: "string \<Rightarrow> string" where
  "AuditActionLabel action = (if action \<in> set audit_actions then ''label of '' @ action else action)"

definition AuditResultLabel :: "AuditResult \<Rightarrow> string" where
  "AuditResultLabel x = ''label of '' @ result_string x"

fun ActorLabel :: "ActorType \<Rightarrow> string" where
  "ActorLabel ActorAdministrator = ''administrator''"
| "ActorLabel ActorLocalCLI = ''local command line''"
| "ActorLabel ActorSystem = ''system''"

section \<open>Templates\<close>

record TemplateView =
  tv_ID :: ID
  tv_Name :: string
  tv_PublicHost :: string
  tv_ListenAddress :: string
  tv_PortPoolStart :: int
  tv_PortPoolEnd :: int
  tv_PortPoolCapacity :: int
  tv_Method :: string
  tv_Network :: Network
  tv_Compatibility :: CompatibilityState
  tv_CompatibilityLabel :: string
  tv_Compatible :: bool
  tv_Reason :: string
  tv_LastValidatedAt :: string
  tv_Revision :: int
  tv_Archived :: bool

definition NewTemplateView :: "Location \<Rightarrow> InboundTemplate \<Rightarrow> TemplateView" where
  "NewTemplateView l t = \<lparr>tv_ID = tm_ID t, tv_Name = tm_Name t, tv_PublicHost = tm_PublicHost t,
     tv_ListenAddress = tm_ListenAddress t, tv_PortPoolStart = pp_Start (tm_Pool t), tv_PortPoolEnd = pp_End (tm_Pool t),
     tv_PortPoolCapacity = Capacity (tm_Pool t), tv_Method = tm_Method t, tv_Network = tm_Network t,
     tv_Compatibility = tm_Compatibility t, tv_CompatibilityLabel = CompatibilityLabel (tm_Compatibility t),
     tv_Compatible = (tm_Compatibility t = CompatibilityCompatible),
     tv_Reason = CompatibilityReasonSentence (tm_CompatibilityReason t),
     tv_LastValidatedAt = FormatTime l (tm_LastValidatedAt t), tv_Revision = tm_Revision t,
     tv_Archived = (tm_ArchivedAt t \<noteq> None)\<rparr>"

definition NewTemplateViews :: "Location \<Rightarrow> InboundTemplate list \<Rightarrow> TemplateView list" where
  "NewTemplateViews l = map (NewTemplateView l)"

section \<open>Users\<close>

record QuotaView =
  qv_Unlimited :: bool
  qv_LimitBytes :: int
  qv_LimitText :: string
  qv_UplinkText :: string
  qv_DownlinkText :: string
  qv_UsedBytes :: int
  qv_UsedText :: string
  qv_RemainingText :: string
  qv_OverageText :: string
  qv_Percent :: int
  qv_ResetDay :: int
  qv_CycleStart :: string
  qv_CycleEnd :: string
  qv_Timezone :: string
  qv_GrossText :: string

text \<open>The view of an unlimited quota; Go's integer division truncates towards zero.\<close>

definition unlimited_view :: "Location \<Rightarrow> QuotaPolicyRecord \<Rightarrow> QuotaCycleRecord \<Rightarrow> QuotaView" where
  "unlimited_view l policy cycle = (let used = wrap64 (qc_AccountedUplinkBytes cycle + qc_AccountedDownlinkBytes cycle) in
     \<lparr>qv_Unlimited = True, qv_LimitBytes = 0, qv_LimitText = ''unlimited'',
      qv_UplinkText = FormatBytes (qc_AccountedUplinkBytes cycle), qv_DownlinkText = FormatBytes (qc_AccountedDownlinkBytes cycle),
      qv_UsedBytes = used, qv_UsedText = FormatBytes used, qv_RemainingText = ''unlimited'', qv_OverageText = '''',
      qv_Percent = 0, qv_ResetDay = qp_ResetDay policy, qv_CycleStart = FormatTimeValue l (qc_StartsAt cycle),
      qv_CycleEnd = FormatTimeValue l (qc_EndsAt cycle), qv_Timezone = qc_Timezone cycle,
      qv_GrossText = FormatBytes (wrap64 (qc_GrossUplinkBytes cycle + qc_GrossDownlinkBytes cycle))\<rparr>)"

definition quota_percent :: "int \<Rightarrow> int \<Rightarrow> int" where
  "quota_percent limit used = (if limit > 0 then sgn (wrap64 (used * 100)) * (\<bar>wrap64 (used * 100)\<bar> div limit) else 0)"

definition NewQuotaView :: "Location \<Rightarrow> QuotaPolicyRecord \<Rightarrow> QuotaCycleRecord \<Rightarrow> QuotaView" where
  "NewQuotaView l policy cycle = (case qp_LimitBytes policy of None \<Rightarrow> unlimited_view l policy cycle
   | Some limit \<Rightarrow>
       (let v = unlimited_view l policy cycle; used = qv_UsedBytes v; remaining = wrap64 (limit - used) in
        v\<lparr>qv_Unlimited := False, qv_LimitBytes := limit, qv_LimitText := FormatBytes limit,
          qv_OverageText := (if remaining < 0 then FormatBytes (wrap64 (- remaining)) else ''''),
          qv_RemainingText := FormatBytes (if remaining < 0 then 0 else remaining),
          qv_Percent := quota_percent limit used\<rparr>))"

text \<open>
  In the range of sensible counts the percentage is the quotient; the product overflows beyond it.
\<close>

lemma quota_percent_exact: "0 \<le> used \<Longrightarrow> 100 * used < 2 ^ 63 \<Longrightarrow> 0 < limit \<Longrightarrow> quota_percent limit used = 100 * used div limit"
  by (cases "used = 0") (simp_all add: quota_percent_def wrap64_id int64_range_def mult.commute)

lemma quota_percent_overflows: "quota_percent (2 ^ 57) (2 ^ 57) = - 28"
  by (simp add: quota_percent_def wrap64_def)

record UserView =
  uv_ID :: ID
  uv_DisplayName :: string
  uv_TemplateID :: ID
  uv_TemplateName :: string
  uv_TemplateCompatible :: bool
  uv_Port :: int
  uv_InboundTag :: string
  uv_Listening :: bool
  uv_Rebuilding :: bool
  uv_PortPoolStart :: int
  uv_PortPoolEnd :: int
  uv_TemplateStateLabel :: string
  uv_State :: DisplayState
  uv_StateLabel :: string
  uv_PendingSync :: bool
  uv_SyncError :: string
  uv_SyncErrorKind :: string
  uv_LastSyncAt :: string
  uv_Deleted :: bool
  uv_AdminEnabled :: bool
  uv_QuotaExceeded :: bool
  uv_Revision :: int
  uv_CreatedAt :: string
  uv_Quota :: QuotaView

definition NewUserView :: "Location \<Rightarrow> UserRecord \<Rightarrow> UserView" where
  "NewUserView l r =
     (let u = ur_User r; a = ur_Allocation r; t = ur_Template r; i = ir_Inbound (ur_Inbound r);
          state = display_state a u; listening = (di_ObservedPresent i = Some True);
          live = (mu_Lifecycle u \<noteq> LifecycleDeleted)
      in \<lparr>uv_ID = mu_ID u, uv_DisplayName = mu_DisplayName u, uv_TemplateID = tm_ID t, uv_TemplateName = tm_Name t,
          uv_TemplateCompatible = (tm_Compatibility t = CompatibilityCompatible), uv_Port = di_Port i,
          uv_InboundTag = di_InboundTag i, uv_Listening = listening,
          uv_Rebuilding = (live \<and> DesiredPresent a u \<and> \<not> listening),
          uv_PortPoolStart = pp_Start (tm_Pool t), uv_PortPoolEnd = pp_End (tm_Pool t),
          uv_TemplateStateLabel = CompatibilityLabel (tm_Compatibility t), uv_State = state, uv_StateLabel = StateLabel state,
          uv_PendingSync = (live \<and> PendingSync a), uv_SyncError = ErrorSentence (al_LastSyncErrorCode a),
          uv_SyncErrorKind = al_LastSyncErrorCode a, uv_LastSyncAt = FormatTime l (al_LastSyncAt a), uv_Deleted = (\<not> live),
          uv_AdminEnabled = al_AdminEnabled a, uv_QuotaExceeded = (al_QuotaState a = QuotaExceeded),
          uv_Revision = mu_Revision u, uv_CreatedAt = FormatTimeValue l (mu_CreatedAt u),
          uv_Quota = NewQuotaView l (ur_Policy r) (ur_Cycle r)\<rparr>)"

definition NewUserViews :: "Location \<Rightarrow> UserRecord list \<Rightarrow> UserView list" where
  "NewUserViews l = map (NewUserView l)"

text \<open>The view of a user shows no key, neither the user's nor that of the inbound.\<close>

lemma user_view_shows_no_keys:
  "NewUserView l (r\<lparr>ur_Credential := c, ur_Inbound := (ur_Inbound r)\<lparr>ir_ServerKeyCiphertext := k, ir_ServerKeyNonce := n\<rparr>\<rparr>) =
   NewUserView l r"
  by (simp add: NewUserView_def Let_def)

section \<open>Audit, dashboard and details\<close>

record AuditRow =
  aw_OccurredAt :: string
  aw_ActorLabel :: string
  aw_TargetLabel :: string
  aw_TargetLink :: string
  aw_ActionLabel :: string
  aw_ResultLabel :: string
  aw_Summary :: string

text \<open>The name of a user: the last entry of the map wins.\<close>

definition user_names :: "UserRecord list \<Rightarrow> ID \<Rightarrow> string option" where
  "user_names users = map_of (rev (map (\<lambda>u. (mu_ID (ur_User u), mu_DisplayName (ur_User u))) users))"

definition audit_target :: "UserRecord list \<Rightarrow> AuditEvent \<Rightarrow> string \<times> string" where
  "audit_target users e =
     (if ae_TargetType e = ''user''
      then (''user '' @ (case user_names users (ae_TargetID e) of Some name \<Rightarrow> name | None \<Rightarrow> ae_TargetID e), ''/users/'' @ ae_TargetID e)
      else if ae_TargetType e = ''template'' then (''inbound template'', ''/templates/'' @ ae_TargetID e)
      else if ae_TargetType e = ''settings'' then (''settings'', ''/settings'')
      else (''administrator'', ''''))"

definition NewAuditRows :: "Location \<Rightarrow> UserRecord list \<Rightarrow> AuditEvent list \<Rightarrow> AuditRow list" where
  "NewAuditRows l users = map (\<lambda>e.
     \<lparr>aw_OccurredAt = FormatTimeValue l (ae_OccurredAt e), aw_ActorLabel = ActorLabel (ae_ActorType e),
      aw_TargetLabel = fst (audit_target users e), aw_TargetLink = snd (audit_target users e),
      aw_ActionLabel = AuditActionLabel (ae_Action e), aw_ResultLabel = AuditResultLabel (ae_Result e),
      aw_Summary = ae_SafeSummary e\<rparr>)"

record FailedOperationView =
  fv_UserID :: ID
  fv_DisplayName :: string
  fv_ReasonLabel :: string
  fv_StateLabel :: string
  fv_ErrorText :: string
  fv_AttemptCount :: int
  fv_NextAttempt :: string

definition NewFailedOperationViews :: "Location \<Rightarrow> FailedOperationRecord list \<Rightarrow> FailedOperationView list" where
  "NewFailedOperationViews l = map (\<lambda>x.
     \<lparr>fv_UserID = fo_UserID x, fv_DisplayName = fo_DisplayName x, fv_ReasonLabel = ReasonLabel (fo_Reason x),
      fv_StateLabel = SyncStateLabel (fo_State x), fv_ErrorText = ErrorSentence (fo_ErrorCode x),
      fv_AttemptCount = fo_AttemptCount x, fv_NextAttempt = FormatTimeValue l (fo_NextAttemptAt x)\<rparr>)"

record DailyText =
  dt_LocalDate :: string
  dt_UplinkText :: string
  dt_DownlinkText :: string
  dt_TotalText :: string

definition NewDailyRows :: "DailyRow list \<Rightarrow> DailyText list" where
  "NewDailyRows = map (\<lambda>x. \<lparr>dt_LocalDate = dy_LocalDate x, dt_UplinkText = FormatBytes (dy_UplinkBytes x),
     dt_DownlinkText = FormatBytes (dy_DownlinkBytes x),
     dt_TotalText = FormatBytes (wrap64 (dy_UplinkBytes x + dy_DownlinkBytes x))\<rparr>)"

record EventRow =
  ew_OccurredAt :: string
  ew_Type :: string
  ew_Direction :: string
  ew_Sentence :: string

definition NewEventRows :: "Location \<Rightarrow> ContinuityEventRecord list \<Rightarrow> EventRow list" where
  "NewEventRows l = map (\<lambda>x. \<lparr>ew_OccurredAt = FormatTimeValue l (cv_OccurredAt x), ew_Type = ce_Type (cv_Event x),
     ew_Direction = ce_Direction (cv_Event x), ew_Sentence = EventSentence (ce_Type (cv_Event x))\<rparr>)"

record SyncRow =
  sw_Revision :: int
  sw_ReasonLabel :: string
  sw_Phase :: string
  sw_StateLabel :: string
  sw_Attempts :: int
  sw_NextAttempt :: string
  sw_ErrorText :: string
  sw_CompletedAt :: string

definition NewSyncRows :: "Location \<Rightarrow> SynchronizationOperation list \<Rightarrow> SyncRow list" where
  "NewSyncRows l = map (\<lambda>x. \<lparr>sw_Revision = op_DesiredRevision x, sw_ReasonLabel = ReasonLabel (op_Reason x),
     sw_Phase = phase_string (op_Phase x), sw_StateLabel = SyncStateLabel (op_State x), sw_Attempts = op_AttemptCount x,
     sw_NextAttempt = (if op_State x = SyncRetryWait \<or> op_State x = SyncPending then FormatTimeValue l (op_NextAttemptAt x) else ''''),
     sw_ErrorText = ErrorSentence (op_LastErrorCode x), sw_CompletedAt = FormatTime l (op_CompletedAt x)\<rparr>)"

record DashboardView =
  dv_HealthState :: string
  dv_HealthLabel :: string
  dv_LastSuccessAt :: string
  dv_LastErrorText :: string
  dv_LastCollectionAt :: string
  dv_Stale :: bool
  dv_GeneratedAt :: string
  dv_TotalUsers :: int
  dv_Active :: int
  dv_Disabled :: int
  dv_QuotaExceeded :: int
  dv_Pending :: int
  dv_StuckSync :: int
  dv_Deleted :: int
  dv_AccountedText :: string
  dv_PortsCapacity :: int
  dv_PortsAssigned :: int
  dv_PortsRemaining :: int
  dv_PortsOutside :: int
  dv_PortsRebuilding :: int
  dv_Failed :: "FailedOperationView list"

text \<open>Health, error and last success of the instance; a summary without one has the empty record.\<close>

definition instance_health :: "Location \<Rightarrow> DashboardSummary \<Rightarrow> string \<times> string \<times> string" where
  "instance_health l x = (case sm_Instance x of None \<Rightarrow> ('''', '''', '''')
     | Some m \<Rightarrow> (mi_HealthState m, mi_LastErrorCode m, FormatTime l (mi_LastSuccessAt m)))"

definition NewDashboardView :: "Location \<Rightarrow> DashboardSummary \<Rightarrow> DashboardView" where
  "NewDashboardView l x = (case instance_health l x of (health, code, success) \<Rightarrow>
     \<lparr>dv_HealthState = health, dv_HealthLabel = HealthLabel health, dv_LastSuccessAt = success,
      dv_LastErrorText = ErrorSentence code, dv_LastCollectionAt = FormatTime l (sm_LastCollectionAt x), dv_Stale = sm_Stale x,
      dv_GeneratedAt = FormatTimeValue l (sm_GeneratedAt x), dv_TotalUsers = sm_TotalUsers x, dv_Active = sm_Active x,
      dv_Disabled = sm_Disabled x, dv_QuotaExceeded = sm_QuotaExceeded x, dv_Pending = sm_Pending x,
      dv_StuckSync = sm_StuckSync x, dv_Deleted = sm_Deleted x, dv_AccountedText = FormatBytes (sm_AccountedBytes x),
      dv_PortsCapacity = sm_PortsCapacity x, dv_PortsAssigned = sm_PortsAssigned x, dv_PortsRemaining = sm_PortsRemaining x,
      dv_PortsOutside = sm_PortsOutside x, dv_PortsRebuilding = sm_PortsRebuilding x,
      dv_Failed = NewFailedOperationViews l (sm_Failed x)\<rparr>)"

text \<open>\<open>userDetailData\<close>: trends, events and history as far as they could be read.\<close>

record userDetail =
  dd_User :: UserView
  dd_ConnectionAvailable :: bool
  dd_ConnectionPending :: bool
  dd_Daily :: "DailyText list"
  dd_Events :: "EventRow list"
  dd_Sync :: "SyncRow list"
  dd_NodeHealth :: string
  dd_NodeError :: string
  dd_NodeLastSuccess :: string

definition detail_view :: "Location \<Rightarrow> UserRecord \<Rightarrow> bool \<Rightarrow> bool \<Rightarrow> UserDetail option \<Rightarrow> DashboardSummary option \<Rightarrow> userDetail" where
  "detail_view l r available waiting detail summary =
     (case (case summary of None \<Rightarrow> ('''', '''', '''') | Some x \<Rightarrow>
        (case instance_health l x of (health, code, success) \<Rightarrow> (HealthLabel health, ErrorSentence code, success))) of
      (health, error, success) \<Rightarrow>
     \<lparr>dd_User = NewUserView l r, dd_ConnectionAvailable = available, dd_ConnectionPending = waiting,
      dd_Daily = (case detail of None \<Rightarrow> [] | Some x \<Rightarrow> NewDailyRows (ud_Daily x)),
      dd_Events = (case detail of None \<Rightarrow> [] | Some x \<Rightarrow> NewEventRows l (ud_Events x)),
      dd_Sync = (case detail of None \<Rightarrow> [] | Some x \<Rightarrow> NewSyncRows l (ud_Sync x)),
      dd_NodeHealth = health, dd_NodeError = error, dd_NodeLastSuccess = success\<rparr>)"

end
