(* ===== verification/Fake_Meter.thy ===== *)
theory Fake_Meter
  imports Fake_Xray Views
begin

text \<open>
  The observing half of the in-memory Xray (\<open>internal/adapter/xray/fake/fake.go\<close>): its traffic
  counters, boot epoch and clock, the log of its calls, and what tests put into it. Hooks and delays
  stand for other goroutines of a test and are left out.
\<close>

section \<open>The state\<close>

record Call =
  cl_Operation :: string
  cl_InboundTag :: string
  cl_StatisticsID :: string
  cl_Port :: int

text \<open>The clock \<open>Now\<close> gives the reading of its number of reads.\<close>

record meter =
  mt_fake :: fake
  mt_Counters :: "((string \<times> Direction) \<times> 64 word) list"
  mt_Templates :: "(ID \<times> TemplateCapabilities) list"
  mt_ValidateFailures :: "Failure list"
  mt_Calls :: "Call list"
  mt_BootEpoch :: instant
  mt_clock :: "nat \<Rightarrow> instant"
  mt_reads :: nat

definition read_clock :: "meter \<Rightarrow> instant \<times> meter" where
  "read_clock m = (mt_clock m (mt_reads m), m\<lparr>mt_reads := mt_reads m + 1\<rparr>)"

definition called :: "string \<Rightarrow> string \<Rightarrow> string \<Rightarrow> int \<Rightarrow> meter \<Rightarrow> meter" where
  "called operation tag i port m = m\<lparr>mt_Calls := mt_Calls m @
     [\<lparr>cl_Operation = operation, cl_InboundTag = tag, cl_StatisticsID = i, cl_Port = port\<rparr>]\<rparr>"

text \<open>An operation of the fake on the inbounds, after its call is recorded; a success reads the clock.\<close>

definition on_fake :: "(fake \<Rightarrow> (err + 'a) \<times> fake) \<Rightarrow> meter \<Rightarrow> (err + 'a) \<times> meter" where
  "on_fake f m = (case f (mt_fake m) of (x, k) \<Rightarrow> (x, m\<lparr>mt_fake := k\<rparr>))"

definition receipt :: "(err + unit) \<times> meter \<Rightarrow> (err + unit) \<times> meter" where
  "receipt r = (case fst r of Inl e \<Rightarrow> r | Inr u \<Rightarrow> (Inr u, snd (read_clock (snd r))))"

definition meter_adapter :: "meter adapter" where
  "meter_adapter =
     \<lparr>ap_ListInbounds = (\<lambda>m. on_fake fake_ListInbounds (called ''list_inbounds'' '''' '''' 0 m)),
      ap_CreateInbound = (\<lambda>c m. receipt (on_fake (fake_CreateInbound c)
        (called ''create_inbound'' (ci_InboundTag c) (ic_StatisticsID (ci_Client c)) (ci_Port c) m))),
      ap_RemoveInbound = (\<lambda>tag m. receipt (on_fake (fake_RemoveInbound tag) (called ''remove_inbound'' tag '''' 0 m))),
      ap_ListUsers = (\<lambda>i m. on_fake (fake_ListUsers i) (called ''list_users'' (ri_InboundTag i) '''' 0 m)),
      ap_AddUser = (\<lambda>c m. receipt (on_fake (fake_AddUser c)
        (called ''add_user'' (au_InboundTag c) (au_StatisticsID c) 0 m))),
      ap_RemoveUser = (\<lambda>c m. receipt (on_fake (fake_RemoveUser c)
        (called ''remove_user'' (rm_InboundTag c) (rm_StatisticsID c) 0 m)))\<rparr>"

section \<open>Observing\<close>

text \<open>
  \<open>uint32(now.Sub(boot).Seconds())\<close>. \<open>Seconds\<close> adds the whole seconds and the fraction as \<open>float64\<close>, and
  the sum is the next second when the fraction is nearer to 1 than half a unit in the last place.
\<close>

definition whole_seconds :: "duration \<Rightarrow> int" where
  "whole_seconds d = (let sec = d div Second; rest = Second - d mod Second in
     if rest * 2 ^ (54 - bit_size (nat sec)) \<le> Second then sec + 1 else sec)"

definition uptimeSeconds :: "instant \<Rightarrow> instant \<Rightarrow> 32 word" where
  "uptimeSeconds now boot = (if now \<le> boot then 0 else word_of_int (whole_seconds (time_sub now boot)))"

definition observe_instance :: "meter \<Rightarrow> InstanceObservation \<times> meter" where
  "observe_instance m = (case read_clock m of (now, m1) \<Rightarrow>
     (\<lparr>io_ObservedAt = now, io_UptimeSeconds = uptimeSeconds now (mt_BootEpoch m), io_BootEpoch = mt_BootEpoch m,
       io_BootEpochKnown = True\<rparr>, m1))"

definition fake_Probe :: "meter \<Rightarrow> (err + InstanceObservation) \<times> meter" where
  "fake_Probe m0 = (let m = called ''probe'' '''' '''' 0 m0 in
     if \<not> fk_Available (mt_fake m) then (Inl (unavailable ''probe''), m)
     else case observe_instance m of (x, m1) \<Rightarrow> (Inr x, m1))"

definition all_capabilities :: TemplateCapabilities where
  "all_capabilities = \<lparr>cb_InboundCreatable = True, cb_InboundRemovable = True, cb_ProtocolSupported = True,
     cb_MethodSupported = True, cb_MultiUserSupported = True, cb_TrafficAccounted = True, cb_ProbeStatisticsID = '''',
     cb_CompatibilityReason = ''''\<rparr>"

definition fake_ValidateTemplate :: "TemplateProbe \<Rightarrow> meter \<Rightarrow> (err + TemplateCapabilities) \<times> meter" where
  "fake_ValidateTemplate p m0 = (let m = called ''validate_template'' '''' '''' (pr_ProbePort p) m0 in
     if \<not> fk_Available (mt_fake m) then (Inl (unavailable ''validate_template''), m)
     else case take_failure (mt_ValidateFailures m) of (failure, rest) \<Rightarrow>
       let m1 = m\<lparr>mt_ValidateFailures := rest\<rparr> in
       case failure of Some x \<Rightarrow> (Inl (fl_Err x), m1)
       | None \<Rightarrow> (Inr (case map_of (mt_Templates m1) (pr_TemplateID p) of Some c \<Rightarrow> c | None \<Rightarrow> all_capabilities), m1))"

text \<open>A counter that does not exist reads as 0, not found.\<close>

definition counter_snapshot :: "meter \<Rightarrow> instant \<Rightarrow> string \<times> Direction \<Rightarrow> CounterSnapshot" where
  "counter_snapshot m now key = (let found = map_of (mt_Counters m) key in
     \<lparr>sp_StatisticsID = fst key, sp_Direction = snd key, sp_Bytes = (case found of None \<Rightarrow> 0 | Some v \<Rightarrow> v),
      sp_ObservedAt = now, sp_Found = (found \<noteq> None)\<rparr>)"

definition fake_ReadTraffic :: "string list \<Rightarrow> meter \<Rightarrow> (err + TrafficRound) \<times> meter" where
  "fake_ReadTraffic ids m0 = (let m = called ''read_traffic'' '''' '''' 0 m0 in
     if \<not> fk_Available (mt_fake m) then (Inl (unavailable ''read_traffic''), m)
     else case observe_instance m of (x, m1) \<Rightarrow>
       (Inr \<lparr>tr_Observation = x, tr_Snapshots = map (counter_snapshot m (io_ObservedAt x)) (both_directions ids)\<rparr>, m1))"

definition meter_observer :: "meter observer" where
  "meter_observer = \<lparr>ob_Probe = fake_Probe, ob_ValidateTemplate = fake_ValidateTemplate, ob_ReadTraffic = fake_ReadTraffic\<rparr>"

section \<open>What tests do to the node\<close>

definition SetCounter :: "string \<Rightarrow> Direction \<Rightarrow> 64 word \<Rightarrow> meter \<Rightarrow> meter" where
  "SetCounter i direction v m = m\<lparr>mt_Counters := map_put (i, direction) v (mt_Counters m)\<rparr>"

text \<open>A restart: no inbound, client or counter is left, and a new boot epoch begins.\<close>

definition restart_node :: "meter \<Rightarrow> meter" where
  "restart_node m = (case read_clock m of (now, m1) \<Rightarrow>
     m1\<lparr>mt_fake := Restart (mt_fake m1), mt_Counters := [], mt_BootEpoch := now\<rparr>)"

definition InboundTags :: "fake \<Rightarrow> string list" where
  "InboundTags f = map fst (fk_Inbounds f)"

definition bare_inbound :: "string \<Rightarrow> int \<Rightarrow> FakeInbound" where
  "bare_inbound tag port = \<lparr>fi_Tag = tag, fi_ListenAddress = '''', fi_Port = port, fi_Method = '''', fi_ServerKey = ''''\<rparr>"

definition client_of :: "string \<Rightarrow> string \<Rightarrow> RemoteUser" where
  "client_of i kind = \<lparr>ru_StatisticsID = i, ru_CredentialVersion = 0, ru_Present = True, ru_Kind = kind\<rparr>"

definition AddExternalInbound :: "string \<Rightarrow> int \<Rightarrow> fake \<Rightarrow> fake" where
  "AddExternalInbound tag port f = f\<lparr>fk_Inbounds := map_put tag (bare_inbound tag port) (fk_Inbounds f),
     fk_Users := map_put tag [(''operator'', client_of ''operator'' ''external'')] (fk_Users f)\<rparr>"

definition AddOrphanInbound :: "string \<Rightarrow> int \<Rightarrow> fake \<Rightarrow> fake" where
  "AddOrphanInbound tag port f = (let i = tag @ ''-client'' in
     f\<lparr>fk_Inbounds := map_put tag (bare_inbound tag port) (fk_Inbounds f),
       fk_Users := map_put tag [(i, client_of i ''managed'')] (fk_Users f)\<rparr>)"

definition InjectClient :: "string \<Rightarrow> string \<Rightarrow> fake \<Rightarrow> fake" where
  "InjectClient tag i f = f\<lparr>fk_Users := map_put tag
     (map_put i (client_of i (if IsPanelNamespace i then ''managed'' else ''external'')) (users_on f tag)) (fk_Users f)\<rparr>"

section \<open>A restart is seen\<close>

text \<open>After a restart no client of the node is counted, and the boot epoch is that of the restart.\<close>

lemma restart_forgets_counters:
  assumes "fake_ReadTraffic ids (restart_node m) = (Inr r, m')"
  shows "\<forall>x \<in> set (tr_Snapshots r). \<not> sp_Found x" "io_BootEpoch (tr_Observation r) = mt_clock m (mt_reads m)"
  using assms
  by (auto simp: fake_ReadTraffic_def restart_node_def observe_instance_def read_clock_def called_def counter_snapshot_def Let_def
      split: if_splits)

lemma map_of_map_put: "map_of (map_put k y c) k = Some y"
proof (cases "k \<in> set (map fst c)")
  case True
  then have "map_of (map (\<lambda>(x, z). if x = k then (x, y) else (x, z)) c) k = Some y" by (induction c) auto
  with True show ?thesis by (simp add: map_put_def)
next
  case False
  then have "map_of c k = None" by (simp add: map_of_eq_None_iff)
  with False show ?thesis by (simp add: map_put_def map_add_def)
qed

lemma counter_is_read:
  assumes "fake_ReadTraffic [i] (SetCounter i direction v m) = (Inr r, m')" "direction = Uplink \<or> direction = Downlink"
  shows "\<exists>x \<in> set (tr_Snapshots r). sp_StatisticsID x = i \<and> sp_Direction x = direction \<and> sp_Bytes x = v \<and> sp_Found x"
proof -
  show ?thesis
    using assms
    by (auto simp: fake_ReadTraffic_def SetCounter_def observe_instance_def read_clock_def called_def counter_snapshot_def Let_def
        both_directions_def map_of_map_put split: if_splits)
qed

end
