(* ===== verification/Workers.thy ===== *)
theory Workers
  imports Panel Startup
begin

text \<open>
  The background workers as long-running loops, and \<open>xpanel serve\<close>: the constructors with their
  defaults (\<open>internal/worker\<close>), the loops \<open>Run\<close>, the connection check of \<open>internal/adapter/xray/client.go\<close>,
  the HTTP server of \<open>internal/web/server.go\<close> and \<open>runServe\<close> of \<open>cmd/xpanel/main.go\<close>. A loop is given the
  events its \<open>select\<close> sees before the context is cancelled; tickers and channels only say when.
\<close>

section \<open>Constructors\<close>

definition positive_or :: "duration \<Rightarrow> duration \<Rightarrow> duration" where
  "positive_or d fallback = (if d \<le> 0 then fallback else d)"

record SynchronizerOptions =
  so_Owner :: string
  so_MaxRetryInterval :: duration
  so_LeaseDuration :: duration
  so_RPCTimeout :: duration
  so_PollInterval :: duration
  so_Random :: "(int \<Rightarrow> int) option"

definition defaultLeaseDuration :: duration where "defaultLeaseDuration = 30 * Second"
definition defaultPollInterval :: duration where "defaultPollInterval = Second"
definition defaultMaxRetryPeriod :: duration where "defaultMaxRetryPeriod = 30 * Second"
definition defaultRPCTimeout :: duration where "defaultRPCTimeout = 5 * Second"
definition leaseRPCMultiple :: int where "leaseRPCMultiple = 3"

definition synchronizer_defaults :: "SynchronizerOptions \<Rightarrow> SynchronizerOptions" where
  "synchronizer_defaults x =
     (let rpc = positive_or (so_RPCTimeout x) defaultRPCTimeout; lease = positive_or (so_LeaseDuration x) defaultLeaseDuration;
          least = wrap64 (leaseRPCMultiple * rpc)
      in x\<lparr>so_Owner := (if so_Owner x = '''' then ''synchronizer'' else so_Owner x),
           so_MaxRetryInterval := positive_or (so_MaxRetryInterval x) defaultMaxRetryPeriod,
           so_LeaseDuration := (if lease < least then least else lease), so_RPCTimeout := rpc,
           so_PollInterval := positive_or (so_PollInterval x) defaultPollInterval\<rparr>)"

text \<open>The worker with its options filled in; its polling interval is \<open>so_PollInterval\<close> of the result.\<close>

definition NewSynchronizer :: "'n syncer \<Rightarrow> SynchronizerOptions \<Rightarrow> 'n syncer" where
  "NewSynchronizer s x = (let o1 = synchronizer_defaults x in
     s\<lparr>sy_owner := so_Owner o1, sy_maxRetry := so_MaxRetryInterval o1, sy_lease := so_LeaseDuration o1,
       sy_random := so_Random o1\<rparr>)"

text \<open>The intervals of the other workers.\<close>

definition NewCollector :: "duration \<Rightarrow> duration" where
  "NewCollector interval = positive_or interval (5 * Second)"

definition NewReconciler :: "duration \<Rightarrow> duration" where
  "NewReconciler interval = positive_or interval (15 * Second)"

definition NewTemplateValidator :: "duration \<Rightarrow> duration" where
  "NewTemplateValidator interval = positive_or interval (15 * Second)"

definition NewScheduler :: "duration \<Rightarrow> duration" where
  "NewScheduler sweep = positive_or sweep (60 * Second)"

text \<open>A lease covers three calls of the node, whatever the options say.\<close>

lemma lease_covers_calls:
  assumes "so_RPCTimeout x < 3 * 10 ^ 18"
  shows "3 * so_RPCTimeout (synchronizer_defaults x) \<le> so_LeaseDuration (synchronizer_defaults x)"
    "0 < so_RPCTimeout (synchronizer_defaults x)" "0 < so_LeaseDuration (synchronizer_defaults x)"
    "0 < so_MaxRetryInterval (synchronizer_defaults x)" "0 < so_PollInterval (synchronizer_defaults x)"
  using assms
  by (auto simp: synchronizer_defaults_def Let_def positive_or_def defaultRPCTimeout_def defaultLeaseDuration_def
      defaultMaxRetryPeriod_def defaultPollInterval_def leaseRPCMultiple_def Second_def int64_range_def)

section \<open>The loops\<close>

primrec act_times :: "('n, unit) act \<Rightarrow> nat \<Rightarrow> ('n, unit) act" where
  "act_times m 0 = act_ret ()"
| "act_times m (Suc n) = act_bind m (\<lambda>_. act_times m n)"

text \<open>The collector: a round at the start, and one per tick.\<close>

definition Collector_Run :: "collector \<Rightarrow> 'n observer \<Rightarrow> nat \<Rightarrow> ('n, unit) act" where
  "Collector_Run s ob ticks = act_times (Collector_RunOnce s ob) (Suc ticks)"

text \<open>The reconciler: a round at the start, and one per tick or trigger.\<close>

definition Reconciler_Run :: "reconciler \<Rightarrow> 'n adapter \<Rightarrow> 'n observer \<Rightarrow> nat \<Rightarrow> ('n, unit) act" where
  "Reconciler_Run s ad ob events = act_times (Reconciler_RunOnce s ad ob) (Suc events)"

text \<open>The validator: a sweep at the start and per tick, and a validation per queued template.\<close>

datatype validator_event = Swept | Dequeued

primrec validator_events :: "services \<Rightarrow> 'n observer \<Rightarrow> validator_event list \<Rightarrow> ('n, unit) act" where
  "validator_events s ob [] = act_ret ()"
| "validator_events s ob (e # es) = act_bind (case e of Swept \<Rightarrow> SweepOnce s ob | Dequeued \<Rightarrow> Validator_turn s ob)
     (\<lambda>_. validator_events s ob es)"

definition Validator_Run :: "services \<Rightarrow> 'n observer \<Rightarrow> validator_event list \<Rightarrow> ('n, unit) act" where
  "Validator_Run s ob es = validator_events s ob (Swept # es)"

text \<open>The scheduler settles before it waits, once per turn; how long it waited is its result.\<close>

primrec Scheduler_Run :: "services \<Rightarrow> duration \<Rightarrow> nat \<Rightarrow> ('n, duration list) act" where
  "Scheduler_Run s sweep 0 = act_ret []"
| "Scheduler_Run s sweep (Suc turns) = act_bind (Scheduler_turn s sweep) (\<lambda>wait.
     act_bind (Scheduler_Run s sweep turns) (\<lambda>waits. act_ret (wait # waits)))"

text \<open>The synchronizer drains, then waits for a wake or a tick. A failed drain is only logged.\<close>

primrec Synchronizer_Run :: "'n syncer \<Rightarrow> nat \<Rightarrow> nat \<Rightarrow> ('n, (err + int) option list) act" where
  "Synchronizer_Run s fuel 0 = act_ret []"
| "Synchronizer_Run s fuel (Suc turns) = act_bind (Drain s fuel) (\<lambda>r.
     act_bind (Synchronizer_Run s fuel turns) (\<lambda>rs. act_ret (r # rs)))"

text \<open>However long it lives, a worker takes the database only through steps of the store.\<close>

lemma act_times_steps: "keeps_to_steps m \<Longrightarrow> keeps_to_steps (act_times m n)"
  by (induction n) (simp_all add: steady_rules)

lemma validator_events_steps: "steps_only s \<Longrightarrow> keeps_to_steps (validator_events s ob es)"
  by (induction es) (auto simp: steady_rules Validator_turn_steps SweepOnce_steps split: validator_event.split)

lemma worker_loops_steps:
  "steps_only c \<Longrightarrow> keeps_to_steps (Collector_Run c ob n)"
  "steps_only r \<Longrightarrow> keeps_to_steps (Reconciler_Run r ad ob n)"
  "steps_only s \<Longrightarrow> keeps_to_steps (Validator_Run s ob es)"
  "steps_only s \<Longrightarrow> keeps_to_steps (Scheduler_Run s sweep n)"
  "steps_only y \<Longrightarrow> keeps_to_steps (Synchronizer_Run y fuel n)"
proof -
  show "steps_only c \<Longrightarrow> keeps_to_steps (Collector_Run c ob n)"
    unfolding Collector_Run_def by (intro act_times_steps Collector_RunOnce_steps)
  show "steps_only r \<Longrightarrow> keeps_to_steps (Reconciler_Run r ad ob n)"
    unfolding Reconciler_Run_def by (intro act_times_steps Reconciler_RunOnce_steps)
  show "steps_only s \<Longrightarrow> keeps_to_steps (Validator_Run s ob es)"
    unfolding Validator_Run_def by (rule validator_events_steps)
  show "steps_only s \<Longrightarrow> keeps_to_steps (Scheduler_Run s sweep n)"
    by (induction n) (simp_all add: steady_rules Scheduler_turn_steps)
  show "steps_only y \<Longrightarrow> keeps_to_steps (Synchronizer_Run y fuel n)"
    by (induction n) (simp_all add: steady_rules Drain_steps)
qed

section \<open>Serving\<close>

text \<open>\<open>xray.New\<close> up to the dialling: the endpoint must be a loopback address.\<close>

definition connect_check :: "'u unicode_scheme \<Rightarrow> string \<Rightarrow> err option" where
  "connect_check u endpoint = (case SplitHostPort endpoint of
     None \<Rightarrow> Some (AdapterError ''invalid_argument'' ''connect'' False ''invalid Xray API endpoint'')
   | Some (host, port) \<Rightarrow> if \<not> isLoopbackHost u host
       then Some (AdapterError ''invalid_argument'' ''connect'' False ''Xray API must be loopback'') else None)"

lemma accepted_endpoint_connects: "Validate env c0 = Inr c \<Longrightarrow> connect_check (ce_unicode env) (cx_APIEndpoint (co_Xray c)) = None"
  by (auto simp: Validate_accepted connect_check_def dest!: socketHost_Inr)

text \<open>The HTTP server: its settings from the configuration, and whether it reports ready.\<close>

record http_server =
  hs_Addr :: string
  hs_ReadHeaderTimeout :: duration
  hs_ReadTimeout :: duration
  hs_WriteTimeout :: duration
  hs_IdleTimeout :: duration
  hs_ready :: bool

definition NewServer :: "ServerConfig \<Rightarrow> http_server" where
  "NewServer c = \<lparr>hs_Addr = cv_Listen c, hs_ReadHeaderTimeout = cv_ReadHeaderTimeout c, hs_ReadTimeout = cv_RequestTimeout c,
     hs_WriteTimeout = cv_RequestTimeout c, hs_IdleTimeout = 60 * Second, hs_ready = False\<rparr>"

definition SetReady :: "bool \<Rightarrow> http_server \<Rightarrow> http_server" where
  "SetReady value h = h\<lparr>hs_ready := value\<rparr>"

definition Shutdown :: "http_server \<Rightarrow> http_server" where
  "Shutdown h = SetReady False h"

text \<open>What \<open>runServe\<close> makes of a configuration: the options of the workers and of the cookie.\<close>

record serving =
  sr_target :: "string \<times> string \<times> duration"
  sr_synchronizer :: SynchronizerOptions
  sr_validator :: duration
  sr_collector :: duration
  sr_scheduler :: duration
  sr_reconciler :: duration
  sr_sessions :: "duration \<times> duration"
  sr_secure :: bool
  sr_server :: http_server

definition serving_of :: "Config \<Rightarrow> serving" where
  "serving_of c =
     \<lparr>sr_target = (cx_APIEndpoint (co_Xray c), cx_SupportedVersion (co_Xray c), cx_RPCTimeout (co_Xray c)),
      sr_synchronizer = synchronizer_defaults \<lparr>so_Owner = '''', so_MaxRetryInterval = cw_MaxRetryInterval (co_Workers c),
        so_LeaseDuration = 0, so_RPCTimeout = cx_RPCTimeout (co_Xray c), so_PollInterval = 0, so_Random = None\<rparr>,
      sr_validator = NewTemplateValidator (cw_ReconcileInterval (co_Workers c)),
      sr_collector = NewCollector (cw_TrafficInterval (co_Workers c)), sr_scheduler = NewScheduler (60 * Second),
      sr_reconciler = NewReconciler (cw_ReconcileInterval (co_Workers c)),
      sr_sessions = (cy_SessionIdleTimeout (co_Security c), cy_SessionAbsoluteTimeout (co_Security c)),
      sr_secure = (\<not> cv_InsecureDevelopment (co_Server c)), sr_server = SetReady True (NewServer (co_Server c))\<rparr>"

text \<open>The one flag of \<open>serve\<close>; \<open>None\<close> is a wrong command line.\<close>

fun serve_flags :: "string list \<Rightarrow> string \<Rightarrow> string option" where
  "serve_flags [] path = Some path"
| "serve_flags (a # rest) path =
     (if length a < 2 \<or> hd a \<noteq> CHR ''-'' \<or> a = ''--'' then Some path
      else let name = (if a ! 1 = CHR ''-'' then drop 2 a else drop 1 a) in
        if hd name = CHR ''-'' \<or> hd name = CHR ''='' then None
        else case cut_value name of (key, value) \<Rightarrow>
          if key \<noteq> ''config'' then None
          else case value of Some v \<Rightarrow> serve_flags rest v
            | None \<Rightarrow> (case rest of [] \<Rightarrow> None | v # rest' \<Rightarrow> serve_flags rest' v))"

text \<open>
  \<open>runServe\<close>: 2 for a wrong command line, 3 when the panel cannot be built, 4 when the listener fails.
  The outcomes of hashing the dummy password, of dialling and of building the routes are arguments, and
  so is what the panel does until its listener ends.
\<close>

definition runServe :: "'e startup_scheme \<Rightarrow> bool \<Rightarrow> bool \<Rightarrow> bool \<Rightarrow> (serving \<Rightarrow> ('n, bool) act) \<Rightarrow> string list \<Rightarrow> ('n, int) act" where
  "runServe s hashes dials routes serve args = (case serve_flags args '''' of
     None \<Rightarrow> act_ret 2
   | Some path \<Rightarrow> if path = '''' then act_ret 2
     else act_bind (bootstrap s) (\<lambda>x. case x of
       Inl e \<Rightarrow> act_ret 3
     | Inr (cfg, keyring) \<Rightarrow>
       if \<not> hashes \<or> connect_check (ce_unicode (st_config s)) (cx_APIEndpoint (co_Xray cfg)) \<noteq> None \<or> \<not> dials then act_ret 3
       else act_bind (act_query s (\<lambda>d. fst (WithWriteTx ManagedInstance d))) (\<lambda>i. case i of
         Inl e \<Rightarrow> act_ret 3
       | Inr _ \<Rightarrow> if \<not> routes then act_ret 3
           else act_bind (serve (serving_of cfg)) (\<lambda>ok. act_ret (if ok then 0 else 4)))))"

text \<open>With a configuration that was accepted, the lease of the synchronizer covers three calls of the node.\<close>

lemma served_lease:
  assumes "cx_RPCTimeout (co_Xray c) < 3 * 10 ^ 18" "0 < cx_RPCTimeout (co_Xray c)"
  shows "3 * cx_RPCTimeout (co_Xray c) \<le> so_LeaseDuration (sr_synchronizer (serving_of c))"
proof -
  let ?x = "\<lparr>so_Owner = '''', so_MaxRetryInterval = cw_MaxRetryInterval (co_Workers c), so_LeaseDuration = 0,
    so_RPCTimeout = cx_RPCTimeout (co_Xray c), so_PollInterval = 0, so_Random = None\<rparr>"
  have "so_RPCTimeout (synchronizer_defaults ?x) = cx_RPCTimeout (co_Xray c)"
    using assms(2) by (simp add: synchronizer_defaults_def positive_or_def Let_def)
  then show ?thesis using lease_covers_calls(1) [of ?x] assms(1) by (simp add: serving_of_def)
qed

end
