(* ===== verification/Spec2Isabelle.thy ===== *)
theory Spec2Isabelle
  imports Store_Commands Ledger Panel Sync_Safety Command_Errors Queue_Progress Web_Access Redaction Root_Key Rollover Audit_Pages Views
    Fake_Meter Workers
begin

text \<open>
  XPanel: a verification library of the panel.

  THE PROGRAM. XPanel manages the users of one local Xray node. Each user has an inbound of its own
  (a port, a server key, a client key) on the node. Administrators work through a web panel; every
  command is one transaction of an SQLite database that records the new desired state, the command
  for replays, audit events and, where the node must change, one synchronization operation (an
  intent). A synchronizer leases due operations, changes Xray by gRPC and confirms them. A collector
  reads traffic counters and blocks users over their quota, a scheduler opens new quota cycles, a
  validator probes templates, and a reconciler repairs drift between database and node. All
  goroutines share the database; Xray is only changed under a lock.

  THE THEORIES, from the bottom up, with the code under src/ they model:

  Prelude: errors, instants and durations, 64-bit arithmetic, write transactions, tables.
  internal/domain: Identity (identity.go, inbound.go, part of security/tokens.go), Names (user.go,
  template.go: normalization over UTF-8, key generation), Template_Model, Port_Pool (port.go),
  User_Model (user.go), Sync_Model (sync.go), Go_Time and Quota_Model (quota.go over the Gregorian
  calendar and time zones), Traffic_Model (traffic.go).
  internal/ports: Store_Types (the records of store.go and xray.go); the Go interfaces are the
  records of functions adapter, observer and syncer, and the definitions of the store.
  internal/persistence/sqlite: Db (the tables as lists of rows, the constraints of the final schema as
  schema_ok), Store_Base (store.go), Store_Templates, Store_Traffic (store_traffic.go, and the
  settlement of store_quota.go), Store_Users, Store_Sync, Store_Drift, Store_Queries (all lists and
  the dashboard), Session_Service (sessions.go). A write is a function from the database to an error
  or a result with the next database; WithWriteTx keeps the old database on an error.
  internal/adapter/xray: Xray_Adapter (handler.go, inbound.go, errors.go), Xray_Probe (probe.go,
  stats.go), Fake_Xray and Fake_Meter (fake/fake.go).
  internal/application and internal/worker: World (worlds and actions: the database, the node, the
  volatile state of the panel; clock, new identifiers and the steps of other goroutines before each
  access of the store are functions of a counter), Synchronizer (synchronizer.go), User_Service,
  Panel_Services (quota, settings, connection, dashboard and audit services, scheduler),
  Template_Service (with the validator), Traffic_Service (with the collector), Reconcile_Service
  (with the reconciler), Passwords (security/password.go), Auth_Service (auth_service.go).
  internal/web: Web_Forms (handlers/forms.go and the quota fields), Web_Pages (handlers/common.go,
  errors.go), Web_Users (handlers/users.go), Web_Panel (templates.go, settings.go, audit.go,
  dashboard.go), Web_Server (auth.go, middleware, routes.go), Views (views/*.go: what the pages show of
  the records, numbers of bytes and times written out).
  internal/config, internal/security/secrets.go, internal/logging, cmd/xpanel: Config_Model, Startup,
  Redaction; Workers (the loops and constructors of internal/worker, web/server.go, runServe).

  ABSTRACT SPECIFICATIONS AND INTERFACES. Intent_Log is the abstract log of intents that the tables of
  allocations and operations implement; Lease_Queue is the contract of a leased queue, interpreted on
  the synchronization operations and on the drift removals; idempotent_command (Store_Commands) is
  the contract of a command with a request identifier, interpreted on the commands of the store;
  table_invariant (Store_Invariants) asks of a predicate how it bears changes of single tables and
  proves once that every step of the store keeps it, interpreted on the ledger of traffic, recorded
  commands, revoked sessions, the administrator and the verifier of the root key; node_contract
  (Sync_Safety) states what Xray's answers say about the inbounds it has, and the fake satisfies it.

  WHAT IS PROVED. Store_Steps: every write refines steps of the intent log, hence every reachable
  database satisfies the schema and has at most one open intent per allocation. Panel: every run of
  the goroutines over one database consists of such steps. Sync_Safety: what the synchronizer
  confirms agrees with the node. Store_Promises and Queue_Progress: leases exclude other workers,
  stale workers are fenced, confirmations activate and release what they should, due work is handed
  out earliest first. Ledger: totals, days and cycles of every allocation agree. Store_Commands and
  Command_Errors: commands happen at most once, and a failed one changes nothing. Rollover: the
  settlement of cycles ends and catches up with the clock. Login_Safety: throttle, logout and
  password reset. Root_Key: the root key of a database is pinned by its first start. Web_Forms,
  Web_Safety, Web_Access, Audit_Pages: forms, what requests can change, who reaches a handler, and
  the pages of the audit list. Config_Model and Redaction: accepted configurations and log records.
  Views: the numbers shown are exact up to half of the last decimal, and a user's view shows no key.
  Workers: the loops of the workers keep to the steps of the store, and a lease covers three calls of
  the node.
  The theories of the domain prove the behaviour of their functions on every branch. Scenario has
  the concrete history on which properties are instantiated.

  FUEL AND BOUNDS. Loops of the code are total functions with a measure (ports left, gap to the clock,
  length of a list) or folds. Drain of the synchronizer takes fuel, as it runs until nothing is due
  and other goroutines may make more due; the statements about it hold for every fuel. Waiting for a
  reserved probe inbound polls a number of times that stands for the time budget. browse follows the
  addresses of next pages for as many pages as there are events, which suffices. Byte counts and
  durations are int64 with the wrap-around written out (wrap64); keys, digests and ciphertexts are
  lists of 8-bit words.

  HOW THE MODEL READS. Identifiers are the strings of the code; updated_at of cursors, totals and daily
  rows is left out; an empty key list stands for NULL; boot epochs are instants of whole seconds. The
  schema is checked after every statement. ORDER BY ties follow the order of insertion, as do the
  maps of the fake; the order in which Go ranges over a map in a reconciliation round is a parameter.
  Operation templates carry only what the store takes from them. The result an audit filter selects is
  typed. The IPv4-mapped spelling of the unspecified address is not recognized in dialTarget. The
  throttle of logins is a value passed from call to call, so logins are taken one after the other.
  Parameters of the model, as code that is not part of the repository or draws on the system: the
  database engine's failures (left out), SHA-256, Argon2id, HKDF and the AEAD, randomness, the time zone
  database and the tables of Unicode, Xray's RPCs and the SS2022 exchange, net/http and mime (a
  request is given parsed), the session manager scs, the token check of gorilla/csrf, the parsers of
  URLs and JSON, files and the terminal. Logging calls and context cancellation inside the services are
  left out. On pages, fixed Chinese sentences are short English names and the data are the records a
  template renders.

  NOT MODELLED. The opening of the database and the migration runner (SQLite pragmas, goose); the
  rebuilding of tables inside migrations, only the final schema being modelled; gRPC connections
  (adapter/xray/client.go but for its check of the endpoint); HTML templates, the embedded assets and
  net/http; the file system probe of internal/config; signals and the order of the shutdown in
  cmd/xpanel/main.go; test support. They are glue around packages and system
  calls, or texts for templates.
\<close>

end
